(* ===== verification/Prelude.thy ===== *)
theory Prelude
  imports Main "HOL-Library.Word"
begin

text \<open>
  The shared vocabulary of the development: byte strings, Go errors with their wrapping and
  \<open>errors.As\<close>, effectful computations over an abstract world, and the total-correctness triples
  the component proofs are written in.

  A computation of type \<open>('w, 'a) act\<close> runs in a world \<open>'w\<close> (the libvirt host, the API server, the
  file system: everything outside the program) and gives \<^term>\<open>None\<close> when the Go code never returns,
  or the final world with a Go error (\<^term>\<open>Inl e\<close>) or a value (\<^term>\<open>Inr x\<close>).
\<close>

named_theorems act_defs \<open>definitions of the combinators\<close>
named_theorems valid_rules \<open>triples for the combinators\<close>

section \<open>Types\<close>

type_synonym bytes = "8 word list"
type_synonym u32 = "32 word"
type_synonym u64 = "64 word"

text \<open>
  The error numbers of the libvirt binding that the source compares with; every other one is
  \<open>ERR_OTHER\<close>.
\<close>

datatype ErrorNumber =
    ERR_NO_DOMAIN
  | ERR_NO_NETWORK
  | ERR_NO_STORAGE_POOL
  | ERR_NO_STORAGE_VOL
  | ERR_OTHER nat

text \<open>
  Go errors. \<open>Errorf fmt args\<close> is \<^verbatim>\<open>fmt.Errorf\<close> without \<^verbatim>\<open>%w\<close> or \<^verbatim>\<open>errors.New\<close>; \<open>Wrapf fmt args e\<close> is
  \<^verbatim>\<open>fmt.Errorf\<close> with \<^verbatim>\<open>%w\<close> applied to \<open>e\<close>; \<open>Joined es\<close> is the result of \<^verbatim>\<open>errors.Join\<close>. The text
  of an error is kept as its format and arguments: no decision of the source depends on it.
  \<open>LibvirtError c\<close> is a \<^verbatim>\<open>*libvirt.Error\<close> with code \<open>c\<close>, \<open>NotFoundStatus\<close> an API server error for which
  \<^verbatim>\<open>apierrors.IsNotFound\<close> holds, \<open>External s\<close> any other error of code outside the repository.
\<close>

datatype goerror =
    LibvirtError ErrorNumber
  | ErrInfraMissing string string
  | ErrInfraInactive string string
  | NotFoundStatus
  | External string
  | Errorf string "string list"
  | Wrapf string "string list" goerror
  | Joined "goerror list"

text \<open>
  \<^verbatim>\<open>errors.As\<close>: the first error of the chain, in pre-order, whose dynamic type fits the target
  (here: on which the partial function \<open>t\<close> is defined).
\<close>

fun errors_As :: "(goerror \<Rightarrow> 'a option) \<Rightarrow> goerror \<Rightarrow> 'a option"
  and errors_As_list :: "(goerror \<Rightarrow> 'a option) \<Rightarrow> goerror list \<Rightarrow> 'a option" where
  "errors_As t e =
     (case t e of
        Some x \<Rightarrow> Some x
      | None \<Rightarrow>
          (case e of
             Wrapf _ _ e' \<Rightarrow> errors_As t e'
           | Joined es \<Rightarrow> errors_As_list t es
           | _ \<Rightarrow> None))"
| "errors_As_list t [] = None"
| "errors_As_list t (e # es) =
     (case errors_As t e of Some x \<Rightarrow> Some x | None \<Rightarrow> errors_As_list t es)"

declare errors_As.simps [simp del]

text \<open>\<^verbatim>\<open>errors.Join\<close>: nil arguments are dropped, and nil is the result when all are nil.\<close>

definition errors_Join :: "goerror option list \<Rightarrow> goerror option" where
  "errors_Join es =
     (let es' = map the (filter (\<lambda>e. e \<noteq> None) es)
      in if es' = [] then None else Some (Joined es'))"

fun as_LibvirtError :: "goerror \<Rightarrow> ErrorNumber option" where
  "as_LibvirtError (LibvirtError c) = Some c"
| "as_LibvirtError _ = None"

fun as_ErrInfraMissing :: "goerror \<Rightarrow> (string \<times> string) option" where
  "as_ErrInfraMissing (ErrInfraMissing k n) = Some (k, n)"
| "as_ErrInfraMissing _ = None"

fun as_ErrInfraInactive :: "goerror \<Rightarrow> (string \<times> string) option" where
  "as_ErrInfraInactive (ErrInfraInactive k n) = Some (k, n)"
| "as_ErrInfraInactive _ = None"

fun as_NotFoundStatus :: "goerror \<Rightarrow> unit option" where
  "as_NotFoundStatus NotFoundStatus = Some ()"
| "as_NotFoundStatus _ = None"

lemma errors_As_leaf [simp]:
  "errors_As t (LibvirtError c) = t (LibvirtError c)"
  "errors_As t (ErrInfraMissing k n) = t (ErrInfraMissing k n)"
  "errors_As t (ErrInfraInactive k n) = t (ErrInfraInactive k n)"
  "errors_As t NotFoundStatus = t NotFoundStatus"
  "errors_As t (External s) = t (External s)"
  "errors_As t (Errorf f as) = t (Errorf f as)"
  by (simp_all add: errors_As.simps split: option.splits)

lemma errors_As_Wrapf [simp]:
  "t (Wrapf f as e) = None \<Longrightarrow> errors_As t (Wrapf f as e) = errors_As t e"
  by (simp add: errors_As.simps)

lemma errors_As_Joined [simp]:
  "t (Joined es) = None \<Longrightarrow> errors_As t (Joined es) = errors_As_list t es"
  by (simp add: errors_As.simps)

section \<open>Computations\<close>

type_synonym ('w, 'a) act = "'w \<Rightarrow> ((goerror + 'a) \<times> 'w) option"

definition ret :: "'a \<Rightarrow> ('w, 'a) act" where
  [act_defs]: "ret x w = Some (Inr x, w)"

definition throw :: "goerror \<Rightarrow> ('w, 'a) act" where
  [act_defs]: "throw e w = Some (Inl e, w)"

text \<open>
  \<^verbatim>\<open>x, err := m; if err != nil { h(err) }; k(x)\<close>, where the error branch returns.
\<close>

definition catchE ::
  "('w, 'a) act \<Rightarrow> (goerror \<Rightarrow> ('w, 'b) act) \<Rightarrow> ('a \<Rightarrow> ('w, 'b) act) \<Rightarrow> ('w, 'b) act" where
  [act_defs]: "catchE m h k w =
     (case m w of
        None \<Rightarrow> None
      | Some (Inl e, w') \<Rightarrow> h e w'
      | Some (Inr x, w') \<Rightarrow> k x w')"

text \<open>The usual form, where the error branch returns the error, wrapped by \<open>f\<close>.\<close>

definition tryE ::
  "('w, 'a) act \<Rightarrow> (goerror \<Rightarrow> goerror) \<Rightarrow> ('a \<Rightarrow> ('w, 'b) act) \<Rightarrow> ('w, 'b) act" where
  [act_defs]: "tryE m f k = catchE m (\<lambda>e. throw (f e)) k"

text \<open>\<^verbatim>\<open>defer c()\<close> followed by the rest of the function: \<open>c\<close> runs on every return of the rest.\<close>

definition deferE :: "('w \<Rightarrow> 'w) \<Rightarrow> ('w, 'a) act \<Rightarrow> ('w, 'a) act" where
  [act_defs]: "deferE c m w = map_option (\<lambda>(r, w'). (r, c w')) (m w)"

text \<open>A pure computation that may not return, or may return an error.\<close>

definition pureE :: "(goerror + 'a) option \<Rightarrow> ('w, 'a) act" where
  [act_defs]: "pureE r w = map_option (\<lambda>x. (x, w)) r"

lemma ret_simp [simp]: "ret x w = Some (Inr x, w)"
  by (simp add: ret_def)

lemma throw_simp [simp]: "throw e w = Some (Inl e, w)"
  by (simp add: throw_def)

lemma catchE_eqs:
  "m w = None \<Longrightarrow> catchE m h k w = None"
  "m w = Some (Inl e, w') \<Longrightarrow> catchE m h k w = h e w'"
  "m w = Some (Inr x, w') \<Longrightarrow> catchE m h k w = k x w'"
  by (simp_all add: catchE_def)

lemma tryE_eqs:
  "m w = None \<Longrightarrow> tryE m f k w = None"
  "m w = Some (Inl e, w') \<Longrightarrow> tryE m f k w = Some (Inl (f e), w')"
  "m w = Some (Inr x, w') \<Longrightarrow> tryE m f k w = k x w'"
  by (simp_all add: tryE_def catchE_def)

lemma deferE_eqs:
  "m w = None \<Longrightarrow> deferE c m w = None"
  "m w = Some (r, w') \<Longrightarrow> deferE c m w = Some (r, c w')"
  by (simp_all add: deferE_def)

lemma pureE_eqs [simp]:
  "pureE None w = None"
  "pureE (Some r) w = Some (r, w)"
  by (simp_all add: pureE_def)

lemma tryE_pureE [simp]:
  "tryE (pureE (Some (Inr x))) f k = k x"
  "tryE (pureE (Some (Inl e))) f k = throw (f e)"
  by (simp_all add: fun_eq_iff tryE_def catchE_def)

section \<open>Total-correctness triples\<close>

text \<open>
  \<open>valid P m Q E\<close>: from every world that satisfies \<open>P\<close> the computation \<open>m\<close> returns, a value in a
  world related by \<open>Q\<close> or an error in a world related by \<open>E\<close>.
\<close>

definition valid ::
  "('w \<Rightarrow> bool) \<Rightarrow> ('w, 'a) act \<Rightarrow> ('a \<Rightarrow> 'w \<Rightarrow> bool) \<Rightarrow> (goerror \<Rightarrow> 'w \<Rightarrow> bool) \<Rightarrow> bool" where
  "valid P m Q E \<longleftrightarrow>
     (\<forall>w. P w \<longrightarrow>
        (\<exists>r w'. m w = Some (r, w') \<and>
           (case r of Inl e \<Rightarrow> E e w' | Inr x \<Rightarrow> Q x w')))"

lemma validI:
  assumes "\<And>w. P w \<Longrightarrow> \<exists>r w'. m w = Some (r, w') \<and> (case r of Inl e \<Rightarrow> E e w' | Inr x \<Rightarrow> Q x w')"
  shows "valid P m Q E"
  using assms by (simp add: valid_def)

lemma validE:
  assumes "valid P m Q E" "P w"
  obtains (err) e w' where "m w = Some (Inl e, w')" "E e w'"
    | (val) x w' where "m w = Some (Inr x, w')" "Q x w'"
proof -
  from assms obtain r w' where "m w = Some (r, w')" "case r of Inl e \<Rightarrow> E e w' | Inr x \<Rightarrow> Q x w'"
    unfolding valid_def by blast
  then show thesis by (cases r) (auto intro: that)
qed

lemma valid_ret [valid_rules]: "(\<And>w. P w \<Longrightarrow> Q x w) \<Longrightarrow> valid P (ret x) Q E"
  by (simp add: valid_def)

lemma valid_throw [valid_rules]: "(\<And>w. P w \<Longrightarrow> E e w) \<Longrightarrow> valid P (throw e) Q E"
  by (simp add: valid_def)

lemma valid_conseq:
  assumes "valid P m Q E"
    and "\<And>w. P' w \<Longrightarrow> P w" "\<And>x w. Q x w \<Longrightarrow> Q' x w" "\<And>e w. E e w \<Longrightarrow> E' e w"
  shows "valid P' m Q' E'"
proof (rule validI)
  fix w assume "P' w"
  with assms(1,2) obtain r w' where "m w = Some (r, w')"
    and "case r of Inl e \<Rightarrow> E e w' | Inr x \<Rightarrow> Q x w'"
    unfolding valid_def by blast
  with assms(3,4) show "\<exists>r w'. m w = Some (r, w') \<and>
      (case r of Inl e \<Rightarrow> E' e w' | Inr x \<Rightarrow> Q' x w')"
    by (auto split: sum.splits)
qed

lemma valid_catchE [valid_rules]:
  assumes "valid P m R F" "\<And>e. valid (F e) (h e) Q E" "\<And>x. valid (R x) (k x) Q E"
  shows "valid P (catchE m h k) Q E"
proof (rule validI)
  fix w assume "P w"
  with assms(1) show "\<exists>r w'. catchE m h k w = Some (r, w') \<and>
      (case r of Inl e \<Rightarrow> E e w' | Inr x \<Rightarrow> Q x w')"
  proof (cases rule: validE)
    case (err e w')
    with assms(2)[of e] show ?thesis by (auto simp: valid_def catchE_eqs)
  next
    case (val x w')
    with assms(3)[of x] show ?thesis by (auto simp: valid_def catchE_eqs)
  qed
qed

lemma valid_tryE [valid_rules]:
  assumes "valid P m R (\<lambda>e. E (f e))" "\<And>x. valid (R x) (k x) Q E"
  shows "valid P (tryE m f k) Q E"
  unfolding tryE_def
  by (rule valid_catchE [OF assms(1) _ assms(2)]) (rule valid_throw)

lemma valid_deferE [valid_rules]:
  assumes "valid P m (\<lambda>x w. Q x (c w)) (\<lambda>e w. E e (c w))"
  shows "valid P (deferE c m) Q E"
proof (rule validI)
  fix w assume "P w"
  with assms show "\<exists>r w'. deferE c m w = Some (r, w') \<and>
      (case r of Inl e \<Rightarrow> E e w' | Inr x \<Rightarrow> Q x w')"
    by (cases rule: validE) (auto simp: deferE_eqs)
qed

lemma valid_pureE [valid_rules]:
  assumes "r = Some r'" "\<And>e w. r' = Inl e \<Longrightarrow> P w \<Longrightarrow> E e w" "\<And>x w. r' = Inr x \<Longrightarrow> P w \<Longrightarrow> Q x w"
  shows "valid P (pureE r) Q E"
  using assms by (auto simp: valid_def split: sum.splits)

lemma pureE_valid:
  "r = Some (Inr x) \<Longrightarrow> (\<And>w. P w \<Longrightarrow> Q x w) \<Longrightarrow> valid P (pureE r) Q E"
  "r = Some (Inl e) \<Longrightarrow> (\<And>w. P w \<Longrightarrow> E e w) \<Longrightarrow> valid P (pureE r) Q E"
  by (simp_all add: valid_def)

lemma valid_pure_pre: "valid (\<lambda>w. P w \<and> A) m Q E \<longleftrightarrow> (A \<longrightarrow> valid P m Q E)"
  by (auto simp: valid_def)

lemma valid_pure_pre': "(A \<Longrightarrow> valid P m Q E) \<Longrightarrow> valid (\<lambda>w. A \<and> P w) m Q E"
  by (simp add: valid_def)

lemma valid_ex_pre: "valid (\<lambda>w. \<exists>y. P y w) m Q E \<longleftrightarrow> (\<forall>y. valid (P y) m Q E)"
  by (fastforce simp: valid_def)

text \<open>Starting from some state \<open>y\<close> with a property, under the predicate \<open>st y\<close> on worlds.\<close>

lemma valid_in_state:
  "(\<And>y. A y \<Longrightarrow> valid (st y) m Q E) \<Longrightarrow> valid (\<lambda>w. \<exists>y. A y \<and> st y w) m Q E"
  by (fastforce simp: valid_def)

lemma valid_flaky:
  "(\<And>y. valid (P y) m Q (\<lambda>e w. b \<longrightarrow> E e w)) \<Longrightarrow> valid (\<lambda>w. b \<and> (\<exists>y. P y w)) m (\<lambda>x w. b \<and> Q x w) E"
  by (fastforce simp: valid_def split: sum.splits)

lemma valid_post:
  "valid P m Q E \<Longrightarrow> (\<And>x w. Q x w \<Longrightarrow> Q' x w) \<Longrightarrow> (\<And>e w. E e w \<Longrightarrow> E' e w) \<Longrightarrow> valid P m Q' E'"
  by (rule valid_conseq)

section \<open>Searching lists\<close>

lemma find_append:
  "find P (xs @ ys) = (case find P xs of Some x \<Rightarrow> Some x | None \<Rightarrow> find P ys)"
  by (induction xs) auto

lemma find_map: "find P (map f xs) = map_option f (find (P \<circ> f) xs)"
  by (induction xs) auto

lemma find_Some_iff_in: "find P xs = Some x \<Longrightarrow> x \<in> set xs \<and> P x"
  by (induction xs) (auto split: if_splits)

lemma find_weaken:
  "find P xs = Some c \<Longrightarrow> (\<And>x. x \<in> set xs \<Longrightarrow> \<not> P x \<Longrightarrow> \<not> Q x) \<Longrightarrow> Q c \<Longrightarrow> find Q xs = Some c"
  by (induction xs) (auto split: if_splits)

end
