(* ===== verification/GoStd.thy ===== *)
theory GoStd
  imports Prelude
begin

unbundle bit_operations_syntax

text \<open>
  The parts of the Go standard library that the source calls: \<^verbatim>\<open>strings\<close>, \<^verbatim>\<open>encoding/hex\<close>,
  \<^verbatim>\<open>encoding/binary\<close>, \<^verbatim>\<open>hash/fnv\<close>, \<^verbatim>\<open>crypto/sha256\<close> and the address functions of \<^verbatim>\<open>net\<close>, with
  the facts about them that the components use. Go strings are byte strings; a \<^typ>\<open>char\<close> is a byte.
\<close>

section \<open>strings\<close>

definition to_lower_ascii :: "char \<Rightarrow> char" where
  "to_lower_ascii c =
     (if 65 \<le> (of_char c :: nat) \<and> (of_char c :: nat) \<le> 90 then char_of ((of_char c :: nat) + 32) else c)"

text \<open>
  \<^verbatim>\<open>strings.EqualFold\<close>. Simple Unicode folding relates a non-ASCII rune to an ASCII letter only for
  \<open>k\<close> and \<open>s\<close>; every call of the source has a hardware or IPv4 address on one side, which holds
  neither, so comparing the ASCII lower case is the same function there.
\<close>

definition strings_EqualFold :: "string \<Rightarrow> string \<Rightarrow> bool" where
  "strings_EqualFold s t \<longleftrightarrow> map to_lower_ascii s = map to_lower_ascii t"

text \<open>\<^verbatim>\<open>strings.Cut\<close> at a one-byte separator: \<^term>\<open>None\<close> when it is not found.\<close>

fun strings_Cut :: "string \<Rightarrow> char \<Rightarrow> (string \<times> string) option" where
  "strings_Cut [] sep = None"
| "strings_Cut (c # cs) sep =
     (if c = sep then Some ([], cs)
      else map_option (\<lambda>(bef, aft). (c # bef, aft)) (strings_Cut cs sep))"

text \<open>\<^verbatim>\<open>strings.ReplaceAll\<close> of one byte by another.\<close>

definition strings_ReplaceAll :: "string \<Rightarrow> char \<Rightarrow> char \<Rightarrow> string" where
  "strings_ReplaceAll s old new = map (\<lambda>c. if c = old then new else c) s"

definition strings_TrimRight :: "string \<Rightarrow> string \<Rightarrow> string" where
  "strings_TrimRight s cutset = rev (dropWhile (\<lambda>c. c \<in> set cutset) (rev s))"

definition strings_TrimPrefix :: "string \<Rightarrow> string \<Rightarrow> string" where
  "strings_TrimPrefix s p = (if take (length p) s = p then drop (length p) s else s)"

fun strings_Join :: "string list \<Rightarrow> string \<Rightarrow> string" where
  "strings_Join [] sep = []"
| "strings_Join [s] sep = s"
| "strings_Join (s # t # ts) sep = s @ sep @ strings_Join (t # ts) sep"

lemma EqualFold_refl [simp]: "strings_EqualFold s s"
  by (simp add: strings_EqualFold_def)

lemma EqualFold_sym: "strings_EqualFold s t \<longleftrightarrow> strings_EqualFold t s"
  by (auto simp: strings_EqualFold_def)

lemma EqualFold_trans: "strings_EqualFold s t \<Longrightarrow> strings_EqualFold t u \<Longrightarrow> strings_EqualFold s u"
  by (simp add: strings_EqualFold_def)

lemma TrimPrefix_append [simp]: "strings_TrimPrefix (p @ s) p = s"
  by (simp add: strings_TrimPrefix_def)

lemma Cut_None_iff: "strings_Cut s sep = None \<longleftrightarrow> sep \<notin> set s"
  by (induction s) auto

lemma Cut_Some: "strings_Cut s sep = Some (a, b) \<Longrightarrow> s = a @ sep # b \<and> sep \<notin> set a"
  by (induction s arbitrary: a b) (auto split: if_splits)

lemma TrimRight_prefix: "\<exists>t. s = strings_TrimRight s cs @ t \<and> set t \<subseteq> set cs"
proof -
  have "rev s = takeWhile (\<lambda>c. c \<in> set cs) (rev s) @ dropWhile (\<lambda>c. c \<in> set cs) (rev s)"
    by simp
  then have "s = strings_TrimRight s cs @ rev (takeWhile (\<lambda>c. c \<in> set cs) (rev s))"
    unfolding strings_TrimRight_def by (metis rev_append rev_rev_ident)
  moreover have "set (rev (takeWhile (\<lambda>c. c \<in> set cs) (rev s))) \<subseteq> set cs"
    by (auto dest: set_takeWhileD)
  ultimately show ?thesis by blast
qed

lemma TrimRight_last: "strings_TrimRight s cs \<noteq> [] \<Longrightarrow> last (strings_TrimRight s cs) \<notin> set cs"
  using hd_dropWhile [of "\<lambda>c. c \<in> set cs" "rev s"]
  by (simp add: strings_TrimRight_def last_rev del: dropWhile_eq_Nil_conv)

section \<open>encoding/hex, encoding/binary\<close>

definition digits_hex :: string where
  "digits_hex = ''0123456789abcdef''"

definition hex_byte :: "8 word \<Rightarrow> string" where
  "hex_byte b = [digits_hex ! (unat b div 16), digits_hex ! (unat b mod 16)]"

definition hex_EncodeToString :: "bytes \<Rightarrow> string" where
  "hex_EncodeToString bs = concat (map hex_byte bs)"

text \<open>\<^verbatim>\<open>binary.BigEndian.Uint32\<close> and \<^verbatim>\<open>PutUint32\<close> on the four bytes of an address.\<close>

definition BigEndian_Uint32 :: "bytes \<Rightarrow> u32" where
  "BigEndian_Uint32 bs = foldl (\<lambda>acc b. push_bit 8 acc OR ucast b) 0 (take 4 bs)"

definition BigEndian_PutUint32 :: "u32 \<Rightarrow> bytes" where
  "BigEndian_PutUint32 n =
     [ucast (drop_bit 24 n), ucast (drop_bit 16 n), ucast (drop_bit 8 n), ucast n]"

section \<open>hash/fnv and crypto/sha256\<close>

text \<open>\<^verbatim>\<open>fnv.New64a\<close>, written to once, and \<^verbatim>\<open>Sum64\<close>.\<close>

definition fnv_offset64 :: u64 where
  "fnv_offset64 = 14695981039346656037"

definition fnv_prime64 :: u64 where
  "fnv_prime64 = 1099511628211"

definition fnv64a :: "string \<Rightarrow> u64" where
  "fnv64a s = foldl (\<lambda>h c. (h XOR of_nat (of_char c)) * fnv_prime64) fnv_offset64 s"

text \<open>
  \<open>iroot k x n r\<close> extends \<open>r\<close> by \<open>n\<close> lower bits to the greatest number whose \<open>k\<close>-th power is at most \<open>x\<close>. The
  constants of the algorithm are the first 32 bits of the fractional parts of the cube roots of the first
  64 primes, and of the square roots of the first eight.
\<close>

fun iroot :: "nat \<Rightarrow> int \<Rightarrow> nat \<Rightarrow> int \<Rightarrow> int" where
  "iroot k x 0 r = r"
| "iroot k x (Suc n) r = iroot k x n (if (r + 2 ^ n) ^ k \<le> x then r + 2 ^ n else r)"

definition root_fraction :: "nat \<Rightarrow> int \<Rightarrow> u32" where
  "root_fraction k p = word_of_int (iroot k (p * 2 ^ (32 * k)) 35 0)"

definition sha_K :: "u32 list" where
  "sha_K =
     map (root_fraction 3)
       ([2, 3, 5, 7, 11, 13, 17, 19, 23, 29, 31, 37, 41, 43, 47, 53]
        @ [59, 61, 67, 71, 73, 79, 83, 89, 97, 101, 103, 107, 109, 113, 127, 131]
        @ [137, 139, 149, 151, 157, 163, 167, 173, 179, 181, 191, 193, 197, 199, 211, 223]
        @ [227, 229, 233, 239, 241, 251, 257, 263, 269, 271, 277, 281, 283, 293, 307, 311])"

definition sha_H0 :: "u32 \<times> u32 \<times> u32 \<times> u32 \<times> u32 \<times> u32 \<times> u32 \<times> u32" where
  "sha_H0 =
     (let r = root_fraction 2 in (r 2, r 3, r 5, r 7, r 11, r 13, r 17, r 19))"

definition rotr32 :: "nat \<Rightarrow> u32 \<Rightarrow> u32" where
  "rotr32 n x = drop_bit n x OR push_bit (32 - n) x"

text \<open>The message schedule, newest word first: sixteen words of the block, then 48 derived ones.\<close>

fun sha_schedule :: "nat \<Rightarrow> u32 list \<Rightarrow> u32 list" where
  "sha_schedule 0 ws = ws"
| "sha_schedule (Suc n) ws =
     (let a = ws ! 1; b = ws ! 14;
          s1 = rotr32 17 a XOR rotr32 19 a XOR drop_bit 10 a;
          s0 = rotr32 7 b XOR rotr32 18 b XOR drop_bit 3 b
      in sha_schedule n ((s1 + ws ! 6 + s0 + ws ! 15) # ws))"

text \<open>The eight working variables and one round of the compression function.\<close>

type_synonym sha_state = "u32 \<times> u32 \<times> u32 \<times> u32 \<times> u32 \<times> u32 \<times> u32 \<times> u32"

definition sha_round :: "u32 \<times> u32 \<Rightarrow> sha_state \<Rightarrow> sha_state" where
  "sha_round = (\<lambda>(k, w) (a, b, c, d, e, f, g, h).
     let t1 = h + (rotr32 6 e XOR rotr32 11 e XOR rotr32 25 e) + ((e AND f) XOR (NOT e AND g)) + k + w;
         t2 = (rotr32 2 a XOR rotr32 13 a XOR rotr32 22 a)
              + ((a AND b) XOR (a AND c) XOR (b AND c))
     in (t1 + t2, a, b, c, d + t1, e, f, g))"

definition sha_block :: "sha_state \<Rightarrow> u32 list \<Rightarrow> sha_state" where
  "sha_block st ws =
     (let (a, b, c, d, e, f, g, h) = st;
          (a', b', c', d', e', f', g', h') =
            fold sha_round (zip sha_K (rev (sha_schedule 48 (rev ws)))) st
      in (a + a', b + b', c + c', d + d', e + e', f + f', g + g', h + h'))"

definition sha_words :: "sha_state \<Rightarrow> u32 list" where
  "sha_words = (\<lambda>(a, b, c, d, e, f, g, h). [a, b, c, d, e, f, g, h])"

fun words_of_bytes :: "bytes \<Rightarrow> u32 list" where
  "words_of_bytes (a # b # c # d # bs) = BigEndian_Uint32 [a, b, c, d] # words_of_bytes bs"
| "words_of_bytes _ = []"

fun sha_blocks :: "nat \<Rightarrow> u32 list \<Rightarrow> sha_state \<Rightarrow> sha_state" where
  "sha_blocks 0 ws st = st"
| "sha_blocks (Suc n) ws st = sha_blocks n (drop 16 ws) (sha_block st (take 16 ws))"

text \<open>Padding: a one bit, zero bits up to 56 bytes modulo 64, the length in bits on eight bytes.\<close>

definition sha_pad :: "bytes \<Rightarrow> bytes" where
  "sha_pad m =
     (let n = length m; z = (119 - n mod 64) mod 64
      in m @ [0x80] @ replicate z 0
           @ map (\<lambda>k. ucast (drop_bit k (of_nat n * 8 :: u64))) [56, 48, 40, 32, 24, 16, 8, 0])"

definition sha256_Sum256 :: "string \<Rightarrow> bytes" where
  "sha256_Sum256 s =
     (let ws = words_of_bytes (sha_pad (map (\<lambda>c. of_nat (of_char c)) s))
      in concat (map BigEndian_PutUint32 (sha_words (sha_blocks (length ws div 16) ws sha_H0))))"

section \<open>net\<close>

text \<open>\<^verbatim>\<open>net.HardwareAddr.String\<close>: lower-case hex pairs joined by colons.\<close>

definition HardwareAddr_String :: "bytes \<Rightarrow> string" where
  "HardwareAddr_String bs = strings_Join (map hex_byte bs) '':''"

text \<open>The decimal form of an octet, without leading zeros, as \<^verbatim>\<open>net/netip\<close> writes it.\<close>

definition digits_dec :: string where
  "digits_dec = ''0123456789''"

definition octet_String :: "8 word \<Rightarrow> string" where
  "octet_String b =
     (let x = unat b
      in (if x \<ge> 100 then [digits_dec ! (x div 100)] else [])
         @ (if x \<ge> 10 then [digits_dec ! (x div 10 mod 10)] else [])
         @ [digits_dec ! (x mod 10)])"

text \<open>\<^verbatim>\<open>net.IP.String\<close> of a four-byte address.\<close>

definition IPv4_String :: "bytes \<Rightarrow> string" where
  "IPv4_String bs = strings_Join (map octet_String bs) ''.''"

definition is_digit :: "char \<Rightarrow> bool" where
  "is_digit c \<longleftrightarrow> 48 \<le> (of_char c :: nat) \<and> (of_char c :: nat) \<le> 57"

definition digit_val :: "char \<Rightarrow> nat" where
  "digit_val c = of_char c - 48"

text \<open>
  The loop of \<^verbatim>\<open>netip.parseIPv4Fields\<close>: \<open>edge\<close> holds at the start of the string and after a dot, \<open>val\<close>
  and \<open>digLen\<close> are those of the current octet, \<open>fields\<close> the finished ones.
\<close>

fun parseIPv4Fields :: "string \<Rightarrow> bool \<Rightarrow> nat \<Rightarrow> nat \<Rightarrow> bytes \<Rightarrow> bytes option" where
  "parseIPv4Fields [] edge val digLen fields =
     (if length fields < 3 then None else Some (fields @ [of_nat val]))"
| "parseIPv4Fields (c # cs) edge val digLen fields =
     (if is_digit c then
        if digLen = 1 \<and> val = 0 then None
        else if val * 10 + digit_val c > 255 then None
        else parseIPv4Fields cs False (val * 10 + digit_val c) (digLen + 1) fields
      else if c = CHR ''.'' then
        if edge \<or> cs = [] then None
        else if length fields = 3 then None
        else parseIPv4Fields cs True 0 0 (fields @ [of_nat val])
      else None)"

definition is_hex :: "char \<Rightarrow> bool" where
  "is_hex c \<longleftrightarrow> is_digit c
     \<or> (97 \<le> (of_char c :: nat) \<and> (of_char c :: nat) \<le> 102)
     \<or> (65 \<le> (of_char c :: nat) \<and> (of_char c :: nat) \<le> 70)"

definition hex_val :: "char \<Rightarrow> nat" where
  "hex_val c =
     (if is_digit c then of_char c - 48
      else if 97 \<le> (of_char c :: nat) then of_char c - 87
      else of_char c - 55)"

text \<open>
  One group of \<^verbatim>\<open>netip.parseIPv6\<close>: the leading hex digits of \<open>s\<close>, at least one and at most four, as a
  16-bit number, and the rest.
\<close>

definition parseIPv6_group :: "string \<Rightarrow> (nat \<times> string) option" where
  "parseIPv6_group s =
     (let ds = takeWhile is_hex s
      in if ds = [] \<or> length ds > 4 then None
         else Some (foldl (\<lambda>acc c. acc * 16 + hex_val c) 0 ds, dropWhile is_hex s))"

text \<open>
  The loop over the groups: \<open>ip\<close> is the part already parsed (\<open>i\<close> bytes), \<open>ell\<close> the position of the
  ellipsis. The result is the parsed bytes, the position of the ellipsis and the unparsed rest.
  The first argument bounds the groups: each turn adds two bytes, and the loop ends at sixteen.
\<close>

fun parseIPv6_loop ::
  "nat \<Rightarrow> string \<Rightarrow> bytes \<Rightarrow> nat option \<Rightarrow> (bytes \<times> nat option \<times> string) option" where
  "parseIPv6_loop 0 s ip ell = Some (ip, ell, s)"
| "parseIPv6_loop (Suc n) s ip ell =
     (case parseIPv6_group s of
        None \<Rightarrow> None
      | Some (acc, rest) \<Rightarrow>
          if rest \<noteq> [] \<and> hd rest = CHR ''.'' then
            if ell = None \<and> length ip \<noteq> 12 then None
            else if length ip + 4 > 16 then None
            else map_option (\<lambda>v4. (ip @ v4, ell, [])) (parseIPv4Fields s True 0 0 [])
          else
            let ip' = ip @ [of_nat (acc div 256), of_nat (acc mod 256)]
            in (case rest of
                  [] \<Rightarrow> Some (ip', ell, [])
                | c # s1 \<Rightarrow>
                    if c \<noteq> CHR '':'' then None
                    else if s1 = [] then None
                    else if hd s1 = CHR '':'' then
                      if ell \<noteq> None then None
                      else if tl s1 = [] then Some (ip', Some (length ip'), [])
                      else parseIPv6_loop n (tl s1) ip' (Some (length ip'))
                    else parseIPv6_loop n s1 ip' ell))"

definition parseIPv6 :: "string \<Rightarrow> bytes option" where
  "parseIPv6 s =
     (if CHR ''%'' \<in> set s then None
      else
        let lead = take 2 s = ''::''; s0 = (if lead then drop 2 s else s)
        in if lead \<and> s0 = [] then Some (replicate 16 0)
           else
             (case parseIPv6_loop 8 s0 [] (if lead then Some 0 else None) of
                None \<Rightarrow> None
              | Some (ip, ell, rest) \<Rightarrow>
                  if rest \<noteq> [] then None
                  else if length ip < 16 then
                    (case ell of
                       None \<Rightarrow> None
                     | Some e \<Rightarrow> Some (take e ip @ replicate (16 - length ip) 0 @ drop e ip))
                  else if ell \<noteq> None then None
                  else Some ip))"

text \<open>
  \<^verbatim>\<open>net.ParseIP\<close>: the first of \<^verbatim>\<open>.\<close>, \<^verbatim>\<open>:\<close> and \<^verbatim>\<open>%\<close> selects the parser, the result is the 16-byte form, an
  address with a zone is refused.
\<close>

definition v4_in_v6 :: "bytes \<Rightarrow> bytes" where
  "v4_in_v6 bs = replicate 10 0 @ [255, 255] @ bs"

definition net_ParseIP :: "string \<Rightarrow> bytes option" where
  "net_ParseIP s =
     (case dropWhile (\<lambda>c. c \<notin> set ''.:%'') s of
        [] \<Rightarrow> None
      | c # _ \<Rightarrow>
          if c = CHR ''.'' then map_option v4_in_v6 (parseIPv4Fields s True 0 0 [])
          else if c = CHR '':'' then parseIPv6 s
          else None)"

text \<open>\<^verbatim>\<open>net.IP.To4\<close>.\<close>

definition IP_To4 :: "bytes \<Rightarrow> bytes option" where
  "IP_To4 ip =
     (if length ip = 4 then Some ip
      else if length ip = 16 \<and> take 12 ip = v4_in_v6 [] then Some (drop 12 ip)
      else None)"

text \<open>\<^verbatim>\<open>net.IP.Mask\<close> on four bytes.\<close>

definition IP_Mask :: "bytes \<Rightarrow> bytes \<Rightarrow> bytes" where
  "IP_Mask ip m = map2 (AND) ip m"

section \<open>Facts about bytes and addresses\<close>

lemma unat_byte: "unat (b :: 8 word) < 256"
  by (rule order_less_le_trans [OF unsigned_less]) simp

lemma BigEndian_Uint32_4:
  "BigEndian_Uint32 [a, b, c, d] =
     push_bit 24 (ucast a) OR push_bit 16 (ucast b) OR push_bit 8 (ucast c) OR ucast d"
  unfolding BigEndian_Uint32_def
  by (simp add: numeral_eq_Suc del: push_bit_Suc)
     (rule bit_word_eqI, auto simp: bit_simps)

lemma Uint32_PutUint32 [simp]: "BigEndian_Uint32 (BigEndian_PutUint32 n) = n"
proof (rule bit_word_eqI)
  fix k assume "k < LENGTH(32)"
  then consider "k < 8" | "8 \<le> k" "k < 16" | "16 \<le> k" "k < 24" | "24 \<le> k" "k < 32" by fastforce
  then show "bit (BigEndian_Uint32 (BigEndian_PutUint32 n)) k \<longleftrightarrow> bit n k"
    by cases (auto simp: BigEndian_PutUint32_def BigEndian_Uint32_4 bit_simps)
qed

lemma bit_byte_ge: "8 \<le> k \<Longrightarrow> \<not> bit (b :: 8 word) k"
  using bit_imp_le_length [of b k] by auto

lemma PutUint32_Uint32: "BigEndian_PutUint32 (BigEndian_Uint32 [a, b, c, d]) = [a, b, c, d]"
  unfolding BigEndian_PutUint32_def BigEndian_Uint32_4
  by (auto intro!: bit_word_eqI simp: bit_simps bit_byte_ge)

lemma length_PutUint32 [simp]: "length (BigEndian_PutUint32 n) = 4"
  by (simp add: BigEndian_PutUint32_def)

lemma length_4_cases: "length xs = 4 \<Longrightarrow> \<exists>a b c d. xs = [a, b, c, d]"
  by (auto simp: length_Suc_conv numeral_eq_Suc)

lemma distinct_digits_hex: "distinct digits_hex"
  by (simp add: digits_hex_def)

lemma length_digits_hex [simp]: "length digits_hex = 16"
  by (simp add: digits_hex_def)

lemma to_lower_digits_hex: "map to_lower_ascii digits_hex = digits_hex"
  by (simp add: digits_hex_def to_lower_ascii_def)

lemma hex_byte_inj: "hex_byte a = hex_byte b \<Longrightarrow> a = b"
proof -
  assume eq: "hex_byte a = hex_byte b"
  have bound: "unat x div 16 < 16" "unat x mod 16 < 16" for x :: "8 word"
    using unat_byte [of x] by auto
  have "unat a div 16 = unat b div 16" "unat a mod 16 = unat b mod 16"
    using eq bound distinct_digits_hex by (auto simp: hex_byte_def nth_eq_iff_index_eq)
  then have "unat a = unat b" by (metis div_mult_mod_eq)
  then show "a = b" by (simp add: word_unat_eq_iff)
qed

lemma to_lower_hex_byte: "map to_lower_ascii (hex_byte b) = hex_byte b"
proof -
  have bound: "unat b div 16 < 16" "unat b mod 16 < 16"
    using unat_byte [of b] by auto
  have "to_lower_ascii (digits_hex ! i) = digits_hex ! i" if "i < 16" for i
    using that to_lower_digits_hex by (metis length_digits_hex nth_map)
  with bound show ?thesis by (simp add: hex_byte_def)
qed

lemma map_strings_Join: "map f (strings_Join ss sep) = strings_Join (map (map f) ss) (map f sep)"
  by (induction ss sep rule: strings_Join.induct) auto

lemma length_hex_byte [simp]: "length (hex_byte b) = 2"
  by (simp add: hex_byte_def)

lemma HardwareAddr_String_inj:
  "length as = length bs \<Longrightarrow> HardwareAddr_String as = HardwareAddr_String bs \<Longrightarrow> as = bs"
proof (induction as bs rule: list_induct2)
  case Nil
  then show ?case by simp
next
  case (Cons a as b bs)
  from Cons.hyps have nil: "as = [] \<longleftrightarrow> bs = []" by auto
  show ?case
  proof (cases as)
    case Nil
    with Cons.prems nil show ?thesis by (auto simp: HardwareAddr_String_def dest: hex_byte_inj)
  next
    case as: (Cons a' as')
    with nil obtain b' bs' where bs: "bs = b' # bs'" by (cases bs) auto
    with as Cons.prems have "hex_byte a = hex_byte b \<and> HardwareAddr_String as = HardwareAddr_String bs"
      by (auto simp: HardwareAddr_String_def hex_byte_def)
    with Cons.IH show ?thesis by (auto dest: hex_byte_inj)
  qed
qed

lemma to_lower_HardwareAddr: "map to_lower_ascii (HardwareAddr_String bs) = HardwareAddr_String bs"
  by (simp add: HardwareAddr_String_def map_strings_Join to_lower_hex_byte comp_def)
     (simp add: to_lower_ascii_def)

lemma EqualFold_HardwareAddr:
  "length as = length bs \<Longrightarrow>
   strings_EqualFold (HardwareAddr_String as) (HardwareAddr_String bs) \<longleftrightarrow> as = bs"
  by (auto simp: strings_EqualFold_def to_lower_HardwareAddr dest: HardwareAddr_String_inj)

subsection \<open>Printing and parsing IPv4 addresses\<close>

lemma digits_dec_digit:
  assumes "i < 10"
  shows "is_digit (digits_dec ! i)" "digit_val (digits_dec ! i) = i"
proof -
  have "i \<in> {0, 1, 2, 3, 4, 5, 6, 7, 8, 9}" using assms by auto
  then show "is_digit (digits_dec ! i)" "digit_val (digits_dec ! i) = i"
    by (auto simp: digits_dec_def is_digit_def digit_val_def)
qed

lemma parse_octet:
  "parseIPv4Fields (octet_String b @ rest) True 0 0 fs
     = parseIPv4Fields rest False (unat b) (length (octet_String b)) fs"
proof -
  define x where "x = unat b"
  have x: "x < 256" using unat_byte [of b] by (simp add: x_def)
  have h: "x div 100 = x div 10 div 10" by (simp add: div_mult2_eq)
  have d: "x div 100 < 10" "x div 10 mod 10 < 10" "x mod 10 < 10" using x by auto
  have tens: "x div 100 * 10 + x div 10 mod 10 = x div 10" using h by simp
  have e: "(x div 100 * 10 + x div 10 mod 10) * 10 + x mod 10 = x" using tens by simp
  have le: "x div 10 \<le> 255" using x by auto
  consider "100 \<le> x" | "10 \<le> x" "x < 100" | "x < 10" by linarith
  then show ?thesis
  proof cases
    case 1
    then have "x div 100 \<noteq> 0" by auto
    with 1 x d e le tens show ?thesis
      by (simp add: octet_String_def x_def [symmetric] digits_dec_digit Let_def)
  next
    case 2
    then have nz: "x div 10 mod 10 \<noteq> 0" "x div 10 mod 10 = x div 10" by auto
    with 2 x d e le show ?thesis
      by (simp add: octet_String_def x_def [symmetric] digits_dec_digit Let_def)
  next
    case 3
    with x d show ?thesis
      by (simp add: octet_String_def x_def [symmetric] digits_dec_digit Let_def)
  qed
qed

lemma not_digit_dot [simp]: "\<not> is_digit (CHR ''.'')"
  by (simp add: is_digit_def)

lemma octet_String_nonempty [simp]: "octet_String b \<noteq> []"
  by (simp add: octet_String_def Let_def)

lemma parse_dot:
  "rest \<noteq> [] \<Longrightarrow> length fs < 3 \<Longrightarrow>
   parseIPv4Fields (CHR ''.'' # rest) False v n fs = parseIPv4Fields rest True 0 0 (fs @ [of_nat v])"
  by simp

lemma parseIPv4_String:
  "parseIPv4Fields (IPv4_String [a, b, c, d]) True 0 0 [] = Some [a, b, c, d]"
  by (simp add: IPv4_String_def parse_octet parse_dot parse_octet [where rest = "[]", simplified] del: parseIPv4Fields.simps(2))

lemma octet_String_digits: "ch \<in> set (octet_String b) \<Longrightarrow> is_digit ch"
proof -
  have x: "unat b < 256" by (rule unat_byte)
  assume "ch \<in> set (octet_String b)"
  then show ?thesis using x
    by (auto simp: octet_String_def Let_def digits_dec_digit split: if_splits)
qed

lemma ParseIP_IPv4_String [simp]:
  "net_ParseIP (IPv4_String [a, b, c, d]) = Some (v4_in_v6 [a, b, c, d])"
proof -
  have digs: "\<forall>ch \<in> set (octet_String a). ch \<notin> set ''.:%''"
    by (auto dest!: octet_String_digits simp: is_digit_def)
  have "dropWhile (\<lambda>ch. ch \<notin> set ''.:%'') (IPv4_String [a, b, c, d])
      = CHR ''.'' # octet_String b @ ''.'' @ octet_String c @ ''.'' @ octet_String d"
    using digs by (simp add: IPv4_String_def dropWhile_append2)
  then show ?thesis by (simp add: net_ParseIP_def parseIPv4_String del: set_simps)
qed

lemma To4_v4_in_v6 [simp]: "length bs = 4 \<Longrightarrow> IP_To4 (v4_in_v6 bs) = Some bs"
  by (simp add: IP_To4_def v4_in_v6_def)

lemma IPv4_String_inj:
  assumes "length as = 4" "length bs = 4" "IPv4_String as = IPv4_String bs"
  shows "as = bs"
proof -
  obtain a b c d where as: "as = [a, b, c, d]" using length_4_cases [OF assms(1)] by blast
  obtain a' b' c' d' where bs: "bs = [a', b', c', d']" using length_4_cases [OF assms(2)] by blast
  have "v4_in_v6 as = v4_in_v6 bs"
    using ParseIP_IPv4_String [of a b c d] ParseIP_IPv4_String [of a' b' c' d'] assms(3)
    unfolding as bs by (metis option.inject)
  then show ?thesis by (simp add: v4_in_v6_def)
qed

subsection \<open>Words as numbers\<close>

lemma unat_plus_one: "w \<noteq> - 1 \<Longrightarrow> unat (w + 1) = Suc (unat (w :: 'a :: len word))"
proof -
  assume "w \<noteq> - 1"
  then have "unat (w + 1) \<noteq> 0" by (simp add: unat_eq_zero add_eq_0_iff2)
  moreover have "unat (w + 1) = Suc (unat w) mod 2 ^ LENGTH('a)" by (simp add: unat_word_ariths)
  moreover have "unat w < 2 ^ LENGTH('a)" by (rule unsigned_less)
  ultimately show ?thesis by (cases "Suc (unat w) = 2 ^ LENGTH('a)") auto
qed

lemma unat_max_u32: "unat (- 1 :: u32) = 4294967295"
  by (simp add: unsigned_minus_1_eq_mask mask_eq_exp_minus_1)

lemma unat_NOT_u32: "unat (NOT (m :: u32)) = 4294967295 - unat m"
proof -
  have "NOT m = - 1 - m" by (simp add: not_eq_complement)
  moreover have "unat (- 1 - m) = unat (- 1 :: u32) - unat m" by (rule unat_sub) simp
  ultimately show ?thesis by (simp add: unat_max_u32)
qed

lemma unat_ucast_u32_u64: "unat (ucast (x :: u32) :: u64) = unat x"
proof -
  have "unat x < 2 ^ 64" by (rule order_less_trans [OF unsigned_less]) simp
  then have "take_bit 64 (unat x) = unat x" by (rule take_bit_nat_eq_self)
  moreover have "unat (ucast x :: u64) = take_bit LENGTH(64) (unat x)" by (rule unsigned_ucast_eq)
  ultimately show ?thesis by simp
qed

lemma unat_ucast_u64_u32: "unat x < 2 ^ 32 \<Longrightarrow> unat (ucast (x :: u64) :: u32) = unat x"
proof -
  assume "unat x < 2 ^ 32"
  then have "take_bit 32 (unat x) = unat x" by (rule take_bit_nat_eq_self)
  moreover have "unat (ucast x :: u32) = take_bit LENGTH(32) (unat x)" by (rule unsigned_ucast_eq)
  ultimately show ?thesis by simp
qed

lemma sint_u64_small: "unat x < 2 ^ 63 \<Longrightarrow> sint (x :: u64) = int (unat x)"
proof -
  assume "unat x < 2 ^ 63"
  then have "int (unat x) < 2 ^ 63" by (simp only: of_nat_less_numeral_power_cancel_iff)
  then have "signed_take_bit 63 (int (unat x)) = int (unat x)"
    by (intro signed_take_bit_int_eq_self) (rule order_trans [OF _ of_nat_0_le_iff], simp)
  moreover have "sint x = signed_take_bit 63 (int (unat x))"
    by (simp add: sint_uint)
  ultimately show ?thesis by simp
qed

lemma unat_u32: "unat (n :: u32) < 4294967296"
  by (rule order_less_le_trans [OF unsigned_less]) simp

subsection \<open>Masks and lower case\<close>

lemma length_To4: "IP_To4 ip = Some ip4 \<Longrightarrow> length ip4 = 4"
  by (auto simp: IP_To4_def split: if_splits)

lemma Uint32_Mask:
  assumes "length a = 4" "length b = 4"
  shows "BigEndian_Uint32 (IP_Mask a b) = BigEndian_Uint32 a AND BigEndian_Uint32 b"
proof -
  obtain a1 a2 a3 a4 where a: "a = [a1, a2, a3, a4]" using length_4_cases [OF assms(1)] by blast
  obtain b1 b2 b3 b4 where b: "b = [b1, b2, b3, b4]" using length_4_cases [OF assms(2)] by blast
  show ?thesis
    by (rule bit_word_eqI)
       (auto simp: a b IP_Mask_def BigEndian_Uint32_4 bit_simps bit_byte_ge)
qed

lemma to_lower_octet: "map to_lower_ascii (octet_String b) = octet_String b"
  by (rule map_idI) (auto dest!: octet_String_digits simp: is_digit_def to_lower_ascii_def)

lemma to_lower_eq_low: "(of_char (to_lower_ascii ch) :: nat) \<le> 64 \<Longrightarrow> to_lower_ascii ch = ch"
  by (auto simp: to_lower_ascii_def split: if_splits)

end
