(* ===== verification/NetURL.thy ===== *)
theory NetURL
  imports GoStd "HOL-Library.Char_ord" "HOL-Library.List_Lexorder"
begin

text \<open>
  The parts of Go's \<^verbatim>\<open>net/url\<close> and \<^verbatim>\<open>path/filepath\<close> that building a libvirt connection URI uses: parsing a
  URL, its query values, escaping, printing, and joining paths. The errors keep their text only. The
  limit on the number of query parameters that recent toolchains have is not modelled.
\<close>

section \<open>Escaping\<close>

datatype encoding =
    encodePath
  | encodeUserPassword
  | encodeQueryComponent
  | encodeFragment
  | encodeHost
  | encodeZone

definition is_letter :: "char \<Rightarrow> bool" where
  "is_letter c \<longleftrightarrow>
     (97 \<le> (of_char c :: nat) \<and> (of_char c :: nat) \<le> 122) \<or> (65 \<le> (of_char c :: nat) \<and> (of_char c :: nat) \<le> 90)"

definition is_alnum :: "char \<Rightarrow> bool" where
  "is_alnum c \<longleftrightarrow> is_letter c \<or> is_digit c"

text \<open>The quotation marks, which a string literal cannot hold.\<close>

definition dquote :: char where "dquote = char_of (34 :: nat)"
definition squote :: char where "squote = char_of (39 :: nat)"

definition shouldEscape :: "char \<Rightarrow> encoding \<Rightarrow> bool" where
  "shouldEscape c mode =
     (if is_alnum c then False
      else if mode \<in> {encodeHost, encodeZone} \<and> c \<in> set (dquote # squote # ''!$&()*+,;=:[]<>'') then False
      else if c \<in> set ''-_.~'' then False
      else if c \<in> set ''$&+,/:;=?@'' \<and> mode \<notin> {encodeHost, encodeZone} then
        (case mode of
           encodePath \<Rightarrow> c = CHR ''?''
         | encodeUserPassword \<Rightarrow> c \<in> set ''@/?:''
         | encodeQueryComponent \<Rightarrow> True
         | _ \<Rightarrow> False)
      else \<not> (mode = encodeFragment \<and> c \<in> set ''!()*''))"

definition upperhex :: string where
  "upperhex = ''0123456789ABCDEF''"

definition escape_char :: "encoding \<Rightarrow> char \<Rightarrow> string" where
  "escape_char mode c =
     (if shouldEscape c mode then
        if c = CHR '' '' \<and> mode = encodeQueryComponent then ''+''
        else [CHR ''%'', upperhex ! (of_char c div 16), upperhex ! (of_char c mod 16)]
      else [c])"

definition url_escape :: "string \<Rightarrow> encoding \<Rightarrow> string" where
  "url_escape s mode = concat (map (escape_char mode) s)"

text \<open>\<^verbatim>\<open>unescape\<close>; \<^term>\<open>None\<close> for every error it reports.\<close>

fun url_unescape :: "string \<Rightarrow> encoding \<Rightarrow> string option" where
  "url_unescape [] mode = Some []"
| "url_unescape (c # s) mode =
     (if c = CHR ''%'' then
        (case s of
           h # l # rest \<Rightarrow>
             let v = char_of (hex_val h * 16 + hex_val l) in
             if \<not> is_hex h \<or> \<not> is_hex l then None
             else if mode = encodeHost \<and> hex_val h < 8 \<and> [h, l] \<noteq> ''25'' then None
             else if mode = encodeZone \<and> [h, l] \<noteq> ''25'' \<and> v \<noteq> CHR '' '' \<and> shouldEscape v encodeHost then None
             else map_option ((#) v) (url_unescape rest mode)
         | _ \<Rightarrow> None)
      else if mode \<in> {encodeHost, encodeZone} \<and> (of_char c :: nat) < 128 \<and> shouldEscape c mode then None
      else map_option ((#) (if c = CHR ''+'' \<and> mode = encodeQueryComponent then CHR '' '' else c))
             (url_unescape s mode))"

definition QueryEscape :: "string \<Rightarrow> string" where
  "QueryEscape s = url_escape s encodeQueryComponent"

definition QueryUnescape :: "string \<Rightarrow> string option" where
  "QueryUnescape s = url_unescape s encodeQueryComponent"

section \<open>Query values\<close>

text \<open>\<^verbatim>\<open>url.Values\<close> as an association list with distinct keys, in the order of insertion.\<close>

type_synonym Values = "(string \<times> string list) list"

fun Values_append :: "Values \<Rightarrow> string \<Rightarrow> string \<Rightarrow> Values" where
  "Values_append [] k v = [(k, [v])]"
| "Values_append ((k', vs) # m) k v =
     (if k' = k then (k', vs @ [v]) # m else (k', vs) # Values_append m k v)"

fun Values_Set :: "Values \<Rightarrow> string \<Rightarrow> string \<Rightarrow> Values" where
  "Values_Set [] k v = [(k, [v])]"
| "Values_Set ((k', vs) # m) k v = (if k' = k then (k', [v]) # m else (k', vs) # Values_Set m k v)"

definition Values_Encode :: "Values \<Rightarrow> string" where
  "Values_Encode m =
     strings_Join
       (concat (map (\<lambda>(k, vs). map (\<lambda>v. QueryEscape k @ ''='' @ QueryEscape v) vs) (sort_key fst m))) ''&''"

fun split_on :: "char \<Rightarrow> string \<Rightarrow> string list" where
  "split_on sep [] = [[]]"
| "split_on sep (c # s) =
     (if c = sep then [] # split_on sep s
      else (case split_on sep s of [] \<Rightarrow> [[c]] | p # ps \<Rightarrow> (c # p) # ps))"

text \<open>One piece of a query between two ampersands; a piece with an error is dropped.\<close>

definition parse_pair :: "string \<Rightarrow> (string \<times> string) option" where
  "parse_pair piece =
     (if CHR '';'' \<in> set piece \<or> piece = [] then None
      else
        let (k, v) = (case strings_Cut piece (CHR ''='') of Some kv \<Rightarrow> kv | None \<Rightarrow> (piece, []))
        in (case (QueryUnescape k, QueryUnescape v) of
              (Some k', Some v') \<Rightarrow> Some (k', v')
            | _ \<Rightarrow> None))"

definition ParseQuery :: "string \<Rightarrow> Values" where
  "ParseQuery q =
     fold (\<lambda>piece m. case parse_pair piece of None \<Rightarrow> m | Some (k, v) \<Rightarrow> Values_append m k v)
       (split_on (CHR ''&'') q) []"

section \<open>URLs\<close>

record Userinfo =
  user_username :: string
  user_password :: "string option"

record URL =
  url_Scheme :: string
  url_Opaque :: string
  url_User :: "Userinfo option"
  url_Host :: string
  url_Path :: string
  url_RawPath :: string
  url_OmitHost :: bool
  url_ForceQuery :: bool
  url_RawQuery :: string
  url_Fragment :: string
  url_RawFragment :: string

definition empty_URL :: URL where
  "empty_URL =
     \<lparr>url_Scheme = [], url_Opaque = [], url_User = None, url_Host = [], url_Path = [], url_RawPath = [],
      url_OmitHost = False, url_ForceQuery = False, url_RawQuery = [], url_Fragment = [],
      url_RawFragment = []\<rparr>"

fun getScheme_loop :: "string \<Rightarrow> string \<Rightarrow> string \<Rightarrow> goerror + (string \<times> string)" where
  "getScheme_loop rawURL seen [] = Inr ([], rawURL)"
| "getScheme_loop rawURL seen (c # s) =
     (if is_letter c then getScheme_loop rawURL (seen @ [c]) s
      else if is_digit c \<or> c \<in> set ''+-.'' then
        if seen = [] then Inr ([], rawURL) else getScheme_loop rawURL (seen @ [c]) s
      else if c = CHR '':'' then
        if seen = [] then Inl (Errorf ''missing protocol scheme'' []) else Inr (seen, s)
      else Inr ([], rawURL))"

definition getScheme :: "string \<Rightarrow> goerror + (string \<times> string)" where
  "getScheme rawURL = getScheme_loop rawURL [] rawURL"

definition stringContainsCTLByte :: "string \<Rightarrow> bool" where
  "stringContainsCTLByte s \<longleftrightarrow> (\<exists>c \<in> set s. (of_char c :: nat) < 32 \<or> (of_char c :: nat) = 127)"

text \<open>\<^verbatim>\<open>strings.LastIndex\<close> of one byte: the parts before and after its last occurrence.\<close>

definition cut_last :: "string \<Rightarrow> char \<Rightarrow> (string \<times> string) option" where
  "cut_last s sep = map_option (\<lambda>(a, b). (rev b, rev a)) (strings_Cut (rev s) sep)"

definition validOptionalPort :: "string \<Rightarrow> bool" where
  "validOptionalPort port \<longleftrightarrow>
     (case port of [] \<Rightarrow> True | c # ds \<Rightarrow> c = CHR '':'' \<and> list_all is_digit ds)"

text \<open>\<^verbatim>\<open>strings.Index\<close> of \<^verbatim>\<open>%25\<close>: the parts before and from the first occurrence.\<close>

fun cut_zone :: "string \<Rightarrow> (string \<times> string) option" where
  "cut_zone [] = None"
| "cut_zone (c # s) =
     (if take 3 (c # s) = ''%25'' then Some ([], c # s)
      else map_option (\<lambda>(a, b). (c # a, b)) (cut_zone s))"

text \<open>The \<^verbatim>\<open>netip\<close> check of a bracketed host: an IPv6 address, with a zone or without.\<close>

definition is_IPv6_literal :: "string \<Rightarrow> bool" where
  "is_IPv6_literal s =
     (let (addr, zone_ok) = (case strings_Cut s (CHR ''%'') of Some (a, z) \<Rightarrow> (a, z \<noteq> []) | None \<Rightarrow> (s, True))
      in zone_ok \<and> CHR '':'' \<in> set addr \<and> net_ParseIP addr \<noteq> None)"

definition parse_bracket_host :: "string \<Rightarrow> string \<Rightarrow> string option" where
  "parse_bracket_host host colonPort =
     (let hostname = (case cut_last host (CHR ''['') of Some (_, b) \<Rightarrow> b | None \<Rightarrow> host)
      in Option.bind (url_unescape colonPort encodeHost) (\<lambda>port.
         Option.bind
           (case cut_zone hostname of
              Some (a, z) \<Rightarrow>
                Option.bind (url_unescape a encodeHost) (\<lambda>a'. map_option ((@) a') (url_unescape z encodeZone))
            | None \<Rightarrow> url_unescape hostname encodeHost) (\<lambda>h.
         if is_IPv6_literal h then Some (''['' @ h @ '']'' @ port) else None)))"

definition parseHost :: "string \<Rightarrow> goerror + string" where
  "parseHost host =
     (if CHR ''['' \<in> set host then
        (case cut_last host (CHR '']'') of
           None \<Rightarrow> Inl (Errorf ''missing ']' in host'' [])
         | Some (bef, colonPort) \<Rightarrow>
             if \<not> validOptionalPort colonPort then Inl (Errorf ''invalid port %q after host'' [colonPort])
             else (case parse_bracket_host bef colonPort of
                     None \<Rightarrow> Inl (Errorf ''invalid host'' [])
                   | Some h \<Rightarrow> Inr h))
      else if (case cut_last host (CHR '':'') of None \<Rightarrow> False | Some (_, p) \<Rightarrow> \<not> list_all is_digit p)
      then Inl (Errorf ''invalid port %q after host'' [])
      else (case url_unescape host encodeHost of
              None \<Rightarrow> Inl (Errorf ''invalid character in host name'' [])
            | Some h \<Rightarrow> Inr h))"

definition validUserinfo :: "string \<Rightarrow> bool" where
  "validUserinfo s \<longleftrightarrow> list_all (\<lambda>c. is_alnum c \<or> c \<in> set (squote # ''-._:~!$&()*+,;=%@'')) s"

definition parseUserinfo :: "string \<Rightarrow> goerror + Userinfo" where
  "parseUserinfo userinfo =
     (if \<not> validUserinfo userinfo then Inl (Errorf ''net/url: invalid userinfo'' [])
      else case strings_Cut userinfo (CHR '':'') of
        None \<Rightarrow>
          (case url_unescape userinfo encodeUserPassword of
             None \<Rightarrow> Inl (Errorf ''invalid URL escape'' [])
           | Some u \<Rightarrow> Inr \<lparr>user_username = u, user_password = None\<rparr>)
      | Some (username, password) \<Rightarrow>
          (case (url_unescape username encodeUserPassword, url_unescape password encodeUserPassword) of
             (Some u, Some p) \<Rightarrow> Inr \<lparr>user_username = u, user_password = Some p\<rparr>
           | _ \<Rightarrow> Inl (Errorf ''invalid URL escape'' [])))"

definition parseAuthority :: "string \<Rightarrow> goerror + (Userinfo option \<times> string)" where
  "parseAuthority authority =
     (case cut_last authority (CHR ''@'') of
        None \<Rightarrow> (case parseHost authority of Inl e \<Rightarrow> Inl e | Inr host \<Rightarrow> Inr (None, host))
      | Some (userinfo, h) \<Rightarrow>
          (case parseHost h of
             Inl e \<Rightarrow> Inl e
           | Inr host \<Rightarrow>
               (case parseUserinfo userinfo of Inl e \<Rightarrow> Inl e | Inr user \<Rightarrow> Inr (Some user, host))))"

definition setPath :: "URL \<Rightarrow> string \<Rightarrow> goerror + URL" where
  "setPath u p =
     (case url_unescape p encodePath of
        None \<Rightarrow> Inl (Errorf ''invalid URL escape'' [])
      | Some path \<Rightarrow>
          Inr (u\<lparr>url_Path := path, url_RawPath := if p = url_escape path encodePath then [] else p\<rparr>))"

definition setFragment :: "URL \<Rightarrow> string \<Rightarrow> goerror + URL" where
  "setFragment u f =
     (case url_unescape f encodeFragment of
        None \<Rightarrow> Inl (Errorf ''invalid URL escape'' [])
      | Some frag \<Rightarrow>
          Inr (u\<lparr>url_Fragment := frag, url_RawFragment := if f = url_escape frag encodeFragment then [] else f\<rparr>))"

definition has_prefix :: "string \<Rightarrow> string \<Rightarrow> bool" where
  "has_prefix s p \<longleftrightarrow> take (length p) s = p"

text \<open>The part of \<^verbatim>\<open>parse\<close> after the scheme and the query have been cut off.\<close>

definition parse_rest :: "URL \<Rightarrow> string \<Rightarrow> goerror + URL" where
  "parse_rest u rest =
     (if \<not> has_prefix rest ''/'' \<and> url_Scheme u \<noteq> [] then Inr (u\<lparr>url_Opaque := rest\<rparr>)
      else if \<not> has_prefix rest ''/'' \<and> CHR '':'' \<in> set (takeWhile (\<lambda>c. c \<noteq> CHR ''/'') rest)
      then Inl (Errorf ''first path segment in URL cannot contain colon'' [])
      else if (url_Scheme u \<noteq> [] \<or> \<not> has_prefix rest ''///'') \<and> has_prefix rest ''//'' then
        let a = drop 2 rest;
            authority = takeWhile (\<lambda>c. c \<noteq> CHR ''/'') a
        in (case parseAuthority authority of
              Inl e \<Rightarrow> Inl e
            | Inr (user, host) \<Rightarrow>
                setPath (u\<lparr>url_User := user, url_Host := host\<rparr>) (dropWhile (\<lambda>c. c \<noteq> CHR ''/'') a))
      else setPath (u\<lparr>url_OmitHost := url_Scheme u \<noteq> [] \<and> has_prefix rest ''/''\<rparr>) rest)"

definition url_parse :: "string \<Rightarrow> goerror + URL" where
  "url_parse rawURL =
     (if stringContainsCTLByte rawURL then Inl (Errorf ''net/url: invalid control character in URL'' [])
      else if rawURL = ''*'' then Inr (empty_URL\<lparr>url_Path := ''*''\<rparr>)
      else case getScheme rawURL of
        Inl e \<Rightarrow> Inl e
      | Inr (scheme, rest) \<Rightarrow>
          let u = empty_URL\<lparr>url_Scheme := map to_lower_ascii scheme\<rparr>
          in (case strings_Cut rest (CHR ''?'') of
                None \<Rightarrow> parse_rest u rest
              | Some (bef, aft) \<Rightarrow>
                  if aft = [] then parse_rest (u\<lparr>url_ForceQuery := True\<rparr>) bef
                  else parse_rest (u\<lparr>url_RawQuery := aft\<rparr>) bef))"

definition url_Parse :: "string \<Rightarrow> goerror + URL" where
  "url_Parse rawURL =
     (let (u, frag) = (case strings_Cut rawURL (CHR ''#'') of Some p \<Rightarrow> p | None \<Rightarrow> (rawURL, []))
      in case url_parse u of
           Inl e \<Rightarrow> Inl (Wrapf ''parse %q: %w'' [u] e)
         | Inr url \<Rightarrow>
             if frag = [] then Inr url
             else (case setFragment url frag of
                     Inl e \<Rightarrow> Inl (Wrapf ''parse %q: %w'' [rawURL] e)
                   | Inr url' \<Rightarrow> Inr url'))"

definition URL_Query :: "URL \<Rightarrow> Values" where
  "URL_Query u = ParseQuery (url_RawQuery u)"

section \<open>Printing\<close>

definition validEncoded :: "string \<Rightarrow> encoding \<Rightarrow> bool" where
  "validEncoded s mode \<longleftrightarrow>
     list_all (\<lambda>c. c \<in> set (squote # ''!$&()*+,;=:@[]%'') \<or> \<not> shouldEscape c mode) s"

definition EscapedPath :: "URL \<Rightarrow> string" where
  "EscapedPath u =
     (if url_RawPath u \<noteq> [] \<and> validEncoded (url_RawPath u) encodePath
         \<and> url_unescape (url_RawPath u) encodePath = Some (url_Path u) then url_RawPath u
      else if url_Path u = ''*'' then ''*''
      else url_escape (url_Path u) encodePath)"

definition EscapedFragment :: "URL \<Rightarrow> string" where
  "EscapedFragment u =
     (if url_RawFragment u \<noteq> [] \<and> validEncoded (url_RawFragment u) encodeFragment
         \<and> url_unescape (url_RawFragment u) encodeFragment = Some (url_Fragment u) then url_RawFragment u
      else url_escape (url_Fragment u) encodeFragment)"

definition Userinfo_String :: "Userinfo \<Rightarrow> string" where
  "Userinfo_String ui =
     url_escape (user_username ui) encodeUserPassword
     @ (case user_password ui of None \<Rightarrow> [] | Some p \<Rightarrow> '':'' @ url_escape p encodeUserPassword)"

definition authority_String :: "URL \<Rightarrow> string" where
  "authority_String u =
     (if url_Scheme u = [] \<and> url_Host u = [] \<and> url_User u = None then []
      else if url_OmitHost u \<and> url_Host u = [] \<and> url_User u = None then []
      else
        (if url_Host u \<noteq> [] \<or> url_Path u \<noteq> [] \<or> url_User u \<noteq> None then ''//'' else [])
        @ (case url_User u of None \<Rightarrow> [] | Some ui \<Rightarrow> Userinfo_String ui @ ''@'')
        @ url_escape (url_Host u) encodeHost)"

definition hierarchical_String :: "string \<Rightarrow> URL \<Rightarrow> string" where
  "hierarchical_String buf u =
     (let path = EscapedPath u;
          buf1 = buf @ authority_String u;
          buf2 = buf1 @ (if path \<noteq> [] \<and> hd path \<noteq> CHR ''/'' \<and> url_Host u \<noteq> [] then ''/'' else []);
          buf3 = buf2 @ (if buf2 = [] \<and> CHR '':'' \<in> set (takeWhile (\<lambda>c. c \<noteq> CHR ''/'') path) then ''./'' else [])
      in buf3 @ path)"

definition URL_String :: "URL \<Rightarrow> string" where
  "URL_String u =
     (let buf = (if url_Scheme u \<noteq> [] then url_Scheme u @ '':'' else []);
          buf1 = (if url_Opaque u \<noteq> [] then buf @ url_Opaque u else hierarchical_String buf u);
          buf2 = buf1 @ (if url_ForceQuery u \<or> url_RawQuery u \<noteq> [] then ''?'' @ url_RawQuery u else [])
      in buf2 @ (if url_Fragment u \<noteq> [] then ''#'' @ EscapedFragment u else []))"

section \<open>Paths\<close>

text \<open>\<^verbatim>\<open>filepath.Clean\<close> on Unix: the components, with dots and double dots resolved.\<close>

definition clean_step :: "bool \<Rightarrow> string \<Rightarrow> string list \<Rightarrow> string list" where
  "clean_step rooted seg out =
     (if seg = [] \<or> seg = ''.'' then out
      else if seg = ''..'' then
        if out \<noteq> [] \<and> last out \<noteq> ''..'' then butlast out
        else if rooted then out
        else out @ [seg]
      else out @ [seg])"

definition filepath_Clean :: "string \<Rightarrow> string" where
  "filepath_Clean path =
     (let rooted = has_prefix path ''/'';
          comps = fold (clean_step rooted) (split_on (CHR ''/'') path) [];
          out = (if rooted then ''/'' else []) @ strings_Join comps ''/''
      in if out = [] then ''.'' else out)"

definition filepath_Join :: "string \<Rightarrow> string \<Rightarrow> string" where
  "filepath_Join dir name =
     (if dir \<noteq> [] then filepath_Clean (dir @ ''/'' @ name)
      else if name \<noteq> [] then filepath_Clean name
      else [])"

end
