(* ===== verification/Builders.thy ===== *)
theory Builders
  imports Prelude
begin

text \<open>
  The package \<^verbatim>\<open>internal/libvirtclient/builders\<close>: the domain and volume builders. The documents they
  build are the \<^verbatim>\<open>libvirtxml\<close> structures, with the fields the builders set. A pointer that the
  constructor always sets is the value it points to; a pointer that may stay nil is an option.
\<close>

section \<open>Domain documents\<close>

record DomainMemory =
  mem_Value :: u64
  mem_Unit :: string

record DomainOS =
  os_Type :: string
  os_Arch :: string
  os_BootDevices :: "string list"

record DomainDisk =
  disk_Device :: string
  disk_DriverName :: string
  disk_DriverType :: string
  disk_SourceFile :: string
  disk_TargetDev :: string
  disk_TargetBus :: string
  disk_ReadOnly :: bool

record DomainInterface =
  if_Network :: string
  if_Model :: string
  if_MAC :: "string option"

record DomainSerial =
  serial_Port :: nat

record DomainConsole =
  console_TargetType :: string
  console_Port :: nat

record DomainDeviceList =
  dev_Disks :: "DomainDisk list"
  dev_Interfaces :: "DomainInterface list"
  dev_Serials :: "DomainSerial list"
  dev_Consoles :: "DomainConsole list"

record Domain =
  dom_Type :: string
  dom_Name :: string
  dom_UUID :: string
  dom_Memory :: DomainMemory
  dom_VCPU :: u64
  dom_OS :: DomainOS
  dom_Devices :: DomainDeviceList

definition DefaultDomainType :: string where "DefaultDomainType = ''kvm''"
definition DefaultMemoryMiB :: u64 where "DefaultMemoryMiB = 1024"
definition DefaultMemoryUnit :: string where "DefaultMemoryUnit = ''MiB''"
definition DefaultCPU :: u64 where "DefaultCPU = 1"
definition DefaultOSType :: string where "DefaultOSType = ''hvm''"
definition DefaultOSArch :: string where "DefaultOSArch = ''x86_64''"
definition DefaultDiskDriverName :: string where "DefaultDiskDriverName = ''qemu''"
definition DefaultDiskFormat :: string where "DefaultDiskFormat = ''qcow2''"
definition DefaultDiskTarget :: string where "DefaultDiskTarget = ''vda''"
definition DefaultDiskBus :: string where "DefaultDiskBus = ''virtio''"
definition DefaultNetworkName :: string where "DefaultNetworkName = ''default''"
definition DefaultNetworkModel :: string where "DefaultNetworkModel = ''virtio''"
definition DefaultCloudInitDriverName :: string where "DefaultCloudInitDriverName = ''qemu''"
definition DefaultCloudInitFormat :: string where "DefaultCloudInitFormat = ''raw''"
definition DefaultCloudInitBus :: string where "DefaultCloudInitBus = ''sata''"
definition DefaultCloudInitTarget :: string where "DefaultCloudInitTarget = ''sda''"
definition DefaultBootDevHD :: string where "DefaultBootDevHD = ''hd''"

definition NewDomain :: "string \<Rightarrow> Domain" where
  "NewDomain name =
     \<lparr>dom_Type = DefaultDomainType, dom_Name = name, dom_UUID = [],
      dom_Memory = \<lparr>mem_Value = DefaultMemoryMiB, mem_Unit = DefaultMemoryUnit\<rparr>,
      dom_VCPU = DefaultCPU,
      dom_OS = \<lparr>os_Type = DefaultOSType, os_Arch = DefaultOSArch,
                os_BootDevices = [DefaultBootDevHD]\<rparr>,
      dom_Devices = \<lparr>dev_Disks = [], dev_Interfaces = [], dev_Serials = [], dev_Consoles = []\<rparr>\<rparr>"

definition WithUUID :: "string \<Rightarrow> Domain \<Rightarrow> Domain" where
  "WithUUID uuid d = d\<lparr>dom_UUID := uuid\<rparr>"

definition WithMemoryMiB :: "u64 \<Rightarrow> Domain \<Rightarrow> Domain" where
  "WithMemoryMiB memory d = d\<lparr>dom_Memory := \<lparr>mem_Value = memory, mem_Unit = DefaultMemoryUnit\<rparr>\<rparr>"

definition WithVCPU :: "u64 \<Rightarrow> Domain \<Rightarrow> Domain" where
  "WithVCPU vcpu d = d\<lparr>dom_VCPU := vcpu\<rparr>"

definition append_disk :: "DomainDisk \<Rightarrow> Domain \<Rightarrow> Domain" where
  "append_disk disk d =
     d\<lparr>dom_Devices := (dom_Devices d)\<lparr>dev_Disks := dev_Disks (dom_Devices d) @ [disk]\<rparr>\<rparr>"

definition WithDiskFile :: "string \<Rightarrow> Domain \<Rightarrow> Domain" where
  "WithDiskFile path =
     append_disk
       \<lparr>disk_Device = ''disk'', disk_DriverName = DefaultDiskDriverName,
        disk_DriverType = DefaultDiskFormat, disk_SourceFile = path,
        disk_TargetDev = DefaultDiskTarget, disk_TargetBus = DefaultDiskBus,
        disk_ReadOnly = False\<rparr>"

definition WithCloudInitISO :: "string \<Rightarrow> Domain \<Rightarrow> Domain" where
  "WithCloudInitISO path =
     append_disk
       \<lparr>disk_Device = ''cdrom'', disk_DriverName = DefaultCloudInitDriverName,
        disk_DriverType = DefaultCloudInitFormat, disk_SourceFile = path,
        disk_TargetDev = DefaultCloudInitTarget, disk_TargetBus = DefaultCloudInitBus,
        disk_ReadOnly = True\<rparr>"

definition WithNetwork :: "string \<Rightarrow> string \<Rightarrow> Domain \<Rightarrow> Domain" where
  "WithNetwork name mac d =
     (let name' = (if name = [] then DefaultNetworkName else name);
          iface = \<lparr>if_Network = name', if_Model = DefaultNetworkModel, if_MAC = None\<rparr>;
          iface' = (if mac \<noteq> [] then iface\<lparr>if_MAC := Some mac\<rparr> else iface)
      in d\<lparr>dom_Devices :=
            (dom_Devices d)\<lparr>dev_Interfaces := dev_Interfaces (dom_Devices d) @ [iface']\<rparr>\<rparr>)"

definition WithSerialConsole :: "Domain \<Rightarrow> Domain" where
  "WithSerialConsole d =
     (let port = 0;
          devs = dom_Devices d;
          devs1 = devs\<lparr>dev_Serials := dev_Serials devs @ [\<lparr>serial_Port = port\<rparr>]\<rparr>;
          devs2 = devs1\<lparr>dev_Consoles := dev_Consoles devs1
                          @ [\<lparr>console_TargetType = ''serial'', console_Port = port\<rparr>]\<rparr>
      in d\<lparr>dom_Devices := devs2\<rparr>)"

section \<open>Volume documents\<close>

record StorageVolumeSize =
  size_Value :: u64
  size_Unit :: string

record StorageVolumeBackingStore =
  bs_Path :: string
  bs_Format :: string

record StorageVolume =
  vol_Name :: string
  vol_Capacity :: StorageVolumeSize
  vol_TargetFormat :: string
  vol_BackingStore :: "StorageVolumeBackingStore option"

definition DefaultVolumeCapacityGiB :: u64 where "DefaultVolumeCapacityGiB = 20"
definition DefaultVolumeCapacityUnit :: string where "DefaultVolumeCapacityUnit = ''G''"
definition DefaultVolumeFormat :: string where "DefaultVolumeFormat = ''qcow2''"
definition RawVolumeFormat :: string where "RawVolumeFormat = ''raw''"

definition NewVolume :: "string \<Rightarrow> StorageVolume" where
  "NewVolume name =
     \<lparr>vol_Name = name,
      vol_Capacity = \<lparr>size_Value = DefaultVolumeCapacityGiB, size_Unit = DefaultVolumeCapacityUnit\<rparr>,
      vol_TargetFormat = DefaultVolumeFormat, vol_BackingStore = None\<rparr>"

definition WithRawType :: "StorageVolume \<Rightarrow> StorageVolume" where
  "WithRawType v = v\<lparr>vol_TargetFormat := RawVolumeFormat\<rparr>"

definition WithCapacity :: "u64 \<Rightarrow> string \<Rightarrow> StorageVolume \<Rightarrow> StorageVolume" where
  "WithCapacity sz unit v = v\<lparr>vol_Capacity := \<lparr>size_Value = sz, size_Unit = unit\<rparr>\<rparr>"

definition WithBackingStore :: "string \<Rightarrow> string \<Rightarrow> StorageVolume \<Rightarrow> StorageVolume" where
  "WithBackingStore path format v =
     v\<lparr>vol_BackingStore := Some \<lparr>bs_Path = path, bs_Format = format\<rparr>\<rparr>"

lemmas domain_builder_defs =
  NewDomain_def WithUUID_def WithMemoryMiB_def WithVCPU_def append_disk_def WithDiskFile_def
  WithCloudInitISO_def WithNetwork_def WithSerialConsole_def Let_def

lemmas volume_builder_defs =
  NewVolume_def WithRawType_def WithCapacity_def WithBackingStore_def

lemma builders_keep_name [simp]:
  "dom_Name (NewDomain n) = n"
  "dom_Name (WithUUID u d) = dom_Name d"
  "dom_Name (WithMemoryMiB m d) = dom_Name d"
  "dom_Name (WithVCPU c d) = dom_Name d"
  "dom_Name (WithDiskFile p d) = dom_Name d"
  "dom_Name (WithCloudInitISO p d) = dom_Name d"
  "dom_Name (WithNetwork nw mac d) = dom_Name d"
  "dom_Name (WithSerialConsole d) = dom_Name d"
  by (simp_all add: domain_builder_defs)

lemma volume_builders_keep_name [simp]:
  "vol_Name (NewVolume n) = n"
  "vol_Name (WithRawType v) = vol_Name v"
  "vol_Name (WithCapacity s u v) = vol_Name v"
  "vol_Name (WithBackingStore p f v) = vol_Name v"
  by (simp_all add: volume_builder_defs)

end
