(* ===== verification/LibvirtAPI.thy ===== *)
theory LibvirtAPI
  imports Builders
begin

text \<open>
  The code outside the repository that the package \<^verbatim>\<open>libvirtclient\<close> calls, as parameters: the libvirt
  binding (\<^verbatim>\<open>libvirt.org/go/libvirt\<close>), the XML documents of \<^verbatim>\<open>libvirt.org/go/libvirtxml\<close>, the disk image
  library, YAML encoding and the operating system. Each is a record of functions over an abstract
  world; nothing is defined for them here. What the proofs rely on is stated as the laws of the locales
  in the theories that use them.

  A libvirt object handle carries the name of its object, as \<^verbatim>\<open>virDomainGetName\<close> and its kin give it.
\<close>

section \<open>Network documents\<close>

record NetworkDHCPHost =
  host_MAC :: string
  host_Name :: string
  host_IP :: string

record NetworkDHCPRange =
  range_Start :: string
  range_End :: string

record NetworkDHCP =
  dhcp_Ranges :: "NetworkDHCPRange list"
  dhcp_Hosts :: "NetworkDHCPHost list"

record NetworkIP =
  ip_Address :: string
  ip_Family :: string
  ip_Netmask :: string
  ip_DHCP :: "NetworkDHCP option"

record Network =
  net_IPs :: "NetworkIP list"

text \<open>\<^verbatim>\<open>libvirtxml\<close>: encoding and decoding of the documents.\<close>

record libvirtxml =
  Domain_Marshal :: "Domain \<Rightarrow> goerror + string"
  StorageVolume_Marshal :: "StorageVolume \<Rightarrow> goerror + string"
  NetworkDHCPHost_Marshal :: "NetworkDHCPHost \<Rightarrow> goerror + string"
  Network_Unmarshal :: "string \<Rightarrow> goerror + Network"

section \<open>The binding\<close>

datatype Connect = Connect nat
datatype StoragePool = StoragePool string
datatype StorageVol = StorageVol string string
datatype LvDomain = LvDomain string
datatype LvNetwork = LvNetwork string
datatype Stream = Stream nat

datatype LvDomainState =
    DOMAIN_NOSTATE
  | DOMAIN_RUNNING
  | DOMAIN_BLOCKED
  | DOMAIN_PAUSED
  | DOMAIN_SHUTDOWN
  | DOMAIN_CRASHED
  | DOMAIN_PMSUSPENDED
  | DOMAIN_SHUTOFF

datatype NetworkUpdateCommand =
    NETWORK_UPDATE_COMMAND_NONE
  | NETWORK_UPDATE_COMMAND_MODIFY
  | NETWORK_UPDATE_COMMAND_DELETE
  | NETWORK_UPDATE_COMMAND_ADD_LAST

datatype NetworkUpdateSection = NETWORK_SECTION_IP_DHCP_HOST

record NetworkDHCPLease =
  lease_Mac :: string
  lease_IPaddr :: string

text \<open>The interface \<^verbatim>\<open>networkOperations\<close> of the source (the methods of one network handle).\<close>

record 'w networkOperations =
  GetXMLDesc :: "nat \<Rightarrow> ('w, string) act"
  Update :: "NetworkUpdateCommand \<Rightarrow> NetworkUpdateSection \<Rightarrow> int \<Rightarrow> string \<Rightarrow> nat \<Rightarrow> ('w, unit) act"
  GetDHCPLeases :: "('w, NetworkDHCPLease list) act"

text \<open>
  The functions and methods of the binding. A call whose result the source discards (\<^verbatim>\<open>Free\<close>, \<^verbatim>\<open>Close\<close>,
  \<^verbatim>\<open>Abort\<close>) is a change of the world. \<^verbatim>\<open>SendAll\<close> takes the callback as a function of the number of bytes
  asked for and of the unread part of the buffer.
\<close>

record 'w libvirt =
  NewConnect :: "string \<Rightarrow> ('w, Connect) act"
  Connect_Close :: "Connect \<Rightarrow> 'w \<Rightarrow> 'w"
  LookupStoragePoolByName :: "Connect \<Rightarrow> string \<Rightarrow> ('w, StoragePool) act"
  LookupDomainByName :: "Connect \<Rightarrow> string \<Rightarrow> ('w, LvDomain) act"
  LookupNetworkByName :: "Connect \<Rightarrow> string \<Rightarrow> ('w, LvNetwork) act"
  DomainDefineXML :: "Connect \<Rightarrow> string \<Rightarrow> ('w, LvDomain) act"
  NewStream :: "Connect \<Rightarrow> nat \<Rightarrow> ('w, Stream) act"
  Pool_Free :: "StoragePool \<Rightarrow> 'w \<Rightarrow> 'w"
  Pool_IsActive :: "StoragePool \<Rightarrow> ('w, bool) act"
  LookupStorageVolByName :: "StoragePool \<Rightarrow> string \<Rightarrow> ('w, StorageVol) act"
  StorageVolCreateXML :: "StoragePool \<Rightarrow> string \<Rightarrow> nat \<Rightarrow> ('w, StorageVol) act"
  Vol_Free :: "StorageVol \<Rightarrow> 'w \<Rightarrow> 'w"
  Vol_GetPath :: "StorageVol \<Rightarrow> ('w, string) act"
  Vol_Delete :: "StorageVol \<Rightarrow> nat \<Rightarrow> ('w, unit) act"
  Vol_Upload :: "StorageVol \<Rightarrow> Stream \<Rightarrow> nat \<Rightarrow> nat \<Rightarrow> nat \<Rightarrow> ('w, unit) act"
  Stream_Free :: "Stream \<Rightarrow> 'w \<Rightarrow> 'w"
  Stream_SendAll :: "Stream \<Rightarrow> (nat \<Rightarrow> bytes \<Rightarrow> (goerror + bytes) \<times> bytes) \<Rightarrow> bytes \<Rightarrow> ('w, unit) act"
  Stream_Abort :: "Stream \<Rightarrow> 'w \<Rightarrow> 'w"
  Stream_Finish :: "Stream \<Rightarrow> ('w, unit) act"
  Domain_Free :: "LvDomain \<Rightarrow> 'w \<Rightarrow> 'w"
  Domain_SetAutostart :: "LvDomain \<Rightarrow> bool \<Rightarrow> ('w, unit) act"
  Domain_Create :: "LvDomain \<Rightarrow> ('w, unit) act"
  Domain_Destroy :: "LvDomain \<Rightarrow> ('w, unit) act"
  Domain_Undefine :: "LvDomain \<Rightarrow> ('w, unit) act"
  Domain_IsActive :: "LvDomain \<Rightarrow> ('w, bool) act"
  Domain_GetState :: "LvDomain \<Rightarrow> ('w, LvDomainState) act"
  Network_Free :: "LvNetwork \<Rightarrow> 'w \<Rightarrow> 'w"
  Network_IsActive :: "LvNetwork \<Rightarrow> ('w, bool) act"
  Network_ops :: "LvNetwork \<Rightarrow> 'w networkOperations"

section \<open>The operating system\<close>

text \<open>
  The calls of \<^verbatim>\<open>os\<close> and \<^verbatim>\<open>io\<close>. \<^verbatim>\<open>RemoveAll\<close> and the close of a file opened for reading have their results
  discarded. \<open>io_Copy\<close> copies an open file to its end into an empty buffer and gives the bytes.
\<close>

datatype OsFile = OsFile nat

record 'w os_api =
  os_MkdirTemp :: "string \<Rightarrow> string \<Rightarrow> ('w, string) act"
  os_RemoveAll :: "string \<Rightarrow> 'w \<Rightarrow> 'w"
  os_WriteFile :: "string \<Rightarrow> bytes \<Rightarrow> nat \<Rightarrow> ('w, unit) act"
  os_Open :: "string \<Rightarrow> ('w, OsFile) act"
  OsFile_Close :: "OsFile \<Rightarrow> 'w \<Rightarrow> 'w"
  io_Copy :: "OsFile \<Rightarrow> ('w, bytes) act"

section \<open>Disk images and YAML\<close>

text \<open>
  \<^verbatim>\<open>github.com/diskfs/go-diskfs\<close>. A file system handle carries its dynamic type, which the source asserts.
\<close>

datatype DiskHandle = DiskHandle nat

record Disk =
  disk_Handle :: DiskHandle
  disk_LogicalBlocksize :: int

datatype FsType = TypeISO9660 | OtherFsType nat

record FilesystemSpec =
  spec_Partition :: int
  spec_FSType :: FsType

datatype FileSystem = Iso9660FS nat | OtherFS nat
datatype FsFile = FsFile nat

record FinalizeOptions =
  fin_VolumeIdentifier :: string
  fin_RockRidge :: bool

record 'w diskfs =
  SectorSizeDefault :: int
  diskfs_Create :: "string \<Rightarrow> int \<Rightarrow> int \<Rightarrow> ('w, Disk) act"
  Disk_Close :: "Disk \<Rightarrow> ('w, unit) act"
  Disk_CreateFilesystem :: "Disk \<Rightarrow> FilesystemSpec \<Rightarrow> ('w, FileSystem) act"
  Fs_OpenFile :: "FileSystem \<Rightarrow> string \<Rightarrow> nat \<Rightarrow> ('w, FsFile) act"
  FsFile_Write :: "FsFile \<Rightarrow> bytes \<Rightarrow> ('w, nat) act"
  FsFile_Close :: "FsFile \<Rightarrow> ('w, unit) act"
  Iso_Finalize :: "nat \<Rightarrow> FinalizeOptions \<Rightarrow> ('w, unit) act"
  Fs_Close :: "FileSystem \<Rightarrow> ('w, unit) act"

text \<open>
  Everything the package calls outside the repository. \<open>yaml_Marshal\<close> is \<^verbatim>\<open>sigs.k8s.io/yaml\<close> on the
  fields of a structure, in order, with their names.
\<close>

record 'w env =
  env_lv :: "'w libvirt"
  env_lx :: libvirtxml
  env_os :: "'w os_api"
  env_fs :: "'w diskfs"
  yaml_Marshal :: "(string \<times> string) list \<Rightarrow> goerror + bytes"

end
