(* ===== verification/Config.thy ===== *)
theory Config
  imports NetURL LibvirtAPI
begin

text \<open>
  \<^verbatim>\<open>internal/libvirtclient/config.go\<close> and \<^verbatim>\<open>credentials.go\<close>: the configuration of a connection and of a
  machine, the client credentials, and opening a connection with them. A \<^verbatim>\<open>uint\<close> has 64 bits.
\<close>

section \<open>Credentials\<close>

record TLSCredentials =
  tls_CACert :: bytes
  tls_ClientCert :: bytes
  tls_ClientKey :: bytes

record SSHCredentials =
  ssh_PrivateKey :: bytes
  ssh_KnownHosts :: bytes

record Credentials =
  cred_TLS :: "TLSCredentials option"
  cred_SSH :: "SSHCredentials option"

definition credentialsDirPattern :: string where "credentialsDirPattern = ''libvirt-credentials-''"
definition credentialsFileMode :: nat where "credentialsFileMode = 6 * 64"
definition transportSeparator :: char where "transportSeparator = CHR ''+''"
definition transportTLS :: string where "transportTLS = ''tls''"
definition transportLibSSH :: string where "transportLibSSH = ''libssh''"
definition transportLibSSH2 :: string where "transportLibSSH2 = ''libssh2''"
definition tlsCACertFile :: string where "tlsCACertFile = ''cacert.pem''"
definition tlsClientCertFile :: string where "tlsClientCertFile = ''clientcert.pem''"
definition tlsClientKeyFile :: string where "tlsClientKeyFile = ''clientkey.pem''"
definition sshPrivateKeyFile :: string where "sshPrivateKeyFile = ''id_key''"
definition sshKnownHostsFile :: string where "sshKnownHostsFile = ''known_hosts''"
definition uriParamPKIPath :: string where "uriParamPKIPath = ''pkipath''"
definition uriParamKeyFile :: string where "uriParamKeyFile = ''keyfile''"
definition uriParamKnownHosts :: string where "uriParamKnownHosts = ''known_hosts''"
definition uriParamSSHAuth :: string where "uriParamSSHAuth = ''sshauth''"
definition sshAuthPrivateKey :: string where "sshAuthPrivateKey = ''privkey''"

definition errNoTLSCredentials :: goerror where
  "errNoTLSCredentials = Errorf ''the URI uses TLS but the credentials have no TLS keys'' []"

definition errNoSSHCredentials :: goerror where
  "errNoSSHCredentials = Errorf ''the URI uses SSH but the credentials have no SSH keys'' []"

record credentialFile =
  cf_name :: string
  cf_data :: bytes

definition TLSCredentials_files :: "TLSCredentials \<Rightarrow> credentialFile list" where
  "TLSCredentials_files t =
     [\<lparr>cf_name = tlsCACertFile, cf_data = tls_CACert t\<rparr>,
      \<lparr>cf_name = tlsClientCertFile, cf_data = tls_ClientCert t\<rparr>,
      \<lparr>cf_name = tlsClientKeyFile, cf_data = tls_ClientKey t\<rparr>]"

definition SSHCredentials_files :: "SSHCredentials \<Rightarrow> credentialFile list" where
  "SSHCredentials_files s =
     [\<lparr>cf_name = sshPrivateKeyFile, cf_data = ssh_PrivateKey s\<rparr>,
      \<lparr>cf_name = sshKnownHostsFile, cf_data = ssh_KnownHosts s\<rparr>]"

fun writeCredentialFiles :: "'w os_api \<Rightarrow> string \<Rightarrow> credentialFile list \<Rightarrow> ('w, unit) act" where
  "writeCredentialFiles os dir [] = ret ()"
| "writeCredentialFiles os dir (f # files) =
     tryE (os_WriteFile os (filepath_Join dir (cf_name f)) (cf_data f) credentialsFileMode)
       (Wrapf ''write credential file %s: %w'' [cf_name f]) (\<lambda>_.
     writeCredentialFiles os dir files)"

definition transport :: "string \<Rightarrow> string" where
  "transport scheme =
     (case strings_Cut scheme transportSeparator of None \<Rightarrow> [] | Some (_, aft) \<Rightarrow> aft)"

definition connectionURI :: "'w os_api \<Rightarrow> Credentials \<Rightarrow> string \<Rightarrow> string \<Rightarrow> ('w, string) act" where
  "connectionURI os c uri dir =
     tryE (pureE (Some (url_Parse uri))) (Wrapf ''parse libvirt URI: %w'' []) (\<lambda>parsed.
     let params = URL_Query parsed;
         finish = (\<lambda>params. ret (URL_String (parsed\<lparr>url_RawQuery := Values_Encode params\<rparr>)))
     in if transport (url_Scheme parsed) = transportTLS then
          (case cred_TLS c of
             None \<Rightarrow> throw errNoTLSCredentials
           | Some tls \<Rightarrow>
               tryE (writeCredentialFiles os dir (TLSCredentials_files tls)) id (\<lambda>_.
               finish (Values_Set params uriParamPKIPath dir)))
        else if transport (url_Scheme parsed) \<in> {transportLibSSH, transportLibSSH2} then
          (case cred_SSH c of
             None \<Rightarrow> throw errNoSSHCredentials
           | Some ssh \<Rightarrow>
               tryE (writeCredentialFiles os dir (SSHCredentials_files ssh)) id (\<lambda>_.
               finish
                 (Values_Set
                    (Values_Set
                       (Values_Set params uriParamKeyFile (filepath_Join dir sshPrivateKeyFile))
                       uriParamKnownHosts (filepath_Join dir sshKnownHostsFile))
                    uriParamSSHAuth sshAuthPrivateKey)))
        else throw (Errorf
          ''credentials are not supported for URI scheme %q, use qemu+tls, qemu+libssh or qemu+libssh2''
          [url_Scheme parsed]))"

section \<open>Configuration\<close>

record InfraConfig =
  cfg_URI :: string
  cfg_BasePool :: string
  cfg_DomainPool :: string
  cfg_Network :: string
  cfg_Credentials :: "Credentials option"

record MachineConfig = InfraConfig +
  cfg_DomainName :: string
  cfg_DomainUUID :: string
  cfg_Hostname :: string
  cfg_BaseImage :: string
  cfg_MemoryMiB :: u64
  cfg_VCPU :: u64
  cfg_DiskSize :: u64
  cfg_UserData :: bytes

definition instanceID :: "MachineConfig \<Rightarrow> string" where
  "instanceID c = (if cfg_DomainUUID c = [] then cfg_DomainName c else cfg_DomainUUID c)"

definition hostname :: "MachineConfig \<Rightarrow> string" where
  "hostname c = (if cfg_Hostname c = [] then cfg_DomainName c else cfg_Hostname c)"

definition domainDiskName :: "MachineConfig \<Rightarrow> string" where
  "domainDiskName c = cfg_DomainName c @ ''.qcow2''"

definition isoDiskName :: "MachineConfig \<Rightarrow> string" where
  "isoDiskName c = ''cloudinit-'' @ cfg_DomainName c @ ''.iso''"

definition memoryMiB :: "MachineConfig \<Rightarrow> u64" where
  "memoryMiB c = (if cfg_MemoryMiB c = 0 then DefaultMemoryMiB else cfg_MemoryMiB c)"

definition vCPU :: "MachineConfig \<Rightarrow> u64" where
  "vCPU c = (if cfg_VCPU c = 0 then DefaultCPU else cfg_VCPU c)"

definition diskSizeGiB :: "MachineConfig \<Rightarrow> u64" where
  "diskSizeGiB c = (if cfg_DiskSize c = 0 then DefaultVolumeCapacityGiB else cfg_DiskSize c)"

definition cfg_domainName :: "MachineConfig \<Rightarrow> string" where
  [simp]: "cfg_domainName c = cfg_DomainName c"

definition networkName :: "'a InfraConfig_scheme \<Rightarrow> string" where
  [simp]: "networkName c = cfg_Network c"

definition basePoolName :: "'a InfraConfig_scheme \<Rightarrow> string" where
  [simp]: "basePoolName c = cfg_BasePool c"

definition domainPoolName :: "'a InfraConfig_scheme \<Rightarrow> string" where
  [simp]: "domainPoolName c = cfg_DomainPool c"

abbreviation infra_of :: "MachineConfig \<Rightarrow> InfraConfig" where
  "infra_of c \<equiv> InfraConfig.truncate c"

section \<open>Connecting\<close>

definition openConnection :: "'w env \<Rightarrow> string \<Rightarrow> ('w, Connect) act" where
  "openConnection E uri =
     tryE (NewConnect (env_lv E) uri) (Wrapf ''connect to libvirt: %w'' []) ret"

definition connect :: "'w env \<Rightarrow> InfraConfig \<Rightarrow> ('w, Connect) act" where
  "connect E cfg =
     (case cfg_Credentials cfg of
        None \<Rightarrow> openConnection E (cfg_URI cfg)
      | Some creds \<Rightarrow>
          tryE (os_MkdirTemp (env_os E) [] credentialsDirPattern) (Wrapf ''create credentials dir: %w'' []) (\<lambda>dir.
          deferE (os_RemoveAll (env_os E) dir) (
          tryE (connectionURI (env_os E) creds (cfg_URI cfg) dir) id (\<lambda>uri.
          openConnection E uri))))"

end
