(* ===== verification/Infra.thy ===== *)
theory Infra
  imports Config
begin

text \<open>
  \<^verbatim>\<open>internal/libvirtclient/infra.go\<close>: the checks that the network and the storage pools a cluster refers
  to exist and are active.
\<close>

definition InfraKindStoragePool :: string where "InfraKindStoragePool = ''storagePool''"
definition InfraKindNetwork :: string where "InfraKindNetwork = ''network''"

definition isLibvirtErr :: "goerror \<Rightarrow> ErrorNumber \<Rightarrow> bool" where
  "isLibvirtErr err code \<longleftrightarrow> errors_As as_LibvirtError err = Some code"

definition infraCheckError :: "string \<Rightarrow> string \<Rightarrow> bool \<Rightarrow> bool \<Rightarrow> goerror option" where
  "infraCheckError kind name exists active =
     (if \<not> exists then Some (ErrInfraMissing kind name)
      else if \<not> active then Some (ErrInfraInactive kind name)
      else None)"

text \<open>\<^verbatim>\<open>return err\<close> with an error that may be nil.\<close>

definition return_err :: "goerror option \<Rightarrow> ('w, unit) act" where
  "return_err err = (case err of None \<Rightarrow> ret () | Some e \<Rightarrow> throw e)"

definition networkExists :: "'w libvirt \<Rightarrow> Connect \<Rightarrow> string \<Rightarrow> ('w, bool) act" where
  "networkExists lv conn name =
     catchE (LookupNetworkByName lv conn name)
       (\<lambda>err. if isLibvirtErr err ERR_NO_NETWORK then ret False
              else throw (Wrapf ''lookup network %s: %w'' [name] err))
       (\<lambda>net. deferE (Network_Free lv net) (ret True))"

definition isNetworkActive :: "'w libvirt \<Rightarrow> Connect \<Rightarrow> string \<Rightarrow> ('w, bool) act" where
  "isNetworkActive lv conn name =
     tryE (LookupNetworkByName lv conn name) (Wrapf ''lookup network %s: %w'' [name]) (\<lambda>net.
     deferE (Network_Free lv net) (
     tryE (Network_IsActive lv net) (Wrapf ''check network active %q: %w'' [name]) ret))"

definition storagePoolExists :: "'w libvirt \<Rightarrow> Connect \<Rightarrow> string \<Rightarrow> ('w, bool) act" where
  "storagePoolExists lv conn name =
     catchE (LookupStoragePoolByName lv conn name)
       (\<lambda>err. if isLibvirtErr err ERR_NO_STORAGE_POOL then ret False
              else throw (Wrapf ''lookup storage-pool %s: %w'' [name] err))
       (\<lambda>pool. deferE (Pool_Free lv pool) (ret True))"

definition isStoragePoolActive :: "'w libvirt \<Rightarrow> Connect \<Rightarrow> string \<Rightarrow> ('w, bool) act" where
  "isStoragePoolActive lv conn name =
     tryE (LookupStoragePoolByName lv conn name) (Wrapf ''lookup storage-pool %s: %w'' [name]) (\<lambda>pool.
     deferE (Pool_Free lv pool) (
     tryE (Pool_IsActive lv pool) (Wrapf ''check storage pool active %q: %w'' [name]) ret))"

definition ensureNetwork :: "'w libvirt \<Rightarrow> Connect \<Rightarrow> string \<Rightarrow> ('w, unit) act" where
  "ensureNetwork lv conn name =
     tryE (networkExists lv conn name) id (\<lambda>netExists.
     tryE (isNetworkActive lv conn name) id (\<lambda>netActive.
     return_err (infraCheckError InfraKindNetwork name netExists netActive)))"

definition ensureBasePool :: "'w libvirt \<Rightarrow> Connect \<Rightarrow> string \<Rightarrow> ('w, unit) act" where
  "ensureBasePool lv conn name =
     tryE (storagePoolExists lv conn name) id (\<lambda>basePoolExists.
     tryE (isStoragePoolActive lv conn name) id (\<lambda>basePoolActive.
     return_err (infraCheckError InfraKindStoragePool name basePoolExists basePoolActive)))"

definition ensureDomainPool :: "'w libvirt \<Rightarrow> Connect \<Rightarrow> string \<Rightarrow> ('w, unit) act" where
  "ensureDomainPool lv conn name =
     tryE (storagePoolExists lv conn name) id (\<lambda>domainPoolExists.
     tryE (isStoragePoolActive lv conn name) id (\<lambda>domainPoolActive.
     return_err (infraCheckError InfraKindStoragePool name domainPoolExists domainPoolActive)))"

end
