(* ===== verification/CloudInit.thy ===== *)
theory CloudInit
  imports Config
begin

text \<open>
  \<^verbatim>\<open>internal/libvirtclient/cloudinit.go\<close>: writing the NoCloud ISO image of a machine.
\<close>

definition userDataFileName :: string where "userDataFileName = ''user-data''"
definition metaDataFileName :: string where "metaDataFileName = ''meta-data''"
definition isoLabel :: string where "isoLabel = ''cidata''"
definition isoDiskSize :: int where "isoDiskSize = 10 * 1024 * 1024"
definition isoLogicalBlockSize :: int where "isoLogicalBlockSize = 2048"

text \<open>The flags \<^verbatim>\<open>os.O_CREATE|os.O_WRONLY\<close> on Linux.\<close>

definition O_CREATE_WRONLY :: nat where "O_CREATE_WRONLY = 65"

text \<open>The document \<^verbatim>\<open>cloudInitMetaData\<close>, by its JSON field names.\<close>

definition cloudInitMetaData :: "string \<Rightarrow> string \<Rightarrow> (string \<times> string) list" where
  "cloudInitMetaData InstanceID LocalHostname =
     [(''instance-id'', InstanceID), (''local-hostname'', LocalHostname)]"

text \<open>\<^verbatim>\<open>return errors.Join(err, f())\<close>, where \<open>err\<close> is not nil.\<close>

definition throw_joined :: "goerror \<Rightarrow> ('w, unit) act \<Rightarrow> ('w, 'b) act" where
  "throw_joined err f =
     catchE f (\<lambda>e. throw (Joined [err, e])) (\<lambda>_. throw (Joined [err]))"

definition writeISOFile :: "'w diskfs \<Rightarrow> FileSystem \<Rightarrow> string \<Rightarrow> bytes \<Rightarrow> ('w, unit) act" where
  "writeISOFile dfs fs name dat =
     tryE (Fs_OpenFile dfs fs name O_CREATE_WRONLY) (Wrapf ''open cloud-init %s file: %w'' [name]) (\<lambda>f.
     catchE (FsFile_Write dfs f dat)
       (\<lambda>err. throw_joined (Wrapf ''write cloud-init %s: %w'' [name] err) (FsFile_Close dfs f))
       (\<lambda>_.
     tryE (FsFile_Close dfs f) (Wrapf ''close cloud-init %s file: %w'' [name]) (\<lambda>_.
     ret ())))"

definition populateISO :: "'w diskfs \<Rightarrow> FileSystem \<Rightarrow> bytes \<Rightarrow> bytes \<Rightarrow> ('w, unit) act" where
  "populateISO dfs fs userData metaData =
     tryE (writeISOFile dfs fs userDataFileName userData) id (\<lambda>_.
     tryE (writeISOFile dfs fs metaDataFileName metaData) id (\<lambda>_.
     case fs of
       OtherFS _ \<Rightarrow> throw (Errorf ''not an iso9660 filesystem'' [])
     | Iso9660FS isoFS \<Rightarrow>
         tryE (Iso_Finalize dfs isoFS \<lparr>fin_VolumeIdentifier = isoLabel, fin_RockRidge = True\<rparr>)
           (Wrapf ''finalize ISO: %w'' []) (\<lambda>_.
         ret ())))"

text \<open>
  The deferred function of \<^verbatim>\<open>buildCloudInitISO\<close>: it closes the disk and joins a close error to the
  named result.
\<close>

definition defer_close :: "('w, unit) act \<Rightarrow> ('w, unit) act \<Rightarrow> ('w, unit) act" where
  "defer_close close m =
     catchE m
       (\<lambda>err. catchE close (\<lambda>closeErr. throw (Joined [err, Wrapf ''close ISO disk: %w'' [] closeErr])) (\<lambda>_. throw err))
       (\<lambda>_. catchE close (\<lambda>closeErr. throw (Joined [Wrapf ''close ISO disk: %w'' [] closeErr])) ret)"

definition buildCloudInitISO :: "'w env \<Rightarrow> string \<Rightarrow> MachineConfig \<Rightarrow> ('w, unit) act" where
  "buildCloudInitISO E isoPath cfg =
     (let dfs = env_fs E in
     tryE (pureE (Some (yaml_Marshal E (cloudInitMetaData (instanceID cfg) (hostname cfg)))))
       (Wrapf ''marshal cloud-init meta-data: %w'' []) (\<lambda>metadata.
     tryE (diskfs_Create dfs isoPath isoDiskSize (SectorSizeDefault dfs)) (Wrapf ''create ISO disk: %w'' []) (\<lambda>cloudDisk0.
     defer_close (Disk_Close dfs cloudDisk0) (
     let cloudDisk = cloudDisk0\<lparr>disk_LogicalBlocksize := isoLogicalBlockSize\<rparr> in
     tryE (Disk_CreateFilesystem dfs cloudDisk \<lparr>spec_Partition = 0, spec_FSType = TypeISO9660\<rparr>)
       (Wrapf ''create ISO filesystem: %w'' []) (\<lambda>fs.
     catchE (populateISO dfs fs (cfg_UserData cfg) metadata)
       (\<lambda>err. throw_joined err (Fs_Close dfs fs))
       (\<lambda>_.
     tryE (Fs_Close dfs fs) (Wrapf ''close ISO filesystem: %w'' []) (\<lambda>_.
     ret ())))))))"

definition copyFile :: "'w os_api \<Rightarrow> string \<Rightarrow> ('w, bytes) act" where
  "copyFile os path =
     tryE (os_Open os path) (Wrapf ''open iso file: %w'' []) (\<lambda>src.
     deferE (OsFile_Close os src) (
     tryE (io_Copy os src) (Wrapf ''copy ISO data: %w'' []) ret))"

text \<open>\<^verbatim>\<open>writeCloudInitISO\<close> into an empty buffer, whose contents are the result.\<close>

definition writeCloudInitISO :: "'w env \<Rightarrow> MachineConfig \<Rightarrow> ('w, bytes) act" where
  "writeCloudInitISO E cfg =
     tryE (os_MkdirTemp (env_os E) [] ''iso-*'') (Wrapf ''create temporary dir for ISO file: %w'' []) (\<lambda>tmpDir.
     deferE (os_RemoveAll (env_os E) tmpDir) (
     let isoPath = filepath_Join tmpDir (isoDiskName cfg) in
     tryE (buildCloudInitISO E isoPath cfg) id (\<lambda>_.
     copyFile (env_os E) isoPath)))"

end
