(* ===== verification/Volume.thy ===== *)
theory Volume
  imports Infra CloudInit
begin

text \<open>
  \<^verbatim>\<open>internal/libvirtclient/volume.go\<close>: the root disk and the cloud-init volume of a machine.
\<close>

definition isVolumeNotFound :: "goerror \<Rightarrow> bool" where
  "isVolumeNotFound err =
     (case errors_As as_LibvirtError err of
        Some code \<Rightarrow> code = ERR_NO_STORAGE_VOL
      | None \<Rightarrow> False)"

definition getVolumePath :: "'w libvirt \<Rightarrow> StoragePool \<Rightarrow> string \<Rightarrow> ('w, string) act" where
  "getVolumePath lv pool volumeName =
     catchE (LookupStorageVolByName lv pool volumeName)
       (\<lambda>err. if isVolumeNotFound err then ret [] else throw err)
       (\<lambda>vol.
     deferE (Vol_Free lv vol) (
     tryE (Vol_GetPath lv vol) (Wrapf ''get volume path for %s: %w'' [volumeName]) ret))"

definition createVolume :: "'w libvirt \<Rightarrow> StoragePool \<Rightarrow> string \<Rightarrow> ('w, string) act" where
  "createVolume lv pool volumeXML =
     tryE (StorageVolCreateXML lv pool volumeXML 0) (Wrapf ''create disk volume: %w'' []) (\<lambda>vol.
     deferE (Vol_Free lv vol) (
     tryE (Vol_GetPath lv vol) (Wrapf ''get VM disk path: %w'' []) ret))"

definition root_disk_doc :: "MachineConfig \<Rightarrow> string \<Rightarrow> StorageVolume" where
  "root_disk_doc cfg baseImagePath =
     WithBackingStore baseImagePath DefaultVolumeFormat
       (WithCapacity (diskSizeGiB cfg) ''G''
          (NewVolume (domainDiskName cfg)))"

definition createRootDisk :: "'w env \<Rightarrow> StoragePool \<Rightarrow> StoragePool \<Rightarrow> MachineConfig \<Rightarrow> ('w, string) act" where
  "createRootDisk E basePool domainPool cfg =
     (let lv = env_lv E in
     tryE (getVolumePath lv domainPool (domainDiskName cfg)) id (\<lambda>volumePath.
     if volumePath \<noteq> [] then ret volumePath
     else
       tryE (getVolumePath lv basePool (cfg_BaseImage cfg)) id (\<lambda>baseImagePath.
       if baseImagePath = [] then throw (Errorf ''base image %q not found'' [cfg_BaseImage cfg])
       else
         tryE (pureE (Some (StorageVolume_Marshal (env_lx E) (root_disk_doc cfg baseImagePath))))
           (Wrapf ''marshal volume XML: %w'' []) (\<lambda>volumeXML.
         tryE (createVolume lv domainPool volumeXML) (Wrapf ''create root disk: %w'' []) ret))))"

text \<open>
  The callback of \<^verbatim>\<open>SendAll\<close>, on the unread part of the buffer: \<^verbatim>\<open>bytes.Reader.Read\<close> into \<open>n\<close> bytes gives
  what it read, and end of file is the empty answer.
\<close>

definition send_handler :: "nat \<Rightarrow> bytes \<Rightarrow> (goerror + bytes) \<times> bytes" where
  "send_handler n unread =
     (if unread = [] then (Inr [], [])
      else (Inr (take n unread), drop n unread))"

definition storageVolUpload :: "'w libvirt \<Rightarrow> Connect \<Rightarrow> bytes \<Rightarrow> StorageVol \<Rightarrow> ('w, unit) act" where
  "storageVolUpload lv conn buff vol =
     tryE (NewStream lv conn 0) (Wrapf ''create new stream: %w'' []) (\<lambda>stream.
     deferE (Stream_Free lv stream) (
     tryE (Vol_Upload lv vol stream 0 (length buff) 0) (Wrapf ''start volume upload: %w'' []) (\<lambda>_.
     catchE (Stream_SendAll lv stream send_handler buff)
       (\<lambda>err. deferE (Stream_Abort lv stream) (throw (Wrapf ''send volume data: %w'' [] err)))
       (\<lambda>_.
     tryE (Stream_Finish lv stream) (Wrapf ''finish volume upload: %w'' []) (\<lambda>_.
     ret ())))))"

definition iso_disk_doc :: "MachineConfig \<Rightarrow> nat \<Rightarrow> StorageVolume" where
  "iso_disk_doc cfg len =
     WithRawType (WithCapacity (of_nat len) ''bytes'' (NewVolume (isoDiskName cfg)))"

definition createISODisk :: "'w env \<Rightarrow> Connect \<Rightarrow> StoragePool \<Rightarrow> MachineConfig \<Rightarrow> ('w, string) act" where
  "createISODisk E conn domainPool cfg =
     (let lv = env_lv E in
     tryE (getVolumePath lv domainPool (isoDiskName cfg)) id (\<lambda>volumePath.
     if volumePath \<noteq> [] then ret volumePath
     else
       tryE (writeCloudInitISO E cfg) (Wrapf ''write cloud-init iso: %w'' []) (\<lambda>buff.
       tryE (pureE (Some (StorageVolume_Marshal (env_lx E) (iso_disk_doc cfg (length buff)))))
         (Wrapf ''marshal volume XML: %w'' []) (\<lambda>volumeXML.
       tryE (createVolume lv domainPool volumeXML) (Wrapf ''create cloudinit disk: %w'' []) (\<lambda>volumePath.
       tryE (LookupStorageVolByName lv domainPool (isoDiskName cfg)) id (\<lambda>vol.
       deferE (Vol_Free lv vol) (
       tryE (storageVolUpload lv conn buff vol) (Wrapf ''upload data to volume: %w'' []) (\<lambda>_.
       ret volumePath))))))))"

definition deleteVolume :: "'w libvirt \<Rightarrow> Connect \<Rightarrow> string \<Rightarrow> string \<Rightarrow> ('w, unit) act" where
  "deleteVolume lv conn poolName volumeName =
     catchE (LookupStoragePoolByName lv conn poolName)
       (\<lambda>err. if isLibvirtErr err ERR_NO_STORAGE_POOL then ret ()
              else throw (Wrapf ''lookup storage-pool %s: %w'' [poolName] err))
       (\<lambda>pool.
     deferE (Pool_Free lv pool) (
     catchE (LookupStorageVolByName lv pool volumeName)
       (\<lambda>err. if isVolumeNotFound err then ret ()
              else throw (Wrapf ''lookup volume %s in pool %s: %w'' [volumeName, poolName] err))
       (\<lambda>vol.
     deferE (Vol_Free lv vol) (
     tryE (Vol_Delete lv vol 0) (Wrapf ''delete volume %s from pool %s: %w'' [volumeName, poolName]) (\<lambda>_.
     ret ())))))"

end
