(* ===== verification/MachineNetwork.thy ===== *)
theory MachineNetwork
  imports GoStd LibvirtAPI
begin

text \<open>
  \<^verbatim>\<open>internal/libvirtclient/machine_network.go\<close>: the hardware address of a domain, the choice of an address
  for it, the static DHCP host entry that binds the two, and the lookup of its lease.
\<close>

section \<open>Hardware addresses\<close>

definition machineReservationBlockSize :: nat where
  "machineReservationBlockSize = 200"

definition hashDomainName :: "string \<Rightarrow> u64" where
  "hashDomainName domainName = fnv64a domainName"

definition deriveDomainMAC :: "string \<Rightarrow> string" where
  "deriveDomainMAC domainName =
     (let sum = fnv64a domainName;
          mac = [0x52, 0x54, 0x00, ucast sum, ucast (drop_bit 8 sum), ucast (drop_bit 16 sum)]
      in HardwareAddr_String mac)"

section \<open>Host entries and leases\<close>

fun hostEntryInNetwork_loop :: "NetworkIP list \<Rightarrow> string \<Rightarrow> NetworkDHCPHost option" where
  "hostEntryInNetwork_loop [] mac = None"
| "hostEntryInNetwork_loop (ip # ips) mac =
     (case ip_DHCP ip of
        None \<Rightarrow> hostEntryInNetwork_loop ips mac
      | Some dhcp \<Rightarrow>
          (case find (\<lambda>host. strings_EqualFold (host_MAC host) mac) (dhcp_Hosts dhcp) of
             Some host \<Rightarrow> Some host
           | None \<Rightarrow> hostEntryInNetwork_loop ips mac))"

definition hostEntryInNetwork :: "Network \<Rightarrow> string \<Rightarrow> NetworkDHCPHost option" where
  "hostEntryInNetwork network mac = hostEntryInNetwork_loop (net_IPs network) mac"

fun hostIPSet_hosts :: "NetworkDHCPHost list \<Rightarrow> (string \<rightharpoonup> string) \<Rightarrow> (string \<rightharpoonup> string)" where
  "hostIPSet_hosts [] m = m"
| "hostIPSet_hosts (host # hosts) m =
     (if host_IP host = [] then hostIPSet_hosts hosts m
      else hostIPSet_hosts hosts (m(host_IP host \<mapsto> host_MAC host)))"

fun hostIPSet_loop :: "NetworkIP list \<Rightarrow> (string \<rightharpoonup> string) \<Rightarrow> (string \<rightharpoonup> string)" where
  "hostIPSet_loop [] m = m"
| "hostIPSet_loop (ip # ips) m =
     (case ip_DHCP ip of
        None \<Rightarrow> hostIPSet_loop ips m
      | Some dhcp \<Rightarrow> hostIPSet_loop ips (hostIPSet_hosts (dhcp_Hosts dhcp) m))"

definition hostIPSet :: "Network \<Rightarrow> (string \<rightharpoonup> string)" where
  "hostIPSet network = hostIPSet_loop (net_IPs network) Map.empty"

fun leaseAddressForMac :: "NetworkDHCPLease list \<Rightarrow> string \<Rightarrow> string" where
  "leaseAddressForMac [] mac = []"
| "leaseAddressForMac (lease # leases) mac =
     (if strings_EqualFold (lease_Mac lease) mac \<and> lease_IPaddr lease \<noteq> [] then lease_IPaddr lease
      else leaseAddressForMac leases mac)"

section \<open>Candidate addresses\<close>

definition formatIPv4 :: "u32 \<Rightarrow> string" where
  "formatIPv4 ipNum = IPv4_String (BigEndian_PutUint32 ipNum)"

text \<open>The \<^verbatim>\<open>IP\<close> and \<^verbatim>\<open>Mask\<close> of a \<^verbatim>\<open>net.IPNet\<close>.\<close>

record IPNet =
  ipnet_IP :: bytes
  ipnet_Mask :: bytes

definition parseSubnet :: "string \<Rightarrow> string \<Rightarrow> goerror + IPNet" where
  "parseSubnet address netmask =
     (case net_ParseIP address of
        None \<Rightarrow> Inl (Errorf ''parse network address %q: invalid IP'' [address])
      | Some ip \<Rightarrow>
          (case net_ParseIP netmask of
             None \<Rightarrow> Inl (Errorf ''parse netmask %q: invalid IP'' [netmask])
           | Some maskIP \<Rightarrow>
               (case (IP_To4 ip, IP_To4 maskIP) of
                  (Some ip4, Some mask4) \<Rightarrow>
                    Inr \<lparr>ipnet_IP = IP_Mask ip4 mask4, ipnet_Mask = mask4\<rparr>
                | _ \<Rightarrow> Inl (Errorf ''network address %q or netmask %q is not IPv4'' [address, netmask]))))"

fun firstDHCPRange_loop :: "NetworkDHCPRange list \<Rightarrow> (u32 \<times> u32) option" where
  "firstDHCPRange_loop [] = None"
| "firstDHCPRange_loop (rng # rngs) =
     (case (net_ParseIP (range_Start rng), net_ParseIP (range_End rng)) of
        (Some s, Some e) \<Rightarrow>
          (case (IP_To4 s, IP_To4 e) of
             (Some s4, Some e4) \<Rightarrow> Some (BigEndian_Uint32 s4, BigEndian_Uint32 e4)
           | _ \<Rightarrow> firstDHCPRange_loop rngs)
      | _ \<Rightarrow> firstDHCPRange_loop rngs)"

definition firstDHCPRange :: "NetworkDHCP \<Rightarrow> (u32 \<times> u32) option" where
  "firstDHCPRange dhcp = firstDHCPRange_loop (dhcp_Ranges dhcp)"

text \<open>
  \<^verbatim>\<open>for i := first; i <= last; i++ { block = append(block, i) }\<close> on \<^verbatim>\<open>uint32\<close>: the increment wraps, so the
  loop need not end, and \<^term>\<open>None\<close> is a loop that never does.
\<close>

partial_function (option) count_up :: "u32 \<Rightarrow> u32 \<Rightarrow> u32 list \<Rightarrow> u32 list option" where
  "count_up i last_i block =
     (if i \<le> last_i then count_up (i + 1) last_i (block @ [i]) else Some block)"

definition rangeCandidates :: "u32 \<Rightarrow> u32 \<Rightarrow> (goerror + u32 list) option" where
  "rangeCandidates start stop =
     (if stop < start then Some (Inl (Errorf ''DHCP range end is below start'' []))
      else map_option Inr (count_up start stop []))"

definition subnetTailCandidates :: "IPNet \<Rightarrow> nat \<Rightarrow> (goerror + u32 list) option" where
  "subnetTailCandidates ipNet sz =
     (case IP_To4 (ipnet_IP ipNet) of
        None \<Rightarrow> Some (Inl (Errorf ''network subnet %s is not IPv4'' []))
      | Some ip4 \<Rightarrow>
          let hostMask = NOT (BigEndian_Uint32 (ipnet_Mask ipNet));
              hostCount = (ucast (hostMask + 1) :: u64)
          in if hostCount \<le> 2 then Some (Inl (Errorf ''subnet %s has no usable host addresses'' []))
             else
               let usableCount = hostCount - 2;
                   n = min (int sz) (sint usableCount);
                   networkNum = BigEndian_Uint32 ip4;
                   lastHost = networkNum + ucast usableCount;
                   first = lastHost - of_int (n - 1)
               in map_option Inr (count_up first lastHost []))"

definition allocationCandidates :: "Network \<Rightarrow> (goerror + u32 list) option" where
  "allocationCandidates network =
     (case find (\<lambda>ip. ip_Family ip = ''inet'') (net_IPs network) of
        None \<Rightarrow> Some (Inl (Errorf ''network has no IPv4 subnet'' []))
      | Some ip \<Rightarrow>
          (case parseSubnet (ip_Address ip) (ip_Netmask ip) of
             Inl e \<Rightarrow> Some (Inl e)
           | Inr ipNet \<Rightarrow>
               (case Option.bind (ip_DHCP ip) firstDHCPRange of
                  Some (start, stop) \<Rightarrow> rangeCandidates start stop
                | None \<Rightarrow> subnetTailCandidates ipNet machineReservationBlockSize)))"

section \<open>Allocation\<close>

text \<open>The search of \<^verbatim>\<open>allocateMachineIPIn\<close>, over the loop counters \<open>is\<close>.\<close>

fun allocate_loop ::
  "u32 list \<Rightarrow> (string \<rightharpoonup> string) \<Rightarrow> nat \<Rightarrow> string \<Rightarrow> nat list \<Rightarrow> string option" where
  "allocate_loop candidates taken offset mac [] = None"
| "allocate_loop candidates taken offset mac (i # is) =
     (let cand = candidates ! ((offset + i) mod length candidates);
          ip = formatIPv4 cand
      in case taken ip of
           None \<Rightarrow> Some ip
         | Some owner \<Rightarrow>
             if strings_EqualFold owner mac then Some ip
             else allocate_loop candidates taken offset mac is)"

definition allocateMachineIPIn :: "Network \<Rightarrow> string \<Rightarrow> string \<Rightarrow> (goerror + string) option" where
  "allocateMachineIPIn network domainName mac =
     (case allocationCandidates network of
        None \<Rightarrow> None
      | Some (Inl e) \<Rightarrow> Some (Inl e)
      | Some (Inr candidates) \<Rightarrow>
          if length candidates = 0
          then Some (Inl (Errorf ''network has no usable addresses for machine reservation'' []))
          else
            let taken = hostIPSet network;
                offset = unat (hashDomainName domainName mod of_nat (length candidates))
            in (case allocate_loop candidates taken offset mac [0..<length candidates] of
                  Some ip \<Rightarrow> Some (Inr ip)
                | None \<Rightarrow>
                    Some (Inl (Errorf
                      ''no free address in the machine reservation block of the network (name %s)''
                      [domainName]))))"

section \<open>Reservation\<close>

definition machineHostXML :: "libvirtxml \<Rightarrow> string \<Rightarrow> string \<Rightarrow> string \<Rightarrow> goerror + string" where
  "machineHostXML lx domainName mac ip =
     NetworkDHCPHost_Marshal lx \<lparr>host_MAC = mac, host_Name = domainName, host_IP = ip\<rparr>"

definition planHostUpdate ::
  "libvirtxml \<Rightarrow> Network \<Rightarrow> string \<Rightarrow> string
     \<Rightarrow> (goerror + (string \<times> string \<times> NetworkUpdateCommand \<times> bool)) option" where
  "planHostUpdate lx network domainName mac =
     (case allocateMachineIPIn network domainName mac of
        None \<Rightarrow> None
      | Some (Inl e) \<Rightarrow> Some (Inl e)
      | Some (Inr ip) \<Rightarrow>
          let existing = hostEntryInNetwork network mac
          in if (case existing of
                   None \<Rightarrow> False
                 | Some host \<Rightarrow> host_IP host \<noteq> [] \<and> strings_EqualFold (host_IP host) ip)
             then Some (Inr (ip, [], NETWORK_UPDATE_COMMAND_NONE, False))
             else
               (case machineHostXML lx domainName mac ip of
                  Inl e \<Rightarrow> Some (Inl (Wrapf ''marshal DHCP host entry for %s: %w'' [domainName] e))
                | Inr xml \<Rightarrow>
                    let cmd = (if existing \<noteq> None then NETWORK_UPDATE_COMMAND_MODIFY
                               else NETWORK_UPDATE_COMMAND_ADD_LAST)
                    in Some (Inr (ip, xml, cmd, True))))"

definition networkXML :: "libvirtxml \<Rightarrow> 'w networkOperations \<Rightarrow> ('w, Network) act" where
  "networkXML lx n =
     tryE (GetXMLDesc n 0) (Wrapf ''get network XML: %w'' []) (\<lambda>xmlDesc.
     tryE (pureE (Some (Network_Unmarshal lx xmlDesc))) (Wrapf ''parse network XML: %w'' []) (\<lambda>network.
     ret network))"

definition reserveMachineIP ::
  "libvirtxml \<Rightarrow> 'w networkOperations \<Rightarrow> string \<Rightarrow> string \<Rightarrow> string \<Rightarrow> ('w, string) act" where
  "reserveMachineIP lx n netName domainName mac =
     tryE (networkXML lx n) id (\<lambda>network.
     tryE (pureE (planHostUpdate lx network domainName mac)) id (\<lambda>(ip, xml, cmd, doUpdate).
     if \<not> doUpdate then ret ip
     else
       tryE (Update n cmd NETWORK_SECTION_IP_DHCP_HOST 0 xml 0)
         (Wrapf ''update DHCP host entry for %s on network %s: %w'' [domainName, netName]) (\<lambda>_.
       ret ip)))"

definition releaseMachineIP ::
  "libvirtxml \<Rightarrow> 'w networkOperations \<Rightarrow> string \<Rightarrow> string \<Rightarrow> string \<Rightarrow> ('w, unit) act" where
  "releaseMachineIP lx n netName domainName mac =
     tryE (networkXML lx n) id (\<lambda>network.
     case hostEntryInNetwork network mac of
       None \<Rightarrow> ret ()
     | Some existing \<Rightarrow>
         tryE (pureE (Some (machineHostXML lx domainName mac (host_IP existing))))
           (Wrapf ''marshal DHCP host entry for %s: %w'' [domainName]) (\<lambda>xml.
         tryE (Update n NETWORK_UPDATE_COMMAND_DELETE NETWORK_SECTION_IP_DHCP_HOST 0 xml 0)
           (Wrapf ''remove DHCP host entry for %s on network %s: %w'' [domainName, netName]) (\<lambda>_.
         ret ())))"

definition machineAddress :: "'w networkOperations \<Rightarrow> string \<Rightarrow> string \<Rightarrow> ('w, string) act" where
  "machineAddress n netName mac =
     tryE (GetDHCPLeases n) (Wrapf ''get DHCP leases of network %s: %w'' [netName]) (\<lambda>leases.
     ret (leaseAddressForMac leases mac))"

section \<open>Host entries as one list\<close>

definition ip_hosts :: "NetworkIP \<Rightarrow> NetworkDHCPHost list" where
  "ip_hosts ip = (case ip_DHCP ip of None \<Rightarrow> [] | Some dhcp \<Rightarrow> dhcp_Hosts dhcp)"

definition hosts_of :: "Network \<Rightarrow> NetworkDHCPHost list" where
  "hosts_of network = concat (map ip_hosts (net_IPs network))"

lemma hostEntryInNetwork_eq:
  "hostEntryInNetwork network mac = find (\<lambda>h. strings_EqualFold (host_MAC h) mac) (hosts_of network)"
proof -
  have "hostEntryInNetwork_loop ips mac
      = find (\<lambda>h. strings_EqualFold (host_MAC h) mac) (concat (map ip_hosts ips))" for ips
    by (induction ips) (auto simp: ip_hosts_def find_append split: option.splits)
  then show ?thesis by (simp add: hostEntryInNetwork_def hosts_of_def)
qed

lemma hostIPSet_hosts_append:
  "hostIPSet_hosts (xs @ ys) m = hostIPSet_hosts ys (hostIPSet_hosts xs m)"
  by (induction xs arbitrary: m) simp_all

lemma hostIPSet_eq: "hostIPSet network = hostIPSet_hosts (hosts_of network) Map.empty"
proof -
  have "hostIPSet_loop ips m = hostIPSet_hosts (concat (map ip_hosts ips)) m" for ips m
    by (induction ips arbitrary: m)
       (auto simp: ip_hosts_def hostIPSet_hosts_append split: option.splits)
  then show ?thesis by (simp add: hostIPSet_def hosts_of_def)
qed

text \<open>The map holds, for an address, the hardware address of the last entry with it.\<close>

definition bindings :: "NetworkDHCPHost list \<Rightarrow> (string \<times> string) list" where
  "bindings hs = map (\<lambda>h. (host_IP h, host_MAC h)) (filter (\<lambda>h. host_IP h \<noteq> []) hs)"

lemma hostIPSet_hosts_map_of: "hostIPSet_hosts hs m = m ++ map_of (rev (bindings hs))"
  by (induction hs arbitrary: m) (simp_all add: bindings_def)

lemma hostIPSet_Some:
  "hostIPSet network ip = Some mac \<Longrightarrow>
   ip \<noteq> [] \<and> (\<exists>h \<in> set (hosts_of network). host_IP h = ip \<and> host_MAC h = mac)"
  by (auto simp: hostIPSet_eq hostIPSet_hosts_map_of bindings_def dest!: map_of_SomeD)

lemma hostIPSet_None:
  "hostIPSet network ip = None \<longleftrightarrow> (\<forall>h \<in> set (hosts_of network). host_IP h = ip \<longrightarrow> ip = [])"
  by (simp add: hostIPSet_eq hostIPSet_hosts_map_of bindings_def map_of_eq_None_iff image_image)
     blast

section \<open>The counting loop\<close>

lemma count_up_max: "count_up i (- 1) block = None"
proof (rule ccontr)
  assume "count_up i (- 1) block \<noteq> None"
  then obtain r where r: "count_up i (- 1) block = Some r" by auto
  have "(- 1 :: u32) \<noteq> - 1"
  proof (rule count_up.raw_induct [where P = "\<lambda>i l b r. l \<noteq> - 1", OF _ r])
    fix f :: "u32 \<Rightarrow> u32 \<Rightarrow> u32 list \<Rightarrow> u32 list option" and i l b r
    assume IH: "\<And>i l b r. f i l b = Some r \<Longrightarrow> l \<noteq> - 1"
      and eq: "(if i \<le> l then f (i + 1) l (b @ [i]) else Some b) = Some r"
    show "l \<noteq> - 1" using eq IH by (auto split: if_splits)
  qed
  then show False by simp
qed

lemma count_up_interval:
  assumes "l \<noteq> - 1"
  shows "count_up i l block = Some (block @ map of_nat [unat i..<Suc (unat l)])"
proof (induction "Suc (unat l) - unat i" arbitrary: i block)
  case 0
  then have "\<not> i \<le> l" by (simp add: word_le_nat_alt)
  with 0 show ?case by (simp add: count_up.simps)
next
  case (Suc n)
  then have le: "i \<le> l" by (simp add: word_le_nat_alt)
  have nmax: "i \<noteq> - 1" using le assms by (auto simp: word_order.extremum_unique)
  then have s: "unat (i + 1) = Suc (unat i)"
    by (rule unat_plus_one)
  have "count_up i l block = count_up (i + 1) l (block @ [i])"
    using le by (simp add: count_up.simps)
  also have "\<dots> = Some ((block @ [i]) @ map of_nat [unat (i + 1)..<Suc (unat l)])"
    using Suc by (intro Suc.hyps(1)) (simp add: s)
  also have "\<dots> = Some (block @ map of_nat [unat i..<Suc (unat l)])"
    using le by (simp add: s upt_conv_Cons [of "unat i"] word_le_nat_alt del: upt_Suc)
  finally show ?case .
qed

section \<open>Rotation\<close>

definition free_for :: "(string \<rightharpoonup> string) \<Rightarrow> string \<Rightarrow> u32 \<Rightarrow> bool" where
  "free_for taken mac cand \<longleftrightarrow>
     (case taken (formatIPv4 cand) of None \<Rightarrow> True | Some owner \<Rightarrow> strings_EqualFold owner mac)"

lemma allocate_loop_find:
  "allocate_loop cands taken off mac js
     = map_option formatIPv4 (find (free_for taken mac) (map (\<lambda>i. cands ! ((off + i) mod length cands)) js))"
  by (induction js) (auto simp: free_for_def Let_def split: option.splits)

lemma map_nth_rotate: "map (\<lambda>i. xs ! ((off + i) mod length xs)) [0..<length xs] = rotate off xs"
  by (rule nth_equalityI) (simp_all add: nth_rotate add.commute)

lemma formatIPv4_inj: "formatIPv4 a = formatIPv4 b \<longleftrightarrow> a = b"
  unfolding formatIPv4_def
  using IPv4_String_inj [of "BigEndian_PutUint32 a" "BigEndian_PutUint32 b"]
  by (metis Uint32_PutUint32 length_PutUint32)

lemma rangeCandidates_cases:
  "rangeCandidates start stop =
     (if stop < start then Some (Inl (Errorf ''DHCP range end is below start'' []))
      else if stop = - 1 then None
      else Some (Inr (map of_nat [unat start..<Suc (unat stop)])))"
  by (simp add: rangeCandidates_def count_up_max count_up_interval)

lemma parseSubnet_Inr:
  assumes "parseSubnet address netmask = Inr ipNet"
  obtains ip4 where "length ip4 = 4" "length (ipnet_Mask ipNet) = 4" "length (ipnet_IP ipNet) = 4"
    "BigEndian_Uint32 (ipnet_IP ipNet) = BigEndian_Uint32 ip4 AND BigEndian_Uint32 (ipnet_Mask ipNet)"
proof -
  from assms obtain ip4 mask4 where "length ip4 = 4" "length mask4 = 4"
    "ipNet = \<lparr>ipnet_IP = IP_Mask ip4 mask4, ipnet_Mask = mask4\<rparr>"
    by (auto simp: parseSubnet_def dest: length_To4 split: option.splits)
  then show thesis by (intro that [of ip4]) (simp_all add: Uint32_Mask, simp add: IP_Mask_def)
qed

lemma host_count:
  "unat (ucast (h + 1 :: u32) :: u64) = (if unat h = 4294967295 then 0 else Suc (unat h))"
proof (cases "h = - 1")
  case True
  then show ?thesis by (simp add: unat_max_u32)
next
  case False
  then have "unat h \<noteq> 4294967295" by (simp add: word_unat_eq_iff unat_max_u32)
  with False show ?thesis by (simp add: unat_ucast_u32_u64 unat_plus_one)
qed

text \<open>The word arithmetic of \<^verbatim>\<open>subnetTailCandidates\<close> read as numbers.\<close>

lemma tail_arith:
  assumes uc: "unat (uc :: u64) = H - 1" and H: "1 < H" "H < 4294967295"
    and sum: "unat (nw :: u32) + H \<le> 4294967295" and sz: "0 < sz"
  shows "unat (nw + ucast uc) = unat nw + H - 1"
    and "unat (nw + ucast uc - of_int (min (int sz) (sint uc) - 1)) = unat nw + H - min sz (H - 1)"
proof -
  define k where "k = min sz (H - 1) - 1"
  have "unat (ucast uc :: u32) = H - 1" using H by (simp add: unat_ucast_u64_u32 uc)
  then show last: "unat (nw + ucast uc) = unat nw + H - 1"
    using sum H by (simp add: unat_word_ariths)
  have "sint uc = int (H - 1)" using H by (simp add: sint_u64_small uc)
  then have k: "min (int sz) (sint uc) - 1 = int k" using sz H unfolding k_def by linarith
  have kL: "k \<le> unat nw + H - 1" "k < 4294967296" using H by (auto simp: k_def)
  then have uk: "unat (of_nat k :: u32) = k" by (simp add: unat_of_nat take_bit_nat_eq_self)
  then have "of_nat k \<le> nw + (ucast uc :: u32)" using kL last by (simp add: word_le_nat_alt)
  then have "unat (nw + ucast uc - of_nat k) = unat nw + H - 1 - k" by (simp add: unat_sub last uk)
  moreover have "unat nw + H - 1 - k = unat nw + H - min sz (H - 1)"
    using sz H unfolding k_def by linarith
  ultimately show "unat (nw + ucast uc - of_int (min (int sz) (sint uc) - 1))
      = unat nw + H - min sz (H - 1)" unfolding k by simp
qed

lemma subnetTail_cases:
  assumes len: "length (ipnet_IP ipNet) = 4"
    and net: "BigEndian_Uint32 (ipnet_IP ipNet) = ip AND BigEndian_Uint32 (ipnet_Mask ipNet)"
    and H: "H = unat (NOT (BigEndian_Uint32 (ipnet_Mask ipNet)))"
    and hi: "hi = unat (BigEndian_Uint32 (ipnet_IP ipNet)) + H"
    and sz: "0 < sz"
  shows "subnetTailCandidates ipNet sz =
     Some (if H \<le> 1 \<or> H = 4294967295 then Inl (Errorf ''subnet %s has no usable host addresses'' [])
           else Inr (map of_nat [hi - min sz (H - 1)..<hi]))"
proof -
  define m where "m = BigEndian_Uint32 (ipnet_Mask ipNet)"
  define nw where "nw = BigEndian_Uint32 (ipnet_IP ipNet)"
  define hm where "hm = NOT m"
  have Hm: "H = unat hm" by (simp add: H hm_def m_def)
  have "nw \<le> m" using net by (simp add: nw_def m_def word_and_le1)
  then have sum: "unat nw + H \<le> 4294967295"
    using unat_u32 [of m] by (simp add: Hm hm_def unat_NOT_u32 word_le_nat_alt)
  note hc = host_count [of hm, folded Hm]
  show ?thesis
  proof (cases "H \<le> 1 \<or> H = 4294967295")
    case True
    then have "(ucast (hm + 1) :: u64) \<le> 2" using hc by (auto simp: word_le_nat_alt)
    with True len show ?thesis
      by (simp add: subnetTailCandidates_def IP_To4_def Let_def hm_def m_def)
  next
    case False
    define uc where "uc = (ucast (hm + 1) :: u64) - 2"
    have big: "\<not> (ucast (hm + 1) :: u64) \<le> 2" using hc False by (auto simp: word_le_nat_alt)
    have uc: "unat uc = H - 1" using hc False big by (simp add: uc_def unat_sub)
    have H2: "1 < H" "H < 4294967295" using False sum by auto
    note arith = tail_arith [OF uc H2 sum sz]
    have ne: "nw + ucast uc \<noteq> - 1" using arith(1) sum H2 by (auto simp: unat_max_u32)
    have hi': "Suc (unat nw + H - 1) = unat nw + H" using H2 by simp
    have count: "count_up (nw + ucast uc - of_int (min (int sz) (sint uc) - 1)) (nw + ucast uc) []
        = Some (map of_nat [hi - min sz (H - 1)..<hi])"
      unfolding count_up_interval [OF ne] arith hi' by (simp add: hi nw_def)
    have "subnetTailCandidates ipNet sz = map_option Inr
        (count_up (nw + ucast uc - of_int (min (int sz) (sint uc) - 1)) (nw + ucast uc) [])"
      using big len
      unfolding subnetTailCandidates_def IP_To4_def Let_def hm_def m_def uc_def nw_def by simp
    with count False show ?thesis by (simp only: option.map if_False)
  qed
qed

section \<open>Allocation\<close>

definition reservation_order :: "string \<Rightarrow> u32 list \<Rightarrow> u32 list" where
  "reservation_order domainName cs =
     rotate (unat (hashDomainName domainName mod of_nat (length cs))) cs"

lemma set_reservation_order [simp]: "set (reservation_order d cs) = set cs"
  by (simp add: reservation_order_def)

definition no_free_address :: "string \<Rightarrow> goerror" where
  "no_free_address domainName =
     Errorf ''no free address in the machine reservation block of the network (name %s)'' [domainName]"

lemma allocate_first_free:
  assumes "allocationCandidates network = Some (Inr cs)" "cs \<noteq> []"
  shows "allocateMachineIPIn network domainName mac =
     Some (case find (free_for (hostIPSet network) mac) (reservation_order domainName cs) of
             Some c \<Rightarrow> Inr (formatIPv4 c)
           | None \<Rightarrow> Inl (no_free_address domainName))"
  using assms
  by (simp add: allocateMachineIPIn_def allocate_loop_find map_nth_rotate reservation_order_def
      no_free_address_def Let_def split: option.splits)

lemma allocate_Inr_candidates:
  assumes "allocateMachineIPIn network domainName mac = Some (Inr ip)"
  obtains cs where "allocationCandidates network = Some (Inr cs)" "cs \<noteq> []"
  using assms by (auto simp: allocateMachineIPIn_def split: option.splits sum.splits if_splits)

lemma allocateE:
  assumes "allocateMachineIPIn network domainName mac = Some (Inr ip)"
  obtains cs c where "allocationCandidates network = Some (Inr cs)"
    "find (free_for (hostIPSet network) mac) (reservation_order domainName cs) = Some c"
    "ip = formatIPv4 c"
proof -
  obtain cs where "allocationCandidates network = Some (Inr cs)" "cs \<noteq> []"
    using assms by (rule allocate_Inr_candidates)
  with assms that show thesis by (auto simp: allocate_first_free split: option.splits)
qed

text \<open>
  Host entries that make sense together: one entry for a hardware address, one for an address.
\<close>

definition mac_key :: "NetworkDHCPHost \<Rightarrow> string" where
  "mac_key h = map to_lower_ascii (host_MAC h)"

definition hosts_inv :: "NetworkDHCPHost list \<Rightarrow> bool" where
  "hosts_inv hs \<longleftrightarrow> distinct (map mac_key hs) \<and> distinct (filter (\<lambda>ip. ip \<noteq> []) (map host_IP hs))"

lemma EqualFold_mac_key: "strings_EqualFold (host_MAC h) mac \<longleftrightarrow> mac_key h = map to_lower_ascii mac"
  by (simp add: mac_key_def strings_EqualFold_def)

lemma hosts_inv_same_mac:
  "hosts_inv hs \<Longrightarrow> h \<in> set hs \<Longrightarrow> h' \<in> set hs \<Longrightarrow> mac_key h = mac_key h' \<Longrightarrow> h = h'"
  by (auto simp: hosts_inv_def distinct_map inj_on_def)

lemma hosts_inv_same_ip:
  assumes "hosts_inv hs" "h \<in> set hs" "h' \<in> set hs" "host_IP h = host_IP h'" "host_IP h \<noteq> []"
  shows "h = h'"
proof -
  have "distinct (map host_IP (filter (\<lambda>h. host_IP h \<noteq> []) hs))"
    using assms(1) by (simp add: hosts_inv_def filter_map comp_def)
  with assms(2-5) show ?thesis by (auto simp: distinct_map inj_on_def)
qed

lemma to_lower_formatIPv4: "map to_lower_ascii (formatIPv4 c) = formatIPv4 c"
  by (simp add: formatIPv4_def IPv4_String_def map_strings_Join to_lower_octet comp_def)
     (simp add: to_lower_ascii_def)

lemma formatIPv4_nonempty [simp]: "formatIPv4 c \<noteq> []"
  by (simp add: formatIPv4_def IPv4_String_def BigEndian_PutUint32_def)

lemma octet_or_dot: "ch \<in> set (formatIPv4 c) \<Longrightarrow> is_digit ch \<or> ch = CHR ''.''"
  by (auto simp: formatIPv4_def IPv4_String_def BigEndian_PutUint32_def dest: octet_String_digits)

lemma EqualFold_formatIPv4: "strings_EqualFold s (formatIPv4 c) \<longleftrightarrow> s = formatIPv4 c"
proof
  assume "strings_EqualFold s (formatIPv4 c)"
  then have eq: "map to_lower_ascii s = formatIPv4 c"
    by (simp add: strings_EqualFold_def to_lower_formatIPv4)
  have "map to_lower_ascii s = s"
  proof (rule map_idI)
    fix ch assume "ch \<in> set s"
    then have "to_lower_ascii ch \<in> set (formatIPv4 c)" using eq by (metis image_eqI list.set_map)
    then have "(of_char (to_lower_ascii ch) :: nat) \<le> 64" by (auto dest!: octet_or_dot simp: is_digit_def)
    then show "to_lower_ascii ch = ch" by (rule to_lower_eq_low)
  qed
  with eq show "s = formatIPv4 c" by simp
qed simp

lemma free_for_iff:
  assumes "hosts_inv (hosts_of network)"
  shows "free_for (hostIPSet network) mac c \<longleftrightarrow>
     (\<forall>h \<in> set (hosts_of network). host_IP h = formatIPv4 c \<longrightarrow> strings_EqualFold (host_MAC h) mac)"
proof (cases "hostIPSet network (formatIPv4 c)")
  case None
  then have "\<forall>h \<in> set (hosts_of network). host_IP h \<noteq> formatIPv4 c"
    using hostIPSet_None [of network "formatIPv4 c"] by auto
  with None show ?thesis by (auto simp: free_for_def)
next
  case (Some owner)
  from hostIPSet_Some [OF this] obtain h where h: "h \<in> set (hosts_of network)"
    "host_IP h = formatIPv4 c" "host_MAC h = owner" by blast
  have uniq: "h' = h" if "h' \<in> set (hosts_of network)" "host_IP h' = formatIPv4 c" for h'
    using hosts_inv_same_ip [OF assms that(1) h(1)] that(2) h(2) by simp
  have "(\<forall>h' \<in> set (hosts_of network). host_IP h' = formatIPv4 c \<longrightarrow> strings_EqualFold (host_MAC h') mac)
      \<longleftrightarrow> strings_EqualFold owner mac"
    using h uniq by metis
  with Some show ?thesis by (simp add: free_for_def)
qed

text \<open>What \<^verbatim>\<open>allocationCandidates\<close> reads of a network, and leaves to the host entries.\<close>

definition ip_ranges :: "NetworkIP \<Rightarrow> NetworkDHCPRange list" where
  "ip_ranges ip = (case ip_DHCP ip of None \<Rightarrow> [] | Some dhcp \<Rightarrow> dhcp_Ranges dhcp)"

definition subnet_frame :: "Network \<Rightarrow> (string \<times> string \<times> string \<times> NetworkDHCPRange list) list" where
  "subnet_frame network =
     map (\<lambda>ip. (ip_Family ip, ip_Address ip, ip_Netmask ip, ip_ranges ip)) (net_IPs network)"

lemma firstDHCPRange_ip_ranges:
  "Option.bind (ip_DHCP ip) firstDHCPRange = firstDHCPRange_loop (ip_ranges ip)"
  by (simp add: ip_ranges_def firstDHCPRange_def split: option.splits)

lemma allocationCandidates_frame:
  assumes "subnet_frame N = subnet_frame N'"
  shows "allocationCandidates N = allocationCandidates N'"
proof -
  let ?g = "\<lambda>(fam, addr, nm, rs).
    (case parseSubnet addr nm of
       Inl e \<Rightarrow> Some (Inl e)
     | Inr ipNet \<Rightarrow>
         (case firstDHCPRange_loop rs of
            Some (start, stop) \<Rightarrow> rangeCandidates start stop
          | None \<Rightarrow> subnetTailCandidates ipNet machineReservationBlockSize))"
  have "allocationCandidates M =
      (case find (\<lambda>(fam, _). fam = ''inet'') (subnet_frame M) of
         None \<Rightarrow> Some (Inl (Errorf ''network has no IPv4 subnet'' []))
       | Some fr \<Rightarrow> ?g fr)" for M
  proof -
    have "find (\<lambda>(fam, _). fam = ''inet'') (subnet_frame M)
        = map_option (\<lambda>ip. (ip_Family ip, ip_Address ip, ip_Netmask ip, ip_ranges ip))
            (find (\<lambda>ip. ip_Family ip = ''inet'') (net_IPs M))"
      by (simp add: subnet_frame_def find_map comp_def)
    then show ?thesis
      by (simp add: allocationCandidates_def firstDHCPRange_ip_ranges split: option.splits sum.splits)
  qed
  with assms show ?thesis by simp
qed

text \<open>
  The one case in which the choice of an address never returns: the subnet is one that \<^verbatim>\<open>allocationCandidates\<close>
  gets as far as its DHCP range with, and that range ends at 255.255.255.255.
\<close>

definition endless_range :: "Network \<Rightarrow> bool" where
  "endless_range network \<longleftrightarrow>
     (case find (\<lambda>ip. ip_Family ip = ''inet'') (net_IPs network) of
        None \<Rightarrow> False
      | Some ip \<Rightarrow>
          (\<exists>ipNet. parseSubnet (ip_Address ip) (ip_Netmask ip) = Inr ipNet)
          \<and> map_option snd (firstDHCPRange_loop (ip_ranges ip)) = Some 0xFFFFFFFF)"

lemma subnetTail_returns:
  assumes "parseSubnet a m = Inr ipNet"
  shows "subnetTailCandidates ipNet machineReservationBlockSize \<noteq> None"
proof -
  from assms obtain ip4 where "length (ipnet_IP ipNet) = 4"
    "BigEndian_Uint32 (ipnet_IP ipNet) = BigEndian_Uint32 ip4 AND BigEndian_Uint32 (ipnet_Mask ipNet)"
    by (rule parseSubnet_Inr)
  from subnetTail_cases [OF this refl refl, of machineReservationBlockSize] show ?thesis
    by (simp add: machineReservationBlockSize_def)
qed

lemma allocationCandidates_None: "allocationCandidates network = None \<longleftrightarrow> endless_range network"
proof -
  have stop: "rangeCandidates a b = None \<longleftrightarrow> b = 0xFFFFFFFF" for a b
    by (auto simp: rangeCandidates_cases word_order.extremum_strict)
  show ?thesis
    by (auto simp: allocationCandidates_def endless_range_def firstDHCPRange_ip_ranges stop subnetTail_returns
        split: option.splits sum.splits)
qed

lemma allocate_None: "allocateMachineIPIn network d mac = None \<longleftrightarrow> endless_range network"
  by (auto simp: allocateMachineIPIn_def Let_def allocationCandidates_None [symmetric]
      split: option.splits sum.splits)

end
