(* ===== verification/DomainOps.thy ===== *)
theory DomainOps
  imports Volume MachineNetwork
begin

text \<open>
  \<^verbatim>\<open>internal/libvirtclient/domain.go\<close> and \<^verbatim>\<open>provider.go\<close>: creating, deleting and inspecting the domain of
  a machine, and the provider that opens a connection around each operation. A \<^verbatim>\<open>DomainState\<close> is a string.
\<close>

section \<open>domain.go\<close>

type_synonym DomainState = string

definition DomainStateNotFound :: DomainState where "DomainStateNotFound = ''NotFound''"
definition DomainStateRunning :: DomainState where "DomainStateRunning = ''Running''"
definition DomainStateStopped :: DomainState where "DomainStateStopped = ''Stopped''"
definition DomainStateUnknown :: DomainState where "DomainStateUnknown = ''Unknown''"

lemmas DomainState_defs =
  DomainStateNotFound_def DomainStateRunning_def DomainStateStopped_def DomainStateUnknown_def

text \<open>The domain document of a machine.\<close>

definition machine_domain_doc :: "MachineConfig \<Rightarrow> string \<Rightarrow> string \<Rightarrow> string \<Rightarrow> Domain" where
  "machine_domain_doc cfg diskPath cloudISOPath mac =
     WithSerialConsole
       (WithNetwork (cfg_Network cfg) mac
         (WithCloudInitISO cloudISOPath
           (WithDiskFile diskPath
             (WithVCPU (vCPU cfg)
               (WithMemoryMiB (memoryMiB cfg)
                 (WithUUID (cfg_DomainUUID cfg)
                   (NewDomain (cfg_domainName cfg))))))))"

text \<open>The end of \<^verbatim>\<open>createDomain\<close>, from the marshalling of the document on.\<close>

definition defineAndStart :: "'w env \<Rightarrow> Connect \<Rightarrow> MachineConfig \<Rightarrow> Domain \<Rightarrow> ('w, unit) act" where
  "defineAndStart E conn cfg doc =
     (let lv = env_lv E in
     tryE (pureE (Some (Domain_Marshal (env_lx E) doc))) (Wrapf ''marshal domain XML: %w'' []) (\<lambda>domainXML.
     tryE (DomainDefineXML lv conn domainXML)
       (Wrapf ''define domain %s: %w'' [cfg_domainName cfg]) (\<lambda>domain.
     deferE (Domain_Free lv domain) (
     tryE (Domain_SetAutostart lv domain True) (Wrapf ''set domain autostart: %w'' []) (\<lambda>_.
     tryE (Domain_Create lv domain) (Wrapf ''create domain %s: %w'' [cfg_domainName cfg]) (\<lambda>_.
     ret ()))))))"

definition createDomain :: "'w env \<Rightarrow> Connect \<Rightarrow> MachineConfig \<Rightarrow> ('w, unit) act" where
  "createDomain E conn cfg =
     (let lv = env_lv E; lx = env_lx E in
     tryE (LookupStoragePoolByName lv conn (cfg_DomainPool cfg))
       (Wrapf ''lookup domain disk pool %s: %w'' [cfg_DomainPool cfg]) (\<lambda>domainPool.
     deferE (Pool_Free lv domainPool) (
     tryE (LookupStoragePoolByName lv conn (cfg_BasePool cfg))
       (Wrapf ''lookup base disk pool %s: %w'' [cfg_BasePool cfg]) (\<lambda>basePool.
     deferE (Pool_Free lv basePool) (
     tryE (createRootDisk E basePool domainPool cfg)
       (Wrapf ''create base disk pool %s: %w'' [cfg_BasePool cfg]) (\<lambda>diskPath.
     tryE (createISODisk E conn domainPool cfg)
       (Wrapf ''create iso disk %s: %w'' [cfg_BasePool cfg]) (\<lambda>cloudISOPath.
     let mac = deriveDomainMAC (cfg_domainName cfg) in
     tryE (LookupNetworkByName lv conn (cfg_Network cfg))
       (Wrapf ''lookup network %s: %w'' [cfg_Network cfg]) (\<lambda>network.
     deferE (Network_Free lv network) (
     tryE (reserveMachineIP lx (Network_ops lv network) (cfg_Network cfg) (cfg_domainName cfg) mac) id (\<lambda>_.
     defineAndStart E conn cfg (machine_domain_doc cfg diskPath cloudISOPath mac)))))))))))"

definition deleteDomain :: "'w libvirt \<Rightarrow> Connect \<Rightarrow> string \<Rightarrow> ('w, unit) act" where
  "deleteDomain lv conn name =
     catchE (LookupDomainByName lv conn name)
       (\<lambda>err. if isLibvirtErr err ERR_NO_DOMAIN then ret ()
              else throw (Wrapf ''lookup domain %s: %w'' [name] err))
       (\<lambda>dom.
     deferE (Domain_Free lv dom) (
     let undefine =
           tryE (Domain_Undefine lv dom) (Wrapf ''undefine domain %s: %w'' [name]) (\<lambda>_. ret ())
     in catchE (Domain_IsActive lv dom)
          (\<lambda>_. undefine)
          (\<lambda>active.
             if active then
               tryE (Domain_Destroy lv dom) (Wrapf ''destroy domain %s: %w'' [name]) (\<lambda>_. undefine)
             else undefine)))"

definition domain_state_of :: "LvDomainState \<Rightarrow> DomainState" where
  "domain_state_of state =
     (case state of
        DOMAIN_RUNNING \<Rightarrow> DomainStateRunning
      | DOMAIN_SHUTOFF \<Rightarrow> DomainStateStopped
      | DOMAIN_SHUTDOWN \<Rightarrow> DomainStateStopped
      | DOMAIN_CRASHED \<Rightarrow> DomainStateStopped
      | DOMAIN_PAUSED \<Rightarrow> DomainStateUnknown
      | DOMAIN_BLOCKED \<Rightarrow> DomainStateUnknown
      | DOMAIN_PMSUSPENDED \<Rightarrow> DomainStateUnknown
      | _ \<Rightarrow> DomainStateUnknown)"

text \<open>
  The state that \<^verbatim>\<open>getDomainState\<close> returns beside an error is always discarded by its callers' callers,
  which test the error first; it is not part of the result here.
\<close>

definition getDomainState :: "'w libvirt \<Rightarrow> Connect \<Rightarrow> string \<Rightarrow> ('w, DomainState) act" where
  "getDomainState lv conn name =
     catchE (LookupDomainByName lv conn name)
       (\<lambda>err. if isLibvirtErr err ERR_NO_DOMAIN then ret DomainStateNotFound
              else throw (Wrapf ''lookup domain %q: %w'' [name] err))
       (\<lambda>dom.
     deferE (Domain_Free lv dom) (
     tryE (Domain_GetState lv dom) (Wrapf ''get domain state %q: %w'' [name]) (\<lambda>state.
     ret (domain_state_of state))))"

section \<open>provider.go\<close>

text \<open>\<^verbatim>\<open>connect\<close>, with the connection closed on every return of the rest.\<close>

definition with_connection :: "'w env \<Rightarrow> InfraConfig \<Rightarrow> (Connect \<Rightarrow> ('w, 'a) act) \<Rightarrow> ('w, 'a) act" where
  "with_connection E cfg body =
     tryE (connect E cfg) (Wrapf ''connect to libvirt host: %w'' []) (\<lambda>conn.
     deferE (Connect_Close (env_lv E) conn) (body conn))"

definition EnsureInfra :: "'w env \<Rightarrow> InfraConfig \<Rightarrow> ('w, unit) act" where
  "EnsureInfra E cfg =
     with_connection E cfg (\<lambda>conn.
     tryE (ensureNetwork (env_lv E) conn (networkName cfg)) id (\<lambda>_.
     tryE (ensureBasePool (env_lv E) conn (basePoolName cfg)) id (\<lambda>_.
     tryE (ensureDomainPool (env_lv E) conn (domainPoolName cfg)) id (\<lambda>_.
     ret ()))))"

definition CreateMachine :: "'w env \<Rightarrow> MachineConfig \<Rightarrow> ('w, unit) act" where
  "CreateMachine E cfg = with_connection E (infra_of cfg) (\<lambda>conn. createDomain E conn cfg)"

definition StartMachine :: "'w env \<Rightarrow> MachineConfig \<Rightarrow> ('w, unit) act" where
  "StartMachine E cfg =
     with_connection E (infra_of cfg) (\<lambda>conn.
     tryE (LookupDomainByName (env_lv E) conn (cfg_domainName cfg))
       (Wrapf ''lookup domain %s: %w'' [cfg_DomainName cfg]) (\<lambda>domain.
     tryE (Domain_Create (env_lv E) domain) (Wrapf ''start domain %s: %w'' [cfg_DomainName cfg]) (\<lambda>_.
     ret ())))"

definition GetMachineState :: "'w env \<Rightarrow> MachineConfig \<Rightarrow> ('w, DomainState) act" where
  "GetMachineState E cfg =
     with_connection E (infra_of cfg) (\<lambda>conn. getDomainState (env_lv E) conn (cfg_domainName cfg))"

definition releaseMachineReservation :: "'w env \<Rightarrow> Connect \<Rightarrow> MachineConfig \<Rightarrow> ('w, unit) act" where
  "releaseMachineReservation E conn cfg =
     catchE (LookupNetworkByName (env_lv E) conn (cfg_Network cfg))
       (\<lambda>err. if isLibvirtErr err ERR_NO_NETWORK then ret ()
              else throw (Wrapf ''lookup network %s: %w'' [cfg_Network cfg] err))
       (\<lambda>network.
     deferE (Network_Free (env_lv E) network) (
     releaseMachineIP (env_lx E) (Network_ops (env_lv E) network) (cfg_Network cfg) (cfg_domainName cfg)
       (deriveDomainMAC (cfg_domainName cfg))))"

definition DeleteMachine :: "'w env \<Rightarrow> MachineConfig \<Rightarrow> ('w, unit) act" where
  "DeleteMachine E cfg =
     with_connection E (infra_of cfg) (\<lambda>conn.
     tryE (deleteDomain (env_lv E) conn (cfg_domainName cfg)) id (\<lambda>_.
     tryE (deleteVolume (env_lv E) conn (domainPoolName cfg) (domainDiskName cfg)) id (\<lambda>_.
     tryE (deleteVolume (env_lv E) conn (domainPoolName cfg) (isoDiskName cfg)) id (\<lambda>_.
     tryE (releaseMachineReservation E conn cfg) id (\<lambda>_.
     ret ())))))"

definition GetMachineAddress :: "'w env \<Rightarrow> MachineConfig \<Rightarrow> ('w, string) act" where
  "GetMachineAddress E cfg =
     with_connection E (infra_of cfg) (\<lambda>conn.
     tryE (LookupNetworkByName (env_lv E) conn (cfg_Network cfg))
       (Wrapf ''lookup network %s: %w'' [cfg_Network cfg]) (\<lambda>network.
     deferE (Network_Free (env_lv E) network) (
     machineAddress (Network_ops (env_lv E) network) (cfg_Network cfg)
       (deriveDomainMAC (cfg_domainName cfg)))))"

end
