(* ===== verification/Reservation.thy ===== *)
theory Reservation
  imports MachineNetwork
begin

text \<open>
  Reservations of addresses for machines: what \<^verbatim>\<open>planHostUpdate\<close> decides, what the documented effect of
  \<^verbatim>\<open>virNetworkUpdate\<close> makes of it, and the contract of one libvirt network (the locale \<open>dhcp_network\<close>) under
  which \<^verbatim>\<open>reserveMachineIP\<close> and \<^verbatim>\<open>releaseMachineIP\<close> keep the host entries consistent.
\<close>

section \<open>Reservations\<close>

text \<open>The host entries of the first \<^verbatim>\<open><ip>\<close> element of a network, and those of the others.\<close>

definition first_hosts :: "Network \<Rightarrow> NetworkDHCPHost list" where
  "first_hosts N = (case net_IPs N of [] \<Rightarrow> [] | ip # ips \<Rightarrow> ip_hosts ip)"

definition later_hosts :: "Network \<Rightarrow> NetworkDHCPHost list" where
  "later_hosts N = concat (map ip_hosts (tl (net_IPs N)))"

lemma hosts_of_split: "hosts_of N = first_hosts N @ later_hosts N"
  by (simp add: hosts_of_def first_hosts_def later_hosts_def split: list.split)

text \<open>
  The documented effect of a successful \<^verbatim>\<open>virNetworkUpdate\<close> of a DHCP host entry with the parent index 0, which
  is what the client always passes: it acts on the entries of the first \<^verbatim>\<open><ip>\<close> element and on no other. \<^verbatim>\<open>ADD_LAST\<close> adds
  the entry at the end, \<^verbatim>\<open>MODIFY\<close> replaces an entry with the same hardware address, \<^verbatim>\<open>DELETE\<close> removes an entry
  with the given hardware address and address; subnets and ranges stay.
\<close>

inductive host_update :: "NetworkUpdateCommand \<Rightarrow> NetworkDHCPHost \<Rightarrow> Network \<Rightarrow> Network \<Rightarrow> bool" where
  add_last: "subnet_frame N' = subnet_frame N \<Longrightarrow> tl (net_IPs N') = tl (net_IPs N)
     \<Longrightarrow> first_hosts N' = first_hosts N @ [h] \<Longrightarrow> host_update NETWORK_UPDATE_COMMAND_ADD_LAST h N N'"
| modify: "subnet_frame N' = subnet_frame N \<Longrightarrow> tl (net_IPs N') = tl (net_IPs N)
     \<Longrightarrow> first_hosts N = xs @ h' # ys \<Longrightarrow> mac_key h' = mac_key h
     \<Longrightarrow> first_hosts N' = xs @ h # ys \<Longrightarrow> host_update NETWORK_UPDATE_COMMAND_MODIFY h N N'"
| delete: "subnet_frame N' = subnet_frame N \<Longrightarrow> tl (net_IPs N') = tl (net_IPs N)
     \<Longrightarrow> first_hosts N = xs @ h' # ys \<Longrightarrow> mac_key h' = mac_key h
     \<Longrightarrow> host_IP h' = host_IP h \<Longrightarrow> first_hosts N' = xs @ ys
     \<Longrightarrow> host_update NETWORK_UPDATE_COMMAND_DELETE h N N'"

inductive_cases host_update_addE: "host_update NETWORK_UPDATE_COMMAND_ADD_LAST h N N'"
inductive_cases host_update_modifyE: "host_update NETWORK_UPDATE_COMMAND_MODIFY h N N'"
inductive_cases host_update_deleteE: "host_update NETWORK_UPDATE_COMMAND_DELETE h N N'"

lemma host_update_later: "host_update cmd h N N' \<Longrightarrow> later_hosts N' = later_hosts N"
  by (erule host_update.cases) (simp_all add: later_hosts_def)

text \<open>The same on the entries of all subnets.\<close>

lemma host_update_hosts:
  "host_update NETWORK_UPDATE_COMMAND_ADD_LAST h N N' \<Longrightarrow> \<exists>xs ys. hosts_of N = xs @ ys \<and> hosts_of N' = xs @ h # ys"
  "host_update NETWORK_UPDATE_COMMAND_MODIFY h N N' \<Longrightarrow>
     \<exists>xs h' ys. hosts_of N = xs @ h' # ys \<and> mac_key h' = mac_key h \<and> hosts_of N' = xs @ h # ys"
  "host_update NETWORK_UPDATE_COMMAND_DELETE h N N' \<Longrightarrow>
     \<exists>xs h' ys. hosts_of N = xs @ h' # ys \<and> mac_key h' = mac_key h \<and> hosts_of N' = xs @ ys"
proof -
  assume u: "host_update NETWORK_UPDATE_COMMAND_ADD_LAST h N N'"
  then have "hosts_of N = first_hosts N @ later_hosts N \<and> hosts_of N' = first_hosts N @ h # later_hosts N"
    by (auto simp: hosts_of_split [of N] hosts_of_split [of N'] host_update_later [OF u] elim: host_update_addE)
  then show "\<exists>xs ys. hosts_of N = xs @ ys \<and> hosts_of N' = xs @ h # ys" by blast
next
  assume u: "host_update NETWORK_UPDATE_COMMAND_MODIFY h N N'"
  then obtain xs h' ys where "first_hosts N = xs @ h' # ys" "mac_key h' = mac_key h" "first_hosts N' = xs @ h # ys"
    by (rule host_update_modifyE)
  then have "hosts_of N = xs @ h' # (ys @ later_hosts N) \<and> mac_key h' = mac_key h \<and> hosts_of N' = xs @ h # (ys @ later_hosts N)"
    by (simp add: hosts_of_split [of N] hosts_of_split [of N'] host_update_later [OF u])
  then show "\<exists>xs h' ys. hosts_of N = xs @ h' # ys \<and> mac_key h' = mac_key h \<and> hosts_of N' = xs @ h # ys" by blast
next
  assume u: "host_update NETWORK_UPDATE_COMMAND_DELETE h N N'"
  then obtain xs h' ys where "first_hosts N = xs @ h' # ys" "mac_key h' = mac_key h" "first_hosts N' = xs @ ys"
    by (rule host_update_deleteE)
  then have "hosts_of N = xs @ h' # (ys @ later_hosts N) \<and> mac_key h' = mac_key h \<and> hosts_of N' = xs @ (ys @ later_hosts N)"
    by (simp add: hosts_of_split [of N] hosts_of_split [of N'] host_update_later [OF u])
  then show "\<exists>xs h' ys. hosts_of N = xs @ h' # ys \<and> mac_key h' = mac_key h \<and> hosts_of N' = xs @ ys" by blast
qed

definition reserved :: "Network \<Rightarrow> string \<Rightarrow> string \<Rightarrow> bool" where
  "reserved N mac ip \<longleftrightarrow>
     (\<exists>h \<in> set (hosts_of N). strings_EqualFold (host_MAC h) mac \<and> host_IP h = ip)"

definition other_hosts :: "Network \<Rightarrow> string \<Rightarrow> NetworkDHCPHost list" where
  "other_hosts N mac = filter (\<lambda>h. \<not> strings_EqualFold (host_MAC h) mac) (hosts_of N)"

abbreviation new_host :: "string \<Rightarrow> string \<Rightarrow> string \<Rightarrow> NetworkDHCPHost" where
  "new_host domainName mac ip \<equiv> \<lparr>host_MAC = mac, host_Name = domainName, host_IP = ip\<rparr>"

lemma mac_key_new_host [simp]: "mac_key (new_host d mac ip) = map to_lower_ascii mac"
  by (simp add: mac_key_def)

lemma hostEntry_None:
  "hostEntryInNetwork N mac = None \<longleftrightarrow> (\<forall>h \<in> set (hosts_of N). \<not> strings_EqualFold (host_MAC h) mac)"
  by (auto simp: hostEntryInNetwork_eq find_None_iff)

lemma hostEntry_Some:
  "hostEntryInNetwork N mac = Some h \<Longrightarrow> h \<in> set (hosts_of N) \<and> strings_EqualFold (host_MAC h) mac"
  by (auto simp: hostEntryInNetwork_eq dest: find_Some_iff_in)

lemma allocate_free:
  assumes "hosts_inv (hosts_of N)" "allocateMachineIPIn N d mac = Some (Inr ip)"
    "h \<in> set (hosts_of N)" "host_IP h = ip"
  shows "strings_EqualFold (host_MAC h) mac"
proof -
  from assms(2) obtain cs c where
    "find (free_for (hostIPSet N) mac) (reservation_order d cs) = Some c" and ip: "ip = formatIPv4 c"
    by (rule allocateE)
  then have "free_for (hostIPSet N) mac c" by (auto dest: find_Some_iff_in)
  with assms(1,3,4) ip show ?thesis by (simp add: free_for_iff)
qed

lemma hosts_inv_insert:
  "hosts_inv (xs @ h # ys) \<longleftrightarrow>
     hosts_inv (xs @ ys) \<and> mac_key h \<notin> set (map mac_key (xs @ ys)) \<and>
     (host_IP h = [] \<or> host_IP h \<notin> set (map host_IP (xs @ ys)))"
  by (auto simp: hosts_inv_def)

lemma add_reserves:
  assumes inv: "hosts_inv (hosts_of N)" and alloc: "allocateMachineIPIn N d mac = Some (Inr ip)"
    and none: "hostEntryInNetwork N mac = None"
    and upd: "host_update NETWORK_UPDATE_COMMAND_ADD_LAST (new_host d mac ip) N N'"
  shows "hosts_inv (hosts_of N') \<and> reserved N' mac ip \<and> other_hosts N' mac = other_hosts N mac"
proof -
  from upd obtain xs ys where h: "hosts_of N = xs @ ys" "hosts_of N' = xs @ new_host d mac ip # ys"
    using host_update_hosts(1) by blast
  have macs: "\<forall>h \<in> set (xs @ ys). \<not> strings_EqualFold (host_MAC h) mac"
    using none h(1) by (simp add: hostEntry_None)
  then have "map to_lower_ascii mac \<notin> mac_key ` set (xs @ ys)"
    by (auto simp: EqualFold_mac_key)
  moreover have "ip \<notin> host_IP ` set (xs @ ys)"
    using allocate_free [OF inv alloc] macs h(1) by auto
  ultimately have "hosts_inv (hosts_of N')"
    using inv h by (simp add: hosts_inv_insert image_Un)
  with h macs show ?thesis
    by (simp add: reserved_def other_hosts_def)
qed

lemma modify_reserves:
  assumes inv: "hosts_inv (hosts_of N)" and alloc: "allocateMachineIPIn N d mac = Some (Inr ip)"
    and upd: "host_update NETWORK_UPDATE_COMMAND_MODIFY (new_host d mac ip) N N'"
  shows "hosts_inv (hosts_of N') \<and> reserved N' mac ip \<and> other_hosts N' mac = other_hosts N mac"
proof -
  from upd obtain xs h' ys where h: "hosts_of N = xs @ h' # ys"
    "hosts_of N' = xs @ new_host d mac ip # ys" and key: "mac_key h' = map to_lower_ascii mac"
    using host_update_hosts(2) [OF upd] by auto
  have keys: "map to_lower_ascii mac \<notin> mac_key ` set (xs @ ys)" "hosts_inv (xs @ ys)"
    using inv h(1) key by (auto simp: hosts_inv_insert)
  have "ip \<notin> host_IP ` set (xs @ ys)"
  proof
    assume "ip \<in> host_IP ` set (xs @ ys)"
    then obtain x where "x \<in> set (xs @ ys)" "host_IP x = ip" by auto
    moreover from this have "mac_key x = map to_lower_ascii mac"
      using allocate_free [OF inv alloc, of x] h(1) by (auto simp: EqualFold_mac_key)
    ultimately show False using keys(1) by (metis imageI)
  qed
  with keys have "hosts_inv (hosts_of N')"
    using h by (simp add: hosts_inv_insert image_Un)
  with h key show ?thesis
    by (simp add: reserved_def other_hosts_def EqualFold_mac_key)
qed

lemma planHostUpdate_cases:
  assumes "planHostUpdate lx N d mac = Some (Inr (ip, xml, cmd, upd))"
  obtains (noop) host where "\<not> upd" "allocateMachineIPIn N d mac = Some (Inr ip)" "xml = []"
      "cmd = NETWORK_UPDATE_COMMAND_NONE" "hostEntryInNetwork N mac = Some host" "host_IP host = ip"
    | (add) "upd" "allocateMachineIPIn N d mac = Some (Inr ip)" "cmd = NETWORK_UPDATE_COMMAND_ADD_LAST"
      "hostEntryInNetwork N mac = None" "NetworkDHCPHost_Marshal lx (new_host d mac ip) = Inr xml"
    | (change) host where "upd" "allocateMachineIPIn N d mac = Some (Inr ip)"
      "cmd = NETWORK_UPDATE_COMMAND_MODIFY" "hostEntryInNetwork N mac = Some host"
      "host_IP host \<noteq> ip" "NetworkDHCPHost_Marshal lx (new_host d mac ip) = Inr xml"
proof -
  from assms have alloc: "allocateMachineIPIn N d mac = Some (Inr ip)"
    by (auto simp: planHostUpdate_def Let_def split: option.splits sum.splits if_splits)
  then obtain c where ip: "ip = formatIPv4 c" by (blast elim: allocateE)
  show thesis
    using assms alloc noop add change
    by (auto simp: planHostUpdate_def machineHostXML_def Let_def ip EqualFold_formatIPv4
        formatIPv4_nonempty [symmetric] split: option.splits sum.splits if_splits)
qed

lemma planHostUpdate_reserves:
  assumes inv: "hosts_inv (hosts_of N)"
    and plan: "planHostUpdate lx N d mac = Some (Inr (ip, xml, cmd, True))"
    and upd: "host_update cmd (new_host d mac ip) N N'"
  shows "hosts_inv (hosts_of N') \<and> reserved N' mac ip \<and> other_hosts N' mac = other_hosts N mac"
  using plan
proof (cases rule: planHostUpdate_cases)
  case add
  show ?thesis using add_reserves [OF inv add(2,4)] upd unfolding add(3) by blast
next
  case (change host)
  show ?thesis using modify_reserves [OF inv change(2)] upd unfolding change(3) by blast
qed simp

lemma planHostUpdate_noop:
  assumes "planHostUpdate lx N d mac = Some (Inr (ip, xml, cmd, False))"
  shows "reserved N mac ip"
  using assms
  by (cases rule: planHostUpdate_cases) (auto simp: reserved_def dest!: hostEntry_Some)

text \<open>A reservation is stable: once made, the next allocation for the same domain finds it again.\<close>

lemma allocate_stable:
  assumes inv: "hosts_inv (hosts_of N)" and inv': "hosts_inv (hosts_of N')"
    and alloc: "allocateMachineIPIn N d mac = Some (Inr ip)"
    and frame: "subnet_frame N' = subnet_frame N"
    and res: "reserved N' mac ip" and others: "other_hosts N' mac = other_hosts N mac"
  shows "allocateMachineIPIn N' d mac = Some (Inr ip)"
proof -
  from alloc obtain cs c where cs: "allocationCandidates N = Some (Inr cs)"
    and c: "find (free_for (hostIPSet N) mac) (reservation_order d cs) = Some c"
    and ip: "ip = formatIPv4 c" by (rule allocateE)
  have cs': "allocationCandidates N' = Some (Inr cs)"
    using cs allocationCandidates_frame [OF frame] by simp
  have ne: "cs \<noteq> []" using c by (auto simp: reservation_order_def)
  have "find (free_for (hostIPSet N') mac) (reservation_order d cs) = Some c"
  proof (rule find_weaken [OF c])
    fix x assume "\<not> free_for (hostIPSet N) mac x"
    then obtain h where "h \<in> set (other_hosts N mac)" "host_IP h = formatIPv4 x"
      using inv by (auto simp: free_for_iff other_hosts_def)
    then have "h \<in> set (other_hosts N' mac)" by (simp add: others)
    then have "h \<in> set (hosts_of N')" "\<not> strings_EqualFold (host_MAC h) mac"
      by (simp_all add: other_hosts_def)
    with \<open>host_IP h = formatIPv4 x\<close> show "\<not> free_for (hostIPSet N') mac x"
      using inv' by (auto simp: free_for_iff)
  next
    from res obtain h where h: "h \<in> set (hosts_of N')" "strings_EqualFold (host_MAC h) mac"
      "host_IP h = formatIPv4 c" by (auto simp: reserved_def ip)
    have "h' = h" if "h' \<in> set (hosts_of N')" "host_IP h' = formatIPv4 c" for h'
      using hosts_inv_same_ip [OF inv' that(1) h(1)] that(2) h(3) by simp
    then show "free_for (hostIPSet N') mac c"
      using inv' h(2) by (auto simp: free_for_iff)
  qed
  with cs' ne show ?thesis by (simp add: allocate_first_free ip)
qed

lemma planHostUpdate_returns:
  assumes "allocationCandidates N \<noteq> None"
  obtains r where "planHostUpdate lx N d mac = Some r"
proof -
  obtain a where "allocateMachineIPIn N d mac = Some a"
    using assms by (fastforce simp: allocateMachineIPIn_def Let_def split: option.splits sum.splits)
  then have "planHostUpdate lx N d mac \<noteq> None"
    by (cases a) (simp_all add: planHostUpdate_def Let_def split: sum.split)
  then show thesis using that by blast
qed

lemma host_update_frame: "host_update cmd h N N' \<Longrightarrow> subnet_frame N' = subnet_frame N"
  by (erule host_update.cases) simp_all

lemma hosts_inv_insertD:
  "hosts_inv (xs @ h # ys) \<Longrightarrow> g \<in> set (xs @ ys) \<Longrightarrow> mac_key g \<noteq> mac_key h"
  by (auto simp: hosts_inv_def dest: sym)

text \<open>What a release for \<open>mac\<close> makes of the network \<open>N\<close>: only the entries of other hardware addresses stay.\<close>

definition reservation_released :: "Network \<Rightarrow> string \<Rightarrow> Network \<Rightarrow> bool" where
  "reservation_released N mac N' \<longleftrightarrow>
     hosts_of N' = other_hosts N mac \<and> subnet_frame N' = subnet_frame N \<and> hosts_inv (hosts_of N')"

lemma delete_releases:
  assumes "host_update NETWORK_UPDATE_COMMAND_DELETE (new_host d mac ip) N N'"
    and inv: "hosts_inv (hosts_of N)"
  shows "reservation_released N mac N'"
proof -
  from assms(1) obtain xs h' ys where h: "hosts_of N = xs @ h' # ys" "hosts_of N' = xs @ ys"
    "mac_key h' = map to_lower_ascii mac" "subnet_frame N' = subnet_frame N"
    using host_update_hosts(3) [OF assms(1)] host_update_frame [OF assms(1)] by auto
  have "\<forall>h \<in> set (xs @ ys). mac_key h \<noteq> map to_lower_ascii mac"
    using inv h(1,3) hosts_inv_insertD by metis
  moreover have "hosts_inv (xs @ ys)" using inv h(1) by (simp add: hosts_inv_insert)
  ultimately show ?thesis
    using h by (simp add: reservation_released_def other_hosts_def EqualFold_mac_key)
qed

lemma planHostUpdate_reserved:
  assumes "hosts_inv (hosts_of N)" "reserved N mac ip" "allocateMachineIPIn N d mac = Some (Inr ip)"
  shows "planHostUpdate lx N d mac = Some (Inr (ip, [], NETWORK_UPDATE_COMMAND_NONE, False))"
proof -
  from assms(2) obtain h where h: "h \<in> set (hosts_of N)" "strings_EqualFold (host_MAC h) mac"
    "host_IP h = ip" by (auto simp: reserved_def)
  then obtain h' where h': "hostEntryInNetwork N mac = Some h'"
    by (cases "hostEntryInNetwork N mac") (auto simp: hostEntry_None)
  then have "h' = h"
    using hostEntry_Some [OF h'] h assms(1) by (auto simp: EqualFold_mac_key intro: hosts_inv_same_mac)
  moreover obtain c where "ip = formatIPv4 c" using assms(3) by (blast elim: allocateE)
  ultimately show ?thesis using assms(3) h(3) h' by (simp add: planHostUpdate_def)
qed

text \<open>The entry of the hardware address \<open>mac\<close>, if any, is in the first subnet and has the name \<open>d\<close>.\<close>

definition entry_ours :: "Network \<Rightarrow> string \<Rightarrow> string \<Rightarrow> bool" where
  "entry_ours N d mac \<longleftrightarrow>
     (\<forall>h \<in> set (first_hosts N). strings_EqualFold (host_MAC h) mac \<longrightarrow> host_Name h = d)
     \<and> (\<forall>h \<in> set (later_hosts N). \<not> strings_EqualFold (host_MAC h) mac)"

lemma host_update_names:
  assumes "host_update cmd (new_host d mac ip) N N'" "entry_ours N d mac'"
  shows "entry_ours N' d mac'"
  using assms(1)
  by (cases rule: host_update.cases) (use assms(2) host_update_later [OF assms(1)] in \<open>auto simp: entry_ours_def\<close>)

text \<open>What a reservation for \<open>mac\<close> makes of the network \<open>N\<close>.\<close>

definition reservation_made :: "Network \<Rightarrow> string \<Rightarrow> string \<Rightarrow> string \<Rightarrow> Network \<Rightarrow> bool" where
  "reservation_made N d mac ip N' \<longleftrightarrow>
     hosts_inv (hosts_of N') \<and> reserved N' mac ip \<and> other_hosts N' mac = other_hosts N mac
     \<and> subnet_frame N' = subnet_frame N \<and> allocateMachineIPIn N d mac = Some (Inr ip)
     \<and> (entry_ours N d mac \<longrightarrow> entry_ours N' d mac)"

lemma planHostUpdate_made:
  assumes "hosts_inv (hosts_of N)" "planHostUpdate lx N d mac = Some (Inr (ip, xml, cmd, upd))"
    "if upd then host_update cmd (new_host d mac ip) N N' else N' = N"
  shows "reservation_made N d mac ip N'"
proof -
  have "allocateMachineIPIn N d mac = Some (Inr ip)" using assms(2) by (rule planHostUpdate_cases)
  with assms show ?thesis
    by (cases upd)
       (auto simp: reservation_made_def dest: planHostUpdate_reserves planHostUpdate_noop host_update_frame host_update_names)
qed

section \<open>One network\<close>

text \<open>
  The contract of the handle \<open>n\<close> of one libvirt network: \<open>st N w\<close> says that in world \<open>w\<close> the network
  document is \<open>N\<close> (and that everything else is as it was). The description is the current document, an
  update either fails without effect or has its documented effect. When \<open>flaky\<close> is false, reading the
  description does not fail, and an update fails only when \<open>host_update_ok\<close> does not hold: there is no first
  \<^verbatim>\<open><ip>\<close> element, it is of another address family than the entry (\<^verbatim>\<open>ipv4\<close> is the default), another subnet of
  its family has DHCP too, or its entries do not allow the change.
\<close>

definition ipv6_subnet :: "NetworkIP \<Rightarrow> bool" where
  "ipv6_subnet ip \<longleftrightarrow> ip_Family ip = ''ipv6''"

fun host_update_ok :: "NetworkUpdateCommand \<Rightarrow> NetworkDHCPHost \<Rightarrow> Network \<Rightarrow> bool" where
  "host_update_ok NETWORK_UPDATE_COMMAND_ADD_LAST h N \<longleftrightarrow>
     (case net_IPs N of
        [] \<Rightarrow> False
      | ip # ips \<Rightarrow>
          \<not> ipv6_subnet ip \<and> (\<forall>ip' \<in> set ips. ipv6_subnet ip' \<or> ip_hosts ip' = [] \<and> ip_ranges ip' = [])
          \<and> (\<forall>h' \<in> set (ip_hosts ip). mac_key h' \<noteq> mac_key h \<and> host_IP h' \<noteq> host_IP h \<and> host_Name h' \<noteq> host_Name h))"
| "host_update_ok NETWORK_UPDATE_COMMAND_MODIFY h N \<longleftrightarrow>
     \<not> list_ex ipv6_subnet (take 1 (net_IPs N)) \<and> (\<exists>h' \<in> set (first_hosts N). mac_key h' = mac_key h)"
| "host_update_ok NETWORK_UPDATE_COMMAND_DELETE h N \<longleftrightarrow>
     (\<exists>h' \<in> set (first_hosts N). mac_key h' = mac_key h \<and> host_IP h' = host_IP h \<and> host_Name h' = host_Name h)"
| "host_update_ok NETWORK_UPDATE_COMMAND_NONE h N \<longleftrightarrow> False"

text \<open>
  The first subnet can take an entry of the name \<open>d\<close> and the hardware address \<open>mac\<close>: it is an IPv4 subnet and
  the only one with DHCP; no entry of another hardware address in it has that name; and no other subnet has an
  entry of the hardware address.
\<close>

definition first_subnet_free :: "Network \<Rightarrow> string \<Rightarrow> string \<Rightarrow> bool" where
  "first_subnet_free N d mac \<longleftrightarrow>
     (case net_IPs N of
        [] \<Rightarrow> False
      | ip # ips \<Rightarrow> \<not> ipv6_subnet ip \<and> (\<forall>ip' \<in> set ips. ipv6_subnet ip' \<or> ip_hosts ip' = [] \<and> ip_ranges ip' = []))
     \<and> (\<forall>h \<in> set (first_hosts N). host_Name h = d \<longrightarrow> strings_EqualFold (host_MAC h) mac)
     \<and> (\<forall>h \<in> set (later_hosts N). \<not> strings_EqualFold (host_MAC h) mac)"

lemma planHostUpdate_ok:
  assumes inv: "hosts_inv (hosts_of N)" and free: "first_subnet_free N d mac"
    and plan: "planHostUpdate lx N d mac = Some (Inr (ip, xml, cmd, True))"
  shows "host_update_ok cmd (new_host d mac ip) N"
proof -
  from free obtain i js where ips: "net_IPs N = i # js" by (auto simp: first_subnet_free_def split: list.splits)
  show ?thesis
    using plan
  proof (cases rule: planHostUpdate_cases)
    case add
    have "host_IP h \<noteq> ip" if "h \<in> set (hosts_of N)" for h
      using allocate_free [OF inv add(2) that] add(4) that by (auto simp: hostEntry_None)
    then show ?thesis
      using add(4) free ips
      by (auto simp: add(3) hostEntry_None EqualFold_mac_key first_subnet_free_def first_hosts_def hosts_of_split)
  next
    case (change host)
    then have "host \<in> set (first_hosts N)" "mac_key host = map to_lower_ascii mac"
      using free hostEntry_Some [OF change(4)] by (auto simp: first_subnet_free_def hosts_of_split EqualFold_mac_key)
    with free ips show ?thesis by (auto simp: change(3) first_subnet_free_def)
  qed simp
qed

locale dhcp_network =
  fixes lx :: libvirtxml
    and n :: "'w networkOperations"
    and st :: "Network \<Rightarrow> 'w \<Rightarrow> bool"
    and flaky :: bool
  assumes desc: "valid (st N) (GetXMLDesc n 0) (\<lambda>x w. st N w \<and> Network_Unmarshal lx x = Inr N) (\<lambda>e w. flaky \<and> st N w)"
    and update: "NetworkDHCPHost_Marshal lx h = Inr x \<Longrightarrow>
      valid (st N) (Update n cmd NETWORK_SECTION_IP_DHCP_HOST 0 x 0)
        (\<lambda>_ w. \<exists>N'. host_update cmd h N N' \<and> st N' w) (\<lambda>e w. (flaky \<or> \<not> host_update_ok cmd h N) \<and> st N w)"
    and marshal: "\<exists>x. NetworkDHCPHost_Marshal lx h = Inr x"
begin

lemma networkXML_valid:
  "valid (st N) (networkXML lx n) (\<lambda>N' w. st N w \<and> N' = N) (\<lambda>e w. flaky \<and> st N w)"
  unfolding networkXML_def
proof (rule valid_tryE [OF desc])
  fix x
  show "valid (\<lambda>w. st N w \<and> Network_Unmarshal lx x = Inr N)
      (tryE (pureE (Some (Network_Unmarshal lx x))) (Wrapf ''parse network XML: %w'' []) ret)
      (\<lambda>N' w. st N w \<and> N' = N) (\<lambda>e w. flaky \<and> st N w)"
    by (simp add: valid_def tryE_eqs)
qed

text \<open>What every step after \<^verbatim>\<open>networkXML\<close> starts from: the parsed network is the current one.\<close>

lemma after_networkXML:
  assumes "valid (st N) (k N) Q (\<lambda>e w. (flaky \<or> b) \<and> st N w)"
  shows "valid (st N) (tryE (networkXML lx n) id k) Q (\<lambda>e w. (flaky \<or> b) \<and> st N w)"
proof (rule valid_tryE [where R = "\<lambda>N' w. st N w \<and> N' = N"])
  show "valid (st N) (networkXML lx n) (\<lambda>N' w. st N w \<and> N' = N) (\<lambda>e w. (flaky \<or> b) \<and> st N w)"
    by (rule valid_post [OF networkXML_valid]) auto
qed (simp add: valid_pure_pre assms)

lemma commit_valid:
  assumes inv: "hosts_inv (hosts_of N)"
    and plan: "planHostUpdate lx N d mac = Some (Inr (ip, xml, cmd, upd))"
  shows "valid (st N)
     (if \<not> upd then ret ip
      else tryE (Update n cmd NETWORK_SECTION_IP_DHCP_HOST 0 xml 0) f (\<lambda>_. ret ip))
     (\<lambda>ip w. \<exists>N'. reservation_made N d mac ip N' \<and> st N' w)
     (\<lambda>e w. (flaky \<or> \<not> first_subnet_free N d mac) \<and> st N w)"
proof (cases upd)
  case False
  with planHostUpdate_made [OF inv plan] show ?thesis by (auto simp: valid_def)
next
  case True
  have x: "NetworkDHCPHost_Marshal lx (new_host d mac ip) = Inr xml"
    using plan True by (cases rule: planHostUpdate_cases) simp_all
  have ok: "host_update_ok cmd (new_host d mac ip) N" if "first_subnet_free N d mac"
    using planHostUpdate_ok [OF inv that] plan True by simp
  have "valid (st N)
      (tryE (Update n cmd NETWORK_SECTION_IP_DHCP_HOST 0 xml 0) f (\<lambda>_. ret ip))
      (\<lambda>ip w. \<exists>N'. reservation_made N d mac ip N' \<and> st N' w)
      (\<lambda>e w. (flaky \<or> \<not> first_subnet_free N d mac) \<and> st N w)"
    by (rule valid_tryE [where R = "\<lambda>_ w. \<exists>N'. host_update cmd (new_host d mac ip) N N' \<and> st N' w"],
        rule valid_post [OF update [OF x]])
       (use ok planHostUpdate_made [OF inv plan] True in \<open>auto intro!: valid_ret\<close>)
  with True show ?thesis by simp
qed

lemma reserve_valid:
  assumes inv: "hosts_inv (hosts_of N)" and ends: "\<not> endless_range N"
  shows "valid (st N) (reserveMachineIP lx n netName d mac)
     (\<lambda>ip w. \<exists>N'. reservation_made N d mac ip N' \<and> st N' w)
     (\<lambda>e w. (flaky \<or> (\<exists>e'. allocateMachineIPIn N d mac = Some (Inl e')) \<or> \<not> first_subnet_free N d mac) \<and> st N w)"
  unfolding reserveMachineIP_def
proof (rule after_networkXML)
  obtain a where alloc: "allocateMachineIPIn N d mac = Some a"
    using ends allocate_None [of N d mac] by auto
  show "valid (st N)
     (tryE (pureE (planHostUpdate lx N d mac)) id (\<lambda>(ip, xml, cmd, doUpdate).
        if \<not> doUpdate then ret ip
        else tryE (Update n cmd NETWORK_SECTION_IP_DHCP_HOST 0 xml 0)
            (Wrapf ''update DHCP host entry for %s on network %s: %w'' [d, netName]) (\<lambda>_. ret ip)))
     (\<lambda>ip w. \<exists>N'. reservation_made N d mac ip N' \<and> st N' w)
     (\<lambda>e w. (flaky \<or> (\<exists>e'. allocateMachineIPIn N d mac = Some (Inl e')) \<or> \<not> first_subnet_free N d mac) \<and> st N w)"
  proof (cases a)
    case (Inl e)
    then have "planHostUpdate lx N d mac = Some (Inl e)" by (simp add: planHostUpdate_def alloc)
    then show ?thesis by (auto simp: alloc Inl intro!: valid_throw)
  next
    case (Inr ip)
    obtain xml where "NetworkDHCPHost_Marshal lx (new_host d mac ip) = Inr xml" using marshal by blast
    then have "\<exists>p. planHostUpdate lx N d mac = Some (Inr p)"
      by (auto simp: planHostUpdate_def alloc Inr machineHostXML_def Let_def)
    then obtain ip xml cmd upd where plan: "planHostUpdate lx N d mac = Some (Inr (ip, xml, cmd, upd))"
      by auto
    show ?thesis
      unfolding plan tryE_pureE prod.case
      by (rule valid_post [OF commit_valid [OF inv plan]]) auto
  qed
qed

text \<open>With a range that ends at 255.255.255.255 the call does not return, unless it fails before.\<close>

lemma reserve_endless:
  assumes "endless_range N" "st N w"
  shows "reserveMachineIP lx n netName d mac w = None
     \<or> flaky \<and> (\<exists>e w'. reserveMachineIP lx n netName d mac w = Some (Inl e, w') \<and> st N w')"
proof -
  have plan: "planHostUpdate lx N d mac = None"
    using assms(1) by (simp add: planHostUpdate_def allocate_None [symmetric, where d = d and mac = mac])
  from networkXML_valid [of N] assms(2) obtain r w' where r: "networkXML lx n w = Some (r, w')"
    and "case r of Inl e \<Rightarrow> flaky \<and> st N w' | Inr N' \<Rightarrow> st N w' \<and> N' = N"
    unfolding valid_def by blast
  then show ?thesis
    by (cases r) (auto simp: reserveMachineIP_def tryE_def catchE_def plan pureE_def)
qed

text \<open>A second reservation for the same domain changes nothing and gives the same address.\<close>

lemma reserve_again_valid:
  assumes inv: "hosts_inv (hosts_of N)" and made: "reservation_made N d mac ip N'"
  shows "valid (st N') (reserveMachineIP lx n netName d mac)
     (\<lambda>ip' w. ip' = ip \<and> st N' w) (\<lambda>e w. (flaky \<or> False) \<and> st N' w)"
  unfolding reserveMachineIP_def
proof (rule after_networkXML)
  have alloc: "allocateMachineIPIn N' d mac = Some (Inr ip)"
    using inv made unfolding reservation_made_def by (auto intro: allocate_stable)
  have plan: "planHostUpdate lx N' d mac = Some (Inr (ip, [], NETWORK_UPDATE_COMMAND_NONE, False))"
    using made alloc unfolding reservation_made_def by (intro planHostUpdate_reserved) simp_all
  show "valid (st N')
     (tryE (pureE (planHostUpdate lx N' d mac)) id (\<lambda>(ip, xml, cmd, doUpdate).
        if \<not> doUpdate then ret ip
        else tryE (Update n cmd NETWORK_SECTION_IP_DHCP_HOST 0 xml 0)
            (Wrapf ''update DHCP host entry for %s on network %s: %w'' [d, netName]) (\<lambda>_. ret ip)))
     (\<lambda>ip' w. ip' = ip \<and> st N' w) (\<lambda>e w. (flaky \<or> False) \<and> st N' w)"
    by (simp add: valid_def plan)
qed

lemma release_entry_valid:
  assumes inv: "hosts_inv (hosts_of N)" and entry: "hostEntryInNetwork N mac = Some h"
  shows "valid (st N)
       (tryE (pureE (Some (machineHostXML lx d mac (host_IP h)))) f (\<lambda>xml.
        tryE (Update n NETWORK_UPDATE_COMMAND_DELETE NETWORK_SECTION_IP_DHCP_HOST 0 xml 0) g (\<lambda>_. ret ())))
     (\<lambda>_ w. \<exists>N'. reservation_released N mac N' \<and> st N' w)
     (\<lambda>e w. (flaky \<or> \<not> entry_ours N d mac) \<and> st N w)"
proof -
  obtain x where x: "NetworkDHCPHost_Marshal lx (new_host d mac (host_IP h)) = Inr x" using marshal by blast
  have ok: "host_update_ok NETWORK_UPDATE_COMMAND_DELETE (new_host d mac (host_IP h)) N" if "entry_ours N d mac"
    using that hostEntry_Some [OF entry] by (auto simp: EqualFold_mac_key entry_ours_def hosts_of_split)
  show ?thesis
    unfolding machineHostXML_def x tryE_pureE
    by (rule valid_tryE [where R = "\<lambda>_ w. \<exists>N'. host_update NETWORK_UPDATE_COMMAND_DELETE
            (new_host d mac (host_IP h)) N N' \<and> st N' w"], rule valid_post [OF update [OF x]])
       (blast, use ok in blast, rule valid_ret, use delete_releases [OF _ inv] in blast)
qed

lemma release_valid:
  assumes inv: "hosts_inv (hosts_of N)"
  shows "valid (st N) (releaseMachineIP lx n netName d mac)
     (\<lambda>_ w. \<exists>N'. reservation_released N mac N' \<and> st N' w)
     (\<lambda>e w. (flaky \<or> \<not> entry_ours N d mac) \<and> st N w)"
  unfolding releaseMachineIP_def
proof (rule after_networkXML)
  have "reservation_released N mac N" if "hostEntryInNetwork N mac = None"
    using inv that by (simp add: reservation_released_def other_hosts_def hostEntry_None)
  then show "valid (st N)
     (case hostEntryInNetwork N mac of
        None \<Rightarrow> ret ()
      | Some existing \<Rightarrow>
          tryE (pureE (Some (machineHostXML lx d mac (host_IP existing))))
            (Wrapf ''marshal DHCP host entry for %s: %w'' [d]) (\<lambda>xml.
          tryE (Update n NETWORK_UPDATE_COMMAND_DELETE NETWORK_SECTION_IP_DHCP_HOST 0 xml 0)
            (Wrapf ''remove DHCP host entry for %s on network %s: %w'' [d, netName]) (\<lambda>_. ret ())))
     (\<lambda>_ w. \<exists>N'. reservation_released N mac N' \<and> st N' w)
     (\<lambda>e w. (flaky \<or> \<not> entry_ours N d mac) \<and> st N w)"
  proof (cases "hostEntryInNetwork N mac")
    case (Some h)
    show ?thesis unfolding Some option.case by (rule release_entry_valid [OF inv Some])
  qed (auto intro!: valid_ret)
qed

end

end
