(* ===== verification/LocalFiles.thy ===== *)
theory LocalFiles
  imports CloudInit
begin

text \<open>
  The contract of the local file system and of the disk image library, as the locale \<open>local_files\<close>, and
  what it gives for \<^verbatim>\<open>connectionURI\<close> and \<^verbatim>\<open>writeCloudInitISO\<close>: the files an operation writes lie in its
  temporary directory and are gone when it returns, and the bytes it reads back are the image of the
  machine's user data and meta-data.
\<close>

section \<open>State\<close>

text \<open>
  \<open>dirs\<close> and \<open>files\<close> are the temporary directories and the files. The other fields give the meaning of
  open handles: the path of a disk image, the path and the files of a file system being built, the file
  system and name of a file in it, the path of an open file.
\<close>

record fsys =
  dirs :: "string set"
  files :: "string \<rightharpoonup> bytes"
  fs_disks :: "DiskHandle \<rightharpoonup> string"
  fs_images :: "FileSystem \<rightharpoonup> string \<times> (string \<times> bytes) list"
  fs_opened :: "FsFile \<rightharpoonup> FileSystem \<times> string"
  os_opened :: "OsFile \<rightharpoonup> string"

text \<open>\<open>below d p\<close>: the path \<open>p\<close> is \<open>d\<close> or lies in the directory \<open>d\<close>.\<close>

definition below :: "string \<Rightarrow> string \<Rightarrow> bool" where
  "below d p \<longleftrightarrow> p = d \<or> take (Suc (length d)) p = d @ ''/''"

definition remove_below :: "string \<Rightarrow> fsys \<Rightarrow> fsys" where
  "remove_below d f =
     f\<lparr>dirs := {p \<in> dirs f. \<not> below d p}, files := (\<lambda>p. if below d p then None else files f p)\<rparr>"

text \<open>\<open>only_below d f f'\<close>: no file or directory outside \<open>d\<close> differs.\<close>

definition only_below :: "string \<Rightarrow> fsys \<Rightarrow> fsys \<Rightarrow> bool" where
  "only_below d f f' \<longleftrightarrow>
     (\<forall>p. \<not> below d p \<longrightarrow> (p \<in> dirs f' \<longleftrightarrow> p \<in> dirs f) \<and> files f' p = files f p)"

definition same_files :: "fsys \<Rightarrow> fsys \<Rightarrow> bool" where
  "same_files f f' \<longleftrightarrow> dirs f' = dirs f \<and> files f' = files f"

definition fresh_dir :: "string \<Rightarrow> fsys \<Rightarrow> bool" where
  "fresh_dir d f \<longleftrightarrow>
     (\<forall>p. below d p \<longrightarrow> p \<notin> dirs f \<and> files f p = None)"

text \<open>An absolute path in the form \<^verbatim>\<open>filepath.Clean\<close> gives, other than the root.\<close>

definition clean_dir :: "string \<Rightarrow> bool" where
  "clean_dir d \<longleftrightarrow> has_prefix d ''/'' \<and> filepath_Clean d = d \<and> d \<noteq> ''/''"

definition plain_name :: "string \<Rightarrow> bool" where
  "plain_name n \<longleftrightarrow> n \<noteq> [] \<and> CHR ''/'' \<notin> set n \<and> n \<noteq> ''.'' \<and> n \<noteq> ''..''"

section \<open>Paths\<close>

lemma split_on_ne [simp]: "split_on sep s \<noteq> []"
  by (induction s) (auto split: list.splits)

lemma split_on_snoc:
  "CHR ''/'' \<notin> set n \<Longrightarrow> split_on (CHR ''/'') (d @ ''/'' @ n) = split_on (CHR ''/'') d @ [n]"
proof -
  assume n: "CHR ''/'' \<notin> set n"
  then have "split_on (CHR ''/'') n = [n]" by (induction n) auto
  then show ?thesis
    by (induction d) (auto split: list.splits)
qed

lemma Join_snoc: "xs \<noteq> [] \<Longrightarrow> strings_Join (xs @ [n]) sep = strings_Join xs sep @ sep @ n"
  by (induction xs sep rule: strings_Join.induct) auto

lemma Join_dir:
  assumes "clean_dir d" "plain_name n"
  shows "filepath_Join d n = d @ ''/'' @ n"
proof -
  define comps where "comps = fold (clean_step True) (split_on (CHR ''/'') d) []"
  from assms(1) have root: "has_prefix d ''/''" and d: "d = ''/'' @ strings_Join comps ''/''"
    and ne: "d \<noteq> ''/''"
    unfolding clean_dir_def filepath_Clean_def comps_def by (auto simp: Let_def)
  have comps: "comps \<noteq> []" using d ne by auto
  have "has_prefix (d @ ''/'' @ n) ''/''" using root by (cases d) (auto simp: has_prefix_def)
  moreover have "fold (clean_step True) (split_on (CHR ''/'') (d @ ''/'' @ n)) [] = comps @ [n]"
    using assms(2) split_on_snoc [of n d]
    by (simp add: plain_name_def clean_step_def comps_def)
  ultimately have "filepath_Clean (d @ ''/'' @ n) = ''/'' @ strings_Join (comps @ [n]) ''/''"
    unfolding filepath_Clean_def by (simp add: Let_def)
  also have "\<dots> = d @ ''/'' @ n" using comps d by (metis Join_snoc append_assoc)
  finally show ?thesis using d by (simp add: filepath_Join_def)
qed

lemma below_dir [simp]: "below d (d @ ''/'' @ n)" "below d (d @ CHR ''/'' # n)" "below d d"
  by (simp_all add: below_def)

lemma only_below_refl [simp]: "only_below d f f"
  by (simp add: only_below_def)

lemma only_below_trans: "only_below d f g \<Longrightarrow> only_below d g h \<Longrightarrow> only_below d f h"
  by (simp add: only_below_def)

lemma remove_below_same:
  assumes "fresh_dir d f" "only_below d f f'"
  shows "same_files f (remove_below d f')"
  using assms unfolding fresh_dir_def only_below_def same_files_def remove_below_def
  by (auto intro!: ext)

section \<open>The contract\<close>

text \<open>\<open>touched p f f'\<close>: at most the file \<open>p\<close> differs; the tables of disks and images are kept.\<close>

definition touched :: "string \<Rightarrow> fsys \<Rightarrow> fsys \<Rightarrow> bool" where
  "touched p f f' \<longleftrightarrow>
     dirs f' = dirs f \<and> (\<forall>q. q \<noteq> p \<longrightarrow> files f' q = files f q) \<and> fs_disks f' = fs_disks f"

text \<open>
  What the use of temporary directories leaves behind: nothing, or, when calls may fail, at most new files
  and directories.
\<close>

definition tidy :: "bool \<Rightarrow> fsys \<Rightarrow> fsys \<Rightarrow> bool" where
  "tidy flaky f f' \<longleftrightarrow> dirs f \<subseteq> dirs f' \<and> files f \<subseteq>\<^sub>m files f' \<and> (flaky \<or> same_files f f')"

lemma tidy_refl [simp]: "tidy flaky f f"
  by (simp add: tidy_def same_files_def)

lemma tidy_trans: "tidy flaky f g \<Longrightarrow> tidy flaky g h \<Longrightarrow> tidy flaky f h"
  unfolding tidy_def same_files_def using map_le_trans by force

lemma tidy_fresh: "fresh_dir d f \<Longrightarrow> only_below d f f' \<Longrightarrow> flaky \<or> same_files f f' \<Longrightarrow> tidy flaky f f'"
  unfolding tidy_def fresh_dir_def only_below_def map_le_def by (auto simp: dom_def) (metis option.simps(3))+

fun is_iso9660 :: "FileSystem \<Rightarrow> bool" where
  "is_iso9660 (Iso9660FS _) = True"
| "is_iso9660 (OtherFS _) = False"

text \<open>
  The file system \<open>fs\<close> is being built in the image file \<open>p\<close>, its files so far are \<open>xs\<close>; nothing but \<open>p\<close>
  differs from \<open>f0\<close>.
\<close>

definition building :: "(fsys \<Rightarrow> 'w \<Rightarrow> bool) \<Rightarrow> fsys \<Rightarrow> string \<Rightarrow> FileSystem \<Rightarrow> (string \<times> bytes) list \<Rightarrow> 'w \<Rightarrow> bool" where
  "building st f0 p fs xs w \<longleftrightarrow>
     (\<exists>f. (touched p f0 f \<and> fs_images f fs = Some (p, xs)) \<and> st f w)"

definition editing ::
  "(fsys \<Rightarrow> 'w \<Rightarrow> bool) \<Rightarrow> fsys \<Rightarrow> string \<Rightarrow> FileSystem \<Rightarrow> (string \<times> bytes) list \<Rightarrow> FsFile \<Rightarrow> string \<Rightarrow> 'w \<Rightarrow> bool" where
  "editing st f0 p fs xs h name w \<longleftrightarrow>
     (\<exists>f. (touched p f0 f \<and> fs_images f fs = Some (p, xs) \<and> fs_opened f h = Some (fs, name)) \<and> st f w)"

text \<open>The image \<open>img\<close> has been written, its file system is still open.\<close>

definition finished ::
  "(fsys \<Rightarrow> 'w \<Rightarrow> bool) \<Rightarrow> fsys \<Rightarrow> string \<Rightarrow> FileSystem \<Rightarrow> bytes \<Rightarrow> 'w \<Rightarrow> bool" where
  "finished st f0 p fs img w \<longleftrightarrow>
     (\<exists>f. (touched p f0 f \<and> files f p = Some img \<and> (\<exists>xs. fs_images f fs = Some (p, xs))) \<and> st f w)"

lemma touched_trans: "touched p f g \<Longrightarrow> touched p g h \<Longrightarrow> touched p f h"
  by (simp add: touched_def)

text \<open>At most the image file \<open>p\<close> differs from \<open>f0\<close>, and the disk \<open>dk\<close> is open on it.\<close>

definition file_only :: "string \<Rightarrow> fsys \<Rightarrow> fsys \<Rightarrow> bool" where
  "file_only p f f' \<longleftrightarrow> dirs f' = dirs f \<and> (\<forall>q. q \<noteq> p \<longrightarrow> files f' q = files f q)"

definition on_disk :: "fsys \<Rightarrow> string \<Rightarrow> Disk \<Rightarrow> fsys \<Rightarrow> bool" where
  "on_disk f0 p dk f \<longleftrightarrow> file_only p f0 f \<and> fs_disks f (disk_Handle dk) = Some p"

definition holding ::
  "(fsys \<Rightarrow> 'w \<Rightarrow> bool) \<Rightarrow> fsys \<Rightarrow> string \<Rightarrow> Disk \<Rightarrow> (bytes option \<Rightarrow> bool) \<Rightarrow> 'w \<Rightarrow> bool" where
  "holding st f0 p dk Q w \<longleftrightarrow> (\<exists>f. (on_disk f0 p dk f \<and> Q (files f p)) \<and> st f w)"

lemma on_disk_touched: "on_disk f0 p dk f \<Longrightarrow> touched p f f' \<Longrightarrow> on_disk f0 p dk f'"
  by (simp add: on_disk_def file_only_def touched_def)

lemma touched_refl [simp]: "touched p f f"
  by (simp add: touched_def)

lemma touched_below: "below d p \<Longrightarrow> touched p f f' \<Longrightarrow> only_below d f f'"
  unfolding only_below_def touched_def by metis

text \<open>
  The laws. \<open>st f w\<close> says that in world \<open>w\<close> the file system is \<open>f\<close>. When \<open>flaky\<close> is false, no call fails
  whose preconditions hold. \<open>mk_iso label rockRidge fs\<close> are the bytes of the finished image of the files
  \<open>fs\<close>.
\<close>

locale local_files =
  fixes os :: "'w os_api"
    and dfs :: "'w diskfs"
    and st :: "fsys \<Rightarrow> 'w \<Rightarrow> bool"
    and mk_iso :: "string \<Rightarrow> bool \<Rightarrow> (string \<times> bytes) list \<Rightarrow> bytes"
    and flaky :: bool
  assumes mkdir: "valid (st f) (os_MkdirTemp os [] pat)
      (\<lambda>d w. clean_dir d \<and> fresh_dir d f \<and> st (f\<lparr>dirs := insert d (dirs f)\<rparr>) w) (\<lambda>e w. flaky \<and> st f w)"
    and remove: "st f w \<Longrightarrow>
      \<exists>f'. only_below d f f' \<and> (flaky \<or> f' = remove_below d f) \<and> st f' (os_RemoveAll os d w)"
    and write_os: "d \<in> dirs f \<Longrightarrow> below d p \<Longrightarrow> valid (st f) (os_WriteFile os p b mode)
      (\<lambda>_. st (f\<lparr>files := (files f)(p \<mapsto> b)\<rparr>)) (\<lambda>e w. flaky \<and> (\<exists>f'. touched p f f' \<and> st f' w))"
    and open_os: "files f p = Some b \<Longrightarrow> valid (st f) (os_Open os p)
      (\<lambda>h. st (f\<lparr>os_opened := (os_opened f)(h \<mapsto> p)\<rparr>)) (\<lambda>e w. flaky \<and> st f w)"
    and close_os: "st f w \<Longrightarrow> st (f\<lparr>os_opened := (os_opened f)(h := None)\<rparr>) (OsFile_Close os h w)"
    and copy: "os_opened f h = Some p \<Longrightarrow> files f p = Some b \<Longrightarrow> valid (st f) (io_Copy os h)
      (\<lambda>b' w. b' = b \<and> st f w) (\<lambda>e w. flaky \<and> st f w)"
    and create: "valid (st f) (diskfs_Create dfs p sz ss)
      (\<lambda>d w. \<exists>b. st (f\<lparr>files := (files f)(p \<mapsto> b), fs_disks := (fs_disks f)(disk_Handle d \<mapsto> p)\<rparr>) w)
      (\<lambda>e w. flaky \<and> (\<exists>f'. touched p f f' \<and> st f' w))"
    and close_disk: "fs_disks f (disk_Handle dk) = Some p \<Longrightarrow> valid (st f) (Disk_Close dfs dk)
      (\<lambda>_ w. \<exists>f'. same_files f f' \<and> st f' w) (\<lambda>e w. flaky \<and> (\<exists>f'. touched p f f' \<and> st f' w))"
    and make_fs: "fs_disks f (disk_Handle dk) = Some p \<Longrightarrow> disk_LogicalBlocksize dk = 2048 \<Longrightarrow>
      spec_FSType spec = TypeISO9660 \<Longrightarrow> valid (st f) (Disk_CreateFilesystem dfs dk spec)
      (\<lambda>fs w. is_iso9660 fs \<and> (\<exists>f'. touched p f f' \<and> fs_images f' fs = Some (p, []) \<and> st f' w))
      (\<lambda>e w. flaky \<and> (\<exists>f'. touched p f f' \<and> st f' w))"
    and open_fs: "fs_images f fs = Some (p, xs) \<Longrightarrow> valid (st f) (Fs_OpenFile dfs fs name flags)
      (\<lambda>hf w. \<exists>f'. touched p f f' \<and> fs_images f' fs = Some (p, xs) \<and> fs_opened f' hf = Some (fs, name) \<and> st f' w)
      (\<lambda>e w. flaky \<and> (\<exists>f'. touched p f f' \<and> fs_images f' fs = Some (p, xs) \<and> st f' w))"
    and write_fs: "fs_opened f hf = Some (fs, name) \<Longrightarrow> fs_images f fs = Some (p, xs) \<Longrightarrow>
      valid (st f) (FsFile_Write dfs hf b)
      (\<lambda>_ w. \<exists>f'. touched p f f' \<and> fs_images f' fs = Some (p, xs @ [(name, b)])
               \<and> fs_opened f' hf = Some (fs, name) \<and> st f' w)
      (\<lambda>e w. flaky \<and> (\<exists>f' ys. touched p f f' \<and> fs_images f' fs = Some (p, ys)
               \<and> fs_opened f' hf = Some (fs, name) \<and> st f' w))"
    and close_fs_file: "fs_opened f hf = Some (fs, name) \<Longrightarrow> fs_images f fs = Some (p, xs) \<Longrightarrow>
      valid (st f) (FsFile_Close dfs hf)
      (\<lambda>_ w. \<exists>f'. touched p f f' \<and> fs_images f' fs = Some (p, xs) \<and> st f' w)
      (\<lambda>e w. flaky \<and> (\<exists>f' ys. touched p f f' \<and> fs_images f' fs = Some (p, ys) \<and> st f' w))"
    and finalize: "fs_images f (Iso9660FS k) = Some (p, xs) \<Longrightarrow> valid (st f) (Iso_Finalize dfs k opts)
      (\<lambda>_ w. \<exists>f'. touched p f f' \<and> fs_images f' (Iso9660FS k) = Some (p, xs)
               \<and> files f' p = Some (mk_iso (fin_VolumeIdentifier opts) (fin_RockRidge opts) xs) \<and> st f' w)
      (\<lambda>e w. flaky \<and> (\<exists>f' ys. touched p f f' \<and> fs_images f' (Iso9660FS k) = Some (p, ys) \<and> st f' w))"
    and close_fs: "fs_images f fs = Some (p, xs) \<Longrightarrow> valid (st f) (Fs_Close dfs fs)
      (\<lambda>_ w. \<exists>f'. same_files f f' \<and> fs_disks f' = fs_disks f \<and> st f' w)
      (\<lambda>e w. flaky \<and> (\<exists>f'. touched p f f' \<and> st f' w))"
begin

lemma building_open:
  "valid (building st f0 p fs xs) (Fs_OpenFile dfs fs name flags) (\<lambda>h. editing st f0 p fs xs h name)
     (\<lambda>e w. flaky \<and> building st f0 p fs xs w)"
  unfolding building_def editing_def
  by (rule valid_in_state, elim conjE, rule valid_post [OF open_fs], assumption)
     (blast intro: touched_trans)+

lemma building_write:
  "valid (editing st f0 p fs xs h name) (FsFile_Write dfs h b) (\<lambda>_. editing st f0 p fs (xs @ [(name, b)]) h name)
     (\<lambda>e w. flaky \<and> (\<exists>ys. editing st f0 p fs ys h name w))"
  unfolding editing_def
  by (rule valid_in_state, elim conjE, rule valid_post [OF write_fs], assumption, assumption)
     (blast intro: touched_trans)+

lemma building_close:
  "valid (editing st f0 p fs xs h name) (FsFile_Close dfs h) (\<lambda>_. building st f0 p fs xs)
     (\<lambda>e w. flaky \<and> (\<exists>ys. building st f0 p fs ys w))"
  unfolding building_def editing_def
  by (rule valid_in_state, elim conjE, rule valid_post [OF close_fs_file], assumption, assumption)
     (blast intro: touched_trans)+

lemma writeISOFile_valid:
  "valid (building st f0 p fs xs) (writeISOFile dfs fs name b) (\<lambda>_. building st f0 p fs (xs @ [(name, b)]))
     (\<lambda>e w. flaky \<and> (\<exists>ys. building st f0 p fs ys w))"
  unfolding writeISOFile_def throw_joined_def
proof (intro valid_tryE valid_catchE)
  show "valid (building st f0 p fs xs) (Fs_OpenFile dfs fs name O_CREATE_WRONLY)
      (\<lambda>h. editing st f0 p fs xs h name) (\<lambda>e w. flaky \<and> (\<exists>ys. building st f0 p fs ys w))"
    by (rule valid_post [OF building_open]) blast+
  fix h
  show "valid (editing st f0 p fs xs h name) (FsFile_Write dfs h b)
      (\<lambda>_. editing st f0 p fs (xs @ [(name, b)]) h name) (\<lambda>e w. flaky \<and> (\<exists>ys. editing st f0 p fs ys h name w))"
    by (rule building_write)
  show "valid (editing st f0 p fs (xs @ [(name, b)]) h name) (FsFile_Close dfs h)
      (\<lambda>_. building st f0 p fs (xs @ [(name, b)])) (\<lambda>e w. flaky \<and> (\<exists>ys. building st f0 p fs ys w))"
    by (rule building_close)
  show "valid (\<lambda>w. flaky \<and> (\<exists>ys. editing st f0 p fs ys h name w)) (FsFile_Close dfs h)
      (\<lambda>_ w. flaky \<and> (\<exists>ys. building st f0 p fs ys w)) (\<lambda>e w. flaky \<and> (\<exists>ys. building st f0 p fs ys w))"
    by (rule valid_flaky, rule valid_post [OF building_close]) auto
qed (auto intro: valid_throw valid_ret)

lemma finalize_valid:
  "valid (building st f0 p (Iso9660FS k) xs) (Iso_Finalize dfs k opts)
     (\<lambda>_. finished st f0 p (Iso9660FS k) (mk_iso (fin_VolumeIdentifier opts) (fin_RockRidge opts) xs))
     (\<lambda>e w. flaky \<and> (\<exists>ys. building st f0 p (Iso9660FS k) ys w))"
  unfolding building_def finished_def
  by (rule valid_in_state, elim conjE, rule valid_post [OF finalize], assumption)
     (blast intro: touched_trans)+

text \<open>The image that \<^verbatim>\<open>populateISO\<close> leaves: user data and meta-data under the label \<^verbatim>\<open>cidata\<close>.\<close>

lemma populateISO_valid:
  assumes "is_iso9660 fs"
  shows "valid (building st f0 p fs []) (populateISO dfs fs ud md)
     (\<lambda>_. finished st f0 p fs (mk_iso isoLabel True [(userDataFileName, ud), (metaDataFileName, md)]))
     (\<lambda>e w. flaky \<and> (\<exists>ys. building st f0 p fs ys w))"
proof -
  from assms obtain k where k: "fs = Iso9660FS k" by (cases fs) auto
  show ?thesis
    unfolding populateISO_def k FileSystem.case
    by (rule valid_tryE, rule writeISOFile_valid, rule valid_tryE, rule writeISOFile_valid,
        rule valid_tryE, rule finalize_valid, rule valid_ret) simp
qed

lemma make_fs_valid:
  "valid (holding st f0 p dk (\<lambda>_. True))
     (Disk_CreateFilesystem dfs (dk\<lparr>disk_LogicalBlocksize := isoLogicalBlockSize\<rparr>)
        \<lparr>spec_Partition = 0, spec_FSType = TypeISO9660\<rparr>)
     (\<lambda>fs w. is_iso9660 fs \<and> (\<exists>f1. on_disk f0 p dk f1 \<and> building st f1 p fs [] w))
     (\<lambda>e w. flaky \<and> holding st f0 p dk (\<lambda>_. True) w)"
  unfolding holding_def
proof (rule valid_in_state, elim conjE, rule valid_post [OF make_fs])
  fix f
  assume f: "on_disk f0 p dk f"
  then show "fs_disks f (disk_Handle (dk\<lparr>disk_LogicalBlocksize := isoLogicalBlockSize\<rparr>)) = Some p"
    by (simp add: on_disk_def)
  fix fs w
  assume "is_iso9660 fs \<and> (\<exists>f'. touched p f f' \<and> fs_images f' fs = Some (p, []) \<and> st f' w)"
  then show "is_iso9660 fs \<and> (\<exists>f1. on_disk f0 p dk f1 \<and> building st f1 p fs [] w)"
    using f unfolding building_def by blast
next
  fix f w
  assume "on_disk f0 p dk f" "flaky \<and> (\<exists>f'. touched p f f' \<and> st f' w)"
  then show "flaky \<and> (\<exists>y. (on_disk f0 p dk y \<and> True) \<and> st y w)"
    by (blast intro: on_disk_touched)
qed (simp_all add: isoLogicalBlockSize_def)

lemma close_fs_finished:
  assumes "on_disk f0 p dk f1"
  shows "valid (finished st f1 p fs img) (Fs_Close dfs fs)
     (\<lambda>_. holding st f0 p dk (\<lambda>x. x = Some img)) (\<lambda>e w. flaky \<and> holding st f0 p dk (\<lambda>_. True) w)"
  unfolding finished_def holding_def
proof (rule valid_in_state, elim conjE exE, rule valid_post [OF close_fs], assumption)
  fix f w
  assume f: "touched p f1 f" "files f p = Some img"
    and "\<exists>f'. same_files f f' \<and> fs_disks f' = fs_disks f \<and> st f' w"
  then obtain f' where f': "same_files f f'" "fs_disks f' = fs_disks f" "st f' w" by blast
  have "on_disk f0 p dk f" using assms f(1) by (rule on_disk_touched)
  with f f' show "\<exists>y. (on_disk f0 p dk y \<and> files y p = Some img) \<and> st y w"
    by (intro exI [of _ f']) (simp add: on_disk_def file_only_def same_files_def)
qed (use assms on_disk_touched in blast)

lemma close_fs_building:
  assumes "on_disk f0 p dk f1"
  shows "valid (building st f1 p fs xs) (Fs_Close dfs fs)
     (\<lambda>_. holding st f0 p dk (\<lambda>_. True)) (\<lambda>e w. flaky \<and> holding st f0 p dk (\<lambda>_. True) w)"
  unfolding building_def holding_def
proof (rule valid_in_state, elim conjE exE, rule valid_post [OF close_fs], assumption)
  fix f w
  assume f: "touched p f1 f" and "\<exists>f'. same_files f f' \<and> fs_disks f' = fs_disks f \<and> st f' w"
  then obtain f' where f': "same_files f f'" "fs_disks f' = fs_disks f" "st f' w" by blast
  have "on_disk f0 p dk f" using assms f(1) by (rule on_disk_touched)
  with f' show "\<exists>y. (on_disk f0 p dk y \<and> True) \<and> st y w"
    by (intro exI [of _ f']) (simp add: on_disk_def file_only_def same_files_def)
qed (use assms on_disk_touched in blast)

lemma iso_body_valid:
  "valid (holding st f0 p dk (\<lambda>_. True))
     (tryE (Disk_CreateFilesystem dfs (dk\<lparr>disk_LogicalBlocksize := isoLogicalBlockSize\<rparr>)
         \<lparr>spec_Partition = 0, spec_FSType = TypeISO9660\<rparr>) c (\<lambda>fs.
      catchE (populateISO dfs fs ud md) (\<lambda>err. throw_joined err (Fs_Close dfs fs)) (\<lambda>_.
      tryE (Fs_Close dfs fs) c' (\<lambda>_. ret ()))))
     (\<lambda>_. holding st f0 p dk (\<lambda>x. x = Some (mk_iso isoLabel True [(userDataFileName, ud), (metaDataFileName, md)])))
     (\<lambda>e w. flaky \<and> holding st f0 p dk (\<lambda>_. True) w)"
proof (rule valid_tryE [OF make_fs_valid])
  fix fs
  have body: "valid (building st f1 p fs [])
      (catchE (populateISO dfs fs ud md) (\<lambda>err. throw_joined err (Fs_Close dfs fs)) (\<lambda>_.
       tryE (Fs_Close dfs fs) c' (\<lambda>_. ret ())))
      (\<lambda>_. holding st f0 p dk (\<lambda>x. x = Some (mk_iso isoLabel True [(userDataFileName, ud), (metaDataFileName, md)])))
      (\<lambda>e w. flaky \<and> holding st f0 p dk (\<lambda>_. True) w)"
    if "on_disk f0 p dk f1" "is_iso9660 fs" for f1
    unfolding throw_joined_def
  proof (intro valid_catchE valid_tryE, rule populateISO_valid [OF that(2)])
    show "valid (\<lambda>w. flaky \<and> (\<exists>ys. building st f1 p fs ys w)) (Fs_Close dfs fs)
        (\<lambda>_ w. flaky \<and> holding st f0 p dk (\<lambda>_. True) w) (\<lambda>e w. flaky \<and> holding st f0 p dk (\<lambda>_. True) w)"
      by (rule valid_flaky, rule valid_post [OF close_fs_building [OF that(1)]]) auto
    show "valid (finished st f1 p fs (mk_iso isoLabel True [(userDataFileName, ud), (metaDataFileName, md)]))
        (Fs_Close dfs fs)
        (\<lambda>_. holding st f0 p dk (\<lambda>x. x = Some (mk_iso isoLabel True [(userDataFileName, ud), (metaDataFileName, md)])))
        (\<lambda>e w. flaky \<and> holding st f0 p dk (\<lambda>_. True) w)"
      by (rule close_fs_finished [OF that(1)])
  qed (auto intro: valid_throw valid_ret)
  show "valid (\<lambda>w. is_iso9660 fs \<and> (\<exists>f1. on_disk f0 p dk f1 \<and> building st f1 p fs [] w))
      (catchE (populateISO dfs fs ud md) (\<lambda>err. throw_joined err (Fs_Close dfs fs)) (\<lambda>_.
       tryE (Fs_Close dfs fs) c' (\<lambda>_. ret ())))
      (\<lambda>_. holding st f0 p dk (\<lambda>x. x = Some (mk_iso isoLabel True [(userDataFileName, ud), (metaDataFileName, md)])))
      (\<lambda>e w. flaky \<and> holding st f0 p dk (\<lambda>_. True) w)"
    by (rule valid_pure_pre', rule valid_in_state) (rule body)
qed

lemma close_disk_valid:
  "valid (holding st f0 p dk Q) (Disk_Close dfs dk)
     (\<lambda>_ w. \<exists>f. (file_only p f0 f \<and> Q (files f p)) \<and> st f w)
     (\<lambda>e w. flaky \<and> (\<exists>f. file_only p f0 f \<and> st f w))"
  unfolding holding_def
proof (rule valid_in_state, elim conjE, rule valid_post [OF close_disk])
  fix f w
  assume f: "on_disk f0 p dk f" "Q (files f p)"
  then show "fs_disks f (disk_Handle dk) = Some p" by (simp add: on_disk_def)
  assume "\<exists>f'. same_files f f' \<and> st f' w"
  then obtain f' where f': "same_files f f'" "st f' w" by blast
  then have "file_only p f0 f' \<and> Q (files f' p)"
    using f by (simp add: on_disk_def same_files_def file_only_def)
  with f'(2) show "\<exists>f. (file_only p f0 f \<and> Q (files f p)) \<and> st f w" by blast
next
  fix f w
  assume "on_disk f0 p dk f" "flaky \<and> (\<exists>f'. touched p f f' \<and> st f' w)"
  then show "flaky \<and> (\<exists>f. file_only p f0 f \<and> st f w)"
    using on_disk_touched unfolding on_disk_def by blast
qed

lemma create_valid:
  "valid (st f0) (diskfs_Create dfs p sz ss) (\<lambda>dk. holding st f0 p dk (\<lambda>_. True))
     (\<lambda>e w. flaky \<and> (\<exists>f. file_only p f0 f \<and> st f w))"
proof (rule valid_post [OF create])
  fix dk :: Disk and w
  assume "\<exists>b. st (f0\<lparr>files := (files f0)(p \<mapsto> b), fs_disks := (fs_disks f0)(disk_Handle dk \<mapsto> p)\<rparr>) w"
  then obtain b where "st (f0\<lparr>files := (files f0)(p \<mapsto> b), fs_disks := (fs_disks f0)(disk_Handle dk \<mapsto> p)\<rparr>) w" ..
  moreover have "on_disk f0 p dk (f0\<lparr>files := (files f0)(p \<mapsto> b), fs_disks := (fs_disks f0)(disk_Handle dk \<mapsto> p)\<rparr>)"
    by (simp add: on_disk_def file_only_def)
  ultimately show "holding st f0 p dk (\<lambda>_. True) w" unfolding holding_def by blast
next
  fix w
  assume "flaky \<and> (\<exists>f'. touched p f0 f' \<and> st f' w)"
  then show "flaky \<and> (\<exists>f. file_only p f0 f \<and> st f w)"
    by (auto simp: touched_def file_only_def)
qed

end

section \<open>The cloud-init image\<close>

text \<open>The bytes of the NoCloud image of a machine.\<close>

definition cloud_init_image ::
  "(string \<Rightarrow> bool \<Rightarrow> (string \<times> bytes) list \<Rightarrow> bytes) \<Rightarrow> ((string \<times> string) list \<Rightarrow> goerror + bytes)
     \<Rightarrow> MachineConfig \<Rightarrow> bytes \<Rightarrow> bool" where
  "cloud_init_image mk_iso marshal cfg b \<longleftrightarrow>
     (\<exists>md. marshal [(''instance-id'', if cfg_DomainUUID cfg = [] then cfg_DomainName cfg else cfg_DomainUUID cfg),
           (''local-hostname'', if cfg_Hostname cfg = [] then cfg_DomainName cfg else cfg_Hostname cfg)] = Inr md
        \<and> b = mk_iso ''cidata'' True [(''user-data'', cfg_UserData cfg), (''meta-data'', md)])"

lemma valid_defer_close:
  assumes "valid P m (\<lambda>_. R) (\<lambda>_. F)" "valid R close (\<lambda>_. Q) (\<lambda>_. X)" "valid F close (\<lambda>_. X) (\<lambda>_. X)"
  shows "valid P (defer_close close m) (\<lambda>_. Q) (\<lambda>_. X)"
  unfolding defer_close_def
  by (rule valid_catchE [OF assms(1)], rule valid_catchE [OF assms(3)], (rule valid_throw, assumption)+,
      rule valid_catchE [OF assms(2)], rule valid_throw, assumption, rule valid_ret, assumption)

context local_files
begin

lemma build_image_valid:
  assumes E: "env_fs E = dfs"
    and md: "yaml_Marshal E (cloudInitMetaData (instanceID cfg) (hostname cfg)) = Inr md"
  shows "valid (st f0) (buildCloudInitISO E p cfg)
     (\<lambda>_ w. \<exists>f. (file_only p f0 f \<and> files f p
        = Some (mk_iso isoLabel True [(userDataFileName, cfg_UserData cfg), (metaDataFileName, md)])) \<and> st f w)
     (\<lambda>e w. flaky \<and> (\<exists>f. file_only p f0 f \<and> st f w))"
  unfolding buildCloudInitISO_def Let_def E md tryE_pureE
proof (rule valid_tryE [OF create_valid], rule valid_defer_close [OF iso_body_valid close_disk_valid])
  fix dk
  show "valid (\<lambda>w. flaky \<and> holding st f0 p dk (\<lambda>_. True) w) (Disk_Close dfs dk)
      (\<lambda>_ w. flaky \<and> (\<exists>f. file_only p f0 f \<and> st f w)) (\<lambda>_ w. flaky \<and> (\<exists>f. file_only p f0 f \<and> st f w))"
    by (rule valid_pure_pre', rule valid_post [OF close_disk_valid]) auto
qed

lemma buildCloudInitISO_valid:
  assumes E: "env_fs E = dfs"
    and yaml: "\<And>doc e. yaml_Marshal E doc = Inl e \<Longrightarrow> flaky"
  shows "valid (st f0) (buildCloudInitISO E p cfg)
     (\<lambda>_ w. \<exists>f. (file_only p f0 f
        \<and> (\<exists>b. cloud_init_image mk_iso (yaml_Marshal E) cfg b \<and> files f p = Some b)) \<and> st f w)
     (\<lambda>e w. flaky \<and> (\<exists>f. file_only p f0 f \<and> st f w))"
proof (cases "yaml_Marshal E (cloudInitMetaData (instanceID cfg) (hostname cfg))")
  case (Inl e)
  then have flaky by (rule yaml)
  moreover have "file_only p f0 f0" by (simp add: file_only_def)
  ultimately show ?thesis
    unfolding buildCloudInitISO_def Inl Let_def tryE_pureE by (auto simp: valid_def)
next
  case (Inr md)
  then have "cloud_init_image mk_iso (yaml_Marshal E) cfg
      (mk_iso isoLabel True [(userDataFileName, cfg_UserData cfg), (metaDataFileName, md)])"
    unfolding cloud_init_image_def cloudInitMetaData_def instanceID_def hostname_def
    by (auto simp: isoLabel_def userDataFileName_def metaDataFileName_def)
  then show ?thesis
    by (intro valid_post [OF build_image_valid [OF E Inr]]) blast+
qed

lemma copyFile_valid:
  assumes "files f p = Some b"
  shows "valid (st f) (copyFile os p) (\<lambda>b' w. b' = b \<and> (\<exists>f'. same_files f f' \<and> st f' w))
     (\<lambda>e w. flaky \<and> (\<exists>f'. same_files f f' \<and> st f' w))"
  unfolding copyFile_def
proof (rule valid_tryE, rule valid_post [OF open_os [OF assms]], assumption)
  fix h
  let ?g = "f\<lparr>os_opened := (os_opened f)(h \<mapsto> p)\<rparr>"
  have closed: "\<exists>f'. same_files f f' \<and> st f' (OsFile_Close os h w)" if "st ?g w" for w
  proof -
    have "st (?g\<lparr>os_opened := (os_opened ?g)(h := None)\<rparr>) (OsFile_Close os h w)" by (rule close_os [OF that])
    moreover have "same_files f (?g\<lparr>os_opened := (os_opened ?g)(h := None)\<rparr>)" by (simp add: same_files_def)
    ultimately show ?thesis by blast
  qed
  have "valid (st ?g) (io_Copy os h) (\<lambda>b' w. b' = b \<and> st ?g w) (\<lambda>e w. flaky \<and> st ?g w)"
    by (rule copy [of _ _ p]) (simp_all add: assms)
  then show "valid (st ?g) (deferE (OsFile_Close os h) (tryE (io_Copy os h) (Wrapf ''copy ISO data: %w'' []) ret))
      (\<lambda>b' w. b' = b \<and> (\<exists>f'. same_files f f' \<and> st f' w)) (\<lambda>e w. flaky \<and> (\<exists>f'. same_files f f' \<and> st f' w))"
    by (intro valid_deferE valid_tryE [where R = "\<lambda>b' w. b' = b \<and> st ?g w"])
       (auto intro!: valid_ret intro: valid_post closed)
qed (auto simp: same_files_def)

text \<open>
  A function body that runs in a fresh temporary directory and touches nothing outside it leaves the
  files as they were.
\<close>

lemma in_temp_dir:
  assumes body: "\<And>d. clean_dir d \<Longrightarrow> fresh_dir d f \<Longrightarrow> valid (st (f\<lparr>dirs := insert d (dirs f)\<rparr>)) (m d)
      (\<lambda>x w. \<exists>f'. only_below d f f' \<and> st' x f' w) (\<lambda>e w. X e \<and> (\<exists>f'. only_below d f f' \<and> st f' w))"
    and remove': "\<And>x f w d. st' x f w \<Longrightarrow>
      \<exists>f'. only_below d f f' \<and> (flaky \<or> f' = remove_below d f) \<and> st' x f' (os_RemoveAll os d w)"
    and X: "\<And>e. flaky \<Longrightarrow> X (c e)"
  shows "valid (st f) (tryE (os_MkdirTemp os [] pat) c (\<lambda>d. deferE (os_RemoveAll os d) (m d)))
     (\<lambda>x w. \<exists>f'. tidy flaky f f' \<and> st' x f' w) (\<lambda>e w. X e \<and> (\<exists>f'. tidy flaky f f' \<and> st f' w))"
proof (rule valid_tryE)
  show "valid (st f) (os_MkdirTemp os [] pat)
      (\<lambda>d w. (clean_dir d \<and> fresh_dir d f) \<and> st (f\<lparr>dirs := insert d (dirs f)\<rparr>) w)
      (\<lambda>e w. X (c e) \<and> (\<exists>f'. tidy flaky f f' \<and> st f' w))"
    using X by (intro valid_post [OF mkdir]) (auto intro: tidy_refl)
  fix d
  have tidy: "tidy flaky f f2"
    if "fresh_dir d f" "only_below d f f1" "only_below d f1 f2" "flaky \<or> f2 = remove_below d f1" for f1 f2
    by (rule tidy_fresh [OF that(1) only_below_trans [OF that(2,3)]])
       (use remove_below_same [OF that(1,2)] that(4) in blast)
  show "valid (\<lambda>w. (clean_dir d \<and> fresh_dir d f) \<and> st (f\<lparr>dirs := insert d (dirs f)\<rparr>) w)
      (deferE (os_RemoveAll os d) (m d)) (\<lambda>x w. \<exists>f'. tidy flaky f f' \<and> st' x f' w)
      (\<lambda>e w. X e \<and> (\<exists>f'. tidy flaky f f' \<and> st f' w))"
  proof (rule valid_pure_pre', rule valid_deferE, rule valid_post [OF body])
    fix x w
    assume d: "clean_dir d \<and> fresh_dir d f" and "\<exists>f'. only_below d f f' \<and> st' x f' w"
    then obtain f1 where f1: "only_below d f f1" "st' x f1 w" by blast
    show "\<exists>f'. tidy flaky f f' \<and> st' x f' (os_RemoveAll os d w)"
      using remove' [OF f1(2), of d] tidy [OF _ f1(1)] d by blast
  next
    fix e w
    assume d: "clean_dir d \<and> fresh_dir d f" and X: "X e \<and> (\<exists>f'. only_below d f f' \<and> st f' w)"
    then obtain f1 where f1: "only_below d f f1" "st f1 w" by blast
    show "X e \<and> (\<exists>f'. tidy flaky f f' \<and> st f' (os_RemoveAll os d w))"
      using remove [OF f1(2), of d] tidy [OF _ f1(1)] d X by blast
  qed simp_all
qed

lemma writeCloudInitISO_valid:
  assumes E: "env_fs E = dfs" "env_os E = os"
    and yaml: "\<And>doc e. yaml_Marshal E doc = Inl e \<Longrightarrow> flaky"
    and name: "CHR ''/'' \<notin> set (cfg_DomainName cfg)"
  shows "valid (st f) (writeCloudInitISO E cfg)
     (\<lambda>b w. \<exists>f'. tidy flaky f f' \<and> cloud_init_image mk_iso (yaml_Marshal E) cfg b \<and> st f' w)
     (\<lambda>e w. flaky \<and> (\<exists>f'. tidy flaky f f' \<and> st f' w))"
  unfolding writeCloudInitISO_def Let_def E
proof (rule in_temp_dir)
  fix d assume d: "clean_dir d"
  let ?p = "d @ ''/'' @ isoDiskName cfg"
  let ?f = "f\<lparr>dirs := insert d (dirs f)\<rparr>"
  have p: "filepath_Join d (isoDiskName cfg) = ?p"
    by (rule Join_dir [OF d]) (use name in \<open>auto simp: plain_name_def isoDiskName_def\<close>)
  have inside: "only_below d f g" if "file_only ?p ?f g" for g
    unfolding only_below_def
  proof (intro allI impI)
    fix q assume "\<not> below d q"
    then have "q \<noteq> ?p" "q \<noteq> d" by auto
    with that show "(q \<in> dirs g \<longleftrightarrow> q \<in> dirs f) \<and> files g q = files f q" by (simp add: file_only_def)
  qed
  show "valid (st ?f) (tryE (buildCloudInitISO E (filepath_Join d (isoDiskName cfg)) cfg) id
        (\<lambda>_. copyFile os (filepath_Join d (isoDiskName cfg))))
      (\<lambda>b w. \<exists>f'. only_below d f f' \<and> cloud_init_image mk_iso (yaml_Marshal E) cfg b \<and> st f' w)
      (\<lambda>e w. flaky \<and> (\<exists>f'. only_below d f f' \<and> st f' w))"
    unfolding p
  proof (rule valid_tryE, rule valid_post [OF buildCloudInitISO_valid [OF E(1) yaml]], assumption, assumption)
    show "valid (\<lambda>w. \<exists>g. (file_only ?p ?f g \<and> (\<exists>b. cloud_init_image mk_iso (yaml_Marshal E) cfg b
          \<and> files g ?p = Some b)) \<and> st g w) (copyFile os ?p)
        (\<lambda>b w. \<exists>f'. only_below d f f' \<and> cloud_init_image mk_iso (yaml_Marshal E) cfg b \<and> st f' w)
        (\<lambda>e w. flaky \<and> (\<exists>f'. only_below d f f' \<and> st f' w))"
    proof (rule valid_in_state, elim conjE exE, rule valid_post [OF copyFile_valid], assumption)
      fix g w
      assume "file_only ?p ?f g"
      then have "only_below d f g" by (rule inside)
      then have "only_below d f f'" if "same_files g f'" for f'
        using that by (simp add: only_below_def same_files_def)
      then show "flaky \<and> (\<exists>f'. same_files g f' \<and> st f' w) \<Longrightarrow> flaky \<and> (\<exists>f'. only_below d f f' \<and> st f' w)"
        and "cloud_init_image mk_iso (yaml_Marshal E) cfg b \<Longrightarrow> x = b \<and> (\<exists>f'. same_files g f' \<and> st f' w)
           \<Longrightarrow> \<exists>f'. only_below d f f' \<and> cloud_init_image mk_iso (yaml_Marshal E) cfg x \<and> st f' w" for b x
        by blast+
    qed
  qed (use inside in auto)
next
  show "\<exists>f'. only_below d f f' \<and> (flaky \<or> f' = remove_below d f)
      \<and> cloud_init_image mk_iso (yaml_Marshal E) cfg b \<and> st f' (os_RemoveAll os d w)"
    if "cloud_init_image mk_iso (yaml_Marshal E) cfg b \<and> st f w" for b f w d
    using that remove by blast
qed

end

section \<open>Credentials\<close>

text \<open>The files of \<open>fs\<close> written into the directory \<open>d\<close>.\<close>

definition with_files :: "string \<Rightarrow> credentialFile list \<Rightarrow> fsys \<Rightarrow> fsys" where
  "with_files d fs f = f\<lparr>files := fold (\<lambda>cf m. m(d @ ''/'' @ cf_name cf \<mapsto> cf_data cf)) fs (files f)\<rparr>"

text \<open>The transport of the URI is one the credentials have keys for.\<close>

definition credentials_fit :: "Credentials \<Rightarrow> string \<Rightarrow> bool" where
  "credentials_fit c uri \<longleftrightarrow>
     (\<exists>u. url_Parse uri = Inr u \<and>
        (transport (url_Scheme u) = ''tls'' \<and> cred_TLS c \<noteq> None
         \<or> transport (url_Scheme u) \<in> {''libssh'', ''libssh2''} \<and> cred_SSH c \<noteq> None))"

text \<open>
  What \<^verbatim>\<open>connectionURI\<close> returns and which files it writes into \<open>d\<close>: the given URI with the libvirt
  parameters that point to the files.
\<close>

definition connection_prepared ::
  "Credentials \<Rightarrow> string \<Rightarrow> string \<Rightarrow> string \<Rightarrow> credentialFile list \<Rightarrow> bool" where
  "connection_prepared c uri d uri' fs \<longleftrightarrow>
     (\<exists>u. url_Parse uri = Inr u \<and>
        (\<exists>m. uri' = URL_String (u\<lparr>url_RawQuery := Values_Encode m\<rparr>) \<and>
           ((\<exists>tls. transport (url_Scheme u) = ''tls'' \<and> cred_TLS c = Some tls
               \<and> m = Values_Set (URL_Query u) ''pkipath'' d
               \<and> fs = [\<lparr>cf_name = ''cacert.pem'', cf_data = tls_CACert tls\<rparr>,
                       \<lparr>cf_name = ''clientcert.pem'', cf_data = tls_ClientCert tls\<rparr>,
                       \<lparr>cf_name = ''clientkey.pem'', cf_data = tls_ClientKey tls\<rparr>])
            \<or> (\<exists>ssh. transport (url_Scheme u) \<in> {''libssh'', ''libssh2''} \<and> cred_SSH c = Some ssh
               \<and> m = Values_Set (Values_Set (Values_Set (URL_Query u) ''keyfile'' (d @ ''/id_key''))
                       ''known_hosts'' (d @ ''/known_hosts'')) ''sshauth'' ''privkey''
               \<and> fs = [\<lparr>cf_name = ''id_key'', cf_data = ssh_PrivateKey ssh\<rparr>,
                       \<lparr>cf_name = ''known_hosts'', cf_data = ssh_KnownHosts ssh\<rparr>]))))"

lemmas credential_consts =
  transportTLS_def transportLibSSH_def transportLibSSH2_def tlsCACertFile_def tlsClientCertFile_def
  tlsClientKeyFile_def sshPrivateKeyFile_def sshKnownHostsFile_def uriParamPKIPath_def
  uriParamKeyFile_def uriParamKnownHosts_def uriParamSSHAuth_def sshAuthPrivateKey_def

lemma with_files_simps [simp]:
  "with_files d [] f = f"
  "with_files d (cf # fs) f = with_files d fs (f\<lparr>files := (files f)(d @ ''/'' @ cf_name cf \<mapsto> cf_data cf)\<rparr>)"
  "dirs (with_files d fs f) = dirs f"
  by (simp_all add: with_files_def)

lemma with_files_below: "only_below d f (with_files d fs f)"
proof (induction fs arbitrary: f)
  case (Cons cf fs)
  have "only_below d f (f\<lparr>files := (files f)(d @ ''/'' @ cf_name cf \<mapsto> cf_data cf)\<rparr>)"
    by (auto simp: only_below_def)
  with Cons show ?case by (auto intro: only_below_trans)
qed simp

lemma credential_files_plain:
  "cf \<in> set (TLSCredentials_files t) \<Longrightarrow> plain_name (cf_name cf)"
  "cf \<in> set (SSHCredentials_files s) \<Longrightarrow> plain_name (cf_name cf)"
  by (auto simp: TLSCredentials_files_def SSHCredentials_files_def plain_name_def credential_consts)

context local_files
begin

lemma writeCredentialFiles_valid:
  assumes "clean_dir d" "d \<in> dirs f" "\<And>cf. cf \<in> set fs \<Longrightarrow> plain_name (cf_name cf)"
  shows "valid (st f) (writeCredentialFiles os d fs) (\<lambda>_. st (with_files d fs f))
     (\<lambda>e w. flaky \<and> (\<exists>f'. only_below d f f' \<and> st f' w))"
  using assms(2,3)
proof (induction fs arbitrary: f)
  case Nil
  show ?case by (simp add: valid_def)
next
  case (Cons cf fs)
  let ?p = "d @ ''/'' @ cf_name cf"
  let ?f = "f\<lparr>files := (files f)(?p \<mapsto> cf_data cf)\<rparr>"
  have p: "filepath_Join d (cf_name cf) = ?p" using assms(1) Cons.prems(2) by (simp add: Join_dir)
  have step: "only_below d f ?f" by (auto simp: only_below_def)
  have err: "only_below d f f'" if "touched ?p f f'" for f'
    using that by (rule touched_below [OF below_dir(1)])
  show ?case
    unfolding writeCredentialFiles.simps p with_files_simps
  proof (rule valid_tryE [where R = "\<lambda>_. st ?f"], rule valid_post [OF write_os [OF Cons.prems(1)]])
    show "valid (st ?f) (writeCredentialFiles os d fs) (\<lambda>_. st (with_files d fs ?f))
        (\<lambda>e w. flaky \<and> (\<exists>f'. only_below d f f' \<and> st f' w))"
      using Cons.prems only_below_trans [OF step] by (intro valid_post [OF Cons.IH]) (simp_all, blast)
  qed (use err in auto)
qed

lemma connectionURI_valid:
  assumes d: "clean_dir d" "d \<in> dirs f"
  shows "valid (st f) (connectionURI os c uri d)
     (\<lambda>uri' w. \<exists>fs. connection_prepared c uri d uri' fs \<and> st (with_files d fs f) w)
     (\<lambda>e w. (flaky \<or> \<not> credentials_fit c uri) \<and> (\<exists>f'. only_below d f f' \<and> st f' w))"
proof (cases "url_Parse uri")
  case (Inl e)
  then have "\<not> credentials_fit c uri" by (simp add: credentials_fit_def)
  then show ?thesis
    unfolding connectionURI_def Inl tryE_pureE by (auto intro!: valid_throw intro: only_below_refl)
next
  case (Inr u)
  have files: "valid (st f) (tryE (writeCredentialFiles os d fs) id (\<lambda>_. ret uri'))
      (\<lambda>uri' w. \<exists>fs. connection_prepared c uri d uri' fs \<and> st (with_files d fs f) w)
      (\<lambda>e w. (flaky \<or> \<not> credentials_fit c uri) \<and> (\<exists>f'. only_below d f f' \<and> st f' w))"
    if "connection_prepared c uri d uri' fs" "\<And>cf. cf \<in> set fs \<Longrightarrow> plain_name (cf_name cf)" for uri' fs
    by (rule valid_tryE [where R = "\<lambda>_. st (with_files d fs f)"],
        rule valid_post [OF writeCredentialFiles_valid [OF d that(2)]])
       (use that(1) in \<open>auto intro!: valid_ret\<close>)
  have join: "filepath_Join d ''id_key'' = d @ ''/id_key''" "filepath_Join d ''known_hosts'' = d @ ''/known_hosts''"
    using Join_dir [OF d(1), of "''id_key''"] Join_dir [OF d(1), of "''known_hosts''"]
    by (simp_all add: plain_name_def)
  have bad: "valid (st f) (throw e) Q (\<lambda>e w. (flaky \<or> \<not> credentials_fit c uri) \<and> (\<exists>f'. only_below d f f' \<and> st f' w))"
    if "\<not> credentials_fit c uri" for e Q
    using that by (intro valid_throw) (auto intro: only_below_refl)
  show ?thesis
    unfolding connectionURI_def Inr tryE_pureE Let_def
    by (auto split: option.split intro!: files bad simp: credential_files_plain)
       (auto simp: connection_prepared_def credentials_fit_def Inr join credential_consts
          TLSCredentials_files_def SSHCredentials_files_def)
qed

end

end
