(* ===== verification/Host.thy ===== *)
theory Host
  imports DomainOps Reservation LocalFiles "HOL-Library.Multiset"
begin

text \<open>
  The contract of the world outside the package \<^verbatim>\<open>libvirtclient\<close>: the abstract state of a libvirt host and of
  the local file system, and the documented effect of every call on it, as the laws of the locale
  \<open>libvirt_host\<close>. A call may fail at any time, then without effect on the state (apart from bytes already sent
  on a stream). Nothing else changes
  the state while an operation runs.
\<close>

section \<open>The state of the host\<close>

record net_state =
  net_active :: bool
  net_doc :: Network
  net_leases :: "NetworkDHCPLease list"

record vol_state =
  vol_doc :: StorageVolume
  vol_content :: bytes

record dom_state =
  d_doc :: Domain
  d_state :: LvDomainState
  d_active :: bool
  d_persistent :: bool
  d_autostart :: bool

datatype handle =
    HConn Connect
  | HPool StoragePool
  | HVol StorageVol
  | HDom LvDomain
  | HNet LvNetwork
  | HStream Stream

text \<open>An upload that has been started on a stream: its volume, the declared length and the bytes sent so far.\<close>

record upload =
  up_volume :: "string \<times> string"
  up_limit :: nat
  up_sent :: bytes

text \<open>
  \<open>uploads\<close> maps an open stream to its upload, whose bytes are under way until the stream is finished; \<open>handles\<close> counts the references that have been
  handed out and not yet released; \<open>disk\<close> is the local file system.
\<close>

record sys =
  networks :: "string \<rightharpoonup> net_state"
  pools :: "string \<rightharpoonup> bool"
  volumes :: "string \<times> string \<rightharpoonup> vol_state"
  domains :: "string \<rightharpoonup> dom_state"
  uploads :: "Stream \<rightharpoonup> upload"
  handles :: "handle multiset"
  disk :: fsys

definition grab :: "handle \<Rightarrow> sys \<Rightarrow> sys" where
  "grab x s = s\<lparr>handles := add_mset x (handles s)\<rparr>"

definition drop_handle :: "handle \<Rightarrow> sys \<Rightarrow> sys" where
  "drop_handle x s = s\<lparr>handles := handles s - {#x#}\<rparr>"

definition put_network :: "string \<Rightarrow> Network \<Rightarrow> sys \<Rightarrow> sys" where
  "put_network n N s =
     s\<lparr>networks := (networks s)(n := map_option (\<lambda>x. x\<lparr>net_doc := N\<rparr>) (networks s n))\<rparr>"

definition put_volume :: "string \<times> string \<Rightarrow> vol_state option \<Rightarrow> sys \<Rightarrow> sys" where
  "put_volume k v s = s\<lparr>volumes := (volumes s)(k := v)\<rparr>"

definition put_domain :: "string \<Rightarrow> dom_state option \<Rightarrow> sys \<Rightarrow> sys" where
  "put_domain n d s = s\<lparr>domains := (domains s)(n := d)\<rparr>"

definition put_upload :: "Stream \<Rightarrow> upload option \<Rightarrow> sys \<Rightarrow> sys" where
  "put_upload st v s = s\<lparr>uploads := (uploads s)(st := v)\<rparr>"

text \<open>The volume \<open>k\<close> with the bytes \<open>b\<close> written from its start; what it holds beyond them stays.\<close>

definition overwritten :: "bytes \<Rightarrow> vol_state \<Rightarrow> vol_state" where
  "overwritten b v = v\<lparr>vol_content := b @ drop (length b) (vol_content v)\<rparr>"

definition write_volume :: "string \<times> string \<Rightarrow> bytes \<Rightarrow> sys \<Rightarrow> sys" where
  "write_volume k b s = put_volume k (map_option (overwritten b) (volumes s k)) s"

text \<open>The bytes of an upload do not exceed the length declared for it, where 0 is no limit.\<close>

definition within_limit :: "upload \<Rightarrow> bool" where
  "within_limit u \<longleftrightarrow> up_limit u = 0 \<or> length (up_sent u) \<le> up_limit u"

text \<open>A stream that is given up: what an unfinished upload leaves in its volume is not specified.\<close>

definition cut_off :: "Stream \<Rightarrow> sys \<Rightarrow> sys \<Rightarrow> bool" where
  "cut_off st s s' \<longleftrightarrow>
     (case uploads s st of
        None \<Rightarrow> s' = s
      | Some u \<Rightarrow> \<exists>b. s' = put_upload st None (write_volume (up_volume u) b s))"

text \<open>
  What \<^verbatim>\<open>virStreamSendAll\<close> does with its callback: it asks for some number of bytes until the answer is
  empty, and sends what it got.
\<close>

inductive pumped :: "(nat \<Rightarrow> bytes \<Rightarrow> (goerror + bytes) \<times> bytes) \<Rightarrow> bytes \<Rightarrow> bytes \<Rightarrow> bool" where
  pump_end: "0 < n \<Longrightarrow> cb n buf = (Inr [], buf') \<Longrightarrow> pumped cb buf []"
| pump_more: "0 < n \<Longrightarrow> cb n buf = (Inr xs, buf') \<Longrightarrow> xs \<noteq> [] \<Longrightarrow> pumped cb buf' ys
     \<Longrightarrow> pumped cb buf (xs @ ys)"

text \<open>A callback that answers every request, and consumes its input when it has something to answer.\<close>

definition productive :: "(nat \<Rightarrow> bytes \<Rightarrow> (goerror + bytes) \<times> bytes) \<Rightarrow> bool" where
  "productive cb \<longleftrightarrow>
     (\<forall>n buf. 0 < n \<longrightarrow> (\<exists>xs buf'. cb n buf = (Inr xs, buf') \<and> (xs \<noteq> [] \<longrightarrow> length buf' < length buf)))"

text \<open>The domain after a definition, a start, a destroy, an undefine.\<close>

definition defined :: "Domain \<Rightarrow> dom_state option \<Rightarrow> dom_state" where
  "defined d old =
     (case old of
        None \<Rightarrow> \<lparr>d_doc = d, d_state = DOMAIN_SHUTOFF, d_active = False, d_persistent = True, d_autostart = False\<rparr>
      | Some x \<Rightarrow> x\<lparr>d_doc := d, d_persistent := True\<rparr>)"

definition started :: "dom_state \<Rightarrow> dom_state" where
  "started x = x\<lparr>d_active := True, d_state := DOMAIN_RUNNING\<rparr>"

definition destroyed :: "dom_state \<Rightarrow> dom_state option" where
  "destroyed x =
     (if d_persistent x then Some (x\<lparr>d_active := False, d_state := DOMAIN_SHUTOFF\<rparr>) else None)"

definition undefined_domain :: "dom_state \<Rightarrow> dom_state option" where
  "undefined_domain x = (if d_active x then Some (x\<lparr>d_persistent := False\<rparr>) else None)"

lemmas sys_defs =
  grab_def drop_handle_def put_network_def put_volume_def put_domain_def put_upload_def write_volume_def

lemma sys_selects [simp]:
  "networks (grab h s) = networks s" "pools (grab h s) = pools s" "volumes (grab h s) = volumes s"
  "domains (grab h s) = domains s" "uploads (grab h s) = uploads s" "disk (grab h s) = disk s"
  "handles (grab h s) = add_mset h (handles s)"
  "networks (drop_handle h s) = networks s" "pools (drop_handle h s) = pools s"
  "volumes (drop_handle h s) = volumes s" "domains (drop_handle h s) = domains s"
  "uploads (drop_handle h s) = uploads s" "disk (drop_handle h s) = disk s"
  "handles (drop_handle h s) = handles s - {#h#}"
  "networks (put_volume k v s) = networks s" "pools (put_volume k v s) = pools s"
  "volumes (put_volume k v s) = (volumes s)(k := v)" "domains (put_volume k v s) = domains s"
  "uploads (put_volume k v s) = uploads s" "disk (put_volume k v s) = disk s"
  "handles (put_volume k v s) = handles s"
  "networks (put_domain n d s) = networks s" "pools (put_domain n d s) = pools s"
  "volumes (put_domain n d s) = volumes s" "domains (put_domain n d s) = (domains s)(n := d)"
  "uploads (put_domain n d s) = uploads s" "disk (put_domain n d s) = disk s"
  "handles (put_domain n d s) = handles s"
  by (simp_all add: sys_defs)

lemma sys_selects2 [simp]:
  "networks (put_upload h u s) = networks s" "pools (put_upload h u s) = pools s"
  "volumes (put_upload h u s) = volumes s" "domains (put_upload h u s) = domains s"
  "uploads (put_upload h u s) = (uploads s)(h := u)" "disk (put_upload h u s) = disk s"
  "handles (put_upload h u s) = handles s"
  "pools (put_network n N s) = pools s" "volumes (put_network n N s) = volumes s"
  "domains (put_network n N s) = domains s" "uploads (put_network n N s) = uploads s"
  "disk (put_network n N s) = disk s" "handles (put_network n N s) = handles s"
  "networks (write_volume k b s) = networks s" "pools (write_volume k b s) = pools s"
  "domains (write_volume k b s) = domains s" "uploads (write_volume k b s) = uploads s"
  "disk (write_volume k b s) = disk s" "handles (write_volume k b s) = handles s"
  by (simp_all add: sys_defs)

lemma drop_grab [simp]: "drop_handle x (grab x s) = s"
  by (simp add: grab_def drop_handle_def)

lemma drop_grab_other: "h \<noteq> h' \<Longrightarrow> drop_handle h (grab h' s) = grab h' (drop_handle h s)"
  by (simp add: grab_def drop_handle_def)

lemma grab_commutes [simp]:
  "put_volume k v (grab h s) = grab h (put_volume k v s)"
  "put_domain n d (grab h s) = grab h (put_domain n d s)"
  "put_upload st u (grab h s) = grab h (put_upload st u s)"
  "put_network n N (grab h s) = grab h (put_network n N s)"
  "write_volume k b (grab h s) = grab h (write_volume k b s)"
  "(grab h s)\<lparr>disk := f\<rparr> = grab h (s\<lparr>disk := f\<rparr>)"
  by (simp_all add: sys_defs)

lemma put_same:
  "domains s n = d \<Longrightarrow> put_domain n d s = s" "volumes s k = v \<Longrightarrow> put_volume k v s = s"
  "map_option net_doc (networks s n) = Some N \<Longrightarrow> put_network n N s = s"
  "networks s n = None \<Longrightarrow> put_network n N s = s"
  by (auto simp: sys_defs fun_upd_idem)

lemma write_volume_nothing [simp]: "write_volume k [] s = s"
  by (cases "volumes s k") (simp_all add: write_volume_def overwritten_def put_same)

section \<open>The contract\<close>

text \<open>
  \<open>call view s m Q X\<close>: from the state \<open>s\<close> the call returns, with a value and a state related by \<open>Q\<close>, or
  with an error that satisfies \<open>X\<close> and the state unchanged.
\<close>

definition call ::
  "('w \<Rightarrow> sys) \<Rightarrow> sys \<Rightarrow> ('w, 'a) act \<Rightarrow> ('a \<Rightarrow> sys \<Rightarrow> bool) \<Rightarrow> (goerror \<Rightarrow> bool) \<Rightarrow> bool" where
  "call view s m Q X \<longleftrightarrow>
     valid (\<lambda>w. view w = s) m (\<lambda>x w. Q x (view w)) (\<lambda>e w. X e \<and> view w = s)"

text \<open>The general form, where an error may come with another state, and its rules.\<close>

definition run ::
  "('w \<Rightarrow> sys) \<Rightarrow> sys \<Rightarrow> ('w, 'a) act \<Rightarrow> ('a \<Rightarrow> sys \<Rightarrow> bool) \<Rightarrow> (goerror \<Rightarrow> sys \<Rightarrow> bool) \<Rightarrow> bool" where
  "run view s m Q X \<longleftrightarrow>
     valid (\<lambda>w. view w = s) m (\<lambda>x w. Q x (view w)) (\<lambda>e w. X e (view w))"

lemma run_call: "call view s m Q X \<Longrightarrow> run view s m Q (\<lambda>e s'. X e \<and> s' = s)"
  by (simp add: call_def run_def)

lemma run_ret: "Q x s \<Longrightarrow> run view s (ret x) Q X"
  by (simp add: run_def valid_def)

lemma run_throw: "X e s \<Longrightarrow> run view s (throw e) Q X"
  by (simp add: run_def valid_def)

lemma run_post:
  "run view s m Q X \<Longrightarrow> (\<And>x s'. Q x s' \<Longrightarrow> Q' x s') \<Longrightarrow> (\<And>e s'. X e s' \<Longrightarrow> X' e s') \<Longrightarrow> run view s m Q' X'"
  unfolding run_def by (erule valid_post) auto

lemma run_catchE:
  assumes "run view s m R F" "\<And>e s'. F e s' \<Longrightarrow> run view s' (h e) Q X" "\<And>x s'. R x s' \<Longrightarrow> run view s' (k x) Q X"
  shows "run view s (catchE m h k) Q X"
  unfolding run_def
  by (rule valid_catchE [OF assms(1) [unfolded run_def]])
     (use assms(2,3) in \<open>auto simp: run_def valid_def\<close>)

lemma run_tryE:
  assumes "run view s m R F" "\<And>e s'. F e s' \<Longrightarrow> X (f e) s'" "\<And>x s'. R x s' \<Longrightarrow> run view s' (k x) Q X"
  shows "run view s (tryE m f k) Q X"
  unfolding tryE_def by (rule run_catchE [OF assms(1)]) (auto intro: run_throw assms)

lemma run_deferE:
  assumes "\<And>w. view (c w) = g (view w)" "run view s m (\<lambda>x s'. Q x (g s')) (\<lambda>e s'. X e (g s'))"
  shows "run view s (deferE c m) Q X"
  using assms(2) unfolding run_def by (intro valid_deferE) (simp add: assms(1))

text \<open>A deferred call whose effect is only known up to a relation.\<close>

lemma run_deferE_rel:
  assumes "\<And>w. R (view w) (view (c w))"
    and "run view s m (\<lambda>x s'. \<forall>s''. R s' s'' \<longrightarrow> Q x s'') (\<lambda>e s'. \<forall>s''. R s' s'' \<longrightarrow> X e s'')"
  shows "run view s (deferE c m) Q X"
  using assms(2) unfolding run_def by (intro valid_deferE, elim valid_post) (use assms(1) in blast)+

text \<open>
  The error of a lookup is an error of libvirt: with a not-found code exactly when the object is missing, with
  another one only when calls may fail, or when \<open>other\<close> explains it.
\<close>

definition lookup_error :: "bool \<Rightarrow> ErrorNumber \<Rightarrow> bool \<Rightarrow> bool \<Rightarrow> goerror \<Rightarrow> bool" where
  "lookup_error flaky code missing other e \<longleftrightarrow>
     (\<exists>c. e = LibvirtError c) \<and> (if isLibvirtErr e code then missing else flaky \<or> other)"

text \<open>A domain with the same name and another identifier, or the same identifier and another name.\<close>

definition domain_conflict :: "sys \<Rightarrow> Domain \<Rightarrow> bool" where
  "domain_conflict s d \<longleftrightarrow>
     (\<exists>n x. domains s n = Some x \<and> (n = dom_Name d) \<noteq> (dom_UUID (d_doc x) = dom_UUID d))"

definition same_domain :: "Domain \<Rightarrow> Domain \<Rightarrow> bool" where
  "same_domain d d' \<longleftrightarrow> (\<exists>u. d' = d\<lparr>dom_UUID := u\<rparr> \<and> (dom_UUID d \<noteq> [] \<longrightarrow> u = dom_UUID d))"

text \<open>
  The laws. \<open>view\<close> reads the state off a world, \<open>vol_path\<close> is the path of a volume, \<open>flaky\<close> says whether
  a call may fail although its preconditions hold. The bytes that are sent on a stream are only known to be in
  the volume once \<^verbatim>\<open>Finish\<close> has succeeded.
\<close>

locale libvirt_host =
  fixes E :: "'w env"
    and view :: "'w \<Rightarrow> sys"
    and vol_path :: "string \<Rightarrow> string \<Rightarrow> string"
    and mk_iso :: "string \<Rightarrow> bool \<Rightarrow> (string \<times> bytes) list \<Rightarrow> bytes"
    and flaky :: bool
  assumes local_disk: "local_files (env_os E) (env_fs E) (\<lambda>f w. view w = s\<lparr>disk := f\<rparr>) mk_iso flaky"
    and network_ops: "networks s n \<noteq> None \<Longrightarrow>
      dhcp_network (env_lx E) (Network_ops (env_lv E) (LvNetwork n)) (\<lambda>N w. view w = put_network n N s) flaky"
    and leases: "networks s n = Some x \<Longrightarrow>
      call view s (GetDHCPLeases (Network_ops (env_lv E) (LvNetwork n))) (\<lambda>ls s'. s' = s \<and> ls = net_leases x) (\<lambda>e. flaky)"
    and path_nonempty: "vol_path p v \<noteq> []"
    and marshal: "\<exists>x. Domain_Marshal (env_lx E) dd = Inr x" "\<exists>x. StorageVolume_Marshal (env_lx E) vd = Inr x"
    and yaml: "yaml_Marshal E doc = Inl e \<Longrightarrow> flaky"
    and new_connect: "call view s (NewConnect (env_lv E) uri) (\<lambda>c s'. s' = grab (HConn c) s) (\<lambda>e. flaky)"
    and close: "view (Connect_Close (env_lv E) c w) = drop_handle (HConn c) (view w)"
    and lookup_pool: "call view s (LookupStoragePoolByName (env_lv E) c p)
      (\<lambda>h s'. h = StoragePool p \<and> pools s p \<noteq> None \<and> s' = grab (HPool h) s)
      (lookup_error flaky ERR_NO_STORAGE_POOL (pools s p = None) False)"
    and free_pool: "view (Pool_Free (env_lv E) hp w) = drop_handle (HPool hp) (view w)"
    and pool_active: "pools s p = Some a \<Longrightarrow>
      call view s (Pool_IsActive (env_lv E) (StoragePool p)) (\<lambda>b s'. b = a \<and> s' = s) (\<lambda>e. flaky)"
    and lookup_net: "call view s (LookupNetworkByName (env_lv E) c n)
      (\<lambda>h s'. h = LvNetwork n \<and> networks s n \<noteq> None \<and> s' = grab (HNet h) s)
      (lookup_error flaky ERR_NO_NETWORK (networks s n = None) False)"
    and free_net: "view (Network_Free (env_lv E) hn w) = drop_handle (HNet hn) (view w)"
    and net_is_active: "networks s n = Some x \<Longrightarrow>
      call view s (Network_IsActive (env_lv E) (LvNetwork n)) (\<lambda>b s'. b = net_active x \<and> s' = s) (\<lambda>e. flaky)"
    and lookup_vol: "call view s (LookupStorageVolByName (env_lv E) (StoragePool p) v)
      (\<lambda>h s'. h = StorageVol p v \<and> volumes s (p, v) \<noteq> None \<and> s' = grab (HVol h) s)
      (lookup_error flaky ERR_NO_STORAGE_VOL (volumes s (p, v) = None) (pools s p \<noteq> Some True))"
    and free_vol: "view (Vol_Free (env_lv E) hv w) = drop_handle (HVol hv) (view w)"
    and vol_get_path: "volumes s (p, v) \<noteq> None \<Longrightarrow>
      call view s (Vol_GetPath (env_lv E) (StorageVol p v)) (\<lambda>x s'. x = vol_path p v \<and> s' = s) (\<lambda>e. flaky)"
    and create_vol: "StorageVolume_Marshal (env_lx E) vd = Inr vx \<Longrightarrow>
      call view s (StorageVolCreateXML (env_lv E) (StoragePool p) vx 0)
      (\<lambda>h s'. h = StorageVol p (vol_Name vd) \<and> volumes s (p, vol_Name vd) = None \<and>
         s' = grab (HVol h) (put_volume (p, vol_Name vd) (Some \<lparr>vol_doc = vd, vol_content = []\<rparr>) s))
      (\<lambda>e. flaky \<or> pools s p \<noteq> Some True \<or> volumes s (p, vol_Name vd) \<noteq> None)"
    and delete_vol: "volumes s (p, v) \<noteq> None \<Longrightarrow>
      call view s (Vol_Delete (env_lv E) (StorageVol p v) 0) (\<lambda>_ s'. s' = put_volume (p, v) None s) (\<lambda>e. flaky)"
    and new_stream: "call view s (NewStream (env_lv E) c 0)
      (\<lambda>h s'. uploads s h = None \<and> s' = grab (HStream h) s) (\<lambda>e. flaky)"
    and upload: "volumes s (p, v) \<noteq> None \<Longrightarrow>
      call view s (Vol_Upload (env_lv E) (StorageVol p v) hs 0 len 0)
      (\<lambda>_ s'. s' = put_upload hs (Some \<lparr>up_volume = (p, v), up_limit = len, up_sent = []\<rparr>) s) (\<lambda>e. flaky)"
    and send_all: "uploads s hs = Some u \<Longrightarrow> productive cb \<Longrightarrow>
      valid (\<lambda>w. view w = s) (Stream_SendAll (env_lv E) hs cb buf)
      (\<lambda>_ w. \<exists>sent. pumped cb buf sent \<and> within_limit (u\<lparr>up_sent := up_sent u @ sent\<rparr>)
         \<and> view w = put_upload hs (Some (u\<lparr>up_sent := up_sent u @ sent\<rparr>)) s)
      (\<lambda>e w. (flaky \<or> (\<exists>sent. pumped cb buf sent \<and> \<not> within_limit (u\<lparr>up_sent := up_sent u @ sent\<rparr>)))
         \<and> (\<exists>sent. view w = put_upload hs (Some (u\<lparr>up_sent := sent\<rparr>)) s))"
    and abort: "cut_off hs (view w) (view (Stream_Abort (env_lv E) hs w))"
    and finish: "uploads s hs = Some u \<Longrightarrow>
      call view s (Stream_Finish (env_lv E) hs)
      (\<lambda>_ s'. s' = put_upload hs None (write_volume (up_volume u) (up_sent u) s)) (\<lambda>e. flaky)"
    and free_stream: "\<exists>s1. cut_off hs (view w) s1 \<and> view (Stream_Free (env_lv E) hs w) = drop_handle (HStream hs) s1"
    and lookup_dom: "call view s (LookupDomainByName (env_lv E) c n)
      (\<lambda>h s'. h = LvDomain n \<and> domains s n \<noteq> None \<and> s' = grab (HDom h) s)
      (lookup_error flaky ERR_NO_DOMAIN (domains s n = None) False)"
    and free_dom: "view (Domain_Free (env_lv E) hm w) = drop_handle (HDom hm) (view w)"
    and define_dom: "Domain_Marshal (env_lx E) dd = Inr dx \<Longrightarrow>
      call view s (DomainDefineXML (env_lv E) c dx)
      (\<lambda>h s'. \<exists>d'. same_domain dd d' \<and> h = LvDomain (dom_Name dd) \<and> \<not> domain_conflict s dd \<and>
         s' = grab (HDom h) (put_domain (dom_Name dd) (Some (defined d' (domains s (dom_Name dd)))) s))
      (\<lambda>e. flaky \<or> domain_conflict s dd)"
    and autostart: "domains s n = Some xd \<Longrightarrow>
      call view s (Domain_SetAutostart (env_lv E) (LvDomain n) b)
      (\<lambda>_ s'. s' = put_domain n (Some (xd\<lparr>d_autostart := b\<rparr>)) s) (\<lambda>e. flaky \<or> \<not> d_persistent xd)"
    and start_dom: "domains s n = Some xd \<Longrightarrow>
      call view s (Domain_Create (env_lv E) (LvDomain n))
      (\<lambda>_ s'. \<not> d_active xd \<and> s' = put_domain n (Some (started xd)) s) (\<lambda>e. flaky \<or> d_active xd)"
    and is_active: "domains s n = Some xd \<Longrightarrow>
      call view s (Domain_IsActive (env_lv E) (LvDomain n)) (\<lambda>b s'. b = d_active xd \<and> s' = s) (\<lambda>e. flaky)"
    and get_state: "domains s n = Some xd \<Longrightarrow>
      call view s (Domain_GetState (env_lv E) (LvDomain n)) (\<lambda>b s'. b = d_state xd \<and> s' = s) (\<lambda>e. flaky)"
    and destroy_dom: "domains s n = Some xd \<Longrightarrow>
      call view s (Domain_Destroy (env_lv E) (LvDomain n))
      (\<lambda>_ s'. d_active xd \<and> s' = put_domain n (destroyed xd) s) (\<lambda>e. flaky \<or> \<not> d_active xd)"
    and undefine_dom: "domains s n = Some xd \<Longrightarrow>
      call view s (Domain_Undefine (env_lv E) (LvDomain n))
      (\<lambda>_ s'. d_persistent xd \<and> s' = put_domain n (undefined_domain xd) s) (\<lambda>e. flaky \<or> \<not> d_persistent xd)"
    and undefine_gone: "domains s n = None \<Longrightarrow>
      call view s (Domain_Undefine (env_lv E) (LvDomain n)) (\<lambda>_ s'. False) (\<lambda>e. True)"

end
