(* ===== verification/HostOps.thy ===== *)
theory HostOps
  imports Host
begin

text \<open>
  What the operations of \<^verbatim>\<open>libvirtclient\<close> do to a host that satisfies the contract \<open>libvirt_host\<close>: one
  lemma per function, composed the way the functions call one another.
\<close>

section \<open>Error codes\<close>

lemma isLibvirtErr_Wrapf [simp]: "isLibvirtErr (Wrapf f as e) c \<longleftrightarrow> isLibvirtErr e c"
  by (simp add: isLibvirtErr_def)

lemma isVolumeNotFound_eq: "isVolumeNotFound e \<longleftrightarrow> isLibvirtErr e ERR_NO_STORAGE_VOL"
  by (simp add: isVolumeNotFound_def isLibvirtErr_def split: option.split)

section \<open>Infrastructure checks\<close>

text \<open>A resource is ready, or the error says what is wrong with it.\<close>

definition check_error :: "bool \<Rightarrow> string \<Rightarrow> string \<Rightarrow> ErrorNumber \<Rightarrow> bool option \<Rightarrow> goerror \<Rightarrow> bool" where
  "check_error flaky kind name code state e \<longleftrightarrow>
     flaky
     \<or> state = None \<and> (\<exists>f. e = Wrapf f [name] (LibvirtError code))
     \<or> state = Some False \<and> e = ErrInfraInactive kind name"

context libvirt_host
begin

text \<open>The deferred releases of handles.\<close>

lemma defer_net:
  "run view s m (\<lambda>x s'. Q x (drop_handle (HNet h) s')) (\<lambda>e s'. X e (drop_handle (HNet h) s'))
   \<Longrightarrow> run view s (deferE (Network_Free (env_lv E) h) m) Q X"
  by (rule run_deferE, rule free_net)

lemma defer_pool:
  "run view s m (\<lambda>x s'. Q x (drop_handle (HPool h) s')) (\<lambda>e s'. X e (drop_handle (HPool h) s'))
   \<Longrightarrow> run view s (deferE (Pool_Free (env_lv E) h) m) Q X"
  by (rule run_deferE, rule free_pool)

lemma defer_vol:
  "run view s m (\<lambda>x s'. Q x (drop_handle (HVol h) s')) (\<lambda>e s'. X e (drop_handle (HVol h) s'))
   \<Longrightarrow> run view s (deferE (Vol_Free (env_lv E) h) m) Q X"
  by (rule run_deferE, rule free_vol)

lemma defer_dom:
  "run view s m (\<lambda>x s'. Q x (drop_handle (HDom h) s')) (\<lambda>e s'. X e (drop_handle (HDom h) s'))
   \<Longrightarrow> run view s (deferE (Domain_Free (env_lv E) h) m) Q X"
  by (rule run_deferE, rule free_dom)

lemma defer_close:
  "run view s m (\<lambda>x s'. Q x (drop_handle (HConn h) s')) (\<lambda>e s'. X e (drop_handle (HConn h) s'))
   \<Longrightarrow> run view s (deferE (Connect_Close (env_lv E) h) m) Q X"
  by (rule run_deferE, rule close)

lemma networkExists_run:
  "run view s (networkExists (env_lv E) c n) (\<lambda>b s'. (b \<longleftrightarrow> networks s n \<noteq> None) \<and> s' = s) (\<lambda>e s'. flaky \<and> s' = s)"
  unfolding networkExists_def
  by (rule run_catchE [OF run_call [OF lookup_net]])
     (auto simp: lookup_error_def intro!: run_ret run_throw defer_net)

lemma storagePoolExists_run:
  "run view s (storagePoolExists (env_lv E) c p) (\<lambda>b s'. (b \<longleftrightarrow> pools s p \<noteq> None) \<and> s' = s) (\<lambda>e s'. flaky \<and> s' = s)"
  unfolding storagePoolExists_def
  by (rule run_catchE [OF run_call [OF lookup_pool]])
     (auto simp: lookup_error_def intro!: run_ret run_throw defer_pool)

lemma isNetworkActive_run:
  "run view s (isNetworkActive (env_lv E) c n) (\<lambda>b s'. map_option net_active (networks s n) = Some b \<and> s' = s)
     (\<lambda>e s'. (flaky \<or> networks s n = None \<and> e = Wrapf ''lookup network %s: %w'' [n] (LibvirtError ERR_NO_NETWORK)) \<and> s' = s)"
  unfolding isNetworkActive_def
proof (rule run_tryE [OF run_call [OF lookup_net]])
  fix h s'
  assume "h = LvNetwork n \<and> networks s n \<noteq> None \<and> s' = grab (HNet h) s"
  then obtain x where h: "h = LvNetwork n" and s': "s' = grab (HNet (LvNetwork n)) s"
    and x: "networks s n = Some x" by auto
  show "run view s' (deferE (Network_Free (env_lv E) h)
      (tryE (Network_IsActive (env_lv E) h) (Wrapf ''check network active %q: %w'' [n]) ret))
      (\<lambda>b s'. map_option net_active (networks s n) = Some b \<and> s' = s)
      (\<lambda>e s'. (flaky \<or> networks s n = None \<and> e = Wrapf ''lookup network %s: %w'' [n] (LibvirtError ERR_NO_NETWORK)) \<and> s' = s)"
    unfolding h s'
    by (rule defer_net, rule run_tryE [OF run_call [OF net_is_active]]) (auto simp: x intro!: run_ret)
qed (auto simp: lookup_error_def isLibvirtErr_def split: if_splits)

lemma isStoragePoolActive_run:
  "run view s (isStoragePoolActive (env_lv E) c p) (\<lambda>b s'. pools s p = Some b \<and> s' = s)
     (\<lambda>e s'. (flaky \<or> pools s p = None \<and> e = Wrapf ''lookup storage-pool %s: %w'' [p] (LibvirtError ERR_NO_STORAGE_POOL)) \<and> s' = s)"
  unfolding isStoragePoolActive_def
proof (rule run_tryE [OF run_call [OF lookup_pool]])
  fix h s'
  assume "h = StoragePool p \<and> pools s p \<noteq> None \<and> s' = grab (HPool h) s"
  then obtain a where h: "h = StoragePool p" and s': "s' = grab (HPool (StoragePool p)) s"
    and a: "pools s p = Some a" by auto
  show "run view s' (deferE (Pool_Free (env_lv E) h)
      (tryE (Pool_IsActive (env_lv E) h) (Wrapf ''check storage pool active %q: %w'' [p]) ret))
      (\<lambda>b s'. pools s p = Some b \<and> s' = s)
      (\<lambda>e s'. (flaky \<or> pools s p = None \<and> e = Wrapf ''lookup storage-pool %s: %w'' [p] (LibvirtError ERR_NO_STORAGE_POOL)) \<and> s' = s)"
    unfolding h s'
    by (rule defer_pool, rule run_tryE [OF run_call [OF pool_active]]) (auto simp: a intro!: run_ret)
qed (auto simp: lookup_error_def isLibvirtErr_def split: if_splits)

lemma ensureNetwork_run:
  "run view s (ensureNetwork (env_lv E) c n) (\<lambda>_ s'. map_option net_active (networks s n) = Some True \<and> s' = s)
     (\<lambda>e s'. check_error flaky InfraKindNetwork n ERR_NO_NETWORK (map_option net_active (networks s n)) e \<and> s' = s)"
  unfolding ensureNetwork_def
  by (rule run_tryE [OF networkExists_run], force simp: check_error_def, elim conjE, hypsubst,
      rule run_tryE [OF isNetworkActive_run])
     (auto simp: check_error_def return_err_def infraCheckError_def intro!: run_ret run_throw)

lemma ensureBasePool_run:
  "run view s (ensureBasePool (env_lv E) c p) (\<lambda>_ s'. pools s p = Some True \<and> s' = s)
     (\<lambda>e s'. check_error flaky InfraKindStoragePool p ERR_NO_STORAGE_POOL (pools s p) e \<and> s' = s)"
  unfolding ensureBasePool_def
  by (rule run_tryE [OF storagePoolExists_run], force simp: check_error_def, elim conjE, hypsubst,
      rule run_tryE [OF isStoragePoolActive_run])
     (auto simp: check_error_def return_err_def infraCheckError_def intro!: run_ret run_throw)

lemma ensureDomainPool_run:
  "run view s (ensureDomainPool (env_lv E) c p) (\<lambda>_ s'. pools s p = Some True \<and> s' = s)
     (\<lambda>e s'. check_error flaky InfraKindStoragePool p ERR_NO_STORAGE_POOL (pools s p) e \<and> s' = s)"
  using ensureBasePool_run unfolding ensureBasePool_def ensureDomainPool_def .

end

section \<open>Connecting\<close>

definition credentials_ok :: "'a InfraConfig_scheme \<Rightarrow> bool" where
  "credentials_ok cfg = (case cfg_Credentials cfg of None \<Rightarrow> True | Some c \<Rightarrow> credentials_fit c (cfg_URI cfg))"

definition tidied :: "bool \<Rightarrow> sys \<Rightarrow> sys \<Rightarrow> bool" where
  "tidied flaky s s' \<longleftrightarrow> (\<exists>f. tidy flaky (disk s) f \<and> s' = s\<lparr>disk := f\<rparr>)"

lemma tidied_refl [simp]: "tidied flaky s s"
  unfolding tidied_def by (rule exI [of _ "disk s"]) simp

lemma credentials_ok_infra [simp]: "credentials_ok (infra_of cfg) = credentials_ok cfg"
  by (simp add: credentials_ok_def InfraConfig.defs split: option.split)

context libvirt_host
begin

lemma openConnection_run:
  "run view s (openConnection E uri) (\<lambda>c s'. s' = grab (HConn c) s) (\<lambda>e s'. flaky \<and> s' = s)"
  unfolding openConnection_def
  by (rule run_tryE [OF run_call [OF new_connect]]) (auto intro!: run_ret)

lemma connect_credentials_run:
  assumes "cfg_Credentials cfg = Some creds"
  shows "run view s (connect E cfg) (\<lambda>c s'. \<exists>f. tidy flaky (disk s) f \<and> s' = grab (HConn c) (s\<lparr>disk := f\<rparr>))
     (\<lambda>e s'. (flaky \<or> \<not> credentials_fit creds (cfg_URI cfg)) \<and> (\<exists>f. tidy flaky (disk s) f \<and> s' = s\<lparr>disk := f\<rparr>))"
proof -
  let ?st = "\<lambda>f w. view w = s\<lparr>disk := f\<rparr>"
  let ?st' = "\<lambda>c f w. view w = grab (HConn c) (s\<lparr>disk := f\<rparr>)"
  let ?X = "\<lambda>e :: goerror. flaky \<or> \<not> credentials_fit creds (cfg_URI cfg)"
  have body: "valid (?st (disk s\<lparr>dirs := insert d (dirs (disk s))\<rparr>))
      (tryE (connectionURI (env_os E) creds (cfg_URI cfg) d) id (openConnection E))
      (\<lambda>c w. \<exists>f'. only_below d (disk s) f' \<and> ?st' c f' w) (\<lambda>e w. ?X e \<and> (\<exists>f'. only_below d (disk s) f' \<and> ?st f' w))"
    if d: "clean_dir d" for d
  proof -
    let ?f = "disk s\<lparr>dirs := insert d (dirs (disk s))\<rparr>"
    have below: "only_below d (disk s) g" if "only_below d ?f g" for g
    proof -
      have "only_below d (disk s) ?f" by (auto simp: only_below_def)
      then show ?thesis using that by (rule only_below_trans)
    qed
    show ?thesis
    proof (rule valid_tryE [where R = "\<lambda>_ w. \<exists>f'. only_below d (disk s) f' \<and> ?st f' w"],
        rule valid_post [OF local_files.connectionURI_valid [OF local_disk d]])
      fix uri'
      show "valid (\<lambda>w. \<exists>f'. only_below d (disk s) f' \<and> ?st f' w) (openConnection E uri')
          (\<lambda>c w. \<exists>f'. only_below d (disk s) f' \<and> ?st' c f' w) (\<lambda>e w. ?X e \<and> (\<exists>f'. only_below d (disk s) f' \<and> ?st f' w))"
        by (rule valid_in_state, rule valid_post [OF openConnection_run [unfolded run_def]]) auto
    next
      show "d \<in> dirs ?f" by simp
    next
      fix x w
      assume "\<exists>fs. connection_prepared creds (cfg_URI cfg) d x fs \<and> ?st (with_files d fs ?f) w"
      then show "\<exists>f'. only_below d (disk s) f' \<and> ?st f' w"
        using below [OF with_files_below] by blast
    next
      fix e w
      assume "?X e \<and> (\<exists>f'. only_below d ?f f' \<and> ?st f' w)"
      then show "?X (id e) \<and> (\<exists>f'. only_below d (disk s) f' \<and> ?st f' w)"
        using below by blast
    qed
  qed
  have rem: "\<exists>f'. only_below d f f' \<and> (flaky \<or> f' = remove_below d f) \<and> ?st' c f' (os_RemoveAll (env_os E) d w)"
    if "?st' c f w" for c f w d
    using local_files.remove [OF local_disk [of "grab (HConn c) s"], of w f d] that by simp
  show ?thesis
    unfolding connect_def assms option.case run_def
    by (rule valid_conseq [OF local_files.in_temp_dir [OF local_disk, where st' = ?st' and X = ?X, OF body rem]]) auto
qed

lemma connect_run:
  "run view s (connect E cfg) (\<lambda>c s'. \<exists>s1. tidied flaky s s1 \<and> s' = grab (HConn c) s1)
     (\<lambda>e s'. (flaky \<or> \<not> credentials_ok cfg) \<and> tidied flaky s s')"
proof (cases "cfg_Credentials cfg")
  case None
  then show ?thesis
    unfolding connect_def None option.case
    by (intro run_post [OF openConnection_run]) (auto intro: tidied_refl)
next
  case (Some creds)
  show ?thesis
    by (rule run_post [OF connect_credentials_run [OF Some]]) (auto simp: tidied_def credentials_ok_def Some)
qed

lemma with_connection_run:
  assumes "\<And>c s1. tidied flaky s s1 \<Longrightarrow>
      run view (grab (HConn c) s1) (body c) (\<lambda>x s'. Q x (drop_handle (HConn c) s')) (\<lambda>e s'. X e (drop_handle (HConn c) s'))"
    and "\<And>e s1. flaky \<or> \<not> credentials_ok cfg \<Longrightarrow> tidied flaky s s1 \<Longrightarrow> X (Wrapf ''connect to libvirt host: %w'' [] e) s1"
  shows "run view s (with_connection E cfg body) Q X"
  unfolding with_connection_def
  by (rule run_tryE [OF connect_run]) (use assms in \<open>auto intro!: defer_close\<close>)

end

section \<open>Queries\<close>

definition infra_ready :: "sys \<Rightarrow> 'a InfraConfig_scheme \<Rightarrow> bool" where
  "infra_ready s cfg \<longleftrightarrow>
     map_option net_active (networks s (cfg_Network cfg)) = Some True
     \<and> pools s (cfg_BasePool cfg) = Some True \<and> pools s (cfg_DomainPool cfg) = Some True"

text \<open>The error of the first check that fails, in the order network, base pool, domain pool.\<close>

definition infra_error :: "sys \<Rightarrow> 'a InfraConfig_scheme \<Rightarrow> goerror \<Rightarrow> bool" where
  "infra_error s cfg e \<longleftrightarrow>
     (let net = map_option net_active (networks s (cfg_Network cfg));
          base = pools s (cfg_BasePool cfg);
          dom = pools s (cfg_DomainPool cfg)
      in check_error False InfraKindNetwork (cfg_Network cfg) ERR_NO_NETWORK net e
         \<or> net = Some True \<and> check_error False InfraKindStoragePool (cfg_BasePool cfg) ERR_NO_STORAGE_POOL base e
         \<or> net = Some True \<and> base = Some True
           \<and> check_error False InfraKindStoragePool (cfg_DomainPool cfg) ERR_NO_STORAGE_POOL dom e)"

lemma tidied_selects:
  "tidied flaky s s' \<Longrightarrow> networks s' = networks s" "tidied flaky s s' \<Longrightarrow> pools s' = pools s"
  "tidied flaky s s' \<Longrightarrow> volumes s' = volumes s" "tidied flaky s s' \<Longrightarrow> domains s' = domains s"
  "tidied flaky s s' \<Longrightarrow> uploads s' = uploads s" "tidied flaky s s' \<Longrightarrow> handles s' = handles s"
  by (auto simp: tidied_def)

context libvirt_host
begin

lemma ensure_all_run:
  "run view s
     (tryE (ensureNetwork (env_lv E) c (networkName cfg)) id (\<lambda>_.
      tryE (ensureBasePool (env_lv E) c (basePoolName cfg)) id (\<lambda>_.
      tryE (ensureDomainPool (env_lv E) c (domainPoolName cfg)) id (\<lambda>_. ret ()))))
     (\<lambda>_ s'. infra_ready s cfg \<and> s' = s) (\<lambda>e s'. (flaky \<or> infra_error s cfg e) \<and> s' = s)"
  by (rule run_tryE [OF ensureNetwork_run], force simp: infra_error_def check_error_def Let_def,
      elim conjE, hypsubst, rule run_tryE [OF ensureBasePool_run],
      force simp: infra_error_def check_error_def Let_def,
      elim conjE, hypsubst, rule run_tryE [OF ensureDomainPool_run],
      force simp: infra_error_def check_error_def Let_def)
     (auto simp: infra_ready_def intro!: run_ret)

lemma EnsureInfra_run:
  "run view s (EnsureInfra E cfg) (\<lambda>_ s'. infra_ready s cfg \<and> tidied flaky s s')
     (\<lambda>e s'. (flaky \<or> \<not> credentials_ok cfg \<or> infra_error s cfg e) \<and> tidied flaky s s')"
  unfolding EnsureInfra_def
proof (rule with_connection_run)
  fix c s1
  assume s1: "tidied flaky s s1"
  show "run view (grab (HConn c) s1)
     (tryE (ensureNetwork (env_lv E) c (networkName cfg)) id (\<lambda>_.
      tryE (ensureBasePool (env_lv E) c (basePoolName cfg)) id (\<lambda>_.
      tryE (ensureDomainPool (env_lv E) c (domainPoolName cfg)) id (\<lambda>_. ret ()))))
     (\<lambda>_ s'. infra_ready s cfg \<and> tidied flaky s (drop_handle (HConn c) s'))
     (\<lambda>e s'. (flaky \<or> \<not> credentials_ok cfg \<or> infra_error s cfg e) \<and> tidied flaky s (drop_handle (HConn c) s'))"
    by (rule run_post [OF ensure_all_run])
       (use s1 in \<open>auto simp: infra_ready_def infra_error_def tidied_selects [OF s1]\<close>)
qed auto

text \<open>The state of a domain as the provider reports it.\<close>

lemma getDomainState_run:
  "run view s (getDomainState (env_lv E) c n)
     (\<lambda>st s'. st = (case domains s n of None \<Rightarrow> DomainStateNotFound | Some x \<Rightarrow> domain_state_of (d_state x)) \<and> s' = s)
     (\<lambda>e s'. flaky \<and> s' = s)"
  unfolding getDomainState_def
proof (rule run_catchE [OF run_call [OF lookup_dom]])
  fix h s'
  assume "h = LvDomain n \<and> domains s n \<noteq> None \<and> s' = grab (HDom h) s"
  then obtain x where h: "h = LvDomain n" and s': "s' = grab (HDom (LvDomain n)) s"
    and x: "domains s n = Some x" by auto
  show "run view s' (deferE (Domain_Free (env_lv E) h)
      (tryE (Domain_GetState (env_lv E) h) (Wrapf ''get domain state %q: %w'' [n]) (\<lambda>state. ret (domain_state_of state))))
      (\<lambda>st s'. st = (case domains s n of None \<Rightarrow> DomainStateNotFound | Some x \<Rightarrow> domain_state_of (d_state x)) \<and> s' = s)
      (\<lambda>e s'. flaky \<and> s' = s)"
    unfolding h s'
    by (rule defer_dom, rule run_tryE [OF run_call [OF get_state]]) (auto simp: x intro!: run_ret)
qed (auto simp: lookup_error_def intro!: run_ret run_throw)

lemma GetMachineState_run:
  "run view s (GetMachineState E cfg)
     (\<lambda>st s'. st = (case domains s (cfg_DomainName cfg) of
          None \<Rightarrow> DomainStateNotFound | Some x \<Rightarrow> domain_state_of (d_state x)) \<and> tidied flaky s s')
     (\<lambda>e s'. (flaky \<or> \<not> credentials_ok cfg) \<and> tidied flaky s s')"
  unfolding GetMachineState_def
  by (rule with_connection_run, rule run_post [OF getDomainState_run])
     (auto simp: tidied_selects)

lemma machineAddress_run:
  assumes "networks s n = Some x"
  shows "run view s (machineAddress (Network_ops (env_lv E) (LvNetwork n)) nm mac)
     (\<lambda>a s'. a = leaseAddressForMac (net_leases x) mac \<and> s' = s) (\<lambda>e s'. flaky \<and> s' = s)"
  unfolding machineAddress_def
  by (rule run_tryE [OF run_call [OF leases [OF assms]]]) (auto intro!: run_ret)

lemma GetMachineAddress_run:
  "run view s (GetMachineAddress E cfg)
     (\<lambda>a s'. (\<exists>x. networks s (cfg_Network cfg) = Some x
          \<and> a = leaseAddressForMac (net_leases x) (deriveDomainMAC (cfg_DomainName cfg))) \<and> tidied flaky s s')
     (\<lambda>e s'. (flaky \<or> \<not> credentials_ok cfg \<or> networks s (cfg_Network cfg) = None) \<and> tidied flaky s s')"
  unfolding GetMachineAddress_def
proof (rule with_connection_run, rule run_tryE [OF run_call [OF lookup_net]])
  fix c s1 h s'
  assume s1: "tidied flaky s s1"
    and "h = LvNetwork (cfg_Network cfg) \<and> networks (grab (HConn c) s1) (cfg_Network cfg) \<noteq> None
       \<and> s' = grab (HNet h) (grab (HConn c) s1)"
  then obtain x where h: "h = LvNetwork (cfg_Network cfg)" and s': "s' = grab (HNet h) (grab (HConn c) s1)"
    and x: "networks s' (cfg_Network cfg) = Some x" "networks s (cfg_Network cfg) = Some x"
    by (auto simp: tidied_selects)
  show "run view s' (deferE (Network_Free (env_lv E) h)
      (machineAddress (Network_ops (env_lv E) h) (cfg_Network cfg) (deriveDomainMAC (cfg_domainName cfg))))
      (\<lambda>a s'. (\<exists>x. networks s (cfg_Network cfg) = Some x
          \<and> a = leaseAddressForMac (net_leases x) (deriveDomainMAC (cfg_DomainName cfg)))
          \<and> tidied flaky s (drop_handle (HConn c) s'))
      (\<lambda>e s'. (flaky \<or> \<not> credentials_ok cfg \<or> networks s (cfg_Network cfg) = None)
          \<and> tidied flaky s (drop_handle (HConn c) s'))"
    unfolding h by (rule defer_net, rule run_post [OF machineAddress_run [OF x(1)]]) (use s1 x s' h in auto)
qed (auto simp: lookup_error_def tidied_selects split: if_splits)

end

section \<open>Starting\<close>

context libvirt_host
begin

text \<open>The handle of the domain is never released: it is still in \<open>s'\<close>.\<close>

lemma StartMachine_run:
  "run view s (StartMachine E cfg)
     (\<lambda>_ s'. \<exists>x s1. domains s (cfg_DomainName cfg) = Some x \<and> \<not> d_active x \<and> tidied flaky s s1
        \<and> s' = grab (HDom (LvDomain (cfg_DomainName cfg))) (put_domain (cfg_DomainName cfg) (Some (started x)) s1))
     (\<lambda>e s'. (flaky \<or> \<not> credentials_ok cfg
           \<or> (case domains s (cfg_DomainName cfg) of None \<Rightarrow> True | Some x \<Rightarrow> d_active x))
        \<and> (\<exists>s1. tidied flaky s s1 \<and> (s' = s1 \<or> s' = grab (HDom (LvDomain (cfg_DomainName cfg))) s1)))"
  unfolding StartMachine_def
proof (rule with_connection_run, rule run_tryE [OF run_call [OF lookup_dom]])
  let ?n = "cfg_DomainName cfg"
  fix c s1 h s'
  assume s1: "tidied flaky s s1"
    and "h = LvDomain (cfg_domainName cfg) \<and> domains (grab (HConn c) s1) (cfg_domainName cfg) \<noteq> None
       \<and> s' = grab (HDom h) (grab (HConn c) s1)"
  then obtain x where h: "h = LvDomain ?n" and s': "s' = grab (HDom h) (grab (HConn c) s1)"
    and x: "domains s' ?n = Some x" "domains s ?n = Some x"
    by (auto simp: tidied_selects)
  show "run view s' (tryE (Domain_Create (env_lv E) h) (Wrapf ''start domain %s: %w'' [?n]) (\<lambda>_. ret ()))
      (\<lambda>_ s'. \<exists>x s1. domains s ?n = Some x \<and> \<not> d_active x \<and> tidied flaky s s1
        \<and> drop_handle (HConn c) s' = grab (HDom (LvDomain ?n)) (put_domain ?n (Some (started x)) s1))
      (\<lambda>e s'. (flaky \<or> \<not> credentials_ok cfg \<or> (case domains s ?n of None \<Rightarrow> True | Some x \<Rightarrow> d_active x))
        \<and> (\<exists>s1. tidied flaky s s1 \<and> (drop_handle (HConn c) s' = s1
             \<or> drop_handle (HConn c) s' = grab (HDom (LvDomain ?n)) s1)))"
    unfolding h
    by (rule run_tryE [OF run_call [OF start_dom [OF x(1)]]])
       (use s1 x s' h in \<open>auto simp: drop_grab_other intro!: run_ret\<close>)
qed (auto simp: lookup_error_def tidied_selects split: if_splits option.splits)

end

section \<open>Deleting\<close>

text \<open>
  The domain \<open>n\<close> after a successful deletion: gone, or, when asking for its activity failed, still running
  but no longer persistent.
\<close>

definition domain_deleted :: "bool \<Rightarrow> string \<Rightarrow> sys \<Rightarrow> sys \<Rightarrow> bool" where
  "domain_deleted flaky n s s' \<longleftrightarrow>
     s' = put_domain n None s
     \<or> flaky \<and> (\<exists>x. domains s n = Some x \<and> d_active x \<and> s' = put_domain n (Some (x\<lparr>d_persistent := False\<rparr>)) s)"

lemma put_domain_self: "\<exists>d. s = put_domain n d s"
  using put_same(1) [OF refl, of n s] by metis

lemma put_domain_twice [simp]: "put_domain n d (put_domain n d' s) = put_domain n d s"
  by (simp add: put_domain_def)

context libvirt_host
begin

lemma undefine_run:
  assumes "domains s n = Some x"
  shows "run view s (tryE (Domain_Undefine (env_lv E) (LvDomain n)) f (\<lambda>_. ret ()))
     (\<lambda>_ s'. s' = put_domain n (undefined_domain x) s) (\<lambda>e s'. (flaky \<or> \<not> d_persistent x) \<and> s' = s)"
  by (rule run_tryE [OF run_call [OF undefine_dom [OF assms]]]) (auto intro!: run_ret)

lemma destroy_undefine_run:
  assumes x: "domains s n = Some x"
  shows "run view s (tryE (Domain_Destroy (env_lv E) (LvDomain n)) g (\<lambda>_.
        tryE (Domain_Undefine (env_lv E) (LvDomain n)) f (\<lambda>_. ret ())))
     (\<lambda>_ s'. s' = put_domain n None s) (\<lambda>e s'. (flaky \<or> \<not> d_active x \<or> \<not> d_persistent x) \<and> (\<exists>d. s' = put_domain n d s))"
proof (rule run_tryE [OF run_call [OF destroy_dom [OF x]]])
  fix u s'
  assume "d_active x \<and> s' = put_domain n (destroyed x) s"
  then have act: "d_active x" and s': "s' = put_domain n (destroyed x) s" by auto
  show "run view s' (tryE (Domain_Undefine (env_lv E) (LvDomain n)) f (\<lambda>_. ret ()))
      (\<lambda>_ s'. s' = put_domain n None s) (\<lambda>e s'. (flaky \<or> \<not> d_active x \<or> \<not> d_persistent x) \<and> (\<exists>d. s' = put_domain n d s))"
  proof (cases "d_persistent x")
    case True
    then have "domains s' n = Some (x\<lparr>d_active := False, d_state := DOMAIN_SHUTOFF\<rparr>)"
      by (simp add: s' destroyed_def)
    then show ?thesis
      by (rule run_post [OF undefine_run]) (auto simp: s' undefined_domain_def)
  next
    case False
    then have "domains s' n = None" by (simp add: s' destroyed_def)
    then show ?thesis
      by (intro run_tryE [OF run_call [OF undefine_gone]]) (use False s' in auto)
  qed
qed (use put_same(1) [OF x] in \<open>auto intro: sym\<close>)

lemma deleteDomain_run:
  "run view s (deleteDomain (env_lv E) c n) (\<lambda>_ s'. domain_deleted flaky n s s')
     (\<lambda>e s'. (flaky \<or> (\<exists>x. domains s n = Some x \<and> \<not> d_persistent x)) \<and> (\<exists>d. s' = put_domain n d s))"
  unfolding deleteDomain_def Let_def
proof (rule run_catchE [OF run_call [OF lookup_dom]])
  fix h s'
  assume "h = LvDomain n \<and> domains s n \<noteq> None \<and> s' = grab (HDom h) s"
  then obtain x where h: "h = LvDomain n" and s': "s' = grab (HDom (LvDomain n)) s"
    and x: "domains s' n = Some x" "domains s n = Some x" by auto
  let ?U = "tryE (Domain_Undefine (env_lv E) h) (Wrapf ''undefine domain %s: %w'' [n]) (\<lambda>_. ret ())"
  let ?Q = "\<lambda>_ s'. domain_deleted flaky n s (drop_handle (HDom h) s')"
  let ?X = "\<lambda>e s'. (flaky \<or> (\<exists>x. domains s n = Some x \<and> \<not> d_persistent x))
      \<and> (\<exists>d. drop_handle (HDom h) s' = put_domain n d s)"
  have undef: "run view s' ?U ?Q ?X" if "flaky \<or> \<not> d_active x"
    unfolding h
    by (rule run_post [OF undefine_run [OF x(1)]])
       (use that x s' put_same(1) [OF x(2), symmetric] in \<open>auto simp: domain_deleted_def undefined_domain_def split: if_splits\<close>)
  have destroy: "run view s' (tryE (Domain_Destroy (env_lv E) h) (Wrapf ''destroy domain %s: %w'' [n]) (\<lambda>_. ?U)) ?Q ?X"
    if "d_active x"
    unfolding h
    by (rule run_post [OF destroy_undefine_run [OF x(1)]]) (use that x s' in \<open>auto simp: domain_deleted_def\<close>)
  show "run view s' (deferE (Domain_Free (env_lv E) h)
      (catchE (Domain_IsActive (env_lv E) h) (\<lambda>_. ?U) (\<lambda>active.
         if active then tryE (Domain_Destroy (env_lv E) h) (Wrapf ''destroy domain %s: %w'' [n]) (\<lambda>_. ?U) else ?U)))
      (\<lambda>_ s'. domain_deleted flaky n s s')
      (\<lambda>e s'. (flaky \<or> (\<exists>x. domains s n = Some x \<and> \<not> d_persistent x)) \<and> (\<exists>d. s' = put_domain n d s))"
    by (rule defer_dom, unfold h, rule run_catchE [OF run_call [OF is_active [OF x(1)]]])
       (use undef destroy in \<open>auto simp: h\<close>)
qed (auto simp: lookup_error_def domain_deleted_def put_same put_domain_self intro!: run_ret run_throw)

end

text \<open>The volume \<open>v\<close> of the pool \<open>p\<close> after its deletion.\<close>

definition volume_deleted :: "string \<Rightarrow> string \<Rightarrow> sys \<Rightarrow> sys" where
  "volume_deleted p v s = (if pools s p = None then s else put_volume (p, v) None s)"

text \<open>The network \<open>n\<close> after the release of the reservation of \<open>mac\<close>.\<close>

definition reservation_gone :: "string \<Rightarrow> string \<Rightarrow> sys \<Rightarrow> sys \<Rightarrow> bool" where
  "reservation_gone n mac s s' \<longleftrightarrow>
     (case networks s n of
        None \<Rightarrow> s' = s
      | Some x \<Rightarrow> \<exists>N'. reservation_released (net_doc x) mac N' \<and> s' = put_network n N' s)"

text \<open>Every network document has consistent host entries.\<close>

definition networks_inv :: "sys \<Rightarrow> bool" where
  "networks_inv s \<longleftrightarrow> (\<forall>n x. networks s n = Some x \<longrightarrow> hosts_inv (hosts_of (net_doc x)))"

definition machine_entry_ours :: "sys \<Rightarrow> MachineConfig \<Rightarrow> bool" where
  "machine_entry_ours s cfg \<longleftrightarrow>
     (\<forall>x. networks s (cfg_Network cfg) = Some x \<longrightarrow>
        entry_ours (net_doc x) (cfg_DomainName cfg) (deriveDomainMAC (cfg_DomainName cfg)))"

context libvirt_host
begin

lemma deleteVolume_run:
  "run view s (deleteVolume (env_lv E) c p v) (\<lambda>_ s'. s' = volume_deleted p v s)
     (\<lambda>e s'. (flaky \<or> pools s p = Some False) \<and> s' = s)"
  unfolding deleteVolume_def
proof (rule run_catchE [OF run_call [OF lookup_pool]])
  fix h s'
  assume "h = StoragePool p \<and> pools s p \<noteq> None \<and> s' = grab (HPool h) s"
  then have h: "h = StoragePool p" and s': "s' = grab (HPool (StoragePool p)) s" and p: "pools s p \<noteq> None" by auto
  show "run view s' (deferE (Pool_Free (env_lv E) h)
      (catchE (LookupStorageVolByName (env_lv E) h v)
         (\<lambda>err. if isVolumeNotFound err then ret ()
                else throw (Wrapf ''lookup volume %s in pool %s: %w'' [v, p] err))
         (\<lambda>vol. deferE (Vol_Free (env_lv E) vol)
            (tryE (Vol_Delete (env_lv E) vol 0) (Wrapf ''delete volume %s from pool %s: %w'' [v, p]) (\<lambda>_. ret ())))))
      (\<lambda>_ s'. s' = volume_deleted p v s) (\<lambda>e s'. (flaky \<or> pools s p = Some False) \<and> s' = s)"
    unfolding h s'
  proof (rule defer_pool, rule run_catchE [OF run_call [OF lookup_vol]])
    fix h1 s1
    assume "h1 = StorageVol p v \<and> volumes (grab (HPool (StoragePool p)) s) (p, v) \<noteq> None
        \<and> s1 = grab (HVol h1) (grab (HPool (StoragePool p)) s)"
    then have h1: "h1 = StorageVol p v" and v: "volumes s (p, v) \<noteq> None"
      and s1: "s1 = grab (HVol (StorageVol p v)) (grab (HPool (StoragePool p)) s)" by auto
    show "run view s1 (deferE (Vol_Free (env_lv E) h1)
        (tryE (Vol_Delete (env_lv E) h1 0) (Wrapf ''delete volume %s from pool %s: %w'' [v, p]) (\<lambda>_. ret ())))
        (\<lambda>x s'. drop_handle (HPool (StoragePool p)) s' = volume_deleted p v s)
        (\<lambda>e s'. (flaky \<or> pools s p = Some False) \<and> drop_handle (HPool (StoragePool p)) s' = s)"
      unfolding h1 s1
      by (rule defer_vol, rule run_tryE [OF run_call [OF delete_vol]])
         (use v p in \<open>auto simp: volume_deleted_def intro!: run_ret\<close>)
  qed (use p in \<open>auto simp: lookup_error_def isVolumeNotFound_eq volume_deleted_def put_same intro!: run_ret run_throw\<close>)
qed (auto simp: lookup_error_def volume_deleted_def intro!: run_ret run_throw)

lemma releaseMachineReservation_run:
  assumes inv: "networks_inv s"
  shows "run view s (releaseMachineReservation E c cfg)
     (\<lambda>_ s'. reservation_gone (cfg_Network cfg) (deriveDomainMAC (cfg_DomainName cfg)) s s')
     (\<lambda>e s'. (flaky \<or> \<not> machine_entry_ours s cfg) \<and> s' = s)"
  unfolding releaseMachineReservation_def
proof (rule run_catchE [OF run_call [OF lookup_net]])
  let ?n = "cfg_Network cfg" and ?mac = "deriveDomainMAC (cfg_DomainName cfg)"
  fix h s'
  assume "h = LvNetwork ?n \<and> networks s ?n \<noteq> None \<and> s' = grab (HNet h) s"
  then obtain x where h: "h = LvNetwork ?n" and s': "s' = grab (HNet (LvNetwork ?n)) s"
    and x: "networks s ?n = Some x" by auto
  have same: "put_network ?n (net_doc x) s = s" by (rule put_same) (simp add: x)
  have here: "(\<lambda>w. view w = put_network ?n (net_doc x) s') = (\<lambda>w. view w = s')"
    unfolding s' by (simp add: same)
  have "valid (\<lambda>w. view w = put_network ?n (net_doc x) s')
      (releaseMachineIP (env_lx E) (Network_ops (env_lv E) (LvNetwork ?n)) ?n (cfg_DomainName cfg) ?mac)
      (\<lambda>_ w. \<exists>N'. reservation_released (net_doc x) ?mac N' \<and> view w = put_network ?n N' s')
      (\<lambda>e w. (flaky \<or> \<not> entry_ours (net_doc x) (cfg_DomainName cfg) ?mac) \<and> view w = put_network ?n (net_doc x) s')"
    by (rule dhcp_network.release_valid [OF network_ops])
       (use inv x s' in \<open>auto simp: networks_inv_def\<close>)
  then have "run view s' (releaseMachineIP (env_lx E) (Network_ops (env_lv E) (LvNetwork ?n)) ?n (cfg_DomainName cfg) ?mac)
      (\<lambda>_ s2. \<exists>N'. reservation_released (net_doc x) ?mac N' \<and> s2 = put_network ?n N' s')
      (\<lambda>e s2. (flaky \<or> \<not> entry_ours (net_doc x) (cfg_DomainName cfg) ?mac) \<and> s2 = put_network ?n (net_doc x) s')"
    unfolding run_def here .
  then show "run view s' (deferE (Network_Free (env_lv E) h)
      (releaseMachineIP (env_lx E) (Network_ops (env_lv E) h) ?n (cfg_domainName cfg)
        (deriveDomainMAC (cfg_domainName cfg))))
      (\<lambda>_ s'. reservation_gone ?n ?mac s s') (\<lambda>e s'. (flaky \<or> \<not> machine_entry_ours s cfg) \<and> s' = s)"
    unfolding h cfg_domainName_def
    by (intro defer_net, elim run_post)
       (auto simp: s' same x reservation_gone_def machine_entry_ours_def)
qed (auto simp: lookup_error_def reservation_gone_def intro!: run_ret run_throw)

end

end
