(* ===== verification/MachineOps.thy ===== *)
theory MachineOps
  imports HostOps
begin

text \<open>
  What \<^verbatim>\<open>DeleteMachine\<close> and \<^verbatim>\<open>CreateMachine\<close> make of a host: the state after a success, and what neither a
  success nor a failure ever touches.
\<close>

section \<open>The footprint of a machine\<close>

definition machine_volumes :: "MachineConfig \<Rightarrow> (string \<times> string) set" where
  "machine_volumes cfg = {(cfg_DomainPool cfg, domainDiskName cfg), (cfg_DomainPool cfg, isoDiskName cfg)}"

abbreviation machine_mac :: "MachineConfig \<Rightarrow> string" where
  "machine_mac cfg \<equiv> deriveDomainMAC (cfg_DomainName cfg)"

text \<open>
  A network document with the same subnets and ranges, the same host entries of other hardware addresses,
  and consistent entries.
\<close>

definition same_but_mac :: "string \<Rightarrow> Network \<Rightarrow> Network \<Rightarrow> bool" where
  "same_but_mac mac N N' \<longleftrightarrow>
     subnet_frame N' = subnet_frame N \<and> other_hosts N' mac = other_hosts N mac \<and> hosts_inv (hosts_of N')"

definition net_same_but_mac :: "string \<Rightarrow> net_state \<Rightarrow> net_state \<Rightarrow> bool" where
  "net_same_but_mac mac x x' \<longleftrightarrow>
     net_active x' = net_active x \<and> net_leases x' = net_leases x \<and> same_but_mac mac (net_doc x) (net_doc x')"

text \<open>
  Only what belongs to the machine differs: its domain, its two volumes, its host entry. Handles are
  balanced, and files outside the temporary directories are as they were.
\<close>

definition machine_frame :: "bool \<Rightarrow> MachineConfig \<Rightarrow> sys \<Rightarrow> sys \<Rightarrow> bool" where
  "machine_frame flaky cfg s s' \<longleftrightarrow>
     (\<forall>n. n \<noteq> cfg_DomainName cfg \<longrightarrow> domains s' n = domains s n)
     \<and> (\<forall>k. k \<notin> machine_volumes cfg \<longrightarrow> volumes s' k = volumes s k)
     \<and> (\<forall>n. n \<noteq> cfg_Network cfg \<longrightarrow> networks s' n = networks s n)
     \<and> rel_option (net_same_but_mac (machine_mac cfg)) (networks s (cfg_Network cfg)) (networks s' (cfg_Network cfg))
     \<and> pools s' = pools s \<and> uploads s' = uploads s \<and> handles s' = handles s
     \<and> tidy flaky (disk s) (disk s')"

lemma net_same_but_mac_trans:
  "net_same_but_mac mac x y \<Longrightarrow> net_same_but_mac mac y z \<Longrightarrow> net_same_but_mac mac x z"
  by (simp add: net_same_but_mac_def same_but_mac_def)

lemma machine_frame_refl: "networks_inv s \<Longrightarrow> machine_frame flaky cfg s s"
  unfolding machine_frame_def
  by (cases "networks s (cfg_Network cfg)")
     (auto simp: networks_inv_def net_same_but_mac_def same_but_mac_def)

lemma machine_frame_trans:
  assumes "machine_frame flaky cfg s s'" "machine_frame flaky cfg s' s''"
  shows "machine_frame flaky cfg s s''"
proof -
  have "rel_option (net_same_but_mac (machine_mac cfg)) (networks s (cfg_Network cfg)) (networks s'' (cfg_Network cfg))"
    using assms unfolding machine_frame_def
    by (cases "networks s (cfg_Network cfg)"; cases "networks s' (cfg_Network cfg)";
        cases "networks s'' (cfg_Network cfg)") (simp_all, blast intro: net_same_but_mac_trans)
  with assms show ?thesis unfolding machine_frame_def by (auto intro: tidy_trans)
qed

lemma machine_frame_inv: "networks_inv s \<Longrightarrow> machine_frame flaky cfg s s' \<Longrightarrow> networks_inv s'"
  unfolding networks_inv_def
proof (intro allI impI)
  fix n x'
  assume inv: "\<forall>n x. networks s n = Some x \<longrightarrow> hosts_inv (hosts_of (net_doc x))"
    and frame: "machine_frame flaky cfg s s'" and x': "networks s' n = Some x'"
  show "hosts_inv (hosts_of (net_doc x'))"
  proof (cases "n = cfg_Network cfg")
    case True
    with frame x' show ?thesis
      by (cases "networks s n") (auto simp: machine_frame_def net_same_but_mac_def same_but_mac_def)
  next
    case False
    with frame inv x' show ?thesis by (simp add: machine_frame_def)
  qed
qed

lemma frame_domain: "networks_inv s \<Longrightarrow> machine_frame flaky cfg s (put_domain (cfg_DomainName cfg) d s)"
  using machine_frame_refl [of s flaky cfg] by (simp add: machine_frame_def)

lemma frame_volume: "networks_inv s \<Longrightarrow> k \<in> machine_volumes cfg \<Longrightarrow> machine_frame flaky cfg s (put_volume k v s)"
  using machine_frame_refl [of s flaky cfg] by (auto simp: machine_frame_def)

lemma frame_network:
  assumes "networks s (cfg_Network cfg) = Some x" "same_but_mac (machine_mac cfg) (net_doc x) N'"
  shows "machine_frame flaky cfg s (put_network (cfg_Network cfg) N' s)"
  using assms by (auto simp: machine_frame_def put_network_def net_same_but_mac_def)

lemma frame_tidied: "networks_inv s \<Longrightarrow> tidied flaky s s' \<Longrightarrow> machine_frame flaky cfg s s'"
  using machine_frame_refl [of s flaky cfg] by (auto simp: machine_frame_def tidied_def)

lemma frame_grab: "machine_frame flaky cfg (grab h s) (grab h s') \<longleftrightarrow> machine_frame flaky cfg s s'"
  by (simp add: machine_frame_def)

lemma frame_drop: "machine_frame flaky cfg (grab h s) s' \<Longrightarrow> machine_frame flaky cfg s (drop_handle h s')"
  by (simp add: machine_frame_def)

section \<open>Deleting a machine\<close>

text \<open>
  The machine is gone: no domain (or, when asking for its activity failed, one that is no longer
  persistent), no volume in its pool, no host entry for its hardware address.
\<close>

definition machine_gone :: "bool \<Rightarrow> MachineConfig \<Rightarrow> sys \<Rightarrow> sys \<Rightarrow> bool" where
  "machine_gone flaky cfg s s' \<longleftrightarrow>
     (domains s' (cfg_DomainName cfg) = None
       \<or> flaky \<and> (\<exists>x. domains s (cfg_DomainName cfg) = Some x \<and> d_active x
                   \<and> domains s' (cfg_DomainName cfg) = Some (x\<lparr>d_persistent := False\<rparr>)))
     \<and> (\<forall>k \<in> machine_volumes cfg. pools s (cfg_DomainPool cfg) \<noteq> None \<longrightarrow> volumes s' k = None)
     \<and> (\<forall>x'. networks s' (cfg_Network cfg) = Some x' \<longrightarrow>
          (\<forall>h \<in> set (hosts_of (net_doc x')). \<not> strings_EqualFold (host_MAC h) (machine_mac cfg)))"

lemma released_same_but_mac: "reservation_released N mac N' \<Longrightarrow> same_but_mac mac N N'"
  unfolding reservation_released_def same_but_mac_def other_hosts_def by auto

lemma released_no_entry:
  "reservation_released N mac N' \<Longrightarrow> h \<in> set (hosts_of N') \<Longrightarrow> \<not> strings_EqualFold (host_MAC h) mac"
  by (simp add: reservation_released_def other_hosts_def)

text \<open>The four steps of a deletion, from the state after connecting.\<close>

lemma machine_gone_steps:
  assumes inv: "networks_inv s" and dom: "domain_deleted flaky (cfg_DomainName cfg) s s1"
    and s2: "s2 = volume_deleted (cfg_DomainPool cfg) (domainDiskName cfg) s1"
    and s3: "s3 = volume_deleted (cfg_DomainPool cfg) (isoDiskName cfg) s2"
    and res: "reservation_gone (cfg_Network cfg) (machine_mac cfg) s3 s'"
  shows "machine_gone flaky cfg s s' \<and> machine_frame flaky cfg s s'"
proof -
  have f1: "machine_frame flaky cfg s s1"
    using dom inv by (auto simp: domain_deleted_def intro: frame_domain)
  then have inv1: "networks_inv s1" using inv by (rule machine_frame_inv [rotated])
  have f2: "machine_frame flaky cfg s1 s2"
    using inv1 by (auto simp: s2 volume_deleted_def machine_volumes_def intro!: frame_volume machine_frame_refl)
  then have inv2: "networks_inv s2" using inv1 by (rule machine_frame_inv [rotated])
  have f3: "machine_frame flaky cfg s2 s3"
    using inv2 by (auto simp: s3 volume_deleted_def machine_volumes_def intro!: frame_volume machine_frame_refl)
  then have inv3: "networks_inv s3" using inv2 by (rule machine_frame_inv [rotated])
  have f4: "machine_frame flaky cfg s3 s'"
    using res inv3 by (auto simp: reservation_gone_def split: option.splits
        intro: frame_network released_same_but_mac machine_frame_refl)
  have frame: "machine_frame flaky cfg s s'"
    using f1 f2 f3 f4 by (blast intro: machine_frame_trans)
  have pools: "pools s1 = pools s" using dom by (auto simp: domain_deleted_def)
  have "domains s' = domains s1" and "volumes s' = volumes s3"
    using res by (auto simp: reservation_gone_def s2 s3 volume_deleted_def split: option.splits)
  moreover have "volumes s3 k = None" if "k \<in> machine_volumes cfg" "pools s (cfg_DomainPool cfg) \<noteq> None" for k
    using that pools by (auto simp: s3 s2 volume_deleted_def machine_volumes_def)
  moreover have "\<not> strings_EqualFold (host_MAC h) (machine_mac cfg)"
    if "networks s' (cfg_Network cfg) = Some x'" "h \<in> set (hosts_of (net_doc x'))" for x' h
    using res that by (auto simp: reservation_gone_def put_network_def released_no_entry split: option.splits)
  ultimately have "machine_gone flaky cfg s s'"
    using dom by (auto simp: machine_gone_def domain_deleted_def)
  then show ?thesis using frame by blast
qed

text \<open>Why a deletion may fail on a host where no call fails by itself.\<close>

definition delete_obstacle :: "sys \<Rightarrow> MachineConfig \<Rightarrow> bool" where
  "delete_obstacle s cfg \<longleftrightarrow>
     \<not> credentials_ok cfg
     \<or> (\<exists>x. domains s (cfg_DomainName cfg) = Some x \<and> \<not> d_persistent x)
     \<or> pools s (cfg_DomainPool cfg) = Some False
     \<or> \<not> machine_entry_ours s cfg"

lemma volume_deleted_frame:
  "networks_inv s \<Longrightarrow> (cfg_DomainPool cfg, v) \<in> machine_volumes cfg
   \<Longrightarrow> machine_frame flaky cfg s (volume_deleted (cfg_DomainPool cfg) v s)"
  by (auto simp: volume_deleted_def intro!: frame_volume machine_frame_refl)

lemma machine_volumes_in [simp]:
  "(cfg_DomainPool cfg, domainDiskName cfg) \<in> machine_volumes cfg"
  "(cfg_DomainPool cfg, isoDiskName cfg) \<in> machine_volumes cfg"
  by (simp_all add: machine_volumes_def)

lemma volume_deleted_selects [simp]:
  "networks (volume_deleted p v s) = networks s" "pools (volume_deleted p v s) = pools s"
  by (simp_all add: volume_deleted_def)

lemma domain_deleted_selects:
  "domain_deleted flaky n s s' \<Longrightarrow> networks s' = networks s" "domain_deleted flaky n s s' \<Longrightarrow> pools s' = pools s"
  by (auto simp: domain_deleted_def)

context libvirt_host
begin

lemma delete_steps_run:
  assumes inv: "networks_inv s"
  shows "run view s
     (tryE (deleteDomain (env_lv E) c (cfg_domainName cfg)) id (\<lambda>_.
      tryE (deleteVolume (env_lv E) c (domainPoolName cfg) (domainDiskName cfg)) id (\<lambda>_.
      tryE (deleteVolume (env_lv E) c (domainPoolName cfg) (isoDiskName cfg)) id (\<lambda>_.
      tryE (releaseMachineReservation E c cfg) id (\<lambda>_. ret ())))))
     (\<lambda>_ s'. machine_gone flaky cfg s s' \<and> machine_frame flaky cfg s s')
     (\<lambda>e s'. (flaky \<or> delete_obstacle s cfg) \<and> machine_frame flaky cfg s s')"
  unfolding cfg_domainName_def domainPoolName_def
proof (rule run_tryE [OF deleteDomain_run])
  let ?n = "cfg_DomainName cfg" and ?p = "cfg_DomainPool cfg"
  show "(flaky \<or> delete_obstacle s cfg) \<and> machine_frame flaky cfg s s'"
    if "(flaky \<or> (\<exists>x. domains s ?n = Some x \<and> \<not> d_persistent x)) \<and> (\<exists>d. s' = put_domain ?n d s)" for s'
    using that inv by (auto simp: delete_obstacle_def intro: frame_domain)
  fix u s1
  assume s1: "domain_deleted flaky ?n s s1"
  note sel = domain_deleted_selects [OF s1]
  have f1: "machine_frame flaky cfg s s1"
    using s1 inv by (auto simp: domain_deleted_def intro: frame_domain)
  then have inv1: "networks_inv s1" using inv by (rule machine_frame_inv [rotated])
  let ?s2 = "volume_deleted ?p (domainDiskName cfg) s1"
  let ?s3 = "volume_deleted ?p (isoDiskName cfg) ?s2"
  have f2: "machine_frame flaky cfg s ?s2"
    using volume_deleted_frame [OF inv1, of cfg "domainDiskName cfg"] by (auto intro: machine_frame_trans [OF f1])
  then have inv2: "networks_inv ?s2" using inv by (rule machine_frame_inv [rotated])
  have f3: "machine_frame flaky cfg s ?s3"
    using volume_deleted_frame [OF inv2, of cfg "isoDiskName cfg"] by (auto intro: machine_frame_trans [OF f2])
  then have inv3: "networks_inv ?s3" using inv by (rule machine_frame_inv [rotated])
  have gone: "machine_gone flaky cfg s s' \<and> machine_frame flaky cfg s s'"
    if "reservation_gone (cfg_Network cfg) (machine_mac cfg) ?s3 s'" for s'
    by (rule machine_gone_steps [OF inv s1 refl refl that])
  show "run view s1
     (tryE (deleteVolume (env_lv E) c ?p (domainDiskName cfg)) id (\<lambda>_.
      tryE (deleteVolume (env_lv E) c ?p (isoDiskName cfg)) id (\<lambda>_.
      tryE (releaseMachineReservation E c cfg) id (\<lambda>_. ret ()))))
     (\<lambda>_ s'. machine_gone flaky cfg s s' \<and> machine_frame flaky cfg s s')
     (\<lambda>e s'. (flaky \<or> delete_obstacle s cfg) \<and> machine_frame flaky cfg s s')"
    by (rule run_tryE [OF deleteVolume_run], use f1 sel in \<open>force simp: delete_obstacle_def\<close>, hypsubst,
        rule run_tryE [OF deleteVolume_run], use f2 sel in \<open>force simp: delete_obstacle_def\<close>, hypsubst,
        rule run_tryE [OF releaseMachineReservation_run [OF inv3]],
        use f3 sel in \<open>force simp: delete_obstacle_def machine_entry_ours_def\<close>, rule run_ret, erule gone)
qed

lemma DeleteMachine_run:
  assumes "networks_inv s"
  shows "run view s (DeleteMachine E cfg)
     (\<lambda>_ s'. machine_gone flaky cfg s s' \<and> machine_frame flaky cfg s s')
     (\<lambda>e s'. (flaky \<or> delete_obstacle s cfg) \<and> machine_frame flaky cfg s s')"
  unfolding DeleteMachine_def
proof (rule with_connection_run)
  fix c s1
  assume s1: "tidied flaky s s1"
  note sel = tidied_selects [OF s1]
  have f: "machine_frame flaky cfg s s1" by (rule frame_tidied [OF assms s1])
  have inv: "networks_inv (grab (HConn c) s1)" using assms by (simp add: networks_inv_def sel)
  show "run view (grab (HConn c) s1)
     (tryE (deleteDomain (env_lv E) c (cfg_domainName cfg)) id (\<lambda>_.
      tryE (deleteVolume (env_lv E) c (domainPoolName cfg) (domainDiskName cfg)) id (\<lambda>_.
      tryE (deleteVolume (env_lv E) c (domainPoolName cfg) (isoDiskName cfg)) id (\<lambda>_.
      tryE (releaseMachineReservation E c cfg) id (\<lambda>_. ret ())))))
     (\<lambda>_ s'. machine_gone flaky cfg s (drop_handle (HConn c) s') \<and> machine_frame flaky cfg s (drop_handle (HConn c) s'))
     (\<lambda>e s'. (flaky \<or> delete_obstacle s cfg) \<and> machine_frame flaky cfg s (drop_handle (HConn c) s'))"
    by (rule run_post [OF delete_steps_run [OF inv]])
       (auto simp: machine_gone_def delete_obstacle_def machine_entry_ours_def sel
          intro: machine_frame_trans [OF f frame_drop])
qed (auto simp: delete_obstacle_def intro: frame_tidied assms)

end

end
