(* ===== verification/CreateOps.thy ===== *)
theory CreateOps
  imports MachineOps
begin

text \<open>
  What \<^verbatim>\<open>CreateMachine\<close> makes of a host: the disks, the upload of the cloud-init image, the reservation and
  the running domain.
\<close>

section \<open>Upload\<close>

lemma send_handler_productive: "productive send_handler"
  by (auto simp: productive_def send_handler_def)

text \<open>Whatever sizes libvirt asks for, the callback delivers the buffer, all of it and in order.\<close>

lemma pumped_send_handler: "pumped send_handler buf sent \<Longrightarrow> sent = buf"
proof (induction send_handler buf sent rule: pumped.induct)
  case (pump_end n buf buf')
  then show ?case by (auto simp: send_handler_def split: if_splits)
next
  case (pump_more n buf xs buf' ys)
  then show ?case by (auto simp: send_handler_def split: if_splits)
qed

lemma put_upload_twice [simp]: "put_upload h u (put_upload h u' s) = put_upload h u s"
  by (simp add: put_upload_def)

lemma put_upload_none: "uploads s h = None \<Longrightarrow> put_upload h None s = s"
  by (simp add: put_upload_def fun_upd_idem)

lemma write_upload_commute: "write_volume k b (put_upload h u s) = put_upload h u (write_volume k b s)"
  by (simp add: sys_defs)

lemma cut_off_written:
  assumes "uploads s1 hs = Some u" "up_volume u = k" "put_upload hs None s1 = s" "cut_off hs s1 s'"
  shows "\<exists>b. s' = write_volume k b s"
  using assms by (auto simp: cut_off_def write_upload_commute [symmetric])

lemma cut_off_idle: "uploads s hs = None \<Longrightarrow> cut_off hs s s' \<longleftrightarrow> s' = s"
  by (simp add: cut_off_def)

context libvirt_host
begin

text \<open>
  The stream \<open>hs\<close> is idle again and the bytes are written; or, after an error, the stream is idle or still has an
  upload of the volume, which has not been touched so far.
\<close>

lemma send_finish_run:
  assumes up: "uploads s hs = Some \<lparr>up_volume = (p, v), up_limit = length buf, up_sent = []\<rparr>"
    and s0: "put_upload hs None s = s0"
  shows "run view s
     (catchE (Stream_SendAll (env_lv E) hs send_handler buf)
        (\<lambda>err. deferE (Stream_Abort (env_lv E) hs) (throw (g err)))
        (\<lambda>_. tryE (Stream_Finish (env_lv E) hs) h (\<lambda>_. ret ())))
     (\<lambda>_ s'. s' = write_volume (p, v) buf s0)
     (\<lambda>e s'. flaky \<and> ((\<exists>b. s' = write_volume (p, v) b s0)
        \<or> (\<exists>u. uploads s' hs = Some u \<and> up_volume u = (p, v) \<and> put_upload hs None s' = s0)))"
proof -
  let ?u = "\<lambda>b. \<lparr>up_volume = (p, v), up_limit = length buf, up_sent = b\<rparr>"
  have send: "run view s (Stream_SendAll (env_lv E) hs send_handler buf)
      (\<lambda>_ s'. s' = put_upload hs (Some (?u buf)) s) (\<lambda>e s'. flaky \<and> (\<exists>b. s' = put_upload hs (Some (?u b)) s))"
    unfolding run_def
    by (rule valid_post [OF send_all [OF up send_handler_productive]])
       (auto simp: within_limit_def dest: pumped_send_handler)
  show ?thesis
  proof (rule run_catchE [OF send])
    fix e s1
    assume "flaky \<and> (\<exists>b. s1 = put_upload hs (Some (?u b)) s)"
    then obtain b where f: flaky and s1: "s1 = put_upload hs (Some (?u b)) s" by blast
    have "\<exists>b. s'' = write_volume (p, v) b s0" if "cut_off hs s1 s''" for s''
      using that s0 by (intro cut_off_written [of s1 hs "?u b"]) (simp_all add: s1)
    then show "run view s1 (deferE (Stream_Abort (env_lv E) hs) (throw (g e)))
        (\<lambda>_ s'. s' = write_volume (p, v) buf s0)
        (\<lambda>e s'. flaky \<and> ((\<exists>b. s' = write_volume (p, v) b s0)
          \<or> (\<exists>u. uploads s' hs = Some u \<and> up_volume u = (p, v) \<and> put_upload hs None s' = s0)))"
      by (intro run_deferE_rel [where R = "cut_off hs"] run_throw, intro abort) (use f in blast)
  next
    fix u s1
    assume s1: "s1 = put_upload hs (Some (?u buf)) s"
    then have u: "uploads s1 hs = Some (?u buf)" by simp
    show "run view s1 (tryE (Stream_Finish (env_lv E) hs) h (\<lambda>_. ret ()))
        (\<lambda>_ s'. s' = write_volume (p, v) buf s0)
        (\<lambda>e s'. flaky \<and> ((\<exists>b. s' = write_volume (p, v) b s0)
          \<or> (\<exists>u. uploads s' hs = Some u \<and> up_volume u = (p, v) \<and> put_upload hs None s' = s0)))"
      by (rule run_tryE [OF run_call [OF finish [OF u]]])
         (auto simp: s1 write_upload_commute s0 [symmetric] intro!: run_ret)
  qed
qed

lemma storageVolUpload_run:
  assumes v: "volumes s (p, v) \<noteq> None"
  shows "run view s (storageVolUpload (env_lv E) c buf (StorageVol p v))
     (\<lambda>_ s'. s' = write_volume (p, v) buf s) (\<lambda>e s'. flaky \<and> (\<exists>b. s' = write_volume (p, v) b s))"
    (is "run _ _ _ ?Q ?X")
  unfolding storageVolUpload_def
proof (rule run_tryE [OF run_call [OF new_stream]])
  have none: "\<exists>b. s = write_volume (p, v) b s" using write_volume_nothing by metis
  show "?X (Wrapf ''create new stream: %w'' [] e) s'" if "flaky \<and> s' = s" for e s'
    using that none by blast
  fix hs s1
  assume "uploads s hs = None \<and> s1 = grab (HStream hs) s"
  then have idle: "uploads s hs = None" and s1: "s1 = grab (HStream hs) s" by auto
  let ?R = "\<lambda>s s'. \<exists>s1. cut_off hs s s1 \<and> s' = drop_handle (HStream hs) s1"
  have written: "?R s' s'' \<Longrightarrow> s'' = write_volume (p, v) b s" if "s' = write_volume (p, v) b s1" for s' s'' b
    using that by (auto simp: s1 cut_off_def idle)
  have cut: "\<exists>b. s'' = write_volume (p, v) b s"
    if u: "uploads s' hs = Some u" "up_volume u = (p, v)" "put_upload hs None s' = s1" and R: "?R s' s''" for s' s'' u
    using R cut_off_written [OF u] by (fastforce simp: s1)
  have kept: "?R s1 s'' \<Longrightarrow> s'' = s" for s'' by (auto simp: s1 cut_off_def idle)
  have free: "?R (view w) (view (Stream_Free (env_lv E) hs w))" for w using free_stream by blast
  show "run view s1 (deferE (Stream_Free (env_lv E) hs)
     (tryE (Vol_Upload (env_lv E) (StorageVol p v) hs 0 (length buf) 0) (Wrapf ''start volume upload: %w'' []) (\<lambda>_.
      catchE (Stream_SendAll (env_lv E) hs send_handler buf)
        (\<lambda>err. deferE (Stream_Abort (env_lv E) hs) (throw (Wrapf ''send volume data: %w'' [] err)))
        (\<lambda>_. tryE (Stream_Finish (env_lv E) hs) (Wrapf ''finish volume upload: %w'' []) (\<lambda>_. ret ()))))) ?Q ?X"
  proof (rule run_deferE_rel [where R = ?R], rule free, rule run_tryE [OF run_call [OF upload]])
    show "volumes s1 (p, v) \<noteq> None" using v by (simp add: s1)
    show "\<forall>s''. ?R s' s'' \<longrightarrow> flaky \<and> (\<exists>b. s'' = write_volume (p, v) b s)" if "flaky \<and> s' = s1" for s'
      using that kept none by blast
    fix x s2
    assume s2: "s2 = put_upload hs (Some \<lparr>up_volume = (p, v), up_limit = length buf, up_sent = []\<rparr>) s1"
    then have "uploads s2 hs = Some \<lparr>up_volume = (p, v), up_limit = length buf, up_sent = []\<rparr>"
      "put_upload hs None s2 = s1" by (simp_all add: s1 put_upload_none idle)
    from send_finish_run [OF this] show "run view s2 (catchE (Stream_SendAll (env_lv E) hs send_handler buf)
        (\<lambda>err. deferE (Stream_Abort (env_lv E) hs) (throw (Wrapf ''send volume data: %w'' [] err)))
        (\<lambda>_. tryE (Stream_Finish (env_lv E) hs) (Wrapf ''finish volume upload: %w'' []) (\<lambda>_. ret ())))
        (\<lambda>x s'. \<forall>s''. ?R s' s'' \<longrightarrow> ?Q x s'') (\<lambda>e s'. \<forall>s''. ?R s' s'' \<longrightarrow> ?X e s'')"
      by (rule run_post) (use written cut in blast)+
  qed
qed

section \<open>Disks\<close>

lemma getVolumePath_run:
  "run view s (getVolumePath (env_lv E) (StoragePool p) v)
     (\<lambda>x s'. x = (if volumes s (p, v) = None then [] else vol_path p v) \<and> s' = s)
     (\<lambda>e s'. (flaky \<or> pools s p \<noteq> Some True) \<and> s' = s)"
  unfolding getVolumePath_def
proof (rule run_catchE [OF run_call [OF lookup_vol]])
  fix h s'
  assume "h = StorageVol p v \<and> volumes s (p, v) \<noteq> None \<and> s' = grab (HVol h) s"
  then have h: "h = StorageVol p v" and s': "s' = grab (HVol (StorageVol p v)) s" and v: "volumes s (p, v) \<noteq> None"
    by auto
  show "run view s' (deferE (Vol_Free (env_lv E) h)
      (tryE (Vol_GetPath (env_lv E) h) (Wrapf ''get volume path for %s: %w'' [v]) ret))
      (\<lambda>x s'. x = (if volumes s (p, v) = None then [] else vol_path p v) \<and> s' = s)
      (\<lambda>e s'. (flaky \<or> pools s p \<noteq> Some True) \<and> s' = s)"
    unfolding h s'
    by (rule defer_vol, rule run_tryE [OF run_call [OF vol_get_path]]) (use v in \<open>auto intro!: run_ret\<close>)
qed (auto simp: lookup_error_def isVolumeNotFound_eq intro!: run_ret run_throw split: if_splits)

lemma createVolume_run:
  assumes vx: "StorageVolume_Marshal (env_lx E) vd = Inr vx"
  shows "run view s (createVolume (env_lv E) (StoragePool p) vx)
     (\<lambda>x s'. x = vol_path p (vol_Name vd)
        \<and> s' = put_volume (p, vol_Name vd) (Some \<lparr>vol_doc = vd, vol_content = []\<rparr>) s)
     (\<lambda>e s'. (flaky \<or> pools s p \<noteq> Some True \<or> volumes s (p, vol_Name vd) \<noteq> None)
        \<and> (s' = s \<or> flaky \<and> (\<exists>v. s' = put_volume (p, vol_Name vd) v s)))"
  unfolding createVolume_def
proof (rule run_tryE [OF run_call [OF create_vol [OF vx]]])
  fix h s'
  assume "h = StorageVol p (vol_Name vd) \<and> volumes s (p, vol_Name vd) = None \<and>
      s' = grab (HVol h) (put_volume (p, vol_Name vd) (Some \<lparr>vol_doc = vd, vol_content = []\<rparr>) s)"
  then have h: "h = StorageVol p (vol_Name vd)"
    and s': "s' = grab (HVol (StorageVol p (vol_Name vd)))
        (put_volume (p, vol_Name vd) (Some \<lparr>vol_doc = vd, vol_content = []\<rparr>) s)" by auto
  show "run view s' (deferE (Vol_Free (env_lv E) h)
      (tryE (Vol_GetPath (env_lv E) h) (Wrapf ''get VM disk path: %w'' []) ret))
      (\<lambda>x s'. x = vol_path p (vol_Name vd)
        \<and> s' = put_volume (p, vol_Name vd) (Some \<lparr>vol_doc = vd, vol_content = []\<rparr>) s)
      (\<lambda>e s'. (flaky \<or> pools s p \<noteq> Some True \<or> volumes s (p, vol_Name vd) \<noteq> None)
        \<and> (s' = s \<or> flaky \<and> (\<exists>v. s' = put_volume (p, vol_Name vd) v s)))"
    unfolding h s'
    by (rule defer_vol, rule run_tryE [OF run_call [OF vol_get_path]]) (auto intro!: run_ret)
qed auto

end

text \<open>The documents of the two volumes and of the domain of a machine, field by field.\<close>

definition root_volume :: "MachineConfig \<Rightarrow> string \<Rightarrow> StorageVolume" where
  "root_volume cfg base =
     \<lparr>vol_Name = cfg_DomainName cfg @ ''.qcow2'',
      vol_Capacity = \<lparr>size_Value = if cfg_DiskSize cfg = 0 then 20 else cfg_DiskSize cfg, size_Unit = ''G''\<rparr>,
      vol_TargetFormat = ''qcow2'', vol_BackingStore = Some \<lparr>bs_Path = base, bs_Format = ''qcow2''\<rparr>\<rparr>"

definition iso_volume :: "MachineConfig \<Rightarrow> nat \<Rightarrow> StorageVolume" where
  "iso_volume cfg len =
     \<lparr>vol_Name = ''cloudinit-'' @ cfg_DomainName cfg @ ''.iso'',
      vol_Capacity = \<lparr>size_Value = of_nat len, size_Unit = ''bytes''\<rparr>,
      vol_TargetFormat = ''raw'', vol_BackingStore = None\<rparr>"

definition machine_domain :: "MachineConfig \<Rightarrow> string \<Rightarrow> string \<Rightarrow> string \<Rightarrow> Domain" where
  "machine_domain cfg rootPath isoPath mac =
     \<lparr>dom_Type = ''kvm'', dom_Name = cfg_DomainName cfg, dom_UUID = cfg_DomainUUID cfg,
      dom_Memory = \<lparr>mem_Value = if cfg_MemoryMiB cfg = 0 then 1024 else cfg_MemoryMiB cfg, mem_Unit = ''MiB''\<rparr>,
      dom_VCPU = if cfg_VCPU cfg = 0 then 1 else cfg_VCPU cfg,
      dom_OS = \<lparr>os_Type = ''hvm'', os_Arch = ''x86_64'', os_BootDevices = [''hd'']\<rparr>,
      dom_Devices =
        \<lparr>dev_Disks =
           [\<lparr>disk_Device = ''disk'', disk_DriverName = ''qemu'', disk_DriverType = ''qcow2'', disk_SourceFile = rootPath,
             disk_TargetDev = ''vda'', disk_TargetBus = ''virtio'', disk_ReadOnly = False\<rparr>,
            \<lparr>disk_Device = ''cdrom'', disk_DriverName = ''qemu'', disk_DriverType = ''raw'', disk_SourceFile = isoPath,
             disk_TargetDev = ''sda'', disk_TargetBus = ''sata'', disk_ReadOnly = True\<rparr>],
         dev_Interfaces =
           [\<lparr>if_Network = if cfg_Network cfg = [] then ''default'' else cfg_Network cfg, if_Model = ''virtio'',
             if_MAC = Some mac\<rparr>],
         dev_Serials = [\<lparr>serial_Port = 0\<rparr>],
         dev_Consoles = [\<lparr>console_TargetType = ''serial'', console_Port = 0\<rparr>]\<rparr>\<rparr>"

lemma deriveDomainMAC_nonempty: "deriveDomainMAC d \<noteq> []"
  by (simp add: deriveDomainMAC_def HardwareAddr_String_def Let_def)

lemma volume_documents: "root_disk_doc cfg p = root_volume cfg p" "iso_disk_doc cfg l = iso_volume cfg l"
  by (simp_all add: root_disk_doc_def iso_disk_doc_def root_volume_def iso_volume_def volume_builder_defs domainDiskName_def
      isoDiskName_def diskSizeGiB_def DefaultVolumeCapacityGiB_def DefaultVolumeFormat_def RawVolumeFormat_def)

lemma domain_document: "machine_domain_doc cfg p q (machine_mac cfg) = machine_domain cfg p q (machine_mac cfg)"
  by (simp add: machine_domain_doc_def machine_domain_def domain_builder_defs deriveDomainMAC_nonempty memoryMiB_def vCPU_def
      DefaultDomainType_def DefaultMemoryMiB_def DefaultMemoryUnit_def DefaultCPU_def DefaultOSType_def DefaultOSArch_def
      DefaultDiskDriverName_def DefaultDiskFormat_def DefaultDiskTarget_def DefaultDiskBus_def DefaultNetworkName_def
      DefaultNetworkModel_def DefaultCloudInitDriverName_def DefaultCloudInitFormat_def DefaultCloudInitBus_def
      DefaultCloudInitTarget_def DefaultBootDevHD_def)

text \<open>
  The root disk and the cloud-init volume: a volume that exists is used as it is; a new root disk is an
  overlay of the base image, a new cloud-init volume holds the image of the machine.
\<close>

definition root_ready :: "(string \<Rightarrow> string \<Rightarrow> string) \<Rightarrow> MachineConfig \<Rightarrow> sys \<Rightarrow> sys \<Rightarrow> bool" where
  "root_ready vol_path cfg s s' \<longleftrightarrow>
     (let k = (cfg_DomainPool cfg, domainDiskName cfg); base = (cfg_BasePool cfg, cfg_BaseImage cfg)
      in case volumes s k of
           Some v \<Rightarrow> volumes s' k = Some v
         | None \<Rightarrow> volumes s base \<noteq> None \<and>
             volumes s' k = Some \<lparr>vol_doc = root_volume cfg (vol_path (fst base) (snd base)), vol_content = []\<rparr>)"

definition iso_ready ::
  "(string \<Rightarrow> bool \<Rightarrow> (string \<times> bytes) list \<Rightarrow> bytes) \<Rightarrow> ((string \<times> string) list \<Rightarrow> goerror + bytes)
     \<Rightarrow> MachineConfig \<Rightarrow> sys \<Rightarrow> sys \<Rightarrow> bool" where
  "iso_ready mk_iso marshal cfg s s' \<longleftrightarrow>
     (let k = (cfg_DomainPool cfg, isoDiskName cfg)
      in case volumes s k of
           Some v \<Rightarrow> volumes s' k = Some v
         | None \<Rightarrow> \<exists>b. cloud_init_image mk_iso marshal cfg b \<and>
             volumes s' k = Some \<lparr>vol_doc = iso_volume cfg (length b), vol_content = b\<rparr>)"

definition pools_active :: "sys \<Rightarrow> MachineConfig \<Rightarrow> bool" where
  "pools_active s cfg \<longleftrightarrow> pools s (cfg_DomainPool cfg) = Some True \<and> pools s (cfg_BasePool cfg) = Some True"

definition no_root_source :: "sys \<Rightarrow> MachineConfig \<Rightarrow> bool" where
  "no_root_source s cfg \<longleftrightarrow>
     volumes s (cfg_DomainPool cfg, domainDiskName cfg) = None \<and> volumes s (cfg_BasePool cfg, cfg_BaseImage cfg) = None"

lemma doc_names [simp]:
  "vol_Name (root_disk_doc cfg p) = domainDiskName cfg" "vol_Name (iso_disk_doc cfg l) = isoDiskName cfg"
  by (simp_all add: root_disk_doc_def iso_disk_doc_def)

lemma disk_names_differ [simp]: "domainDiskName cfg \<noteq> isoDiskName cfg" "isoDiskName cfg \<noteq> domainDiskName cfg"
proof -
  have "last (domainDiskName cfg) \<noteq> last (isoDiskName cfg)"
    by (simp add: domainDiskName_def isoDiskName_def)
  then show "domainDiskName cfg \<noteq> isoDiskName cfg" "isoDiskName cfg \<noteq> domainDiskName cfg" by auto
qed

context libvirt_host
begin

lemma createRootDisk_run:
  "run view s (createRootDisk E (StoragePool (cfg_BasePool cfg)) (StoragePool (cfg_DomainPool cfg)) cfg)
     (\<lambda>x s'. x = vol_path (cfg_DomainPool cfg) (domainDiskName cfg) \<and> root_ready vol_path cfg s s'
        \<and> (\<exists>v. s' = put_volume (cfg_DomainPool cfg, domainDiskName cfg) v s))
     (\<lambda>e s'. (flaky \<or> \<not> pools_active s cfg \<or> no_root_source s cfg)
        \<and> (\<exists>v. s' = put_volume (cfg_DomainPool cfg, domainDiskName cfg) v s))"
  unfolding createRootDisk_def Let_def
proof (rule run_tryE [OF getVolumePath_run])
  let ?k = "(cfg_DomainPool cfg, domainDiskName cfg)"
  have same: "\<exists>v. s = put_volume ?k v s" using put_same(2) [OF refl, of ?k s] by metis
  show "(flaky \<or> \<not> pools_active s cfg \<or> no_root_source s cfg) \<and> (\<exists>v. s' = put_volume ?k v s)"
    if "(flaky \<or> pools s (cfg_DomainPool cfg) \<noteq> Some True) \<and> s' = s" for s'
    using that same by (auto simp: pools_active_def)
  fix x s1
  assume x: "x = (if volumes s ?k = None then [] else vol_path (cfg_DomainPool cfg) (domainDiskName cfg)) \<and> s1 = s"
  let ?Q = "\<lambda>x s'. x = vol_path (cfg_DomainPool cfg) (domainDiskName cfg) \<and> root_ready vol_path cfg s s'
      \<and> (\<exists>v. s' = put_volume ?k v s)"
  let ?X = "\<lambda>e s'. (flaky \<or> \<not> pools_active s cfg \<or> no_root_source s cfg) \<and> (\<exists>v. s' = put_volume ?k v s)"
  let ?make = "\<lambda>b. tryE (pureE (Some (StorageVolume_Marshal (env_lx E) (root_disk_doc cfg b))))
      (Wrapf ''marshal volume XML: %w'' []) (\<lambda>volumeXML.
      tryE (createVolume (env_lv E) (StoragePool (cfg_DomainPool cfg)) volumeXML) (Wrapf ''create root disk: %w'' []) ret)"
  have make: "run view s (?make (vol_path (cfg_BasePool cfg) (cfg_BaseImage cfg))) ?Q ?X"
    if none: "volumes s ?k = None" and base: "volumes s (cfg_BasePool cfg, cfg_BaseImage cfg) \<noteq> None"
  proof -
    obtain vx where vx: "StorageVolume_Marshal (env_lx E) (root_disk_doc cfg (vol_path (cfg_BasePool cfg) (cfg_BaseImage cfg)))
        = Inr vx" using marshal(2) by blast
    show ?thesis
      unfolding vx tryE_pureE
      by (rule run_tryE [OF createVolume_run [OF vx]])
         (use none base same in \<open>auto simp: root_ready_def pools_active_def Let_def volume_documents [symmetric] intro!: run_ret\<close>)
  qed
  show "run view s1
      (if x \<noteq> [] then ret x
       else tryE (getVolumePath (env_lv E) (StoragePool (cfg_BasePool cfg)) (cfg_BaseImage cfg)) id (\<lambda>b.
         if b = [] then throw (Errorf ''base image %q not found'' [cfg_BaseImage cfg]) else ?make b)) ?Q ?X"
  proof (cases "volumes s ?k")
    case (Some v)
    with x same path_nonempty show ?thesis by (auto simp: root_ready_def intro!: run_ret)
  next
    case None
    have "run view s (tryE (getVolumePath (env_lv E) (StoragePool (cfg_BasePool cfg)) (cfg_BaseImage cfg)) id (\<lambda>b.
         if b = [] then throw (Errorf ''base image %q not found'' [cfg_BaseImage cfg]) else ?make b)) ?Q ?X"
      by (rule run_tryE [OF getVolumePath_run])
         (use None same make path_nonempty in \<open>auto simp: pools_active_def no_root_source_def intro!: run_throw\<close>)
    with None x show ?thesis by simp
  qed
qed

lemma writeCloudInitISO_run:
  assumes name: "CHR ''/'' \<notin> set (cfg_DomainName cfg)"
  shows "run view s (writeCloudInitISO E cfg)
     (\<lambda>b s'. cloud_init_image mk_iso (yaml_Marshal E) cfg b \<and> tidied flaky s s') (\<lambda>e s'. flaky \<and> tidied flaky s s')"
proof -
  have "valid (\<lambda>w. view w = s\<lparr>disk := disk s\<rparr>) (writeCloudInitISO E cfg)
     (\<lambda>b w. \<exists>f'. tidy flaky (disk s) f' \<and> cloud_init_image mk_iso (yaml_Marshal E) cfg b \<and> view w = s\<lparr>disk := f'\<rparr>)
     (\<lambda>e w. flaky \<and> (\<exists>f'. tidy flaky (disk s) f' \<and> view w = s\<lparr>disk := f'\<rparr>))"
    by (rule local_files.writeCloudInitISO_valid [OF local_disk]) (auto simp: name dest: yaml)
  then show ?thesis
    unfolding run_def by (elim valid_conseq) (auto simp: tidied_def)
qed

text \<open>The new cloud-init volume, from the image to the uploaded bytes.\<close>

lemma fill_iso_run:
  assumes none: "volumes s (cfg_DomainPool cfg, isoDiskName cfg) = None"
    and vx: "StorageVolume_Marshal (env_lx E) (iso_disk_doc cfg (length b)) = Inr vx"
  shows "run view s
     (tryE (createVolume (env_lv E) (StoragePool (cfg_DomainPool cfg)) vx) f (\<lambda>volumePath.
      tryE (LookupStorageVolByName (env_lv E) (StoragePool (cfg_DomainPool cfg)) (isoDiskName cfg)) id (\<lambda>vol.
      deferE (Vol_Free (env_lv E) vol) (
      tryE (storageVolUpload (env_lv E) c b vol) g (\<lambda>_. ret volumePath)))))
     (\<lambda>x s'. x = vol_path (cfg_DomainPool cfg) (isoDiskName cfg) \<and> s' = put_volume (cfg_DomainPool cfg, isoDiskName cfg)
        (Some \<lparr>vol_doc = iso_disk_doc cfg (length b), vol_content = b\<rparr>) s)
     (\<lambda>e s'. (flaky \<or> \<not> pools_active s cfg) \<and> (\<exists>v. s' = put_volume (cfg_DomainPool cfg, isoDiskName cfg) v s))"
proof (rule run_tryE [OF createVolume_run [OF vx]])
  let ?k = "(cfg_DomainPool cfg, isoDiskName cfg)"
  have same: "\<exists>v. s = put_volume ?k v s" using put_same(2) [OF refl, of ?k s] by metis
  show "(flaky \<or> \<not> pools_active s cfg) \<and> (\<exists>v. s' = put_volume ?k v s)"
    if "(flaky \<or> pools s (cfg_DomainPool cfg) \<noteq> Some True
          \<or> volumes s (cfg_DomainPool cfg, vol_Name (iso_disk_doc cfg (length b))) \<noteq> None)
        \<and> (s' = s \<or> flaky \<and> (\<exists>v. s' = put_volume (cfg_DomainPool cfg, vol_Name (iso_disk_doc cfg (length b))) v s))" for s'
    using that none same by (auto simp: pools_active_def)
  fix x s1
  let ?v = "\<lparr>vol_doc = iso_disk_doc cfg (length b), vol_content = []\<rparr>"
  assume "x = vol_path (cfg_DomainPool cfg) (vol_Name (iso_disk_doc cfg (length b)))
      \<and> s1 = put_volume (cfg_DomainPool cfg, vol_Name (iso_disk_doc cfg (length b))) (Some ?v) s"
  then have x: "x = vol_path (cfg_DomainPool cfg) (isoDiskName cfg)" and s1: "s1 = put_volume ?k (Some ?v) s" by auto
  have wr: "write_volume ?k b' s1 = put_volume ?k (Some (?v\<lparr>vol_content := b'\<rparr>)) s" for b'
    by (simp add: s1 write_volume_def overwritten_def put_volume_def)
  let ?Q = "\<lambda>x s'. x = vol_path (cfg_DomainPool cfg) (isoDiskName cfg) \<and> s' = put_volume ?k
        (Some \<lparr>vol_doc = iso_disk_doc cfg (length b), vol_content = b\<rparr>) s"
  let ?X = "\<lambda>e s'. (flaky \<or> \<not> pools_active s cfg) \<and> (\<exists>v. s' = put_volume ?k v s)"
  show "run view s1 (tryE (LookupStorageVolByName (env_lv E) (StoragePool (cfg_DomainPool cfg)) (isoDiskName cfg)) id (\<lambda>vol.
      deferE (Vol_Free (env_lv E) vol) (tryE (storageVolUpload (env_lv E) c b vol) g (\<lambda>_. ret x)))) ?Q ?X"
  proof (rule run_tryE [OF run_call [OF lookup_vol]])
    fix h s2
    assume "h = StorageVol (cfg_DomainPool cfg) (isoDiskName cfg) \<and> volumes s1 ?k \<noteq> None \<and> s2 = grab (HVol h) s1"
    then have h: "h = StorageVol (cfg_DomainPool cfg) (isoDiskName cfg)" and s2: "s2 = grab (HVol h) s1" by auto
    have v: "volumes s2 ?k \<noteq> None" by (simp add: s2 s1)
    show "run view s2 (deferE (Vol_Free (env_lv E) h) (tryE (storageVolUpload (env_lv E) c b h) g (\<lambda>_. ret x))) ?Q ?X"
      unfolding h
      by (rule defer_vol, rule run_tryE [OF storageVolUpload_run [OF v]])
         (use x wr in \<open>auto simp: s2 h intro!: run_ret\<close>)
  qed (auto simp: lookup_error_def s1 pools_active_def split: if_splits)
qed

lemma createISODisk_run:
  assumes name: "CHR ''/'' \<notin> set (cfg_DomainName cfg)"
  shows "run view s (createISODisk E c (StoragePool (cfg_DomainPool cfg)) cfg)
     (\<lambda>x s'. x = vol_path (cfg_DomainPool cfg) (isoDiskName cfg) \<and> iso_ready mk_iso (yaml_Marshal E) cfg s s'
        \<and> (\<exists>v s1. tidied flaky s s1 \<and> s' = put_volume (cfg_DomainPool cfg, isoDiskName cfg) v s1))
     (\<lambda>e s'. (flaky \<or> \<not> pools_active s cfg)
        \<and> (\<exists>v s1. tidied flaky s s1 \<and> s' = put_volume (cfg_DomainPool cfg, isoDiskName cfg) v s1))"
  unfolding createISODisk_def Let_def
proof (rule run_tryE [OF getVolumePath_run])
  let ?k = "(cfg_DomainPool cfg, isoDiskName cfg)"
  have same: "\<exists>v s2. tidied flaky s s2 \<and> s1 = put_volume ?k v s2" if "tidied flaky s s1" for s1
    using that put_same(2) [OF refl, of ?k s1] by metis
  show "(flaky \<or> \<not> pools_active s cfg) \<and> (\<exists>v s1. tidied flaky s s1 \<and> s' = put_volume ?k v s1)"
    if "(flaky \<or> pools s (cfg_DomainPool cfg) \<noteq> Some True) \<and> s' = s" for s'
    using that same [OF tidied_refl] by (auto simp: pools_active_def)
  fix x s1
  assume x: "x = (if volumes s ?k = None then [] else vol_path (cfg_DomainPool cfg) (isoDiskName cfg)) \<and> s1 = s"
  let ?Q = "\<lambda>x s'. x = vol_path (cfg_DomainPool cfg) (isoDiskName cfg) \<and> iso_ready mk_iso (yaml_Marshal E) cfg s s'
        \<and> (\<exists>v s1. tidied flaky s s1 \<and> s' = put_volume ?k v s1)"
  let ?X = "\<lambda>e s'. (flaky \<or> \<not> pools_active s cfg) \<and> (\<exists>v s1. tidied flaky s s1 \<and> s' = put_volume ?k v s1)"
  let ?fill = "\<lambda>b. tryE (pureE (Some (StorageVolume_Marshal (env_lx E) (iso_disk_doc cfg (length b)))))
       (Wrapf ''marshal volume XML: %w'' []) (\<lambda>volumeXML.
     tryE (createVolume (env_lv E) (StoragePool (cfg_DomainPool cfg)) volumeXML) (Wrapf ''create cloudinit disk: %w'' []) (\<lambda>volumePath.
     tryE (LookupStorageVolByName (env_lv E) (StoragePool (cfg_DomainPool cfg)) (isoDiskName cfg)) id (\<lambda>vol.
     deferE (Vol_Free (env_lv E) vol) (
     tryE (storageVolUpload (env_lv E) c b vol) (Wrapf ''upload data to volume: %w'' []) (\<lambda>_. ret volumePath)))))"
  have fill: "run view s2 (?fill b) ?Q ?X"
    if none: "volumes s ?k = None" and b: "cloud_init_image mk_iso (yaml_Marshal E) cfg b" and s2: "tidied flaky s s2" for b s2
  proof -
    obtain vx where vx: "StorageVolume_Marshal (env_lx E) (iso_disk_doc cfg (length b)) = Inr vx" using marshal(2) by blast
    have "volumes s2 ?k = None" using none by (simp add: tidied_selects [OF s2])
    then show ?thesis
      unfolding vx tryE_pureE
      by (rule run_post [OF fill_iso_run [OF _ vx]])
         (use none b s2 in \<open>auto simp: iso_ready_def pools_active_def volume_documents [symmetric] tidied_selects [OF s2]\<close>)
  qed
  show "run view s1 (if x \<noteq> [] then ret x
      else tryE (writeCloudInitISO E cfg) (Wrapf ''write cloud-init iso: %w'' []) ?fill) ?Q ?X"
  proof (cases "volumes s ?k")
    case (Some v)
    with x same [OF tidied_refl] path_nonempty show ?thesis by (auto simp: iso_ready_def intro!: run_ret)
  next
    case None
    have "run view s (tryE (writeCloudInitISO E cfg) (Wrapf ''write cloud-init iso: %w'' []) ?fill) ?Q ?X"
      by (rule run_tryE [OF writeCloudInitISO_run [OF name]]) (use None fill same in auto)
    with None x show ?thesis by simp
  qed
qed

end

section \<open>The domain\<close>

definition domain_up :: "Domain \<Rightarrow> dom_state \<Rightarrow> bool" where
  "domain_up d x \<longleftrightarrow>
     d_active x \<and> d_state x = DOMAIN_RUNNING \<and> d_persistent x \<and> d_autostart x \<and> same_domain d (d_doc x)"

text \<open>The domain cannot be defined and started: a conflict, or one of that name runs already.\<close>

definition domain_obstacle :: "sys \<Rightarrow> Domain \<Rightarrow> bool" where
  "domain_obstacle s d \<longleftrightarrow> domain_conflict s d \<or> (\<exists>x. domains s (dom_Name d) = Some x \<and> d_active x)"

context libvirt_host
begin

lemma start_defined_run:
  assumes x: "domains s n = Some x" "d_persistent x"
  shows "run view s
     (tryE (Domain_SetAutostart (env_lv E) (LvDomain n) True) f (\<lambda>_.
      tryE (Domain_Create (env_lv E) (LvDomain n)) g (\<lambda>_. ret ())))
     (\<lambda>_ s'. s' = put_domain n (Some (started (x\<lparr>d_autostart := True\<rparr>))) s)
     (\<lambda>e s'. (flaky \<or> d_active x) \<and> (\<exists>d. s' = put_domain n d s))"
proof (rule run_tryE [OF run_call [OF autostart [OF x(1)]]])
  fix u s1
  assume s1: "s1 = put_domain n (Some (x\<lparr>d_autostart := True\<rparr>)) s"
  then have x1: "domains s1 n = Some (x\<lparr>d_autostart := True\<rparr>)" by simp
  show "run view s1 (tryE (Domain_Create (env_lv E) (LvDomain n)) g (\<lambda>_. ret ()))
      (\<lambda>_ s'. s' = put_domain n (Some (started (x\<lparr>d_autostart := True\<rparr>))) s)
      (\<lambda>e s'. (flaky \<or> d_active x) \<and> (\<exists>d. s' = put_domain n d s))"
    by (rule run_tryE [OF run_call [OF start_dom [OF x1]]]) (auto simp: s1 intro!: run_ret)
qed (use x in \<open>auto intro: put_domain_self\<close>)

lemma define_start_run:
  assumes n: "dom_Name d = n"
  shows "run view s (defineAndStart E c cfg d)
     (\<lambda>_ s'. \<exists>x. domain_up d x \<and> s' = put_domain n (Some x) s)
     (\<lambda>e s'. (flaky \<or> domain_obstacle s d) \<and> (\<exists>x. s' = put_domain n x s))"
proof -
  obtain dx where dx: "Domain_Marshal (env_lx E) d = Inr dx" using marshal(1) by blast
  show ?thesis
    unfolding defineAndStart_def Let_def dx tryE_pureE
  proof (rule run_tryE [OF run_call [OF define_dom [OF dx]]])
    fix h s1
    assume "\<exists>d'. same_domain d d' \<and> h = LvDomain (dom_Name d) \<and> \<not> domain_conflict s d \<and>
        s1 = grab (HDom h) (put_domain (dom_Name d) (Some (defined d' (domains s (dom_Name d)))) s)"
    then obtain d' where d': "same_domain d d'" and h: "h = LvDomain n" and ok: "\<not> domain_conflict s d"
      and s1: "s1 = grab (HDom (LvDomain n)) (put_domain n (Some (defined d' (domains s n))) s)"
      by (auto simp: n)
    let ?x = "defined d' (domains s n)"
    have x: "domains s1 n = Some ?x" "d_persistent ?x" by (auto simp: s1 defined_def split: option.split)
    have up: "domain_up d (started (?x\<lparr>d_autostart := True\<rparr>))"
      using d' x(2) by (auto simp: domain_up_def started_def defined_def split: option.split)
    have act: "domain_obstacle s d" if "d_active ?x"
      using that by (auto simp: domain_obstacle_def defined_def n split: option.splits)
    show "run view s1 (deferE (Domain_Free (env_lv E) h)
        (tryE (Domain_SetAutostart (env_lv E) h True) (Wrapf ''set domain autostart: %w'' []) (\<lambda>_.
         tryE (Domain_Create (env_lv E) h) (Wrapf ''create domain %s: %w'' [cfg_domainName cfg]) (\<lambda>_. ret ()))))
        (\<lambda>_ s'. \<exists>x. domain_up d x \<and> s' = put_domain n (Some x) s)
        (\<lambda>e s'. (flaky \<or> domain_obstacle s d) \<and> (\<exists>x. s' = put_domain n x s))"
      unfolding h
      by (rule defer_dom, rule run_post [OF start_defined_run [OF x]]) (use up act s1 in auto)
  qed (auto simp: domain_obstacle_def intro: put_domain_self)
qed

end

section \<open>The reservation\<close>

definition reserve_obstacle :: "sys \<Rightarrow> MachineConfig \<Rightarrow> bool" where
  "reserve_obstacle s cfg \<longleftrightarrow>
     (case networks s (cfg_Network cfg) of
        None \<Rightarrow> True
      | Some x \<Rightarrow> (\<exists>e. allocateMachineIPIn (net_doc x) (cfg_DomainName cfg) (machine_mac cfg) = Some (Inl e))
                  \<or> \<not> first_subnet_free (net_doc x) (cfg_DomainName cfg) (machine_mac cfg))"

text \<open>The DHCP range of the machine's network does not end at 255.255.255.255, so the choice of an address returns.\<close>

definition allocation_returns :: "sys \<Rightarrow> MachineConfig \<Rightarrow> bool" where
  "allocation_returns s cfg \<longleftrightarrow> (\<forall>x. networks s (cfg_Network cfg) = Some x \<longrightarrow> \<not> endless_range (net_doc x))"

definition reservation_in :: "MachineConfig \<Rightarrow> sys \<Rightarrow> sys \<Rightarrow> bool" where
  "reservation_in cfg s s' \<longleftrightarrow>
     (\<exists>x ip N'. networks s (cfg_Network cfg) = Some x
        \<and> reservation_made (net_doc x) (cfg_DomainName cfg) (machine_mac cfg) ip N'
        \<and> s' = put_network (cfg_Network cfg) N' s)"

context libvirt_host
begin

lemma reserveMachineIP_run:
  assumes inv: "networks_inv s" and ret: "allocation_returns s cfg"
    and x: "networks s (cfg_Network cfg) = Some x"
  shows "run view s (reserveMachineIP (env_lx E) (Network_ops (env_lv E) (LvNetwork (cfg_Network cfg)))
       (cfg_Network cfg) (cfg_DomainName cfg) (machine_mac cfg))
     (\<lambda>_ s'. reservation_in cfg s s') (\<lambda>e s'. (flaky \<or> reserve_obstacle s cfg) \<and> s' = s)"
proof -
  let ?n = "cfg_Network cfg"
  have same: "put_network ?n (net_doc x) s = s" by (rule put_same) (simp add: x)
  have ends: "\<not> endless_range (net_doc x)" using ret x by (simp add: allocation_returns_def)
  have "valid (\<lambda>w. view w = put_network ?n (net_doc x) s)
      (reserveMachineIP (env_lx E) (Network_ops (env_lv E) (LvNetwork ?n)) ?n (cfg_DomainName cfg) (machine_mac cfg))
      (\<lambda>ip w. \<exists>N'. reservation_made (net_doc x) (cfg_DomainName cfg) (machine_mac cfg) ip N' \<and> view w = put_network ?n N' s)
      (\<lambda>e w. (flaky \<or> (\<exists>e'. allocateMachineIPIn (net_doc x) (cfg_DomainName cfg) (machine_mac cfg) = Some (Inl e')) \<or> \<not> first_subnet_free (net_doc x) (cfg_DomainName cfg) (machine_mac cfg))
         \<and> view w = put_network ?n (net_doc x) s)"
    by (rule dhcp_network.reserve_valid [OF network_ops _ ends]) (use inv x in \<open>auto simp: networks_inv_def\<close>)
  then show ?thesis
    unfolding run_def same
    by (rule valid_post) (use x in \<open>auto simp: reservation_in_def reserve_obstacle_def\<close>)
qed

end

section \<open>Creating a machine\<close>

definition domain_taken :: "sys \<Rightarrow> MachineConfig \<Rightarrow> bool" where
  "domain_taken s cfg \<longleftrightarrow>
     (\<exists>n x. domains s n = Some x \<and>
        ((n = cfg_DomainName cfg) \<noteq> (dom_UUID (d_doc x) = cfg_DomainUUID cfg) \<or> n = cfg_DomainName cfg \<and> d_active x))"

text \<open>Why a creation may fail on a host where no call fails by itself.\<close>

definition create_obstacle :: "sys \<Rightarrow> MachineConfig \<Rightarrow> bool" where
  "create_obstacle s cfg \<longleftrightarrow>
     \<not> credentials_ok cfg \<or> \<not> pools_active s cfg \<or> no_root_source s cfg \<or> reserve_obstacle s cfg \<or> domain_taken s cfg"

text \<open>The machine exists: disks, reservation, and the domain of its document, running and persistent.\<close>

definition machine_created ::
  "(string \<Rightarrow> string \<Rightarrow> string) \<Rightarrow> (string \<Rightarrow> bool \<Rightarrow> (string \<times> bytes) list \<Rightarrow> bytes)
     \<Rightarrow> ((string \<times> string) list \<Rightarrow> goerror + bytes) \<Rightarrow> MachineConfig \<Rightarrow> sys \<Rightarrow> sys \<Rightarrow> bool" where
  "machine_created vol_path mk_iso marshal cfg s s' \<longleftrightarrow>
     root_ready vol_path cfg s s' \<and> iso_ready mk_iso marshal cfg s s'
     \<and> (\<exists>x. domains s' (cfg_DomainName cfg) = Some x
          \<and> domain_up (machine_domain cfg (vol_path (cfg_DomainPool cfg) (domainDiskName cfg))
                (vol_path (cfg_DomainPool cfg) (isoDiskName cfg)) (machine_mac cfg)) x)
     \<and> (\<exists>x x' ip. networks s (cfg_Network cfg) = Some x \<and> networks s' (cfg_Network cfg) = Some x'
          \<and> reservation_made (net_doc x) (cfg_DomainName cfg) (machine_mac cfg) ip (net_doc x'))"

lemma machine_doc_fields [simp]:
  "dom_Name (machine_domain_doc cfg p q m) = cfg_DomainName cfg"
  "dom_UUID (machine_domain_doc cfg p q m) = cfg_DomainUUID cfg"
  by (simp_all add: machine_domain_doc_def domain_builder_defs)

lemma domain_obstacle_doc: "domain_obstacle s (machine_domain_doc cfg p q m) = domain_taken s cfg"
  by (auto simp: domain_obstacle_def domain_conflict_def domain_taken_def)

lemma reservation_frame:
  assumes "reservation_in cfg s s'"
  shows "machine_frame flaky cfg s s'"
proof -
  from assms obtain x ip N' where x: "networks s (cfg_Network cfg) = Some x"
    and made: "reservation_made (net_doc x) (cfg_DomainName cfg) (machine_mac cfg) ip N'"
    and s': "s' = put_network (cfg_Network cfg) N' s"
    by (auto simp: reservation_in_def)
  have "same_but_mac (machine_mac cfg) (net_doc x) N'"
    using made by (simp add: reservation_made_def same_but_mac_def)
  then show ?thesis unfolding s' by (rule frame_network [OF x])
qed

lemma obstacle_selects:
  "networks s' = networks s \<Longrightarrow> reserve_obstacle s' cfg = reserve_obstacle s cfg"
  "networks s' = networks s \<Longrightarrow> allocation_returns s' cfg = allocation_returns s cfg"
  "networks s' = networks s \<Longrightarrow> networks_inv s' = networks_inv s"
  "domains s' = domains s \<Longrightarrow> domain_taken s' cfg = domain_taken s cfg"
  "pools s' = pools s \<Longrightarrow> pools_active s' cfg = pools_active s cfg"
  by (simp_all add: reserve_obstacle_def allocation_returns_def networks_inv_def domain_taken_def pools_active_def)

lemma reservation_in_selects:
  "reservation_in cfg s s' \<Longrightarrow> domains s' = domains s" "reservation_in cfg s s' \<Longrightarrow> volumes s' = volumes s"
  by (auto simp: reservation_in_def)

context libvirt_host
begin

text \<open>From the reservation to the running domain.\<close>

lemma reserve_start_run:
  assumes inv: "networks_inv s" and ret: "allocation_returns s cfg" and n: "dom_Name d = cfg_DomainName cfg"
    and d: "\<And>s. domain_obstacle s d = domain_taken s cfg" and x: "networks s (cfg_Network cfg) = Some x"
  shows "run view s
     (tryE (reserveMachineIP (env_lx E) (Network_ops (env_lv E) (LvNetwork (cfg_Network cfg)))
         (cfg_Network cfg) (cfg_DomainName cfg) (machine_mac cfg)) id (\<lambda>_. defineAndStart E c cfg d))
     (\<lambda>_ s'. \<exists>s1 x. reservation_in cfg s s1 \<and> domain_up d x \<and> s' = put_domain (cfg_DomainName cfg) (Some x) s1)
     (\<lambda>e s'. (flaky \<or> reserve_obstacle s cfg \<or> domain_taken s cfg) \<and> machine_frame flaky cfg s s')"
proof (rule run_tryE [OF reserveMachineIP_run [OF inv ret x]])
  show "(flaky \<or> reserve_obstacle s cfg \<or> domain_taken s cfg) \<and> machine_frame flaky cfg s s'"
    if "(flaky \<or> reserve_obstacle s cfg) \<and> s' = s" for s'
    using that machine_frame_refl [OF inv] by auto
  fix u s1
  assume s1: "reservation_in cfg s s1"
  have f1: "machine_frame flaky cfg s s1" by (rule reservation_frame [OF s1])
  then have inv1: "networks_inv s1" using inv by (rule machine_frame_inv [rotated])
  have taken: "domain_taken s1 cfg = domain_taken s cfg"
    by (rule obstacle_selects) (simp add: reservation_in_selects [OF s1])
  show "run view s1 (defineAndStart E c cfg d)
     (\<lambda>_ s'. \<exists>s1 x. reservation_in cfg s s1 \<and> domain_up d x \<and> s' = put_domain (cfg_DomainName cfg) (Some x) s1)
     (\<lambda>e s'. (flaky \<or> reserve_obstacle s cfg \<or> domain_taken s cfg) \<and> machine_frame flaky cfg s s')"
    by (rule run_post [OF define_start_run [OF n]])
       (use s1 in \<open>auto simp: d taken intro: machine_frame_trans [OF f1 frame_domain [OF inv1]]\<close>)
qed

lemma attach_run:
  assumes inv: "networks_inv s" and ret: "allocation_returns s cfg" and n: "dom_Name d = cfg_DomainName cfg"
    and d: "\<And>s. domain_obstacle s d = domain_taken s cfg"
  shows "run view s
     (tryE (LookupNetworkByName (env_lv E) c (cfg_Network cfg)) f (\<lambda>network.
      deferE (Network_Free (env_lv E) network) (
      tryE (reserveMachineIP (env_lx E) (Network_ops (env_lv E) network) (cfg_Network cfg) (cfg_DomainName cfg)
          (machine_mac cfg)) id (\<lambda>_. defineAndStart E c cfg d))))
     (\<lambda>_ s'. \<exists>s1 x. reservation_in cfg s s1 \<and> domain_up d x \<and> s' = put_domain (cfg_DomainName cfg) (Some x) s1)
     (\<lambda>e s'. (flaky \<or> reserve_obstacle s cfg \<or> domain_taken s cfg) \<and> machine_frame flaky cfg s s')"
proof (rule run_tryE [OF run_call [OF lookup_net]])
  let ?n = "cfg_Network cfg"
  let ?g = "grab (HNet (LvNetwork ?n)) s"
  show "(flaky \<or> reserve_obstacle s cfg \<or> domain_taken s cfg) \<and> machine_frame flaky cfg s s'"
    if "lookup_error flaky ERR_NO_NETWORK (networks s ?n = None) False e \<and> s' = s" for e s'
    using that machine_frame_refl [OF inv] by (auto simp: lookup_error_def reserve_obstacle_def split: if_splits)
  fix h s1
  assume "h = LvNetwork ?n \<and> networks s ?n \<noteq> None \<and> s1 = grab (HNet h) s"
  then obtain x where h: "h = LvNetwork ?n" and s1: "s1 = ?g" and x: "networks ?g ?n = Some x" by auto
  have inv1: "networks_inv ?g" and ret1: "allocation_returns ?g cfg"
    and same: "reserve_obstacle ?g cfg = reserve_obstacle s cfg" "domain_taken ?g cfg = domain_taken s cfg"
    using inv ret by (simp_all add: obstacle_selects(1-3) [of ?g s] obstacle_selects(4) [of ?g s])
  have dropped: "\<exists>s3. reservation_in cfg s s3 \<and> s2 = grab (HNet (LvNetwork ?n)) s3" if "reservation_in cfg ?g s2" for s2
    using that by (auto simp: reservation_in_def)
  show "run view s1 (deferE (Network_Free (env_lv E) h) (
      tryE (reserveMachineIP (env_lx E) (Network_ops (env_lv E) h) ?n (cfg_DomainName cfg) (machine_mac cfg)) id
        (\<lambda>_. defineAndStart E c cfg d)))
     (\<lambda>_ s'. \<exists>s1 x. reservation_in cfg s s1 \<and> domain_up d x \<and> s' = put_domain (cfg_DomainName cfg) (Some x) s1)
     (\<lambda>e s'. (flaky \<or> reserve_obstacle s cfg \<or> domain_taken s cfg) \<and> machine_frame flaky cfg s s')"
    unfolding h s1
    by (rule defer_net, rule run_post [OF reserve_start_run [OF inv1 ret1 n d x]])
       (use dropped same in \<open>fastforce intro: frame_drop\<close>)+
qed

end

section \<open>Creating a machine\<close>

lemma machine_created_steps:
  assumes root: "root_ready vol_path cfg s s1" and s1: "s1 = put_volume (cfg_DomainPool cfg, domainDiskName cfg) v s"
    and iso: "iso_ready mk_iso marshal cfg s1 s2" and t: "tidied flaky s1 t"
    and s2: "s2 = put_volume (cfg_DomainPool cfg, isoDiskName cfg) v' t"
    and res: "reservation_in cfg s2 s3" and s': "s' = put_domain (cfg_DomainName cfg) (Some x) s3"
    and up: "domain_up (machine_domain_doc cfg (vol_path (cfg_DomainPool cfg) (domainDiskName cfg))
        (vol_path (cfg_DomainPool cfg) (isoDiskName cfg)) (machine_mac cfg)) x"
  shows "machine_created vol_path mk_iso marshal cfg s s'"
proof -
  have "volumes s' = volumes s2" using reservation_in_selects(2) [OF res] by (simp add: s')
  moreover have "volumes s2 = (volumes s)((cfg_DomainPool cfg, domainDiskName cfg) := v, (cfg_DomainPool cfg, isoDiskName cfg) := v')"
    by (simp add: s2 s1 tidied_selects [OF t])
  ultimately have "root_ready vol_path cfg s s'" "iso_ready mk_iso marshal cfg s s'"
    using root iso unfolding root_ready_def iso_ready_def Let_def by (auto simp: s1 split: option.splits)
  moreover have "networks s2 = networks s" by (simp add: s2 s1 tidied_selects [OF t])
  then have "\<exists>x x' ip. networks s (cfg_Network cfg) = Some x \<and> networks s' (cfg_Network cfg) = Some x'
      \<and> reservation_made (net_doc x) (cfg_DomainName cfg) (machine_mac cfg) ip (net_doc x')"
    using res unfolding reservation_in_def by (auto simp: s' put_network_def)
  moreover have "domains s' (cfg_DomainName cfg) = Some x" by (simp add: s')
  ultimately show ?thesis using up by (auto simp: machine_created_def domain_document)
qed

lemma volume_frame:
  "networks_inv s \<Longrightarrow> tidied flaky s t \<Longrightarrow> k \<in> machine_volumes cfg \<Longrightarrow> machine_frame flaky cfg s (put_volume k v t)"
  by (rule machine_frame_trans [OF frame_tidied], assumption, assumption, rule frame_volume)
     (auto simp: networks_inv_def tidied_selects)

lemma same_machine [simp]:
  "machine_created vol_path mk_iso marshal cfg (grab h s) s' = machine_created vol_path mk_iso marshal cfg s s'"
  "machine_created vol_path mk_iso marshal cfg s (drop_handle h s') = machine_created vol_path mk_iso marshal cfg s s'"
  "create_obstacle (grab h s) cfg = create_obstacle s cfg"
  "networks_inv (grab h s) = networks_inv s" "allocation_returns (grab h s) cfg = allocation_returns s cfg"
  by (simp_all add: machine_created_def root_ready_def iso_ready_def create_obstacle_def pools_active_def
      no_root_source_def reserve_obstacle_def domain_taken_def networks_inv_def allocation_returns_def
      Let_def cong: option.case_cong)

lemma missing_pool:
  assumes "lookup_error flaky c (pools s p = None) False e" "p = cfg_DomainPool cfg \<or> p = cfg_BasePool cfg"
  shows "flaky \<or> create_obstacle s cfg"
  using assms by (auto simp: lookup_error_def create_obstacle_def pools_active_def split: if_splits)

context libvirt_host
begin

lemma create_steps_run:
  assumes inv: "networks_inv s" and ret: "allocation_returns s cfg" and name: "CHR ''/'' \<notin> set (cfg_DomainName cfg)"
  shows "run view s
     (tryE (createRootDisk E (StoragePool (cfg_BasePool cfg)) (StoragePool (cfg_DomainPool cfg)) cfg) f1 (\<lambda>diskPath.
      tryE (createISODisk E c (StoragePool (cfg_DomainPool cfg)) cfg) f2 (\<lambda>cloudISOPath.
      tryE (LookupNetworkByName (env_lv E) c (cfg_Network cfg)) f3 (\<lambda>network.
      deferE (Network_Free (env_lv E) network) (
      tryE (reserveMachineIP (env_lx E) (Network_ops (env_lv E) network) (cfg_Network cfg) (cfg_DomainName cfg)
          (machine_mac cfg)) id (\<lambda>_.
      defineAndStart E c cfg (machine_domain_doc cfg diskPath cloudISOPath (machine_mac cfg))))))))
     (\<lambda>_ s'. machine_created vol_path mk_iso (yaml_Marshal E) cfg s s' \<and> machine_frame flaky cfg s s')
     (\<lambda>e s'. (flaky \<or> create_obstacle s cfg) \<and> machine_frame flaky cfg s s')"
    (is "run _ _ _ ?Q ?X")
proof (rule run_tryE [OF createRootDisk_run])
  let ?k = "(cfg_DomainPool cfg, domainDiskName cfg)" and ?k' = "(cfg_DomainPool cfg, isoDiskName cfg)"
  let ?doc = "\<lambda>p q. machine_domain_doc cfg p q (machine_mac cfg)"
  show "?X (f1 e) s'" if "(flaky \<or> \<not> pools_active s cfg \<or> no_root_source s cfg) \<and> (\<exists>v. s' = put_volume ?k v s)" for e s'
    using that by (auto simp: create_obstacle_def intro: frame_volume inv)
  fix p s1
  assume "p = vol_path (cfg_DomainPool cfg) (domainDiskName cfg) \<and> root_ready vol_path cfg s s1 \<and> (\<exists>v. s1 = put_volume ?k v s)"
  then obtain v where p: "p = vol_path (cfg_DomainPool cfg) (domainDiskName cfg)" and root: "root_ready vol_path cfg s s1"
    and s1: "s1 = put_volume ?k v s" by blast
  have f1: "machine_frame flaky cfg s s1" unfolding s1 by (intro frame_volume inv) simp
  then have inv1: "networks_inv s1" using inv by (rule machine_frame_inv [rotated])
  show "run view s1 (tryE (createISODisk E c (StoragePool (cfg_DomainPool cfg)) cfg) f2 (\<lambda>q.
      tryE (LookupNetworkByName (env_lv E) c (cfg_Network cfg)) f3 (\<lambda>network.
      deferE (Network_Free (env_lv E) network) (
      tryE (reserveMachineIP (env_lx E) (Network_ops (env_lv E) network) (cfg_Network cfg) (cfg_DomainName cfg)
          (machine_mac cfg)) id (\<lambda>_. defineAndStart E c cfg (?doc p q)))))) ?Q ?X"
  proof (rule run_tryE [OF createISODisk_run [OF name]])
    show "?X (f2 e) s'"
      if "(flaky \<or> \<not> pools_active s1 cfg) \<and> (\<exists>v t. tidied flaky s1 t \<and> s' = put_volume ?k' v t)" for e s'
      using that volume_frame [OF inv1] machine_frame_trans [OF f1]
      by (fastforce simp: s1 create_obstacle_def pools_active_def)
    fix q s2
    assume "q = vol_path (cfg_DomainPool cfg) (isoDiskName cfg) \<and> iso_ready mk_iso (yaml_Marshal E) cfg s1 s2
      \<and> (\<exists>v t. tidied flaky s1 t \<and> s2 = put_volume ?k' v t)"
    then obtain v' t where q: "q = vol_path (cfg_DomainPool cfg) (isoDiskName cfg)"
      and ready: "iso_ready mk_iso (yaml_Marshal E) cfg s1 s2" and t: "tidied flaky s1 t" and s2: "s2 = put_volume ?k' v' t" by blast
    note created = machine_created_steps [OF root s1 ready t s2]
    have f2: "machine_frame flaky cfg s s2"
      unfolding s2 by (intro machine_frame_trans [OF f1] volume_frame inv1 t) simp
    have inv2: "networks_inv s2" using inv f2 by (rule machine_frame_inv)
    have same: "networks s2 = networks s" "domains s2 = domains s" by (simp_all add: s1 s2 tidied_selects [OF t])
    have ret2: "allocation_returns s2 cfg" using ret by (simp add: obstacle_selects(2) [OF same(1)])
    have f3: "machine_frame flaky cfg s (put_domain (cfg_DomainName cfg) d s3)" if "reservation_in cfg s2 s3" for d s3
      using machine_frame_trans [OF f2 reservation_frame [OF that]]
      by (meson frame_domain inv machine_frame_inv machine_frame_trans)
    show "run view s2 (tryE (LookupNetworkByName (env_lv E) c (cfg_Network cfg)) f3 (\<lambda>network.
      deferE (Network_Free (env_lv E) network) (
      tryE (reserveMachineIP (env_lx E) (Network_ops (env_lv E) network) (cfg_Network cfg) (cfg_DomainName cfg)
          (machine_mac cfg)) id (\<lambda>_. defineAndStart E c cfg (?doc p q))))) ?Q ?X"
      by (rule run_post [OF attach_run [OF inv2 ret2 _ domain_obstacle_doc]], simp)
         (use f3 created in \<open>auto simp: p q create_obstacle_def obstacle_selects(1) [OF same(1)]
            obstacle_selects(4) [OF same(2)] intro: machine_frame_trans [OF f2]\<close>)
  qed
qed

lemma createDomain_run:
  assumes inv: "networks_inv s" and ret: "allocation_returns s cfg" and name: "CHR ''/'' \<notin> set (cfg_DomainName cfg)"
  shows "run view s (createDomain E c cfg)
     (\<lambda>_ s'. machine_created vol_path mk_iso (yaml_Marshal E) cfg s s' \<and> machine_frame flaky cfg s s')
     (\<lambda>e s'. (flaky \<or> create_obstacle s cfg) \<and> machine_frame flaky cfg s s')"
  unfolding createDomain_def Let_def cfg_domainName_def
  by (rule run_tryE [OF run_call [OF lookup_pool]],
      use machine_frame_refl [OF inv] missing_pool in blast, elim conjE, hypsubst,
      rule defer_pool, rule run_tryE [OF run_call [OF lookup_pool]],
      use frame_drop [OF machine_frame_refl] inv missing_pool in force, elim conjE, hypsubst,
      rule defer_pool, rule run_post [OF create_steps_run [OF _ _ name]])
     (auto simp: inv ret intro: frame_drop)

lemma CreateMachine_run:
  assumes inv: "networks_inv s" and ret: "allocation_returns s cfg" and name: "CHR ''/'' \<notin> set (cfg_DomainName cfg)"
  shows "run view s (CreateMachine E cfg)
     (\<lambda>_ s'. machine_created vol_path mk_iso (yaml_Marshal E) cfg s s' \<and> machine_frame flaky cfg s s')
     (\<lambda>e s'. (flaky \<or> create_obstacle s cfg) \<and> machine_frame flaky cfg s s')"
  unfolding CreateMachine_def
proof (rule with_connection_run)
  show "(flaky \<or> create_obstacle s cfg) \<and> machine_frame flaky cfg s s1"
    if "flaky \<or> \<not> credentials_ok (infra_of cfg)" "tidied flaky s s1" for s1
    using that frame_tidied [OF inv] by (auto simp: create_obstacle_def)
  fix c s1
  assume s1: "tidied flaky s s1"
  then have frame: "machine_frame flaky cfg s s1" by (rule frame_tidied [OF inv])
  have same: "networks_inv s1" "allocation_returns s1 cfg" "create_obstacle s1 cfg = create_obstacle s cfg"
    "machine_created vol_path mk_iso (yaml_Marshal E) cfg s1 = machine_created vol_path mk_iso (yaml_Marshal E) cfg s"
    using inv ret by (simp_all add: networks_inv_def allocation_returns_def create_obstacle_def pools_active_def
      no_root_source_def reserve_obstacle_def domain_taken_def machine_created_def root_ready_def iso_ready_def
      fun_eq_iff Let_def tidied_selects [OF s1] cong: option.case_cong)
  show "run view (grab (HConn c) s1) (createDomain E c cfg)
     (\<lambda>_ s'. machine_created vol_path mk_iso (yaml_Marshal E) cfg s (drop_handle (HConn c) s')
        \<and> machine_frame flaky cfg s (drop_handle (HConn c) s'))
     (\<lambda>e s'. (flaky \<or> create_obstacle s cfg) \<and> machine_frame flaky cfg s (drop_handle (HConn c) s'))"
    by (rule run_post [OF createDomain_run [OF _ _ name]])
       (auto simp: same intro: machine_frame_trans [OF frame] frame_drop)
qed

text \<open>On a host where no call fails by itself, a machine that has been created can be deleted.\<close>

lemma created_deletable:
  assumes "\<not> create_obstacle s cfg" "machine_entry_ours s cfg"
    "machine_created vol_path mk_iso marshal cfg s s'" "machine_frame flaky cfg s s'"
  shows "\<not> delete_obstacle s' cfg"
  using assms unfolding delete_obstacle_def create_obstacle_def machine_created_def machine_frame_def
    machine_entry_ours_def pools_active_def domain_up_def reservation_made_def by auto

lemma create_delete_run:
  assumes inv: "networks_inv s" and ret: "allocation_returns s cfg" and name: "CHR ''/'' \<notin> set (cfg_DomainName cfg)"
    and ok: "\<not> flaky" "\<not> create_obstacle s cfg" "machine_entry_ours s cfg"
  shows "run view s (tryE (CreateMachine E cfg) id (\<lambda>_. DeleteMachine E cfg))
     (\<lambda>_ s'. machine_gone flaky cfg s s' \<and> machine_frame flaky cfg s s') (\<lambda>e s'. False)"
proof (rule run_tryE [OF CreateMachine_run [OF inv ret name]])
  fix u s1
  assume "machine_created vol_path mk_iso (yaml_Marshal E) cfg s s1 \<and> machine_frame flaky cfg s s1"
  then have s1: "machine_created vol_path mk_iso (yaml_Marshal E) cfg s s1" and frame: "machine_frame flaky cfg s s1" by auto
  have gone: "machine_gone flaky cfg s s'" if "machine_gone flaky cfg s1 s'" for s'
    using that frame ok(1) by (simp add: machine_gone_def machine_frame_def)
  show "run view s1 (DeleteMachine E cfg)
      (\<lambda>_ s'. machine_gone flaky cfg s s' \<and> machine_frame flaky cfg s s') (\<lambda>e s'. False)"
    by (rule run_post [OF DeleteMachine_run [OF machine_frame_inv [OF inv frame]]])
       (use ok created_deletable [OF ok(2,3) s1 frame] gone machine_frame_trans [OF frame] in blast)+
qed (use ok in auto)

end

end
