(* ===== verification/Codec.thy ===== *)
theory Codec
  imports LibvirtAPI
begin

text \<open>
  Texts for the documents that are exchanged with libvirt, for the reference host of the theory \<open>RefHost\<close>:
  self-delimiting encodings with their decoders, built from the fields of the documents. The locale
  \<open>codec\<close> is the contract, interpreted on every document type.
\<close>

type_synonym 'a decoder = "string \<Rightarrow> ('a \<times> string) option"

locale codec =
  fixes enc :: "'a \<Rightarrow> string" and dec :: "'a decoder"
  assumes dec_enc: "dec (enc x @ r) = Some (x, r)"
begin

lemma dec_enc_all: "dec (enc x) = Some (x, [])"
  using dec_enc [of x "[]"] by simp

end

section \<open>Combinators\<close>

text \<open>A number is the string of its bits, the lowest first, up to a full stop.\<close>

fun enc_nat :: "nat \<Rightarrow> string" where
  "enc_nat n = (if n = 0 then ''.'' else (if odd n then CHR ''1'' else CHR ''0'') # enc_nat (n div 2))"

declare enc_nat.simps [simp del]

fun dec_nat :: "nat decoder" where
  "dec_nat [] = None"
| "dec_nat (c # cs) =
     (if c = CHR ''.'' then Some (0, cs)
      else map_option (\<lambda>(n, r). (2 * n + (if c = CHR ''1'' then 1 else 0), r)) (dec_nat cs))"

lemma codec_nat: "codec enc_nat dec_nat"
proof
  show "dec_nat (enc_nat n @ r) = Some (n, r)" for n r
  proof (induction n rule: enc_nat.induct)
    case (1 n)
    then show ?case
      by (cases "n = 0"; subst enc_nat.simps) (auto elim!: oddE evenE)
  qed
qed

definition enc_pair :: "('a \<Rightarrow> string) \<Rightarrow> ('b \<Rightarrow> string) \<Rightarrow> 'a \<times> 'b \<Rightarrow> string" where
  "enc_pair e e' = (\<lambda>(x, y). e x @ e' y)"

definition dec_pair :: "'a decoder \<Rightarrow> 'b decoder \<Rightarrow> ('a \<times> 'b) decoder" where
  "dec_pair d d' s =
     (case d s of None \<Rightarrow> None
      | Some (x, r) \<Rightarrow> map_option (\<lambda>(y, r'). ((x, y), r')) (d' r))"

lemma codec_pair: "codec e d \<Longrightarrow> codec e' d' \<Longrightarrow> codec (enc_pair e e') (dec_pair d d')"
  by (auto simp: codec_def enc_pair_def dec_pair_def)

text \<open>A type in bijection with another.\<close>

definition dec_via :: "('a \<Rightarrow> 'b) \<Rightarrow> 'a decoder \<Rightarrow> 'b decoder" where
  "dec_via g d s = map_option (\<lambda>(x, r). (g x, r)) (d s)"

lemma codec_via: "codec e d \<Longrightarrow> (\<And>x. g (f x) = x) \<Longrightarrow> codec (\<lambda>x. e (f x)) (dec_via g d)"
  by (simp add: codec_def dec_via_def)

primrec dec_times :: "'a decoder \<Rightarrow> nat \<Rightarrow> 'a list decoder" where
  "dec_times d 0 = (\<lambda>s. Some ([], s))"
| "dec_times d (Suc n) =
     (\<lambda>s. case d s of None \<Rightarrow> None
          | Some (x, r) \<Rightarrow> map_option (\<lambda>(xs, r'). (x # xs, r')) (dec_times d n r))"

definition enc_list :: "('a \<Rightarrow> string) \<Rightarrow> 'a list \<Rightarrow> string" where
  "enc_list e xs = enc_nat (length xs) @ concat (map e xs)"

definition dec_list :: "'a decoder \<Rightarrow> 'a list decoder" where
  "dec_list d s = (case dec_nat s of None \<Rightarrow> None | Some (n, r) \<Rightarrow> dec_times d n r)"

lemma codec_list:
  assumes "codec e d"
  shows "codec (enc_list e) (dec_list d)"
proof
  have "dec_times d (length xs) (concat (map e xs) @ r) = Some (xs, r)" for xs r
    by (induction xs) (use assms in \<open>auto simp: codec_def\<close>)
  then show "dec_list d (enc_list e xs @ r) = Some (xs, r)" for xs r
    by (simp add: enc_list_def dec_list_def codec.dec_enc [OF codec_nat])
qed

fun dec_char :: "char decoder" where
  "dec_char [] = None"
| "dec_char (c # cs) = Some (c, cs)"

abbreviation enc_string :: "string \<Rightarrow> string" where
  "enc_string \<equiv> enc_list (\<lambda>c. [c])"

abbreviation dec_string :: "string decoder" where
  "dec_string \<equiv> dec_list dec_char"

lemma codec_string: "codec enc_string dec_string"
  by (rule codec_list) (simp add: codec_def)

definition enc_word :: "u64 \<Rightarrow> string" where "enc_word x = enc_nat (unat x)"
definition dec_word :: "u64 decoder" where "dec_word = dec_via of_nat dec_nat"

lemma codec_word: "codec enc_word dec_word"
  unfolding enc_word_def dec_word_def by (rule codec_via [OF codec_nat]) simp

definition enc_bool :: "bool \<Rightarrow> string" where "enc_bool b = enc_nat (if b then 1 else 0)"
definition dec_bool :: "bool decoder" where "dec_bool = dec_via (\<lambda>n. n = 1) dec_nat"

lemma codec_bool: "codec enc_bool dec_bool"
  unfolding enc_bool_def dec_bool_def by (rule codec_via [OF codec_nat]) simp

definition enc_option :: "('a \<Rightarrow> string) \<Rightarrow> 'a option \<Rightarrow> string" where
  "enc_option e x = enc_list e (case x of None \<Rightarrow> [] | Some y \<Rightarrow> [y])"

definition dec_option :: "'a decoder \<Rightarrow> 'a option decoder" where
  "dec_option d = dec_via (\<lambda>xs. case xs of [] \<Rightarrow> None | y # _ \<Rightarrow> Some y) (dec_list d)"

lemma codec_option: "codec e d \<Longrightarrow> codec (enc_option e) (dec_option d)"
  unfolding enc_option_def dec_option_def by (rule codec_via [OF codec_list]) (auto split: option.split)

section \<open>Network documents\<close>

definition enc_host :: "NetworkDHCPHost \<Rightarrow> string" where
  "enc_host h = enc_pair enc_string (enc_pair enc_string enc_string) (host_MAC h, host_Name h, host_IP h)"

definition dec_host :: "NetworkDHCPHost decoder" where
  "dec_host = dec_via (\<lambda>(m, n, i). \<lparr>host_MAC = m, host_Name = n, host_IP = i\<rparr>)
     (dec_pair dec_string (dec_pair dec_string dec_string))"

interpretation hosts: codec enc_host dec_host
  unfolding enc_host_def dec_host_def by (rule codec_via) (auto intro!: codec_pair codec_string)

definition enc_range :: "NetworkDHCPRange \<Rightarrow> string" where
  "enc_range x = enc_pair enc_string enc_string (range_Start x, range_End x)"

definition dec_range :: "NetworkDHCPRange decoder" where
  "dec_range = dec_via (\<lambda>(a, b). \<lparr>range_Start = a, range_End = b\<rparr>) (dec_pair dec_string dec_string)"

lemma codec_range: "codec enc_range dec_range"
  unfolding enc_range_def dec_range_def by (rule codec_via) (auto intro!: codec_pair codec_string)

definition enc_dhcp :: "NetworkDHCP \<Rightarrow> string" where
  "enc_dhcp x = enc_pair (enc_list enc_range) (enc_list enc_host) (dhcp_Ranges x, dhcp_Hosts x)"

definition dec_dhcp :: "NetworkDHCP decoder" where
  "dec_dhcp = dec_via (\<lambda>(a, b). \<lparr>dhcp_Ranges = a, dhcp_Hosts = b\<rparr>) (dec_pair (dec_list dec_range) (dec_list dec_host))"

lemma codec_dhcp: "codec enc_dhcp dec_dhcp"
  unfolding enc_dhcp_def dec_dhcp_def
  by (rule codec_via) (auto intro!: codec_pair codec_list codec_range hosts.codec_axioms)

definition enc_ip :: "NetworkIP \<Rightarrow> string" where
  "enc_ip x = enc_pair enc_string (enc_pair enc_string (enc_pair enc_string (enc_option enc_dhcp)))
     (ip_Address x, ip_Family x, ip_Netmask x, ip_DHCP x)"

definition dec_ip :: "NetworkIP decoder" where
  "dec_ip = dec_via (\<lambda>(a, f, m, d). \<lparr>ip_Address = a, ip_Family = f, ip_Netmask = m, ip_DHCP = d\<rparr>)
     (dec_pair dec_string (dec_pair dec_string (dec_pair dec_string (dec_option dec_dhcp))))"

lemma codec_ip: "codec enc_ip dec_ip"
  unfolding enc_ip_def dec_ip_def
  by (rule codec_via) (auto intro!: codec_pair codec_string codec_option codec_dhcp)

definition enc_network :: "Network \<Rightarrow> string" where
  "enc_network x = enc_list enc_ip (net_IPs x)"

definition dec_network :: "Network decoder" where
  "dec_network = dec_via (\<lambda>ips. \<lparr>net_IPs = ips\<rparr>) (dec_list dec_ip)"

interpretation nets: codec enc_network dec_network
  unfolding enc_network_def dec_network_def by (rule codec_via) (auto intro!: codec_list codec_ip)

section \<open>Volume documents\<close>

definition enc_volume :: "StorageVolume \<Rightarrow> string" where
  "enc_volume v =
     enc_pair enc_string (enc_pair enc_word (enc_pair enc_string
       (enc_pair enc_string (enc_option (enc_pair enc_string enc_string)))))
     (vol_Name v, size_Value (vol_Capacity v), size_Unit (vol_Capacity v), vol_TargetFormat v,
      map_option (\<lambda>b. (bs_Path b, bs_Format b)) (vol_BackingStore v))"

definition dec_volume :: "StorageVolume decoder" where
  "dec_volume =
     dec_via (\<lambda>(n, c, u, f, b).
       \<lparr>vol_Name = n, vol_Capacity = \<lparr>size_Value = c, size_Unit = u\<rparr>, vol_TargetFormat = f,
        vol_BackingStore = map_option (\<lambda>(p, q). \<lparr>bs_Path = p, bs_Format = q\<rparr>) b\<rparr>)
     (dec_pair dec_string (dec_pair dec_word (dec_pair dec_string
       (dec_pair dec_string (dec_option (dec_pair dec_string dec_string))))))"

lemma rebuild_backing [simp]: "map_option (\<lambda>x. \<lparr>bs_Path = bs_Path x, bs_Format = bs_Format x\<rparr>) b = b"
  by (cases b) auto

interpretation vols: codec enc_volume dec_volume
  unfolding enc_volume_def dec_volume_def
  by (rule codec_via) (auto intro!: codec_pair codec_string codec_word codec_option simp: option.map_comp comp_def)

section \<open>Domain documents\<close>

definition enc_disk :: "DomainDisk \<Rightarrow> string" where
  "enc_disk x =
     enc_pair (enc_list enc_string) enc_bool
     ([disk_Device x, disk_DriverName x, disk_DriverType x, disk_SourceFile x, disk_TargetDev x, disk_TargetBus x],
      disk_ReadOnly x)"

definition dec_disk :: "DomainDisk decoder" where
  "dec_disk =
     dec_via (\<lambda>(xs, b).
       \<lparr>disk_Device = xs ! 0, disk_DriverName = xs ! 1, disk_DriverType = xs ! 2, disk_SourceFile = xs ! 3,
        disk_TargetDev = xs ! 4, disk_TargetBus = xs ! 5, disk_ReadOnly = b\<rparr>)
     (dec_pair (dec_list dec_string) dec_bool)"

lemma codec_disk: "codec enc_disk dec_disk"
  unfolding enc_disk_def dec_disk_def
  by (rule codec_via) (auto intro!: codec_pair codec_list codec_string codec_bool simp: numeral_eq_Suc)

definition enc_interface :: "DomainInterface \<Rightarrow> string" where
  "enc_interface x = enc_pair enc_string (enc_pair enc_string (enc_option enc_string)) (if_Network x, if_Model x, if_MAC x)"

definition dec_interface :: "DomainInterface decoder" where
  "dec_interface = dec_via (\<lambda>(n, m, a). \<lparr>if_Network = n, if_Model = m, if_MAC = a\<rparr>)
     (dec_pair dec_string (dec_pair dec_string (dec_option dec_string)))"

lemma codec_interface: "codec enc_interface dec_interface"
  unfolding enc_interface_def dec_interface_def
  by (rule codec_via) (auto intro!: codec_pair codec_string codec_option)

definition enc_devices :: "DomainDeviceList \<Rightarrow> string" where
  "enc_devices x =
     enc_pair (enc_list enc_disk) (enc_pair (enc_list enc_interface)
       (enc_pair (enc_list enc_nat) (enc_list (enc_pair enc_string enc_nat))))
     (dev_Disks x, dev_Interfaces x, map serial_Port (dev_Serials x),
      map (\<lambda>c. (console_TargetType c, console_Port c)) (dev_Consoles x))"

definition dec_devices :: "DomainDeviceList decoder" where
  "dec_devices =
     dec_via (\<lambda>(ds, is, ss, cs).
       \<lparr>dev_Disks = ds, dev_Interfaces = is, dev_Serials = map (\<lambda>p. \<lparr>serial_Port = p\<rparr>) ss,
        dev_Consoles = map (\<lambda>(t, p). \<lparr>console_TargetType = t, console_Port = p\<rparr>) cs\<rparr>)
     (dec_pair (dec_list dec_disk) (dec_pair (dec_list dec_interface)
       (dec_pair (dec_list dec_nat) (dec_list (dec_pair dec_string dec_nat)))))"

lemma rebuild_ports [simp]:
  "map (\<lambda>x. \<lparr>serial_Port = serial_Port x\<rparr>) ss = ss"
  "map (\<lambda>x. \<lparr>console_TargetType = console_TargetType x, console_Port = console_Port x\<rparr>) cs = cs"
  by (simp_all add: map_idI)

lemma codec_devices: "codec enc_devices dec_devices"
  unfolding enc_devices_def dec_devices_def
  by (rule codec_via)
     (auto intro!: codec_pair codec_list codec_string codec_nat codec_disk codec_interface simp: comp_def)

definition enc_domain :: "Domain \<Rightarrow> string" where
  "enc_domain x =
     enc_pair (enc_list enc_string) (enc_pair enc_word (enc_pair enc_word (enc_pair (enc_list enc_string) enc_devices)))
     ([dom_Type x, dom_Name x, dom_UUID x, mem_Unit (dom_Memory x), os_Type (dom_OS x), os_Arch (dom_OS x)],
      mem_Value (dom_Memory x), dom_VCPU x, os_BootDevices (dom_OS x), dom_Devices x)"

definition dec_domain :: "Domain decoder" where
  "dec_domain =
     dec_via (\<lambda>(xs, m, c, bs, ds).
       \<lparr>dom_Type = xs ! 0, dom_Name = xs ! 1, dom_UUID = xs ! 2,
        dom_Memory = \<lparr>mem_Value = m, mem_Unit = xs ! 3\<rparr>, dom_VCPU = c,
        dom_OS = \<lparr>os_Type = xs ! 4, os_Arch = xs ! 5, os_BootDevices = bs\<rparr>, dom_Devices = ds\<rparr>)
     (dec_pair (dec_list dec_string) (dec_pair dec_word (dec_pair dec_word (dec_pair (dec_list dec_string) dec_devices))))"

interpretation doms: codec enc_domain dec_domain
  unfolding enc_domain_def dec_domain_def
  by (rule codec_via) (auto intro!: codec_pair codec_list codec_string codec_word codec_devices simp: numeral_eq_Suc)

end
