(* ===== verification/RefHost.thy ===== *)
theory RefHost
  imports Host Codec
begin

text \<open>
  A reference host: the documented behaviour of the calls as functions on a concrete world, for which the
  contracts \<open>local_files\<close>, \<open>dhcp_network\<close> and \<open>libvirt_host\<close> hold with \<open>flaky\<close> false. It shows that the
  hypotheses of the properties of the host operations can hold together, and gives the concrete host on
  which they are instantiated.
\<close>

section \<open>Updates of host entries\<close>

definition with_hosts :: "NetworkDHCPHost list \<Rightarrow> NetworkIP \<Rightarrow> NetworkIP" where
  "with_hosts hs ip = ip\<lparr>ip_DHCP := Some \<lparr>dhcp_Ranges = ip_ranges ip, dhcp_Hosts = hs\<rparr>\<rparr>"

text \<open>The first entry for which \<open>P\<close> holds is replaced by \<open>new\<close>.\<close>

fun splice :: "(NetworkDHCPHost \<Rightarrow> bool) \<Rightarrow> NetworkDHCPHost list \<Rightarrow> NetworkDHCPHost list \<Rightarrow> NetworkDHCPHost list option" where
  "splice P new [] = None"
| "splice P new (h # hs) = (if P h then Some (new @ hs) else map_option (\<lambda>hs'. h # hs') (splice P new hs))"

text \<open>The entries of the first subnet \<open>ip\<close> after an update, with the other subnets \<open>ips\<close>.\<close>

fun updated_first :: "NetworkUpdateCommand \<Rightarrow> NetworkDHCPHost \<Rightarrow> NetworkIP \<Rightarrow> NetworkIP list \<Rightarrow> NetworkDHCPHost list option" where
  "updated_first NETWORK_UPDATE_COMMAND_ADD_LAST h ip ips =
     (if ipv6_subnet ip
         \<or> list_ex (\<lambda>ip'. \<not> ipv6_subnet ip' \<and> (ip_hosts ip' \<noteq> [] \<or> ip_ranges ip' \<noteq> [])) ips
         \<or> list_ex (\<lambda>h'. mac_key h' = mac_key h \<or> host_IP h' = host_IP h \<or> host_Name h' = host_Name h) (ip_hosts ip)
      then None else Some (ip_hosts ip @ [h]))"
| "updated_first NETWORK_UPDATE_COMMAND_MODIFY h ip ips =
     (if ipv6_subnet ip then None else splice (\<lambda>h'. mac_key h' = mac_key h) [h] (ip_hosts ip))"
| "updated_first NETWORK_UPDATE_COMMAND_DELETE h ip ips =
     splice (\<lambda>h'. mac_key h' = mac_key h \<and> host_IP h' = host_IP h \<and> host_Name h' = host_Name h) [] (ip_hosts ip)"
| "updated_first NETWORK_UPDATE_COMMAND_NONE h ip ips = None"

definition updated_hosts :: "NetworkUpdateCommand \<Rightarrow> NetworkDHCPHost \<Rightarrow> NetworkIP list \<Rightarrow> NetworkIP list option" where
  "updated_hosts cmd h ips =
     (case ips of
        [] \<Rightarrow> None
      | ip # ips' \<Rightarrow> map_option (\<lambda>hs. with_hosts hs ip # ips') (updated_first cmd h ip ips'))"

lemma with_hosts_simps [simp]:
  "ip_hosts (with_hosts hs ip) = hs" "ip_ranges (with_hosts hs ip) = ip_ranges ip"
  "ip_Family (with_hosts hs ip) = ip_Family ip" "ip_Address (with_hosts hs ip) = ip_Address ip"
  "ip_Netmask (with_hosts hs ip) = ip_Netmask ip"
  by (simp_all add: with_hosts_def ip_hosts_def ip_ranges_def)

lemma splice_split:
  "splice P new hs = Some hs' \<Longrightarrow> \<exists>xs h ys. P h \<and> hs = xs @ h # ys \<and> hs' = xs @ new @ ys"
proof (induction hs arbitrary: hs')
  case (Cons h hs)
  show ?case
  proof (cases "P h")
    case True
    with Cons.prems have "P h \<and> h # hs = [] @ h # hs \<and> hs' = [] @ new @ hs" by simp
    then show ?thesis by blast
  next
    case False
    with Cons.prems obtain qs where "splice P new hs = Some qs" and hs': "hs' = h # qs" by auto
    with Cons.IH obtain xs h0 ys where "P h0" "hs = xs @ h0 # ys" "qs = xs @ new @ ys" by blast
    then have "P h0 \<and> h # hs = (h # xs) @ h0 # ys \<and> hs' = (h # xs) @ new @ ys" by (simp add: hs')
    then show ?thesis by blast
  qed
qed simp

lemma splice_defined: "h \<in> set hs \<Longrightarrow> P h \<Longrightarrow> splice P new hs \<noteq> None"
  by (induction hs) auto

lemma updated_hosts_update:
  assumes "updated_hosts cmd h (net_IPs N) = Some ips"
  shows "host_update cmd h N \<lparr>net_IPs = ips\<rparr>"
proof -
  from assms obtain ip rest hs where ip: "net_IPs N = ip # rest" and hs: "updated_first cmd h ip rest = Some hs"
    and ips: "ips = with_hosts hs ip # rest"
    by (auto simp: updated_hosts_def split: list.splits)
  have frame: "subnet_frame \<lparr>net_IPs = ips\<rparr> = subnet_frame N" "tl (net_IPs \<lparr>net_IPs = ips\<rparr>) = tl (net_IPs N)"
    "first_hosts \<lparr>net_IPs = ips\<rparr> = hs" "first_hosts N = ip_hosts ip"
    by (simp_all add: subnet_frame_def first_hosts_def ip ips)
  show ?thesis
  proof (cases cmd)
    case NETWORK_UPDATE_COMMAND_ADD_LAST
    with hs frame show ?thesis by (auto intro: add_last split: if_splits)
  next
    case NETWORK_UPDATE_COMMAND_MODIFY
    with hs have "splice (\<lambda>h'. mac_key h' = mac_key h) [h] (ip_hosts ip) = Some hs" by (simp split: if_splits)
    from splice_split [OF this] obtain xs h' ys where "mac_key h' = mac_key h" "ip_hosts ip = xs @ h' # ys" "hs = xs @ h # ys"
      by auto
    with frame show ?thesis
      unfolding NETWORK_UPDATE_COMMAND_MODIFY by (intro modify [where xs = xs and h' = h' and ys = ys]) simp_all
  next
    case NETWORK_UPDATE_COMMAND_DELETE
    with hs have "splice (\<lambda>h'. mac_key h' = mac_key h \<and> host_IP h' = host_IP h \<and> host_Name h' = host_Name h) [] (ip_hosts ip) = Some hs"
      by simp
    from splice_split [OF this] obtain xs h' ys where "mac_key h' = mac_key h" "host_IP h' = host_IP h" "ip_hosts ip = xs @ h' # ys"
      "hs = xs @ ys" by auto
    with frame show ?thesis
      unfolding NETWORK_UPDATE_COMMAND_DELETE by (intro delete [where xs = xs and h' = h' and ys = ys]) simp_all
  next
    case NETWORK_UPDATE_COMMAND_NONE
    with hs show ?thesis by simp
  qed
qed

lemma updated_hosts_ok:
  assumes "host_update_ok cmd h N"
  shows "updated_hosts cmd h (net_IPs N) \<noteq> None"
proof (cases "net_IPs N")
  case Nil
  with assms show ?thesis by (cases cmd) (simp_all add: first_hosts_def)
next
  case (Cons ip ips)
  then have first: "first_hosts N = ip_hosts ip" by (simp add: first_hosts_def)
  have "updated_first cmd h ip ips \<noteq> None"
  proof (cases cmd)
    case NETWORK_UPDATE_COMMAND_ADD_LAST
    with assms Cons show ?thesis by (auto simp: list_ex_iff)
  next
    case NETWORK_UPDATE_COMMAND_MODIFY
    with assms Cons first splice_defined [of _ "ip_hosts ip" "\<lambda>h'. mac_key h' = mac_key h" "[h]"] show ?thesis by auto
  next
    case NETWORK_UPDATE_COMMAND_DELETE
    with assms first splice_defined [of _ "ip_hosts ip"
        "\<lambda>h'. mac_key h' = mac_key h \<and> host_IP h' = host_IP h \<and> host_Name h' = host_Name h" "[]"]
    show ?thesis by auto
  next
    case NETWORK_UPDATE_COMMAND_NONE
    with assms show ?thesis by simp
  qed
  with Cons show ?thesis by (simp add: updated_hosts_def)
qed

section \<open>Streams\<close>

text \<open>The sending loop, with at most \<open>k\<close> requests of a chunk each.\<close>

definition chunk :: nat where "chunk = 65536"

fun drain :: "nat \<Rightarrow> (nat \<Rightarrow> bytes \<Rightarrow> (goerror + bytes) \<times> bytes) \<Rightarrow> bytes \<Rightarrow> goerror + bytes" where
  "drain 0 cb buf = Inl (External ''no end of data'')"
| "drain (Suc k) cb buf =
     (case cb chunk buf of
        (Inl e, _) \<Rightarrow> Inl e
      | (Inr xs, buf') \<Rightarrow> if xs = [] then Inr [] else map_sum id (\<lambda>ys. xs @ ys) (drain k cb buf'))"

lemma drain_pumped:
  assumes "productive cb" "length buf < k"
  shows "\<exists>sent. drain k cb buf = Inr sent \<and> pumped cb buf sent"
  using assms(2)
proof (induction k arbitrary: buf)
  case (Suc k)
  have pos: "0 < chunk" by (simp add: chunk_def)
  with assms(1) obtain xs buf' where cb: "cb chunk buf = (Inr xs, buf')" and shrink: "xs \<noteq> [] \<longrightarrow> length buf' < length buf"
    unfolding productive_def by blast
  show ?case
  proof (cases "xs = []")
    case True
    with cb pos show ?thesis by (auto intro: pump_end)
  next
    case False
    with shrink Suc.prems have "length buf' < k" by simp
    with Suc.IH obtain ys where "drain k cb buf' = Inr ys" "pumped cb buf' ys" by blast
    with False cb pos show ?thesis by (auto intro: pump_more)
  qed
qed simp

section \<open>The world\<close>

text \<open>
  The state of the host with finite tables for what fresh names are chosen from: open uploads, directories
  and files. The fields \<^term>\<open>uploads\<close>, \<^term>\<open>dirs\<close> and \<^term>\<open>files\<close> of \<open>core\<close> are not used.
\<close>

record rworld =
  core :: sys
  w_uploads :: "(Stream \<times> upload) list"
  w_dirs :: "string list"
  w_files :: "(string \<times> bytes) list"
  w_next :: nat

definition ref_view :: "rworld \<Rightarrow> sys" where
  "ref_view w =
     (core w)\<lparr>uploads := map_of (w_uploads w),
             disk := (disk (core w))\<lparr>dirs := set (w_dirs w), files := map_of (w_files w)\<rparr>\<rparr>"

definition on_core :: "(sys \<Rightarrow> sys) \<Rightarrow> rworld \<Rightarrow> rworld" where
  "on_core f w = w\<lparr>core := f (core w)\<rparr>"

definition on_disk_of :: "(fsys \<Rightarrow> fsys) \<Rightarrow> rworld \<Rightarrow> rworld" where
  "on_disk_of g = on_core (\<lambda>s. s\<lparr>disk := g (disk s)\<rparr>)"

definition set_file :: "string \<Rightarrow> bytes \<Rightarrow> rworld \<Rightarrow> rworld" where
  "set_file p b w = w\<lparr>w_files := (p, b) # w_files w\<rparr>"

definition end_upload :: "Stream \<Rightarrow> rworld \<Rightarrow> rworld" where
  "end_upload h w = w\<lparr>w_uploads := filter (\<lambda>x. fst x \<noteq> h) (w_uploads w)\<rparr>"

definition set_upload :: "Stream \<Rightarrow> upload \<Rightarrow> rworld \<Rightarrow> rworld" where
  "set_upload h u w = w\<lparr>w_uploads := (h, u) # w_uploads w\<rparr>"

lemma map_of_without: "map_of (filter (\<lambda>x. fst x \<noteq> k) xs) = (map_of xs)(k := None)"
  by (induction xs) auto

lemma map_of_outside: "map_of (filter (\<lambda>x. P (fst x)) xs) = (\<lambda>k. if P k then map_of xs k else None)"
  by (induction xs) auto

lemma ref_view_selects [simp]:
  "networks (ref_view w) = networks (core w)" "pools (ref_view w) = pools (core w)"
  "volumes (ref_view w) = volumes (core w)" "domains (ref_view w) = domains (core w)"
  "handles (ref_view w) = handles (core w)" "uploads (ref_view w) = map_of (w_uploads w)"
  "dirs (disk (ref_view w)) = set (w_dirs w)" "files (disk (ref_view w)) = map_of (w_files w)"
  "fs_disks (disk (ref_view w)) = fs_disks (disk (core w))"
  "fs_images (disk (ref_view w)) = fs_images (disk (core w))"
  "fs_opened (disk (ref_view w)) = fs_opened (disk (core w))"
  "os_opened (disk (ref_view w)) = os_opened (disk (core w))"
  by (simp_all add: ref_view_def)

lemma ref_view_updates [simp]:
  "ref_view (on_core (grab h) w) = grab h (ref_view w)"
  "ref_view (on_core (drop_handle h) w) = drop_handle h (ref_view w)"
  "ref_view (on_core (put_network n N) w) = put_network n N (ref_view w)"
  "ref_view (on_core (put_volume k v) w) = put_volume k v (ref_view w)"
  "ref_view (on_core (put_domain n d) w) = put_domain n d (ref_view w)"
  "ref_view (on_core (write_volume k b) w) = write_volume k b (ref_view w)"
  "ref_view (end_upload st w) = put_upload st None (ref_view w)"
  "ref_view (set_upload st u w) = put_upload st (Some u) (ref_view w)"
  "ref_view (w\<lparr>w_next := i\<rparr>) = ref_view w"
  by (simp_all add: ref_view_def on_core_def sys_defs end_upload_def set_upload_def map_of_without)

lemma ref_view_files [simp]:
  "ref_view (set_file p b w) =
     (ref_view w)\<lparr>disk := (disk (ref_view w))\<lparr>files := (map_of (w_files w))(p \<mapsto> b)\<rparr>\<rparr>"
  "ref_view (on_disk_of (\<lambda>f. f\<lparr>fs_disks := m1\<rparr>) w) = (ref_view w)\<lparr>disk := (disk (ref_view w))\<lparr>fs_disks := m1\<rparr>\<rparr>"
  "ref_view (on_disk_of (\<lambda>f. f\<lparr>fs_images := m2\<rparr>) w) = (ref_view w)\<lparr>disk := (disk (ref_view w))\<lparr>fs_images := m2\<rparr>\<rparr>"
  "ref_view (on_disk_of (\<lambda>f. f\<lparr>fs_opened := m3\<rparr>) w) = (ref_view w)\<lparr>disk := (disk (ref_view w))\<lparr>fs_opened := m3\<rparr>\<rparr>"
  "ref_view (on_disk_of (\<lambda>f. f\<lparr>os_opened := m4\<rparr>) w) = (ref_view w)\<lparr>disk := (disk (ref_view w))\<lparr>os_opened := m4\<rparr>\<rparr>"
  by (simp_all add: ref_view_def on_disk_of_def on_core_def set_file_def)

section \<open>Files and disk images\<close>

definition longest :: "rworld \<Rightarrow> nat" where
  "longest w = fold (\<lambda>p. max (length p)) (w_dirs w @ map fst (w_files w)) 0"

definition fresh_name :: "rworld \<Rightarrow> string" where
  "fresh_name w = ''/tmp/'' @ replicate (Suc (longest w)) (CHR ''t'')"

definition ref_os :: "rworld os_api" where
  "ref_os =
     \<lparr>os_MkdirTemp = (\<lambda>dir pat w. ret (fresh_name w) (w\<lparr>w_dirs := fresh_name w # w_dirs w\<rparr>)),
      os_RemoveAll = (\<lambda>d w. w\<lparr>w_dirs := filter (\<lambda>p. \<not> below d p) (w_dirs w),
                              w_files := filter (\<lambda>x. \<not> below d (fst x)) (w_files w)\<rparr>),
      os_WriteFile = (\<lambda>p b mode w.
        if list_ex (\<lambda>d. below d p) (w_dirs w) then ret () (set_file p b w) else throw (External ''no such directory'') w),
      os_Open = (\<lambda>p w.
        case map_of (w_files w) p of
          None \<Rightarrow> throw (External ''no such file'') w
        | Some _ \<Rightarrow>
            ret (OsFile (w_next w))
              (on_disk_of (\<lambda>f. f\<lparr>os_opened := (os_opened (disk (core w)))(OsFile (w_next w) \<mapsto> p)\<rparr>) (w\<lparr>w_next := Suc (w_next w)\<rparr>))),
      OsFile_Close = (\<lambda>h w. on_disk_of (\<lambda>f. f\<lparr>os_opened := (os_opened (disk (core w)))(h := None)\<rparr>) w),
      io_Copy = (\<lambda>h w.
        case Option.bind (os_opened (disk (core w)) h) (map_of (w_files w)) of
          None \<Rightarrow> throw (External ''file not open'') w
        | Some b \<Rightarrow> ret b w)\<rparr>"

text \<open>The image of a disk: its label and, in order, its files.\<close>

definition ref_bytes :: "string \<Rightarrow> bytes" where
  "ref_bytes s = map (\<lambda>c. of_nat (of_char c)) s"

definition ref_iso :: "string \<Rightarrow> bool \<Rightarrow> (string \<times> bytes) list \<Rightarrow> bytes" where
  "ref_iso label rr xs =
     ref_bytes (enc_string label) @ concat (map (\<lambda>(n, b). ref_bytes (enc_string n @ enc_nat (length b)) @ b) xs)"

definition ref_finalize :: "nat \<Rightarrow> FinalizeOptions \<Rightarrow> (rworld, unit) act" where
  "ref_finalize k opts w =
     (case fs_images (disk (core w)) (Iso9660FS k) of
        None \<Rightarrow> throw (External ''file system not open'') w
      | Some (p, xs) \<Rightarrow> ret () (set_file p (ref_iso (fin_VolumeIdentifier opts) (fin_RockRidge opts) xs) w))"

definition ref_fs_write :: "FsFile \<Rightarrow> bytes \<Rightarrow> (rworld, nat) act" where
  "ref_fs_write h b w =
     (let f = disk (core w) in
      case fs_opened f h of
        None \<Rightarrow> throw (External ''file not open'') w
      | Some (fs, name) \<Rightarrow>
          (case fs_images f fs of
             None \<Rightarrow> throw (External ''file system not open'') w
           | Some (p, xs) \<Rightarrow>
               ret (length b) (on_disk_of (\<lambda>g. g\<lparr>fs_images := (fs_images f)(fs \<mapsto> (p, xs @ [(name, b)]))\<rparr>) w)))"

definition ref_make_fs :: "Disk \<Rightarrow> FilesystemSpec \<Rightarrow> (rworld, FileSystem) act" where
  "ref_make_fs d spec w =
     (case fs_disks (disk (core w)) (disk_Handle d) of
        None \<Rightarrow> throw (External ''disk not open'') w
      | Some p \<Rightarrow>
          if spec_FSType spec \<noteq> TypeISO9660 \<or> disk_LogicalBlocksize d \<noteq> 2048 then throw (External ''invalid blocksize'') w
          else ret (Iso9660FS (w_next w))
            (on_disk_of (\<lambda>f. f\<lparr>fs_images := (fs_images (disk (core w)))(Iso9660FS (w_next w) \<mapsto> (p, []))\<rparr>)
              (w\<lparr>w_next := Suc (w_next w)\<rparr>)))"

definition ref_fs_open :: "FileSystem \<Rightarrow> string \<Rightarrow> nat \<Rightarrow> (rworld, FsFile) act" where
  "ref_fs_open fs name flags w =
     (case fs_images (disk (core w)) fs of
        None \<Rightarrow> throw (External ''file system not open'') w
      | Some _ \<Rightarrow>
          ret (FsFile (w_next w))
            (on_disk_of (\<lambda>f. f\<lparr>fs_opened := (fs_opened (disk (core w)))(FsFile (w_next w) \<mapsto> (fs, name))\<rparr>)
              (w\<lparr>w_next := Suc (w_next w)\<rparr>)))"

definition ref_diskfs :: "rworld diskfs" where
  "ref_diskfs =
     \<lparr>SectorSizeDefault = 0,
      diskfs_Create = (\<lambda>p sz ss w.
        ret \<lparr>disk_Handle = DiskHandle (w_next w), disk_LogicalBlocksize = 512\<rparr>
          (on_disk_of (\<lambda>f. f\<lparr>fs_disks := (fs_disks (disk (core w)))(DiskHandle (w_next w) \<mapsto> p)\<rparr>)
            (set_file p [] (w\<lparr>w_next := Suc (w_next w)\<rparr>)))),
      Disk_Close = (\<lambda>d. ret ()),
      Disk_CreateFilesystem = ref_make_fs,
      Fs_OpenFile = ref_fs_open,
      FsFile_Write = ref_fs_write,
      FsFile_Close = (\<lambda>h. ret ()),
      Iso_Finalize = ref_finalize,
      Fs_Close = (\<lambda>fs. ret ())\<rparr>"

lemma longest_bound: "p \<in> set (w_dirs w) \<or> map_of (w_files w) p \<noteq> None \<Longrightarrow> length p \<le> longest w"
proof -
  have fold: "n \<le> fold (\<lambda>p. max (length p)) ps n \<and> (\<forall>p \<in> set ps. length p \<le> fold (\<lambda>p. max (length p)) ps n)"
    for ps :: "string list" and n
  proof (induction ps arbitrary: n)
    case (Cons p ps)
    from Cons.IH [of "max (length p) n"] show ?case by auto
  qed simp
  assume "p \<in> set (w_dirs w) \<or> map_of (w_files w) p \<noteq> None"
  then have "p \<in> set (w_dirs w @ map fst (w_files w))" by (auto simp: map_of_eq_None_iff)
  with fold [where ps = "w_dirs w @ map fst (w_files w)" and n = 0] show ?thesis unfolding longest_def by blast
qed

lemma fresh_name_fresh: "fresh_dir (fresh_name w) (disk (ref_view w))"
  unfolding fresh_dir_def
proof (intro allI impI)
  fix p
  assume "below (fresh_name w) p"
  then have "length (fresh_name w) \<le> length p"
    by (auto simp: below_def dest: arg_cong [of _ _ length])
  then have "longest w < length p" by (simp add: fresh_name_def)
  with longest_bound [of p w] show "p \<notin> dirs (disk (ref_view w)) \<and> files (disk (ref_view w)) p = None"
    by (metis leD option.exhaust option.simps(3) ref_view_selects(7,8))
qed

lemma fresh_name_clean: "clean_dir (fresh_name w)"
proof -
  let ?n = "replicate (Suc (longest w)) (CHR ''t'')"
  have "clean_dir ''/tmp''" by (simp add: clean_dir_def filepath_Clean_def has_prefix_def clean_step_def Let_def)
  moreover have "plain_name ?n" by (auto simp: plain_name_def)
  ultimately have "filepath_Join ''/tmp'' ?n = ''/tmp'' @ ''/'' @ ?n" by (rule Join_dir)
  then have "filepath_Clean (''/tmp/'' @ ?n) = ''/tmp/'' @ ?n" by (simp add: filepath_Join_def)
  then show ?thesis unfolding clean_dir_def fresh_name_def by (simp add: has_prefix_def)
qed

lemmas ref_file_defs = ref_os_def ref_diskfs_def ref_make_fs_def ref_fs_open_def ref_fs_write_def ref_finalize_def

lemma valid_files:
  assumes "\<And>w. ref_view w = s\<lparr>disk := f\<rparr> \<Longrightarrow> set (w_dirs w) = dirs f \<Longrightarrow> map_of (w_files w) = files f
      \<Longrightarrow> fs_disks (disk (core w)) = fs_disks f \<Longrightarrow> fs_images (disk (core w)) = fs_images f
      \<Longrightarrow> fs_opened (disk (core w)) = fs_opened f \<Longrightarrow> os_opened (disk (core w)) = os_opened f
      \<Longrightarrow> \<exists>r w'. m w = Some (r, w') \<and> (case r of Inl e \<Rightarrow> X e w' | Inr x \<Rightarrow> Q x w')"
  shows "valid (\<lambda>w. ref_view w = s\<lparr>disk := f\<rparr>) m Q X"
  unfolding valid_def
proof (intro allI impI)
  fix w
  assume w: "ref_view w = s\<lparr>disk := f\<rparr>"
  then have "disk (ref_view w) = f" by simp
  with assms [OF w] show "\<exists>r w'. m w = Some (r, w') \<and> (case r of Inl e \<Rightarrow> X e w' | Inr x \<Rightarrow> Q x w')"
    by (metis ref_view_selects(7-12))
qed

lemma ref_mkdir: "ref_view (w\<lparr>w_dirs := d # w_dirs w\<rparr>)
    = (ref_view w)\<lparr>disk := (disk (ref_view w))\<lparr>dirs := insert d (dirs (disk (ref_view w)))\<rparr>\<rparr>"
  by (simp add: ref_view_def)

lemma ref_remove: "ref_view (os_RemoveAll ref_os d w) = (ref_view w)\<lparr>disk := remove_below d (disk (ref_view w))\<rparr>"
  by (simp add: ref_view_def ref_os_def remove_below_def map_of_outside [where P = "\<lambda>k. \<not> below d k"] if_distrib cong: if_cong)
     (auto simp: fun_eq_iff)

lemma remove_only_below: "only_below d f (remove_below d f)"
  by (simp add: only_below_def remove_below_def)

interpretation rfiles: local_files ref_os ref_diskfs "\<lambda>f w. ref_view w = s\<lparr>disk := f\<rparr>" ref_iso False for s
proof (unfold_locales, goal_cases)
  case (1 f pat)
  have "fresh_dir (fresh_name w) f" if "ref_view w = s\<lparr>disk := f\<rparr>" for w
    using fresh_name_fresh [of w] that by simp
  then show ?case by (intro valid_files) (simp add: ref_os_def ref_mkdir fresh_name_clean)
next
  case (2 f w d)
  then show ?case by (intro exI [of _ "remove_below d f"]) (simp add: ref_remove remove_only_below)
next
  case (3 d f p b mode)
  then have "list_ex (\<lambda>d. below d p) (w_dirs w)" if "set (w_dirs w) = dirs f" for w
    using that by (auto simp: list_ex_iff)
  then show ?case by (intro valid_files) (simp add: ref_os_def)
next
  case (4 f p b)
  then show ?case by (intro valid_files) (simp add: ref_os_def)
next
  case (5 f w h)
  then have "disk (ref_view w) = f" by simp
  then have "os_opened (disk (core w)) = os_opened f" by (metis ref_view_selects(12))
  with 5 show ?case by (simp add: ref_os_def)
next
  case (6 f h p b)
  then show ?case by (intro valid_files) (simp add: ref_os_def)
next
  case (7 f p sz ss)
  show ?case by (intro valid_files) (simp add: ref_diskfs_def, rule exI [of _ "[]"], simp)
next
  case (8 f dk p)
  show ?case by (intro valid_files) (simp add: ref_diskfs_def, rule exI [of _ f], simp add: same_files_def)
next
  case (9 f dk p spec)
  show ?case
  proof (rule valid_files)
    fix w
    assume "ref_view w = s\<lparr>disk := f\<rparr>" "fs_disks (disk (core w)) = fs_disks f" "fs_images (disk (core w)) = fs_images f"
    with 9 show "\<exists>r w'. Disk_CreateFilesystem ref_diskfs dk spec w = Some (r, w') \<and>
      (case r of Inl e \<Rightarrow> False \<and> (\<exists>f'. touched p f f' \<and> ref_view w' = s\<lparr>disk := f'\<rparr>)
       | Inr fs \<Rightarrow> is_iso9660 fs \<and> (\<exists>f'. touched p f f' \<and> fs_images f' fs = Some (p, []) \<and> ref_view w' = s\<lparr>disk := f'\<rparr>))"
      by (simp add: ref_diskfs_def ref_make_fs_def)
         (rule exI [of _ "f\<lparr>fs_images := (fs_images f)(Iso9660FS (w_next w) \<mapsto> (p, []))\<rparr>"], simp add: touched_def)
  qed
next
  case (10 f fs p xs name flags)
  show ?case
  proof (rule valid_files)
    fix w
    assume "ref_view w = s\<lparr>disk := f\<rparr>" "fs_opened (disk (core w)) = fs_opened f" "fs_images (disk (core w)) = fs_images f"
    with 10 show "\<exists>r w'. Fs_OpenFile ref_diskfs fs name flags w = Some (r, w') \<and>
      (case r of Inl e \<Rightarrow> False \<and> (\<exists>f'. touched p f f' \<and> fs_images f' fs = Some (p, xs) \<and> ref_view w' = s\<lparr>disk := f'\<rparr>)
       | Inr hf \<Rightarrow> \<exists>f'. touched p f f' \<and> fs_images f' fs = Some (p, xs) \<and> fs_opened f' hf = Some (fs, name)
           \<and> ref_view w' = s\<lparr>disk := f'\<rparr>)"
      by (simp add: ref_diskfs_def ref_fs_open_def)
         (rule exI [of _ "f\<lparr>fs_opened := (fs_opened f)(FsFile (w_next w) \<mapsto> (fs, name))\<rparr>"], simp add: touched_def)
  qed
next
  case (11 f hf fs name p xs b)
  then show ?case
    by (intro valid_files)
       (simp add: ref_diskfs_def ref_fs_write_def,
        rule exI [of _ "f\<lparr>fs_images := (fs_images f)(fs \<mapsto> (p, xs @ [(name, b)]))\<rparr>"], simp add: touched_def)
next
  case (12 f hf fs name p xs)
  then show ?case by (intro valid_files) (simp add: ref_diskfs_def, rule exI [of _ f], simp add: touched_def)
next
  case (13 f k p xs opts)
  then show ?case
    by (intro valid_files)
       (simp add: ref_diskfs_def ref_finalize_def,
        rule exI [of _ "f\<lparr>files := (files f)(p \<mapsto> ref_iso (fin_VolumeIdentifier opts) (fin_RockRidge opts) xs)\<rparr>"],
        simp add: touched_def)
next
  case (14 f fs p xs)
  then show ?case by (intro valid_files) (simp add: ref_diskfs_def, rule exI [of _ f], simp add: same_files_def)
qed

section \<open>Networks\<close>

definition ref_xml :: libvirtxml where
  "ref_xml =
     \<lparr>Domain_Marshal = (\<lambda>d. Inr (enc_domain d)),
      StorageVolume_Marshal = (\<lambda>v. Inr (enc_volume v)),
      NetworkDHCPHost_Marshal = (\<lambda>h. Inr (enc_host h)),
      Network_Unmarshal = (\<lambda>x. case dec_network x of Some (N, []) \<Rightarrow> Inr N | _ \<Rightarrow> Inl (External ''not a network''))\<rparr>"

definition ref_network_update :: "string \<Rightarrow> NetworkUpdateCommand \<Rightarrow> string \<Rightarrow> (rworld, unit) act" where
  "ref_network_update n cmd x w =
     (case (dec_host x, networks (core w) n) of
        (Some (h, []), Some st) \<Rightarrow>
          (case updated_hosts cmd h (net_IPs (net_doc st)) of
             None \<Rightarrow> throw (LibvirtError (ERR_OTHER 55)) w
           | Some ips \<Rightarrow> ret () (on_core (put_network n \<lparr>net_IPs = ips\<rparr>) w))
      | _ \<Rightarrow> throw (LibvirtError (ERR_OTHER 27)) w)"

definition ref_network_ops :: "LvNetwork \<Rightarrow> rworld networkOperations" where
  "ref_network_ops h =
     (case h of LvNetwork n \<Rightarrow>
     \<lparr>GetXMLDesc = (\<lambda>_ w. case networks (core w) n of
          None \<Rightarrow> throw (LibvirtError ERR_NO_NETWORK) w | Some st \<Rightarrow> ret (enc_network (net_doc st)) w),
      Update = (\<lambda>cmd sec parent x flags.
        if sec = NETWORK_SECTION_IP_DHCP_HOST \<and> parent = 0 then ref_network_update n cmd x
        else throw (LibvirtError (ERR_OTHER 3))),
      GetDHCPLeases = (\<lambda>w. case networks (core w) n of
          None \<Rightarrow> throw (LibvirtError ERR_NO_NETWORK) w | Some st \<Rightarrow> ret (net_leases st) w)\<rparr>)"

lemma put_network_twice: "put_network n N' (put_network n N s) = put_network n N' s"
  by (cases "networks s n") (simp_all add: put_network_def)

lemma put_network_doc:
  "networks s n \<noteq> None \<Longrightarrow> ref_view w = put_network n N s \<Longrightarrow> \<exists>st. networks (core w) n = Some st \<and> net_doc st = N"
  by (auto simp: put_network_def dest!: arg_cong [of _ _ networks])

lemma ref_dhcp:
  assumes "networks s n \<noteq> None"
  shows "dhcp_network ref_xml (ref_network_ops (LvNetwork n)) (\<lambda>N w. ref_view w = put_network n N s) False"
proof (unfold_locales, goal_cases)
  case (1 N)
  show ?case
    unfolding valid_def using put_network_doc [OF assms]
    by (fastforce simp: ref_network_ops_def ref_xml_def nets.dec_enc_all)
next
  case (2 h x N cmd)
  then have x: "dec_host x = Some (h, [])" by (auto simp: ref_xml_def hosts.dec_enc_all)
  show ?case
    unfolding valid_def
  proof (intro allI impI)
    fix w
    assume w: "ref_view w = put_network n N s"
    from put_network_doc [OF assms w] obtain st where st: "networks (core w) n = Some st" "net_doc st = N" by blast
    show "\<exists>r w'. Update (ref_network_ops (LvNetwork n)) cmd NETWORK_SECTION_IP_DHCP_HOST 0 x 0 w = Some (r, w') \<and>
      (case r of Inl e \<Rightarrow> (False \<or> \<not> host_update_ok cmd h N) \<and> ref_view w' = put_network n N s
       | Inr u \<Rightarrow> \<exists>N'. host_update cmd h N N' \<and> ref_view w' = put_network n N' s)"
    proof (cases "updated_hosts cmd h (net_IPs N)")
      case None
      with updated_hosts_ok [of cmd h N] w st x show ?thesis by (auto simp: ref_network_ops_def ref_network_update_def)
    next
      case (Some ips)
      with updated_hosts_update [OF Some] w st x show ?thesis
        by (simp add: ref_network_ops_def ref_network_update_def put_network_twice)
           (blast intro: put_network_twice)
    qed
  qed
next
  case (3 h)
  show ?case by (simp add: ref_xml_def)
qed

interpretation rdhcp: dhcp_network ref_xml "ref_network_ops (LvNetwork n)"
    "\<lambda>N w. ref_view w = put_network n N (s\<lparr>networks := (networks s)(n \<mapsto> x)\<rparr>)" False for n s x
  by (rule ref_dhcp) simp

section \<open>The binding\<close>

definition ref_path :: "string \<Rightarrow> string \<Rightarrow> string" where
  "ref_path p v = ''/var/lib/libvirt/'' @ p @ ''/'' @ v"

text \<open>A lookup gives a handle for what exists.\<close>

definition ref_lookup :: "ErrorNumber \<Rightarrow> bool \<Rightarrow> 'h \<Rightarrow> ('h \<Rightarrow> handle) \<Rightarrow> (rworld, 'h) act" where
  "ref_lookup code found h mk w =
     (if found then ret h (on_core (grab (mk h)) w) else throw (LibvirtError code) w)"

definition ref_domain_op :: "LvDomain \<Rightarrow> (dom_state \<Rightarrow> bool) \<Rightarrow> (dom_state \<Rightarrow> dom_state option) \<Rightarrow> (rworld, unit) act" where
  "ref_domain_op h ok f w =
     (case h of LvDomain n \<Rightarrow>
      case domains (core w) n of
        None \<Rightarrow> throw (LibvirtError ERR_NO_DOMAIN) w
      | Some x \<Rightarrow> if ok x then ret () (on_core (put_domain n (f x)) w) else throw (LibvirtError (ERR_OTHER 55)) w)"

definition ref_domain_query :: "LvDomain \<Rightarrow> (dom_state \<Rightarrow> 'a) \<Rightarrow> (rworld, 'a) act" where
  "ref_domain_query h f w =
     (case h of LvDomain n \<Rightarrow>
      case domains (core w) n of None \<Rightarrow> throw (LibvirtError ERR_NO_DOMAIN) w | Some x \<Rightarrow> ret (f x) w)"

definition ref_define :: "string \<Rightarrow> (rworld, LvDomain) act" where
  "ref_define x w =
     (case dec_domain x of
        Some (d, []) \<Rightarrow>
          if domain_conflict (core w) d then throw (LibvirtError (ERR_OTHER 9)) w
          else ret (LvDomain (dom_Name d))
                 (on_core (grab (HDom (LvDomain (dom_Name d))))
                   (on_core (put_domain (dom_Name d) (Some (defined d (domains (core w) (dom_Name d))))) w))
      | _ \<Rightarrow> throw (LibvirtError (ERR_OTHER 27)) w)"

definition ref_create_volume :: "StoragePool \<Rightarrow> string \<Rightarrow> (rworld, StorageVol) act" where
  "ref_create_volume h x w =
     (case (h, dec_volume x) of
        (StoragePool p, Some (v, [])) \<Rightarrow>
          if pools (core w) p \<noteq> Some True \<or> volumes (core w) (p, vol_Name v) \<noteq> None then throw (LibvirtError (ERR_OTHER 90)) w
          else ret (StorageVol p (vol_Name v))
                 (on_core (grab (HVol (StorageVol p (vol_Name v))))
                   (on_core (put_volume (p, vol_Name v) (Some \<lparr>vol_doc = v, vol_content = []\<rparr>)) w))
      | _ \<Rightarrow> throw (LibvirtError (ERR_OTHER 27)) w)"

definition fresh_stream :: "rworld \<Rightarrow> Stream" where
  "fresh_stream w = Stream (Suc (fold (\<lambda>x. max (case fst x of Stream i \<Rightarrow> i)) (w_uploads w) 0))"

text \<open>Sending puts the bytes on the stream, as long as they do not exceed the declared length.\<close>

definition ref_send_all ::
  "Stream \<Rightarrow> (nat \<Rightarrow> bytes \<Rightarrow> (goerror + bytes) \<times> bytes) \<Rightarrow> bytes \<Rightarrow> (rworld, unit) act" where
  "ref_send_all h cb buf w =
     (case map_of (w_uploads w) h of
        None \<Rightarrow> throw (LibvirtError (ERR_OTHER 55)) w
      | Some u \<Rightarrow>
          (case drain (Suc (length buf)) cb buf of
             Inl e \<Rightarrow> throw e w
           | Inr sent \<Rightarrow>
               let u' = u\<lparr>up_sent := up_sent u @ sent\<rparr>
               in if within_limit u' then ret () (set_upload h u' w) else throw (LibvirtError (ERR_OTHER 38)) w))"

text \<open>Only a finished upload reaches the volume.\<close>

definition ref_finish :: "Stream \<Rightarrow> (rworld, unit) act" where
  "ref_finish h w =
     (case map_of (w_uploads w) h of
        None \<Rightarrow> throw (LibvirtError (ERR_OTHER 55)) w
      | Some u \<Rightarrow> ret () (end_upload h (on_core (write_volume (up_volume u) (up_sent u)) w)))"

definition ref_libvirt :: "rworld libvirt" where
  "ref_libvirt =
     \<lparr>NewConnect = (\<lambda>uri w. ret (Connect (w_next w))
        (on_core (grab (HConn (Connect (w_next w)))) (w\<lparr>w_next := Suc (w_next w)\<rparr>))),
      Connect_Close = (\<lambda>c. on_core (drop_handle (HConn c))),
      LookupStoragePoolByName = (\<lambda>c p w. ref_lookup ERR_NO_STORAGE_POOL (pools (core w) p \<noteq> None) (StoragePool p) HPool w),
      LookupDomainByName = (\<lambda>c n w. ref_lookup ERR_NO_DOMAIN (domains (core w) n \<noteq> None) (LvDomain n) HDom w),
      LookupNetworkByName = (\<lambda>c n w. ref_lookup ERR_NO_NETWORK (networks (core w) n \<noteq> None) (LvNetwork n) HNet w),
      DomainDefineXML = (\<lambda>c. ref_define),
      NewStream = (\<lambda>c flags w. ret (fresh_stream w) (on_core (grab (HStream (fresh_stream w))) w)),
      Pool_Free = (\<lambda>h. on_core (drop_handle (HPool h))),
      Pool_IsActive = (\<lambda>h w. case h of StoragePool p \<Rightarrow>
        case pools (core w) p of None \<Rightarrow> throw (LibvirtError ERR_NO_STORAGE_POOL) w | Some a \<Rightarrow> ret a w),
      LookupStorageVolByName = (\<lambda>h v w. case h of StoragePool p \<Rightarrow>
        ref_lookup ERR_NO_STORAGE_VOL (volumes (core w) (p, v) \<noteq> None) (StorageVol p v) HVol w),
      StorageVolCreateXML = (\<lambda>h x flags. ref_create_volume h x),
      Vol_Free = (\<lambda>h. on_core (drop_handle (HVol h))),
      Vol_GetPath = (\<lambda>h. case h of StorageVol p v \<Rightarrow> ret (ref_path p v)),
      Vol_Delete = (\<lambda>h flags w. case h of StorageVol p v \<Rightarrow>
        if volumes (core w) (p, v) = None then throw (LibvirtError ERR_NO_STORAGE_VOL) w
        else ret () (on_core (put_volume (p, v) None) w)),
      Vol_Upload = (\<lambda>h st offset len flags w. case h of StorageVol p v \<Rightarrow>
        ret () (set_upload st \<lparr>up_volume = (p, v), up_limit = len, up_sent = []\<rparr> w)),
      Stream_Free = (\<lambda>h w. on_core (drop_handle (HStream h)) (end_upload h w)),
      Stream_SendAll = ref_send_all,
      Stream_Abort = end_upload,
      Stream_Finish = ref_finish,
      Domain_Free = (\<lambda>h. on_core (drop_handle (HDom h))),
      Domain_SetAutostart = (\<lambda>h b. ref_domain_op h d_persistent (\<lambda>x. Some (x\<lparr>d_autostart := b\<rparr>))),
      Domain_Create = (\<lambda>h. ref_domain_op h (\<lambda>x. \<not> d_active x) (\<lambda>x. Some (started x))),
      Domain_Destroy = (\<lambda>h. ref_domain_op h d_active destroyed),
      Domain_Undefine = (\<lambda>h. ref_domain_op h d_persistent undefined_domain),
      Domain_IsActive = (\<lambda>h. ref_domain_query h d_active),
      Domain_GetState = (\<lambda>h. ref_domain_query h d_state),
      Network_Free = (\<lambda>h. on_core (drop_handle (HNet h))),
      Network_IsActive = (\<lambda>h w. case h of LvNetwork n \<Rightarrow>
        case networks (core w) n of None \<Rightarrow> throw (LibvirtError ERR_NO_NETWORK) w | Some st \<Rightarrow> ret (net_active st) w),
      Network_ops = ref_network_ops\<rparr>"

definition ref_yaml :: "(string \<times> string) list \<Rightarrow> goerror + bytes" where
  "ref_yaml kvs = Inr (concat (map (\<lambda>(k, v). ref_bytes (k @ '': '' @ v @ [CHR 0x0A])) kvs))"

definition ref_env :: "rworld env" where
  "ref_env = \<lparr>env_lv = ref_libvirt, env_lx = ref_xml, env_os = ref_os, env_fs = ref_diskfs, yaml_Marshal = ref_yaml\<rparr>"

lemmas ref_defs =
  ref_env_def ref_libvirt_def ref_lookup_def ref_domain_op_def ref_domain_query_def ref_define_def
  ref_create_volume_def ref_send_all_def ref_finish_def ref_network_ops_def

lemma fresh_stream_fresh: "map_of (w_uploads w) (fresh_stream w) = None"
proof -
  have fold: "n \<le> fold (\<lambda>x. max (case fst x of Stream i \<Rightarrow> i)) xs n \<and>
      (\<forall>(h, k) \<in> set xs. (case h of Stream i \<Rightarrow> i) \<le> fold (\<lambda>x. max (case fst x of Stream i \<Rightarrow> i)) xs n)"
    for xs :: "(Stream \<times> upload) list" and n
  proof (induction xs arbitrary: n)
    case (Cons x xs)
    from Cons.IH [of "max (case fst x of Stream i \<Rightarrow> i) n"] show ?case by auto
  qed simp
  have "False" if "(fresh_stream w, k) \<in> set (w_uploads w)" for k
    using fold [where xs = "w_uploads w" and n = 0] that by (fastforce simp: fresh_stream_def)
  then show ?thesis by (meson map_of_SomeD option.exhaust)
qed

lemma valid_view:
  assumes "\<And>w. ref_view w = s \<Longrightarrow> networks (core w) = networks s \<Longrightarrow> pools (core w) = pools s \<Longrightarrow> volumes (core w) = volumes s
      \<Longrightarrow> domains (core w) = domains s \<Longrightarrow> map_of (w_uploads w) = uploads s
      \<Longrightarrow> \<exists>r w'. m w = Some (r, w') \<and> (case r of Inl e \<Rightarrow> X e w' | Inr x \<Rightarrow> Q x w')"
  shows "valid (\<lambda>w. ref_view w = s) m Q X"
  unfolding valid_def using assms by (metis ref_view_selects(1-4,6))

lemma isLibvirtErr_code [simp]: "isLibvirtErr (LibvirtError c) c' \<longleftrightarrow> c = c'"
  by (simp add: isLibvirtErr_def)

interpretation ref: libvirt_host ref_env ref_view ref_path ref_iso False
proof (rule libvirt_host.intro, goal_cases)
  case (1 s)
  show ?case unfolding ref_env_def env.simps by (rule rfiles.local_files_axioms)
next
  case (2 s n)
  then show ?case unfolding ref_env_def ref_libvirt_def env.simps libvirt.simps by (rule ref_dhcp)
next
  case (19 vd vx s p)
  then have "dec_volume vx = Some (vd, [])" by (auto simp: ref_env_def ref_xml_def vols.dec_enc_all)
  then show ?case unfolding call_def by (intro valid_view) (simp add: ref_defs)
next
  case (29 dd dx s c)
  then have "dec_domain dx = Some (dd, [])" by (auto simp: ref_env_def ref_xml_def doms.dec_enc_all)
  moreover have "same_domain dd dd" by (auto simp: same_domain_def intro: exI [of _ "dom_UUID dd"])
  ultimately show ?case unfolding call_def by (intro valid_view) (auto simp: ref_defs domain_conflict_def)
next
  case (21 s c)
  have "uploads s (fresh_stream w) = None" if "map_of (w_uploads w) = uploads s" for w
    using fresh_stream_fresh [of w] that by simp
  then show ?case unfolding call_def by (intro valid_view) (simp add: ref_defs)
next
  case (23 s hs u cb buf)
  from drain_pumped [OF 23(2), of buf "Suc (length buf)"]
  obtain sent where sent: "drain (Suc (length buf)) cb buf = Inr sent" "pumped cb buf sent" by auto
  have same: "\<exists>b. ref_view w = put_upload hs (Some (u\<lparr>up_sent := b\<rparr>)) s" if "ref_view w = s" for w
    using 23(1) that by (intro exI [of _ "up_sent u"]) (simp add: put_upload_def fun_upd_idem)
  show ?case
  proof (rule valid_view)
    fix w
    assume w: "ref_view w = s" and up: "map_of (w_uploads w) = uploads s"
    show "\<exists>r w'. Stream_SendAll (env_lv ref_env) hs cb buf w = Some (r, w') \<and>
      (case r of Inl e \<Rightarrow> (False \<or> (\<exists>sent. pumped cb buf sent \<and> \<not> within_limit (u\<lparr>up_sent := up_sent u @ sent\<rparr>)))
           \<and> (\<exists>sent. ref_view w' = put_upload hs (Some (u\<lparr>up_sent := sent\<rparr>)) s)
       | Inr x \<Rightarrow> \<exists>sent. pumped cb buf sent \<and> within_limit (u\<lparr>up_sent := up_sent u @ sent\<rparr>)
           \<and> ref_view w' = put_upload hs (Some (u\<lparr>up_sent := up_sent u @ sent\<rparr>)) s)"
      using 23(1) sent same [OF w] w up by (auto simp: ref_defs Let_def simp del: drain.simps)
  qed
next
  case (24 hs w)
  show ?case
    by (cases "map_of (w_uploads w) hs")
       (auto simp: cut_off_def ref_defs put_upload_def fun_upd_idem intro!: exI [of _ "[]"])
next
  case (26 hs w)
  show ?case
    by (rule exI [of _ "put_upload hs None (ref_view w)"], cases "map_of (w_uploads w) hs")
       (auto simp: cut_off_def ref_defs put_upload_def fun_upd_idem intro!: exI [of _ "[]"])
qed ((unfold call_def)?, (rule valid_view)?,
     (simp add: ref_defs ref_xml_def ref_yaml_def ref_path_def lookup_error_def; fail))+

end
