(* ===== verification/NetworkProps.thy ===== *)
theory NetworkProps
  imports Reservation
begin

text \<open>
  The properties of machine networking that need no libvirt host: the choice of an address, its
  candidates, the hardware address, the textual form of addresses.
\<close>

text \<open>
  C10: On a network whose host entries are consistent, \<^verbatim>\<open>allocateMachineIPIn\<close> gives the first candidate, in
  the order that starts at the hash of the domain name and wraps around, that no host entry of another
  hardware address has; it fails exactly when there is none.
\<close>

theorem allocate_correct:
  assumes "hosts_inv (hosts_of network)" "allocationCandidates network = Some (Inr cs)" "cs \<noteq> []"
  shows "allocateMachineIPIn network domainName mac =
     Some (case find (\<lambda>c. \<forall>h \<in> set (hosts_of network).
                        host_IP h = formatIPv4 c \<longrightarrow> strings_EqualFold (host_MAC h) mac)
                  (rotate (unat (hashDomainName domainName mod of_nat (length cs))) cs) of
             Some c \<Rightarrow> Inr (formatIPv4 c)
           | None \<Rightarrow> Inl (no_free_address domainName))"
proof -
  have "free_for (hostIPSet network) mac = (\<lambda>c. \<forall>h \<in> set (hosts_of network).
      host_IP h = formatIPv4 c \<longrightarrow> strings_EqualFold (host_MAC h) mac)"
    by (rule ext) (rule free_for_iff [OF assms(1)])
  then show ?thesis
    using allocate_first_free [OF assms(2,3)] by (simp only: reservation_order_def)
qed

text \<open>A network with a DHCP range of four addresses, the third of them reserved.\<close>

definition example_network :: Network where
  "example_network =
     \<lparr>net_IPs = [\<lparr>ip_Address = ''192.168.122.1'', ip_Family = ''inet'', ip_Netmask = ''255.255.255.0'',
        ip_DHCP = Some \<lparr>dhcp_Ranges = [\<lparr>range_Start = ''192.168.122.2'', range_End = ''192.168.122.5''\<rparr>],
          dhcp_Hosts = [\<lparr>host_MAC = ''52:54:00:00:00:01'', host_Name = ''m1'', host_IP = ''192.168.122.4''\<rparr>]\<rparr>\<rparr>]\<rparr>"

lemma example_candidates:
  "allocationCandidates example_network = Some (Inr [0xc0a87a02, 0xc0a87a03, 0xc0a87a04, 0xc0a87a05])"
proof -
  have r: "rangeCandidates 0xc0a87a02 0xc0a87a05 = Some (Inr [0xc0a87a02, 0xc0a87a03, 0xc0a87a04, 0xc0a87a05])"
    by (simp add: rangeCandidates_cases upt_rec)
  have f: "parseSubnet ''192.168.122.1'' ''255.255.255.0'' = Inr \<lparr>ipnet_IP = [192, 168, 122, 0], ipnet_Mask = [255, 255, 255, 0]\<rparr>"
    by code_simp
  have g: "firstDHCPRange_loop [\<lparr>range_Start = ''192.168.122.2'', range_End = ''192.168.122.5''\<rparr>]
      = Some (0xc0a87a02, 0xc0a87a05)"
    by code_simp
  show ?thesis
    by (simp add: allocationCandidates_def example_network_def f g firstDHCPRange_def r
        del: firstDHCPRange_loop.simps)
qed

lemma example_hosts:
  "hosts_of example_network = [\<lparr>host_MAC = ''52:54:00:00:00:01'', host_Name = ''m1'', host_IP = ''192.168.122.4''\<rparr>]"
  "hosts_inv (hosts_of example_network)"
  by (simp_all add: hosts_of_def ip_hosts_def example_network_def hosts_inv_def)

theorem allocate_correct_witness:
  "allocateMachineIPIn example_network ''m2'' (deriveDomainMAC ''m2'') = Some (Inr ''192.168.122.5'')"
proof -
  have h: "unat (hashDomainName ''m2'' mod 4) = 2" by code_simp
  have ip: "formatIPv4 0xc0a87a04 = ''192.168.122.4''" "formatIPv4 0xc0a87a05 = ''192.168.122.5''"
    by code_simp+
  have mac: "\<not> strings_EqualFold ''52:54:00:00:00:01'' (deriveDomainMAC ''m2'')" by code_simp
  show ?thesis
    by (subst allocate_correct [OF example_hosts(2) example_candidates])
       (simp_all add: example_hosts(1) h ip mac numeral_2_eq_2)
qed

text \<open>
  C32: \<^verbatim>\<open>rangeCandidates\<close> gives the addresses from the start to the end of the range, in order, and an error
  when the end is below the start; it never returns exactly when the end is 255.255.255.255, where the
  32-bit loop counter wraps around.
\<close>

theorem rangeCandidates_correct:
  "rangeCandidates start stop =
     (if stop < start then Some (Inl (Errorf ''DHCP range end is below start'' []))
      else if stop = 0xffffffff then None
      else Some (Inr (map of_nat [unat start..<Suc (unat stop)])))"
proof -
  have "(0xffffffff :: u32) = - 1" by simp
  then show ?thesis by (simp only: rangeCandidates_cases)
qed

text \<open>
  C33: For every subnet that \<^verbatim>\<open>parseSubnet\<close> accepts, \<^verbatim>\<open>subnetTailCandidates\<close> returns: with an error when the
  subnet has at most two addresses or is the whole address space, and otherwise with the highest addresses
  below the last one of the subnet, in order: the size of the block, or all but two of the subnet's
  addresses when it has fewer.
\<close>

theorem subnetTailCandidates_correct:
  assumes "parseSubnet address netmask = Inr ipNet" "0 < sz"
  defines "base \<equiv> unat (BigEndian_Uint32 (ipnet_IP ipNet))"
    and "hosts \<equiv> unat (NOT (BigEndian_Uint32 (ipnet_Mask ipNet)))"
  shows "subnetTailCandidates ipNet sz =
     Some (if hosts \<le> 1 \<or> hosts = 2 ^ 32 - 1
           then Inl (Errorf ''subnet %s has no usable host addresses'' [])
           else Inr (map of_nat [base + hosts - min sz (hosts - 1)..<base + hosts]))"
proof -
  from assms(1) obtain ip4 where len: "length (ipnet_IP ipNet) = 4"
    and net: "BigEndian_Uint32 (ipnet_IP ipNet) = BigEndian_Uint32 ip4 AND BigEndian_Uint32 (ipnet_Mask ipNet)"
    by (rule parseSubnet_Inr)
  show ?thesis
    using subnetTail_cases [OF len net refl refl assms(2)] unfolding base_def hosts_def by simp
qed

theorem subnetTailCandidates_correct_witness:
  "subnetTailCandidates \<lparr>ipnet_IP = [192, 168, 122, 8], ipnet_Mask = [255, 255, 255, 248]\<rparr> 200
     = Some (Inr [0xc0a87a09, 0xc0a87a0a, 0xc0a87a0b, 0xc0a87a0c, 0xc0a87a0d, 0xc0a87a0e])"
proof -
  have p: "parseSubnet ''192.168.122.9'' ''255.255.255.248''
      = Inr \<lparr>ipnet_IP = [192, 168, 122, 8], ipnet_Mask = [255, 255, 255, 248]\<rparr>" by code_simp
  have "BigEndian_Uint32 [192, 168, 122, 8] = 0xc0a87a08" "NOT (BigEndian_Uint32 [255, 255, 255, 248]) = 7"
    by code_simp+
  then show ?thesis
    using subnetTailCandidates_correct [OF p, of 200] by (simp add: upt_rec)
qed

lemma byte_eq_iff:
  fixes x y :: u64
  assumes "k \<le> 56"
  shows "(ucast (drop_bit k x) :: 8 word) = ucast (drop_bit k y) \<longleftrightarrow> (\<forall>n < 8. bit x (k + n) = bit y (k + n))"
  using assms by (auto simp: bit_eq_iff bit_simps)

lemma low_bits_eq_iff: "take_bit 24 (x :: u64) = take_bit 24 y \<longleftrightarrow> (\<forall>n < 24. bit x n = bit y n)"
  by (rule iffI, metis bit_take_bit_iff, auto simp: bit_eq_iff bit_take_bit_iff)

text \<open>
  C37: The hardware address of a domain is 17 characters long and starts with \<^verbatim>\<open>52:54:00:\<close>; two domains have
  the same one, up to the case of letters, exactly when the low 24 bits of the hashes of their names agree.
\<close>

theorem deriveDomainMAC_correct:
  "take 9 (deriveDomainMAC a) = ''52:54:00:'' \<and> length (deriveDomainMAC a) = 17 \<and>
   (strings_EqualFold (deriveDomainMAC a) (deriveDomainMAC b)
      \<longleftrightarrow> take_bit 24 (hashDomainName a) = take_bit 24 (hashDomainName b))"
proof -
  have bytes: "(ucast x = (ucast y :: 8 word) \<and> ucast (drop_bit 8 x) = (ucast (drop_bit 8 y) :: 8 word)
      \<and> ucast (drop_bit 16 x) = (ucast (drop_bit 16 y) :: 8 word)) \<longleftrightarrow> take_bit 24 x = take_bit 24 y"
    for x y :: u64
  proof -
    have "(\<forall>n < 24. P n) \<longleftrightarrow> (\<forall>n < 8. P n) \<and> (\<forall>n < 8. P (8 + n)) \<and> (\<forall>n < 8. P (16 + n))" for P :: "nat \<Rightarrow> bool"
    proof safe
      fix n :: nat
      assume "\<forall>n < 8. P n" "\<forall>n < 8. P (8 + n)" "\<forall>n < 8. P (16 + n)" "n < 24"
      moreover consider "n < 8" | "8 \<le> n" "n - 8 < 8" | "16 \<le> n" "n - 16 < 8" using \<open>n < 24\<close> by linarith
      ultimately show "P n" by cases (metis le_add_diff_inverse)+
    qed auto
    from this [of "\<lambda>n. bit x n = bit y n"] show ?thesis
      using byte_eq_iff [of 0 x y] byte_eq_iff [of 8 x y] byte_eq_iff [of 16 x y]
      by (simp add: low_bits_eq_iff)
  qed
  have "strings_EqualFold (deriveDomainMAC a) (deriveDomainMAC b)
      \<longleftrightarrow> take_bit 24 (hashDomainName a) = take_bit 24 (hashDomainName b)"
    unfolding deriveDomainMAC_def Let_def hashDomainName_def
    by (simp add: EqualFold_HardwareAddr bytes [symmetric])
  then show ?thesis
    by (simp add: deriveDomainMAC_def Let_def HardwareAddr_String_def hex_byte_def digits_hex_def)
qed

text \<open>
  C38: Reading back the textual form that \<^verbatim>\<open>formatIPv4\<close> gives to an address number, the way \<^verbatim>\<open>firstDHCPRange\<close>
  reads addresses, gives the number.
\<close>

theorem formatIPv4_roundtrip:
  "Option.bind (net_ParseIP (formatIPv4 n)) (\<lambda>ip. map_option BigEndian_Uint32 (IP_To4 ip)) = Some n"
  using Uint32_PutUint32 [of n] unfolding formatIPv4_def BigEndian_PutUint32_def by simp

end
