(* ===== verification/HostProps.thy ===== *)
theory HostProps
  imports CreateOps RefHost NetworkProps
begin

text \<open>
  The properties of the operations of \<^verbatim>\<open>libvirtclient\<close> on a host that keeps the contract \<open>libvirt_host\<close>, each
  with its instance on the reference host of the theory \<open>RefHost\<close>.
\<close>

section \<open>A sample host\<close>

text \<open>An active network, two active pools, the base image, no domain.\<close>

definition sample_world :: rworld where
  "sample_world =
     \<lparr>core = \<lparr>networks = [''default'' \<mapsto> \<lparr>net_active = True, net_doc = example_network,
                net_leases = [\<lparr>lease_Mac = ''52:54:00:00:00:01'', lease_IPaddr = ''192.168.122.4''\<rparr>]\<rparr>],
              pools = [''base'' \<mapsto> True, ''vms'' \<mapsto> True],
              volumes = [(''base'', ''image.qcow2'') \<mapsto> \<lparr>vol_doc = NewVolume ''image.qcow2'', vol_content = []\<rparr>],
              domains = Map.empty, uploads = Map.empty, handles = {#},
              disk = \<lparr>dirs = {}, files = Map.empty, fs_disks = Map.empty, fs_images = Map.empty,
                      fs_opened = Map.empty, os_opened = Map.empty\<rparr>\<rparr>,
      w_uploads = [], w_dirs = [], w_files = [], w_next = 0\<rparr>"

definition sample_cfg :: MachineConfig where
  "sample_cfg =
     \<lparr>cfg_URI = ''qemu:///system'', cfg_BasePool = ''base'', cfg_DomainPool = ''vms'', cfg_Network = ''default'',
      cfg_Credentials = None, cfg_DomainName = ''m2'', cfg_DomainUUID = ''u2'', cfg_Hostname = [],
      cfg_BaseImage = ''image.qcow2'', cfg_MemoryMiB = 0, cfg_VCPU = 2, cfg_DiskSize = 10, cfg_UserData = [35, 33]\<rparr>"

declare ref_view_selects [simp del]

abbreviation sample :: sys where
  "sample \<equiv> ref_view sample_world"

lemma sample_cfg_fields [simp]:
  "cfg_BasePool sample_cfg = ''base''" "cfg_DomainPool sample_cfg = ''vms''" "cfg_Network sample_cfg = ''default''"
  "cfg_Credentials sample_cfg = None" "cfg_DomainName sample_cfg = ''m2''" "cfg_BaseImage sample_cfg = ''image.qcow2''"
  "domainDiskName sample_cfg = ''m2.qcow2''"
  by (simp_all add: sample_cfg_def domainDiskName_def)

lemma sample_state [simp]:
  "networks sample ''default'' = Some \<lparr>net_active = True, net_doc = example_network,
     net_leases = [\<lparr>lease_Mac = ''52:54:00:00:00:01'', lease_IPaddr = ''192.168.122.4''\<rparr>]\<rparr>"
  "pools sample ''base'' = Some True" "pools sample ''vms'' = Some True" "domains sample n = None"
  "volumes sample (''vms'', v) = None" "volumes sample (''base'', ''image.qcow2'') \<noteq> None"
  by (simp_all add: ref_view_selects sample_world_def)

lemma sample_networks: "networks sample n = Some x \<Longrightarrow> net_doc x = example_network"
  by (auto simp: ref_view_selects sample_world_def split: if_splits)

lemma sample_inv: "networks_inv sample"
  using sample_networks example_hosts(2) by (auto simp: networks_inv_def)

lemma run_world:
  assumes "run ref_view (ref_view w) m Q (\<lambda>e s'. False)"
  shows "\<exists>x w'. m w = Some (Inr x, w') \<and> Q x (ref_view w')"
proof -
  from assms obtain r w' where "m w = Some (r, w')" and r: "case r of Inl e \<Rightarrow> False | Inr x \<Rightarrow> Q x (ref_view w')"
    unfolding run_def valid_def by blast
  then show ?thesis by (cases r) auto
qed

text \<open>The address for the machine on this network: the fourth of the range, the first in the order that is free.\<close>

lemma sample_allocation:
  "allocateMachineIPIn example_network ''m2'' (deriveDomainMAC ''m2'') = Some (Inr ''192.168.122.5'')"
proof -
  have h: "unat (hashDomainName ''m2'' mod 4) = 2" by code_simp
  have free: "\<not> free_for (hostIPSet example_network) (deriveDomainMAC ''m2'') 0xc0a87a04"
    "free_for (hostIPSet example_network) (deriveDomainMAC ''m2'') 0xc0a87a05" "formatIPv4 0xc0a87a05 = ''192.168.122.5''"
    by code_simp+
  show ?thesis
    by (subst allocate_first_free [OF example_candidates]) (simp_all add: reservation_order_def h free numeral_2_eq_2)
qed

lemma sample_endless: "\<not> endless_range example_network"
  using allocate_None [of example_network "''m2''" "deriveDomainMAC ''m2''"] by (simp add: sample_allocation)

lemma sample_returns: "allocation_returns sample sample_cfg"
  by (simp add: allocation_returns_def sample_endless)

lemma example_subnets: "first_hosts example_network = hosts_of example_network" "later_hosts example_network = []"
  "first_subnet_free example_network d mac \<longleftrightarrow>
     (\<forall>h \<in> set (hosts_of example_network). host_Name h = d \<longrightarrow> strings_EqualFold (host_MAC h) mac)"
  by (simp_all add: first_subnet_free_def first_hosts_def later_hosts_def hosts_of_def example_network_def ipv6_subnet_def)

lemma sample_no_obstacle: "\<not> create_obstacle sample sample_cfg" "machine_entry_ours sample sample_cfg"
proof -
  have "\<not> strings_EqualFold ''52:54:00:00:00:01'' (deriveDomainMAC ''m2'')" by code_simp
  then show "machine_entry_ours sample sample_cfg"
    by (simp add: machine_entry_ours_def entry_ours_def example_subnets(1,2) example_hosts)
  show "\<not> create_obstacle sample sample_cfg"
    by (simp add: create_obstacle_def credentials_ok_def pools_active_def no_root_source_def
        reserve_obstacle_def domain_taken_def example_subnets(3) example_hosts sample_allocation)
qed

section \<open>Machines\<close>

text \<open>
  C4: On a host that keeps the contract, \<^verbatim>\<open>CreateMachine\<close> returns, provided that the host entries of every network are
  consistent (one per hardware address and per address), that the DHCP range of the machine's network does not end
  at 255.255.255.255, where the choice of an address loops forever, and that the domain name has no slash. When it
  succeeds, the machine's two volumes exist (one that was there is as it was; a new root disk is an overlay of the
  base image with the size of the machine, a new cloud-init volume holds exactly the image of its user data and
  meta-data), its address is reserved under its hardware address, and its domain runs, is persistent and starts
  with the host; it has the machine's name, identifier, memory and processors, the two disks, and one interface
  with the hardware address. A failure on a host where no call fails by itself has one of the causes of
  \<open>create_obstacle\<close>: credentials that do not fit the URI, a missing or inactive pool, no base image, no network, no
  free address, a first subnet that cannot take the host entry, or a domain of the same name or identifier. In
  every case only what belongs to the machine differs, and all handles, streams and temporary files are released.
\<close>

theorem CreateMachine_correct:
  assumes "libvirt_host E view vol_path mk_iso flaky" "networks_inv s" "allocation_returns s cfg"
    "CHR ''/'' \<notin> set (cfg_DomainName cfg)"
  shows "run view s (CreateMachine E cfg)
     (\<lambda>_ s'. machine_created vol_path mk_iso (yaml_Marshal E) cfg s s' \<and> machine_frame flaky cfg s s')
     (\<lambda>e s'. (flaky \<or> create_obstacle s cfg) \<and> machine_frame flaky cfg s s')"
  by (rule libvirt_host.CreateMachine_run [OF assms])

theorem CreateMachine_correct_witness:
  "\<exists>w'. CreateMachine ref_env sample_cfg sample_world = Some (Inr (), w')
     \<and> machine_created ref_path ref_iso (yaml_Marshal ref_env) sample_cfg sample (ref_view w')
     \<and> machine_frame False sample_cfg sample (ref_view w')"
  using run_world [of sample_world "CreateMachine ref_env sample_cfg"
      "\<lambda>_ s'. machine_created ref_path ref_iso (yaml_Marshal ref_env) sample_cfg sample s' \<and> machine_frame False sample_cfg sample s'"]
    CreateMachine_correct [OF ref.libvirt_host_axioms sample_inv sample_returns] sample_no_obstacle
  by simp

text \<open>
  C5: \<^verbatim>\<open>DeleteMachine\<close> returns, on a host whose networks have consistent host entries. When it succeeds the machine is
  gone: no domain, neither of its volumes and no host entry of its hardware address, with two exceptions: when the
  host failed to tell whether the domain runs, a running one is left behind, no longer persistent; and volumes of a
  pool that is not defined are not looked for. A failure on a host where no call fails by itself has one of the
  causes of \<open>delete_obstacle\<close>: credentials that do not fit the URI, a domain that is not persistent, an inactive pool,
  or a host entry of the hardware address that has another name or is not in the first subnet. In every case
  nothing but the machine's own domain, volumes and host entry differs, and all handles are released.
  Where no such cause is present, deleting a machine that does not exist succeeds.
\<close>

theorem DeleteMachine_correct:
  assumes "libvirt_host E view vol_path mk_iso flaky" "networks_inv s"
  shows "run view s (DeleteMachine E cfg)
     (\<lambda>_ s'. machine_gone flaky cfg s s' \<and> machine_frame flaky cfg s s')
     (\<lambda>e s'. (flaky \<or> delete_obstacle s cfg) \<and> machine_frame flaky cfg s s')"
  by (rule libvirt_host.DeleteMachine_run [OF assms])

theorem DeleteMachine_correct_witness:
  "\<exists>w'. DeleteMachine ref_env sample_cfg sample_world = Some (Inr (), w')
     \<and> machine_gone False sample_cfg sample (ref_view w') \<and> machine_frame False sample_cfg sample (ref_view w')"
proof -
  have "\<not> delete_obstacle sample sample_cfg"
    using sample_no_obstacle by (simp add: delete_obstacle_def credentials_ok_def)
  then show ?thesis
    using run_world [of sample_world "DeleteMachine ref_env sample_cfg"
        "\<lambda>_ s'. machine_gone False sample_cfg sample s' \<and> machine_frame False sample_cfg sample s'"]
      DeleteMachine_correct [OF ref.libvirt_host_axioms sample_inv, of sample_cfg] by simp
qed

text \<open>
  C8: On a host where no call fails by itself and the host entries of every network are consistent, a machine with no
  slash in its name, whose network has no DHCP range that ends at 255.255.255.255, and that can be created (no cause of
  \<open>create_obstacle\<close>) can be deleted afterwards if no host entry of its hardware address was there before under another name or in another subnet than
  the first: \<^verbatim>\<open>CreateMachine\<close> followed by \<^verbatim>\<open>DeleteMachine\<close> succeeds, the machine is gone, and everything else is as it
  was before the creation.
\<close>

theorem create_delete_roundtrip:
  assumes "libvirt_host E view vol_path mk_iso False" "networks_inv s" "allocation_returns s cfg"
    "CHR ''/'' \<notin> set (cfg_DomainName cfg)" "\<not> create_obstacle s cfg" "machine_entry_ours s cfg"
  shows "run view s (tryE (CreateMachine E cfg) id (\<lambda>_. DeleteMachine E cfg))
     (\<lambda>_ s'. machine_gone False cfg s s' \<and> machine_frame False cfg s s') (\<lambda>e s'. False)"
  by (rule libvirt_host.create_delete_run [OF assms(1-4) _ assms(5,6)]) simp

theorem create_delete_roundtrip_witness:
  "\<exists>w'. tryE (CreateMachine ref_env sample_cfg) id (\<lambda>_. DeleteMachine ref_env sample_cfg) sample_world = Some (Inr (), w')
     \<and> machine_gone False sample_cfg sample (ref_view w') \<and> machine_frame False sample_cfg sample (ref_view w')"
  using run_world [of sample_world "tryE (CreateMachine ref_env sample_cfg) id (\<lambda>_. DeleteMachine ref_env sample_cfg)"
      "\<lambda>_ s'. machine_gone False sample_cfg sample s' \<and> machine_frame False sample_cfg sample s'"]
    create_delete_roundtrip [OF ref.libvirt_host_axioms sample_inv sample_returns _ sample_no_obstacle] by simp

text \<open>
  C26: \<^verbatim>\<open>StartMachine\<close> starts the domain of the machine when it exists and does not run, and fails otherwise. The
  handle of the domain that it looked up is never released.
\<close>

theorem StartMachine_correct:
  assumes "libvirt_host E view vol_path mk_iso flaky"
  shows "run view s (StartMachine E cfg)
     (\<lambda>_ s'. \<exists>x s1. domains s (cfg_DomainName cfg) = Some x \<and> \<not> d_active x \<and> tidied flaky s s1
        \<and> s' = grab (HDom (LvDomain (cfg_DomainName cfg))) (put_domain (cfg_DomainName cfg) (Some (started x)) s1))
     (\<lambda>e s'. (flaky \<or> \<not> credentials_ok cfg
           \<or> (case domains s (cfg_DomainName cfg) of None \<Rightarrow> True | Some x \<Rightarrow> d_active x))
        \<and> (\<exists>s1. tidied flaky s s1 \<and> (s' = s1 \<or> s' = grab (HDom (LvDomain (cfg_DomainName cfg))) s1)))"
  by (rule libvirt_host.StartMachine_run [OF assms])

definition stopped_domain :: dom_state where
  "stopped_domain =
     \<lparr>d_doc = NewDomain ''m2'', d_state = DOMAIN_SHUTOFF, d_active = False, d_persistent = True, d_autostart = True\<rparr>"

theorem StartMachine_correct_witness:
  "\<exists>w'. StartMachine ref_env sample_cfg (on_core (put_domain ''m2'' (Some stopped_domain)) sample_world) = Some (Inr (), w')
     \<and> map_option d_state (domains (ref_view w') ''m2'') = Some DOMAIN_RUNNING
     \<and> handles (ref_view w') = {#HDom (LvDomain ''m2'')#}"
proof -
  let ?w = "on_core (put_domain ''m2'' (Some stopped_domain)) sample_world"
  let ?s = "put_domain ''m2'' (Some stopped_domain) sample"
  have none: "handles ?s = {#}" by (simp add: ref_view_selects sample_world_def)
  have "run ref_view ?s (StartMachine ref_env sample_cfg)
      (\<lambda>_ s'. map_option d_state (domains s' ''m2'') = Some DOMAIN_RUNNING \<and> handles s' = {#HDom (LvDomain ''m2'')#})
      (\<lambda>e s'. False)"
    by (rule run_post [OF StartMachine_correct [OF ref.libvirt_host_axioms]])
       (use none in \<open>auto simp: stopped_domain_def started_def credentials_ok_def tidied_selects(6)\<close>)
  from run_world [OF this [folded ref_view_updates(5)]] show ?thesis by auto
qed

section \<open>Queries\<close>

text \<open>
  C23: \<^verbatim>\<open>EnsureInfra\<close> succeeds exactly when the network and both pools exist and are active (on a host where no
  call fails by itself, with credentials that fit the URI); otherwise it gives the error of the first check that fails, in the order network,
  base pool, domain pool. It leaves nothing behind.
\<close>

theorem EnsureInfra_correct:
  assumes "libvirt_host E view vol_path mk_iso flaky"
  shows "run view s (EnsureInfra E cfg) (\<lambda>_ s'. infra_ready s cfg \<and> tidied flaky s s')
     (\<lambda>e s'. (flaky \<or> \<not> credentials_ok cfg \<or> infra_error s cfg e) \<and> tidied flaky s s')"
  by (rule libvirt_host.EnsureInfra_run [OF assms])

theorem EnsureInfra_correct_witness:
  "\<exists>w'. EnsureInfra ref_env (infra_of sample_cfg) sample_world = Some (Inr (), w') \<and> tidied False sample (ref_view w')"
proof -
  have "infra_ready sample (infra_of sample_cfg) \<and> credentials_ok (infra_of sample_cfg)"
    by (simp add: infra_ready_def credentials_ok_def InfraConfig.defs)
  then have "run ref_view sample (EnsureInfra ref_env (infra_of sample_cfg)) (\<lambda>_ s'. tidied False sample s') (\<lambda>e s'. False)"
    by (intro run_post [OF EnsureInfra_correct [OF ref.libvirt_host_axioms]])
       (auto simp: infra_ready_def infra_error_def check_error_def Let_def)
  from run_world [OF this] show ?thesis by auto
qed

text \<open>
  C24: \<^verbatim>\<open>GetMachineState\<close> reports the state of the machine's domain: \<^verbatim>\<open>NotFound\<close> exactly when there is none, \<^verbatim>\<open>Running\<close>
  exactly when it runs, \<^verbatim>\<open>Stopped\<close> when it is shut off, shutting down or crashed, and \<^verbatim>\<open>Unknown\<close> in every other state.
  It never reports a missing domain as an error, nor an unreachable host as a missing domain.
\<close>

theorem GetMachineState_correct:
  assumes "libvirt_host E view vol_path mk_iso flaky"
  shows "run view s (GetMachineState E cfg)
     (\<lambda>st s'. st = (case map_option d_state (domains s (cfg_DomainName cfg)) of
          None \<Rightarrow> ''NotFound''
        | Some x \<Rightarrow> if x = DOMAIN_RUNNING then ''Running''
            else if x \<in> {DOMAIN_SHUTOFF, DOMAIN_SHUTDOWN, DOMAIN_CRASHED} then ''Stopped'' else ''Unknown'')
        \<and> tidied flaky s s')
     (\<lambda>e s'. (flaky \<or> \<not> credentials_ok cfg) \<and> tidied flaky s s')"
  by (rule run_post [OF libvirt_host.GetMachineState_run [OF assms]])
     (auto simp: domain_state_of_def DomainState_defs split: option.split LvDomainState.split)

theorem GetMachineState_correct_witness:
  "\<exists>w'. GetMachineState ref_env sample_cfg sample_world = Some (Inr ''NotFound'', w')"
proof -
  have "run ref_view sample (GetMachineState ref_env sample_cfg) (\<lambda>st s'. st = ''NotFound'') (\<lambda>e s'. False)"
    by (rule run_post [OF GetMachineState_correct [OF ref.libvirt_host_axioms]]) (auto simp: credentials_ok_def)
  from run_world [OF this] show ?thesis by auto
qed

text \<open>A lease that gives the machine with the hardware address \<open>mac\<close> an address.\<close>

definition gives_address :: "string \<Rightarrow> NetworkDHCPLease \<Rightarrow> bool" where
  "gives_address mac lease \<longleftrightarrow>
     map to_lower_ascii (lease_Mac lease) = map to_lower_ascii mac \<and> lease_IPaddr lease \<noteq> []"

lemma leaseAddressForMac_first:
  "(\<exists>i < length ls. gives_address mac (ls ! i) \<and> (\<forall>j < i. \<not> gives_address mac (ls ! j))
      \<and> leaseAddressForMac ls mac = lease_IPaddr (ls ! i))
   \<or> (\<forall>l \<in> set ls. \<not> gives_address mac l) \<and> leaseAddressForMac ls mac = []"
proof (induction ls)
  case (Cons l ls)
  show ?case
  proof (cases "gives_address mac l")
    case True
    then show ?thesis by (intro disjI1 exI [of _ 0]) (simp add: gives_address_def strings_EqualFold_def)
  next
    case False
    then have eq: "leaseAddressForMac (l # ls) mac = leaseAddressForMac ls mac"
      by (auto simp: gives_address_def strings_EqualFold_def)
    from Cons.IH show ?thesis
    proof
      assume "\<exists>i < length ls. gives_address mac (ls ! i) \<and> (\<forall>j < i. \<not> gives_address mac (ls ! j))
          \<and> leaseAddressForMac ls mac = lease_IPaddr (ls ! i)"
      then obtain i where "i < length ls" "gives_address mac (ls ! i)" "\<forall>j < i. \<not> gives_address mac (ls ! j)"
        "leaseAddressForMac ls mac = lease_IPaddr (ls ! i)" by blast
      then show ?thesis
        using False eq by (intro disjI1 exI [of _ "Suc i"]) (auto simp: less_Suc_eq_0_disj simp del: leaseAddressForMac.simps)
    qed (use False eq in \<open>simp del: leaseAddressForMac.simps\<close>)
  qed
qed simp

text \<open>
  C25: \<^verbatim>\<open>GetMachineAddress\<close> gives the address of the first lease of the network with the machine's hardware address (in any
  case of letters) and an address, and the empty string when there is none; on a host where no call fails by itself
  it fails only when the network does not exist or the credentials do not fit the URI. It leaves nothing behind.
\<close>

theorem GetMachineAddress_correct:
  assumes "libvirt_host E view vol_path mk_iso flaky"
  shows "run view s (GetMachineAddress E cfg)
     (\<lambda>a s'. (\<exists>x. networks s (cfg_Network cfg) = Some x
        \<and> (let own = gives_address (deriveDomainMAC (cfg_DomainName cfg)); ls = net_leases x
           in (\<exists>i < length ls. own (ls ! i) \<and> (\<forall>j < i. \<not> own (ls ! j)) \<and> a = lease_IPaddr (ls ! i))
              \<or> (\<forall>l \<in> set ls. \<not> own l) \<and> a = [])) \<and> tidied flaky s s')
     (\<lambda>e s'. (flaky \<or> \<not> credentials_ok cfg \<or> networks s (cfg_Network cfg) = None) \<and> tidied flaky s s')"
  by (rule run_post [OF libvirt_host.GetMachineAddress_run [OF assms]])
     (use leaseAddressForMac_first in \<open>simp_all add: Let_def, blast\<close>)

theorem GetMachineAddress_correct_witness:
  "\<exists>w'. GetMachineAddress ref_env sample_cfg sample_world = Some (Inr [], w')"
proof -
  have none: "\<not> gives_address (deriveDomainMAC ''m2'') \<lparr>lease_Mac = ''52:54:00:00:00:01'', lease_IPaddr = ''192.168.122.4''\<rparr>"
    by code_simp
  have "run ref_view sample (GetMachineAddress ref_env sample_cfg) (\<lambda>a s'. a = []) (\<lambda>e s'. False)"
    by (rule run_post [OF GetMachineAddress_correct [OF ref.libvirt_host_axioms]])
       (auto simp: credentials_ok_def none Let_def)
  from run_world [OF this] show ?thesis by auto
qed

section \<open>Reservations\<close>

text \<open>
  C9: On a network that keeps the contract and whose host entries are consistent, \<^verbatim>\<open>reserveMachineIP\<close> returns, except
  when the DHCP range that the address is chosen from ends at 255.255.255.255: then it never does, unless reading the
  network fails. When it succeeds, the address that \<^verbatim>\<open>allocateMachineIPIn\<close> chooses is reserved under the hardware
  address, the entries of other hardware addresses, the subnets and the ranges are as before, and the entries are
  consistent again. A failure leaves the network as it was; when no call fails by itself its cause is that no address
  can be chosen, or that the first subnet of the network, the only one that the update is for, cannot take the entry.
\<close>

theorem reserveMachineIP_correct:
  assumes "dhcp_network lx n st flaky" "hosts_inv (hosts_of N)"
  shows "if endless_range N
     then \<forall>w. st N w \<longrightarrow> reserveMachineIP lx n netName d mac w = None
        \<or> flaky \<and> (\<exists>e w'. reserveMachineIP lx n netName d mac w = Some (Inl e, w') \<and> st N w')
     else valid (st N) (reserveMachineIP lx n netName d mac)
       (\<lambda>ip w. \<exists>N'. reservation_made N d mac ip N' \<and> st N' w)
       (\<lambda>e w. (flaky \<or> (\<exists>e'. allocateMachineIPIn N d mac = Some (Inl e')) \<or> \<not> first_subnet_free N d mac) \<and> st N w)"
  using dhcp_network.reserve_valid [OF assms] dhcp_network.reserve_endless [OF assms(1)] by simp

definition example_net_state :: net_state where
  "example_net_state = \<lparr>net_active = True, net_doc = example_network, net_leases = []\<rparr>"

lemma example_dhcp:
  "dhcp_network ref_xml (ref_network_ops (LvNetwork ''n''))
     (\<lambda>N w. ref_view w = put_network ''n'' N (sample\<lparr>networks := (networks sample)(''n'' \<mapsto> example_net_state)\<rparr>)) False"
  by (rule rdhcp.dhcp_network_axioms)

abbreviation example_net_view :: "Network \<Rightarrow> rworld \<Rightarrow> bool" where
  "example_net_view N w \<equiv> ref_view w = put_network ''n'' N (sample\<lparr>networks := (networks sample)(''n'' \<mapsto> example_net_state)\<rparr>)"

theorem reserveMachineIP_correct_witness:
  "valid (example_net_view example_network)
     (reserveMachineIP ref_xml (ref_network_ops (LvNetwork ''n'')) ''n'' ''m2'' (deriveDomainMAC ''m2''))
     (\<lambda>ip w. \<exists>N'. reservation_made example_network ''m2'' (deriveDomainMAC ''m2'') ip N' \<and> example_net_view N' w) (\<lambda>e w. False)"
  by (rule valid_post [OF reserveMachineIP_correct [OF example_dhcp example_hosts(2), unfolded if_not_P [OF sample_endless]]])
     (auto simp: example_subnets(3) example_hosts sample_allocation)

text \<open>
  C11: Reserving again is without effect: on a network whose host entries are consistent, a second \<^verbatim>\<open>reserveMachineIP\<close> for the same machine gives the same address
  and leaves the network as the first one made it.
\<close>

theorem reserveMachineIP_idempotent:
  assumes "dhcp_network lx n st flaky" "hosts_inv (hosts_of N)" "reservation_made N d mac ip N'"
  shows "valid (st N') (reserveMachineIP lx n netName d mac)
     (\<lambda>ip' w. ip' = ip \<and> st N' w) (\<lambda>e w. flaky \<and> st N' w)"
  using dhcp_network.reserve_again_valid [OF assms] by simp

definition reserved_network :: Network where
  "reserved_network =
     \<lparr>net_IPs = [\<lparr>ip_Address = ''192.168.122.1'', ip_Family = ''inet'', ip_Netmask = ''255.255.255.0'',
        ip_DHCP = Some \<lparr>dhcp_Ranges = [\<lparr>range_Start = ''192.168.122.2'', range_End = ''192.168.122.5''\<rparr>],
          dhcp_Hosts = [\<lparr>host_MAC = ''52:54:00:00:00:01'', host_Name = ''m1'', host_IP = ''192.168.122.4''\<rparr>,
            \<lparr>host_MAC = deriveDomainMAC ''m2'', host_Name = ''m2'', host_IP = ''192.168.122.5''\<rparr>]\<rparr>\<rparr>]\<rparr>"

lemma reserved_network_made:
  "reservation_made example_network ''m2'' (deriveDomainMAC ''m2'') ''192.168.122.5'' reserved_network"
proof -
  let ?mac = "deriveDomainMAC ''m2''"
  have mac: "\<not> strings_EqualFold ''52:54:00:00:00:01'' ?mac" "strings_EqualFold ?mac ?mac"
    "map to_lower_ascii ''52:54:00:00:00:01'' \<noteq> map to_lower_ascii ?mac" by code_simp+
  then show ?thesis
    by (simp add: reservation_made_def reserved_def other_hosts_def entry_ours_def example_subnets(1,2) sample_allocation
          example_hosts(1))
       (simp add: reserved_network_def example_network_def hosts_of_def ip_hosts_def subnet_frame_def ip_ranges_def
          hosts_inv_def mac_key_def first_hosts_def later_hosts_def)
qed

theorem reserveMachineIP_idempotent_witness:
  "valid (example_net_view reserved_network)
     (reserveMachineIP ref_xml (ref_network_ops (LvNetwork ''n'')) ''n'' ''m2'' (deriveDomainMAC ''m2''))
     (\<lambda>ip w. ip = ''192.168.122.5'' \<and> example_net_view reserved_network w) (\<lambda>e w. False)"
  using reserveMachineIP_idempotent [OF example_dhcp example_hosts(2) reserved_network_made] by simp

text \<open>
  C12: On a network whose host entries are consistent, \<^verbatim>\<open>releaseMachineIP\<close> removes the entry of the hardware address
  and keeps all others in order; when there is none it succeeds without effect. It can fail, on a network where no call fails by itself, only when the
  entry has another name than the machine, or is not in the first subnet, the only one that the update is for.
\<close>

theorem releaseMachineIP_correct:
  assumes "dhcp_network lx n st flaky" "hosts_inv (hosts_of N)"
  shows "valid (st N) (releaseMachineIP lx n netName d mac)
     (\<lambda>_ w. \<exists>N'. reservation_released N mac N' \<and> st N' w)
     (\<lambda>e w. (flaky \<or> \<not> entry_ours N d mac) \<and> st N w)"
  by (rule dhcp_network.release_valid [OF assms])

theorem releaseMachineIP_correct_witness:
  "valid (example_net_view reserved_network)
     (releaseMachineIP ref_xml (ref_network_ops (LvNetwork ''n'')) ''n'' ''m2'' (deriveDomainMAC ''m2''))
     (\<lambda>_ w. \<exists>N'. reservation_released reserved_network (deriveDomainMAC ''m2'') N' \<and> example_net_view N' w) (\<lambda>e w. False)"
proof -
  have "hosts_inv (hosts_of reserved_network)" "entry_ours example_network ''m2'' (deriveDomainMAC ''m2'')
      \<longrightarrow> entry_ours reserved_network ''m2'' (deriveDomainMAC ''m2'')"
    using reserved_network_made by (simp_all add: reservation_made_def)
  moreover have "entry_ours example_network ''m2'' (deriveDomainMAC ''m2'')"
    using sample_no_obstacle(2) by (simp add: machine_entry_ours_def)
  ultimately show ?thesis
    by (intro valid_post [OF releaseMachineIP_correct [OF example_dhcp]]) auto
qed

section \<open>Volumes and files\<close>

text \<open>
  C31: \<^verbatim>\<open>storageVolUpload\<close> delivers the buffer: after a success the volume holds its bytes, all of them and in order
  from the start of the volume, whatever sizes the library asks the callback for; what the volume holds beyond them
  is as before. Bytes that are sent count only once the stream is finished: what a stream that is given up leaves in
  the volume is unknown. The stream and its handle are released in every case, and nothing but the content of the
  volume differs.
\<close>

theorem storageVolUpload_exact:
  assumes "libvirt_host E view vol_path mk_iso flaky" "volumes s (p, v) = Some x"
  shows "run view s (storageVolUpload (env_lv E) c buf (StorageVol p v))
     (\<lambda>_ s'. s' = s\<lparr>volumes := (volumes s)((p, v) \<mapsto> x\<lparr>vol_content := buf @ drop (length buf) (vol_content x)\<rparr>)\<rparr>)
     (\<lambda>e s'. flaky \<and> (\<exists>b. s' = s\<lparr>volumes := (volumes s)((p, v) \<mapsto> x\<lparr>vol_content := b\<rparr>)\<rparr>))"
  by (rule run_post [OF libvirt_host.storageVolUpload_run [OF assms(1)]])
     (use assms(2) in \<open>auto simp: write_volume_def overwritten_def put_volume_def\<close>)

theorem storageVolUpload_exact_witness:
  "run ref_view sample (storageVolUpload (env_lv ref_env) (Connect 0) [1, 2, 3] (StorageVol ''base'' ''image.qcow2''))
     (\<lambda>_ s'. map_option vol_content (volumes s' (''base'', ''image.qcow2'')) = Some [1, 2, 3]) (\<lambda>e s'. False)"
proof -
  have v: "volumes sample (''base'', ''image.qcow2'') = Some \<lparr>vol_doc = NewVolume ''image.qcow2'', vol_content = []\<rparr>"
    by (simp add: ref_view_selects sample_world_def)
  show ?thesis
    by (rule run_post [OF storageVolUpload_exact [OF ref.libvirt_host_axioms v]]) auto
qed

text \<open>
  C29: \<^verbatim>\<open>connectionURI\<close> succeeds exactly when the transport of the URI is one the credentials have keys for (when no
  call fails by itself). It then returns the given URI with the libvirt parameters that point to the files,
  and has written exactly the keys into the directory; a failure touches nothing outside that directory.
\<close>

theorem connectionURI_correct:
  assumes "local_files os dfs st mk_iso flaky" "clean_dir d" "d \<in> dirs f"
  shows "valid (st f) (connectionURI os c uri d)
     (\<lambda>uri' w. \<exists>fs. connection_prepared c uri d uri' fs \<and> st (with_files d fs f) w)
     (\<lambda>e w. (flaky \<or> \<not> credentials_fit c uri) \<and> (\<exists>f'. only_below d f f' \<and> st f' w))"
  by (rule local_files.connectionURI_valid [OF assms])

theorem connectionURI_correct_witness:
  "valid (\<lambda>w. ref_view w = sample\<lparr>disk := (disk sample)\<lparr>dirs := {''/tmp/c''}\<rparr>\<rparr>)
     (connectionURI ref_os \<lparr>cred_TLS = Some \<lparr>tls_CACert = [1], tls_ClientCert = [2], tls_ClientKey = [3]\<rparr>, cred_SSH = None\<rparr>
        ''qemu+tls://host/system'' ''/tmp/c'')
     (\<lambda>uri' w. files (disk (ref_view w)) ''/tmp/c/cacert.pem'' = Some [1] \<and> files (disk (ref_view w)) ''/tmp/c/clientkey.pem'' = Some [3])
     (\<lambda>e w. False)"
proof -
  let ?c = "\<lparr>cred_TLS = Some \<lparr>tls_CACert = [1], tls_ClientCert = [2], tls_ClientKey = [3]\<rparr>, cred_SSH = None\<rparr>"
  have "case url_Parse ''qemu+tls://host/system'' of Inr u \<Rightarrow> transport (url_Scheme u) = ''tls'' | Inl _ \<Rightarrow> False"
    by code_simp
  then have parse: "url_Parse ''qemu+tls://host/system'' = Inr u \<Longrightarrow> transport (url_Scheme u) = ''tls''"
    "\<exists>u. url_Parse ''qemu+tls://host/system'' = Inr u" for u
    by (auto split: sum.splits)
  then have fit: "credentials_fit ?c ''qemu+tls://host/system''" by (auto simp: credentials_fit_def)
  have dir: "clean_dir ''/tmp/c''" by (simp add: clean_dir_def filepath_Clean_def has_prefix_def clean_step_def Let_def)
  show ?thesis
    by (rule valid_post [OF connectionURI_correct [OF rfiles.local_files_axioms [of sample] dir]])
       (use fit parse(1) in \<open>auto simp: connection_prepared_def with_files_def\<close>)
qed

text \<open>
  C30: For a machine whose name has no slash, \<^verbatim>\<open>writeCloudInitISO\<close> returns the image with the volume label \<^verbatim>\<open>cidata\<close> whose files are the user data of the
  machine and its meta-data, and leaves no temporary file behind.
\<close>

theorem writeCloudInitISO_correct:
  assumes "libvirt_host E view vol_path mk_iso flaky" "CHR ''/'' \<notin> set (cfg_DomainName cfg)"
  shows "run view s (writeCloudInitISO E cfg)
     (\<lambda>b s'. cloud_init_image mk_iso (yaml_Marshal E) cfg b \<and> tidied flaky s s') (\<lambda>e s'. flaky \<and> tidied flaky s s')"
  by (rule libvirt_host.writeCloudInitISO_run [OF assms])

theorem writeCloudInitISO_correct_witness:
  "\<exists>b w'. writeCloudInitISO ref_env sample_cfg sample_world = Some (Inr b, w')
     \<and> cloud_init_image ref_iso (yaml_Marshal ref_env) sample_cfg b \<and> tidied False sample (ref_view w')"
  using run_world [of sample_world "writeCloudInitISO ref_env sample_cfg"
      "\<lambda>b s'. cloud_init_image ref_iso (yaml_Marshal ref_env) sample_cfg b \<and> tidied False sample s'"]
    writeCloudInitISO_correct [OF ref.libvirt_host_axioms, of sample_cfg sample] by simp

section \<open>Networks without the family inet\<close>

text \<open>
  C34: The family of a subnet has to read \<^verbatim>\<open>inet\<close>: on a network none of whose subnets has that family (libvirt itself
  writes \<^verbatim>\<open>ipv4\<close>, or no family at all) no machine can be created (for names without a slash, on a host whose networks
  have consistent host entries, from which in every case only what belongs to the machine may differ afterwards).
\<close>

theorem family_inet_required:
  assumes "libvirt_host E view vol_path mk_iso flaky" "networks_inv s" "CHR ''/'' \<notin> set (cfg_DomainName cfg)"
    and "networks s (cfg_Network cfg) = Some x" "\<forall>ip \<in> set (net_IPs (net_doc x)). ip_Family ip \<noteq> ''inet''"
  shows "run view s (CreateMachine E cfg) (\<lambda>_ s'. False) (\<lambda>e s'. machine_frame flaky cfg s s')"
proof -
  have "find (\<lambda>ip. ip_Family ip = ''inet'') (net_IPs (net_doc x)) = None"
    using assms(5) by (simp add: find_None_iff)
  then have alloc: "allocateMachineIPIn (net_doc x) d mac = Some (Inl (Errorf ''network has no IPv4 subnet'' []))" for d mac
    by (simp add: allocateMachineIPIn_def allocationCandidates_def)
  then have "allocation_returns s cfg"
    using assms(4) by (simp add: allocation_returns_def allocate_None [symmetric, where d = "[]" and mac = "[]"])
  from libvirt_host.CreateMachine_run [OF assms(1,2) this assms(3)] show ?thesis
    by (rule run_post) (use assms(4) alloc in \<open>auto simp: machine_created_def reservation_made_def\<close>)
qed

definition ipv4_network :: Network where
  "ipv4_network = \<lparr>net_IPs = [\<lparr>ip_Address = ''192.168.122.1'', ip_Family = ''ipv4'', ip_Netmask = ''255.255.255.0'', ip_DHCP = None\<rparr>]\<rparr>"

theorem family_inet_required_witness:
  "run ref_view (put_network ''default'' ipv4_network sample) (CreateMachine ref_env sample_cfg)
     (\<lambda>_ s'. False) (\<lambda>e s'. machine_frame False sample_cfg (put_network ''default'' ipv4_network sample) s')"
proof -
  let ?s = "put_network ''default'' ipv4_network sample"
  have net: "networks ?s ''default'' = Some \<lparr>net_active = True, net_doc = ipv4_network,
     net_leases = [\<lparr>lease_Mac = ''52:54:00:00:00:01'', lease_IPaddr = ''192.168.122.4''\<rparr>]\<rparr>"
    by (simp add: put_network_def)
  have "hosts_inv (hosts_of ipv4_network)" by (simp add: ipv4_network_def hosts_of_def ip_hosts_def hosts_inv_def)
  then have "networks_inv ?s" using sample_inv by (auto simp: networks_inv_def put_network_def)
  moreover have "\<forall>ip \<in> set (net_IPs ipv4_network). ip_Family ip \<noteq> ''inet''" by (simp add: ipv4_network_def)
  ultimately show ?thesis
    by (intro family_inet_required [OF ref.libvirt_host_axioms, of ?s sample_cfg, unfolded sample_cfg_fields, OF _ _ net]) simp_all
qed

end
