(* ===== verification/Api.thy ===== *)
theory Api
  imports Prelude
begin

text \<open>
  The API types of \<^verbatim>\<open>api/v1alpha1\<close> and the types of Kubernetes and Cluster API that the controllers read. A
  \<^verbatim>\<open>metav1.Condition\<close> has the fields the source sets; a message is kept as its format and arguments. An
  \<^verbatim>\<open>int32\<close> is a 32-bit word read as signed. A deletion timestamp is \<^term>\<open>None\<close> when the pointer is nil.
\<close>

section \<open>Kubernetes and Cluster API types\<close>

datatype ConditionStatus = ConditionTrue | ConditionFalse | ConditionUnknown

datatype Message =
    Text string
  | ErrorText goerror
  | Sprintf string "string list"
  | SprintfErr string goerror

record Condition =
  cond_Type :: string
  cond_Status :: ConditionStatus
  cond_Reason :: string
  cond_Message :: Message

record NamespacedName =
  nn_Namespace :: string
  nn_Name :: string

record OwnerReference =
  owner_Kind :: string
  owner_Name :: string

record ObjectMeta =
  meta_Name :: string
  meta_Namespace :: string
  meta_UID :: string
  meta_DeletionTimestamp :: "nat option"
  meta_Finalizers :: "string list"
  meta_Labels :: "string \<rightharpoonup> string"
  meta_Annotations :: "string \<rightharpoonup> string"
  meta_OwnerReferences :: "OwnerReference list"

definition Time_IsZero :: "nat option \<Rightarrow> bool" where
  "Time_IsZero t = (case t of None \<Rightarrow> True | Some x \<Rightarrow> x = 0)"

definition ObjectKeyFromObject :: "ObjectMeta \<Rightarrow> NamespacedName" where
  "ObjectKeyFromObject m = \<lparr>nn_Namespace = meta_Namespace m, nn_Name = meta_Name m\<rparr>"

definition NamespacedName_String :: "NamespacedName \<Rightarrow> string" where
  "NamespacedName_String n = nn_Namespace n @ ''/'' @ nn_Name n"

record Secret =
  secret_Meta :: ObjectMeta
  secret_Data :: "string \<rightharpoonup> bytes"

record APIEndpoint =
  ep_Host :: string
  ep_Port :: "32 word"

record Cluster =
  cluster_Meta :: ObjectMeta
  cluster_Paused :: "bool option"
  cluster_ControlPlaneEndpoint :: APIEndpoint
  cluster_InfrastructureRefName :: string
  cluster_InfrastructureProvisioned :: "bool option"

record Machine =
  machine_Meta :: ObjectMeta
  machine_DataSecretName :: "string option"

datatype MachineAddressType = MachineInternalIP | OtherAddressType string

record MachineAddress =
  addr_Type :: MachineAddressType
  addr_Address :: string

section \<open>LibvirtCluster\<close>

record CredentialsReference =
  cref_Name :: string

definition CredentialsCACertKey :: string where "CredentialsCACertKey = ''ca.crt''"
definition CredentialsKnownHostsKey :: string where "CredentialsKnownHostsKey = ''known_hosts''"

record LibvirtClusterSpec =
  lcs_URI :: string
  lcs_ControlPlaneEndpoint :: APIEndpoint
  lcs_BasePool :: string
  lcs_DomainPool :: string
  lcs_Network :: string
  lcs_CredentialsRef :: "CredentialsReference option"

record LibvirtClusterInitializationStatus =
  lci_Provisioned :: bool

record LibvirtClusterStatus =
  lct_Ready :: bool
  lct_Initialization :: LibvirtClusterInitializationStatus
  lct_Conditions :: "Condition list"

record LibvirtCluster =
  lc_Meta :: ObjectMeta
  lc_Spec :: LibvirtClusterSpec
  lc_Status :: LibvirtClusterStatus

definition LibvirtCluster_GetConditions :: "LibvirtCluster \<Rightarrow> Condition list" where
  "LibvirtCluster_GetConditions l = lct_Conditions (lc_Status l)"

definition LibvirtCluster_SetConditions :: "Condition list \<Rightarrow> LibvirtCluster \<Rightarrow> LibvirtCluster" where
  "LibvirtCluster_SetConditions cs l = l\<lparr>lc_Status := (lc_Status l)\<lparr>lct_Conditions := cs\<rparr>\<rparr>"

section \<open>LibvirtMachine\<close>

record LibvirtMachineSpec =
  lms_ProviderID :: "string option"
  lms_VCPU :: "32 word"
  lms_MemoryMiB :: "32 word"
  lms_DiskGiB :: "32 word"
  lms_Image :: string

record LibvirtMachineInitializationStatus =
  lmi_Provisioned :: bool

record LibvirtMachineStatus =
  lmt_Ready :: bool
  lmt_Addresses :: "MachineAddress list"
  lmt_Conditions :: "Condition list"
  lmt_Initialization :: LibvirtMachineInitializationStatus

record LibvirtMachine =
  lm_Meta :: ObjectMeta
  lm_Spec :: LibvirtMachineSpec
  lm_Status :: LibvirtMachineStatus

definition LibvirtMachine_GetConditions :: "LibvirtMachine \<Rightarrow> Condition list" where
  "LibvirtMachine_GetConditions l = lmt_Conditions (lm_Status l)"

definition LibvirtMachine_SetConditions :: "Condition list \<Rightarrow> LibvirtMachine \<Rightarrow> LibvirtMachine" where
  "LibvirtMachine_SetConditions cs l = l\<lparr>lm_Status := (lm_Status l)\<lparr>lmt_Conditions := cs\<rparr>\<rparr>"

section \<open>Names\<close>

definition LibvirtClusterFinalizer :: string where
  "LibvirtClusterFinalizer = ''libvirtcluster.infrastructure.cluster.x-k8s.io/finalizer''"
definition LibvirtMachineFinalizer :: string where
  "LibvirtMachineFinalizer = ''libvirtmachine.infrastructure.cluster.x-k8s.io/finalizer''"

definition InfrastructureReadyCondition :: string where
  "InfrastructureReadyCondition = ''InfrastructureReady''"
definition InfrastructureProvisioningInProgressReason :: string where
  "InfrastructureProvisioningInProgressReason = ''InfrastructureProvisioningInProgress''"
definition InfrastructureProvisioningFailedReason :: string where
  "InfrastructureProvisioningFailedReason = ''InfrastructureProvisioningFailed''"
definition InfrastructureReadyReason :: string where
  "InfrastructureReadyReason = ''InfrastructureReady''"
definition InfrastructureMissingReason :: string where
  "InfrastructureMissingReason = ''InfrastructureMissing''"
definition InfrastructureInactiveReason :: string where
  "InfrastructureInactiveReason = ''InfrastructureInactive''"
definition CredentialsUnavailableReason :: string where
  "CredentialsUnavailableReason = ''CredentialsUnavailable''"

definition ControlPlaneEndpointReadyCondition :: string where
  "ControlPlaneEndpointReadyCondition = ''ControlPlaneEndpointReady''"
definition ControlPlaneEndpointReadyReason :: string where
  "ControlPlaneEndpointReadyReason = ''ControlPlaneEndpointReady''"
definition ControlPlaneEndpointMissingReason :: string where
  "ControlPlaneEndpointMissingReason = ''ControlPlaneEndpointMissing''"

definition MachineCreatedCondition :: string where "MachineCreatedCondition = ''MachineCreated''"
definition MachineNotFoundReason :: string where "MachineNotFoundReason = ''MachineNotFound''"
definition DomainProvisioningReadyCondition :: string where
  "DomainProvisioningReadyCondition = ''DomainProvisioningReady''"
definition DomainProvisioningInProgressReason :: string where
  "DomainProvisioningInProgressReason = ''DomainProvisioningInProgress''"
definition DomainProvisioningFailedReason :: string where
  "DomainProvisioningFailedReason = ''DomainProvisioningFailed''"
definition DomainProvisioningReadyReason :: string where
  "DomainProvisioningReadyReason = ''DomainProvisioningReady''"
definition DomainRunningCondition :: string where "DomainRunningCondition = ''DomainRunning''"
definition DomainRunningReason :: string where "DomainRunningReason = ''DomainRunning''"
definition DomainNotRunningReason :: string where "DomainNotRunningReason = ''DomainNotRunning''"
definition DomainNotFoundReason :: string where "DomainNotFoundReason = ''DomainNotFound''"

lemmas condition_names =
  InfrastructureReadyCondition_def ControlPlaneEndpointReadyCondition_def MachineCreatedCondition_def
  DomainProvisioningReadyCondition_def DomainRunningCondition_def

end
