(* ===== verification/Kube.thy ===== *)
theory Kube
  imports Api
begin

text \<open>
  What the controllers call outside the repository, as a record of functions: the API server through the
  client of controller-runtime, the owner lookups, the patch helper, the conditions and the paused
  annotation of Cluster API, finalizers. The documented behaviour of the pure ones is the locale
  \<open>kube_laws\<close>; it is interpreted on the functions below it.

  A reconciler mutates an object through a pointer while it talks to the outside; here the object is part
  of the state: a step has the type \<open>('o \<times> 'w, 'a) act\<close>.
\<close>

section \<open>Steps on an object\<close>

definition readE :: "('o \<Rightarrow> ('o \<times> 'w, 'a) act) \<Rightarrow> ('o \<times> 'w, 'a) act" where
  "readE k s = k (fst s) s"

definition modifyE :: "('o \<Rightarrow> 'o) \<Rightarrow> ('o \<times> 'w, 'a) act \<Rightarrow> ('o \<times> 'w, 'a) act" where
  "modifyE f m s = m (f (fst s), snd s)"

definition liftE :: "('w, 'a) act \<Rightarrow> ('o \<times> 'w, 'a) act" where
  "liftE m s = map_option (\<lambda>(r, w). (r, (fst s, w))) (m (snd s))"

text \<open>
  The deferred call of \<^verbatim>\<open>helper.Patch\<close>: the object as the body leaves it is patched in every case; a patch error
  is returned when the body has none.
\<close>

definition deferPatch :: "('o \<Rightarrow> ('w, unit) act) \<Rightarrow> 'o \<Rightarrow> ('o \<times> 'w, 'a) act \<Rightarrow> ('w, 'a) act" where
  "deferPatch patch x body w =
     (case body (x, w) of
        None \<Rightarrow> None
      | Some (r, (x', w')) \<Rightarrow>
          (case patch x' w' of
             None \<Rightarrow> None
           | Some (Inl patchErr, w'') \<Rightarrow> Some (case r of Inl e \<Rightarrow> Inl e | Inr _ \<Rightarrow> Inl patchErr, w'')
           | Some (Inr _, w'') \<Rightarrow> Some (r, w'')))"

lemma step_simps [simp]:
  "readE k (x, w) = k x (x, w)"
  "modifyE f m (x, w) = m (f x, w)"
  "liftE a (x, w) = map_option (\<lambda>(r, w). (r, (x, w))) (a w)"
  by (simp_all add: readE_def modifyE_def liftE_def)

lemma deferPatch_cong:
  "(\<And>r x' w'. body (x, w) = Some (r, (x', w')) \<Longrightarrow> f x' = g x') \<Longrightarrow> deferPatch f x body w = deferPatch g x body w"
  by (auto simp: deferPatch_def split: option.split)

text \<open>
  A relation between the object before and after: reflexive and transitive, so that a step keeps it when
  every change it makes to the object does.
\<close>

definition keeps :: "('o \<Rightarrow> 'o \<Rightarrow> bool) \<Rightarrow> ('o \<times> 'w, 'a) act \<Rightarrow> bool" where
  "keeps R m \<longleftrightarrow> (\<forall>x w r x' w'. m (x, w) = Some (r, (x', w')) \<longrightarrow> R x x')"

locale object_relation =
  fixes R :: "'o \<Rightarrow> 'o \<Rightarrow> bool"
  assumes refl: "R x x" and trans: "R x y \<Longrightarrow> R y z \<Longrightarrow> R x z"
begin

lemma keeps_ret: "keeps R (ret x)"
  by (simp add: keeps_def refl)

lemma keeps_throw: "keeps R (throw e)"
  by (simp add: keeps_def refl)

lemma keeps_liftE: "keeps R (liftE m)"
  by (auto simp: keeps_def refl)

lemma keeps_readE: "(\<And>x. keeps R (k x)) \<Longrightarrow> keeps R (readE k)"
  by (simp add: keeps_def)

lemma keeps_modifyE: "(\<And>x. R x (f x)) \<Longrightarrow> keeps R m \<Longrightarrow> keeps R (modifyE f m)"
  by (simp add: keeps_def) (blast intro: trans)

lemma keeps_catchE:
  assumes "keeps R m" "\<And>e. keeps R (h e)" "\<And>x. keeps R (k x)"
  shows "keeps R (catchE m h k)"
  unfolding keeps_def
proof (intro allI impI)
  fix x w r x' w'
  assume "catchE m h k (x, w) = Some (r, (x', w'))"
  then obtain r0 x0 w0 where m: "m (x, w) = Some (r0, (x0, w0))"
    and "(case r0 of Inl e \<Rightarrow> h e (x0, w0) | Inr y \<Rightarrow> k y (x0, w0)) = Some (r, (x', w'))"
    by (auto simp: catchE_def split: option.splits sum.splits)
  then have "R x0 x'" using assms(2,3) unfolding keeps_def by (cases r0) (simp_all, blast+)
  moreover have "R x x0" using assms(1) m unfolding keeps_def by blast
  ultimately show "R x x'" by (rule trans [rotated])
qed

lemma keeps_tryE: "keeps R m \<Longrightarrow> (\<And>x. keeps R (k x)) \<Longrightarrow> keeps R (tryE m f k)"
  unfolding tryE_def by (intro keeps_catchE keeps_throw)

lemma keeps_if: "keeps R m \<Longrightarrow> keeps R n \<Longrightarrow> keeps R (if b then m else n)"
  by simp

lemma keeps_option: "keeps R m \<Longrightarrow> (\<And>y. keeps R (k y)) \<Longrightarrow> keeps R (case x of None \<Rightarrow> m | Some y \<Rightarrow> k y)"
  by (simp split: option.split)

lemmas keeps_intros = keeps_if keeps_option keeps_ret keeps_throw keeps_liftE keeps_readE keeps_modifyE keeps_catchE keeps_tryE

end

section \<open>The outside\<close>

datatype PatchHelper = PatchHelper nat

datatype ListOption = InNamespace string | MatchingFields string string

record 'w kube =
  get_LibvirtCluster :: "NamespacedName \<Rightarrow> ('w, LibvirtCluster) act"
  get_LibvirtMachine :: "NamespacedName \<Rightarrow> ('w, LibvirtMachine) act"
  get_Secret :: "NamespacedName \<Rightarrow> ('w, Secret) act"
  list_LibvirtClusters :: "ListOption list \<Rightarrow> ('w, LibvirtCluster list) act"
  GetOwnerCluster :: "ObjectMeta \<Rightarrow> ('w, Cluster option) act"
  GetOwnerMachine :: "ObjectMeta \<Rightarrow> ('w, Machine option) act"
  GetClusterFromMetadata :: "ObjectMeta \<Rightarrow> ('w, Cluster option) act"
  newHelper_LibvirtCluster :: "LibvirtCluster \<Rightarrow> ('w, PatchHelper) act"
  newHelper_LibvirtMachine :: "LibvirtMachine \<Rightarrow> ('w, PatchHelper) act"
  patch_LibvirtCluster :: "PatchHelper \<Rightarrow> LibvirtCluster \<Rightarrow> ('w, unit) act"
  patch_LibvirtMachine :: "PatchHelper \<Rightarrow> LibvirtMachine \<Rightarrow> ('w, unit) act"
  IsPaused :: "Cluster \<Rightarrow> ObjectMeta \<Rightarrow> bool"
  conditions_Set :: "Condition \<Rightarrow> Condition list \<Rightarrow> Condition list"
  ContainsFinalizer :: "ObjectMeta \<Rightarrow> string \<Rightarrow> bool"
  AddFinalizer :: "ObjectMeta \<Rightarrow> string \<Rightarrow> ObjectMeta \<times> bool"
  RemoveFinalizer :: "ObjectMeta \<Rightarrow> string \<Rightarrow> ObjectMeta \<times> bool"
  APIEndpoint_IsValid :: "APIEndpoint \<Rightarrow> bool"

text \<open>\<^verbatim>\<open>apierrors.IsNotFound\<close>, which looks through wrapped errors.\<close>

fun as_NotFound :: "goerror \<Rightarrow> unit option" where
  "as_NotFound NotFoundStatus = Some ()"
| "as_NotFound _ = None"

definition apierrors_IsNotFound :: "goerror \<Rightarrow> bool" where
  "apierrors_IsNotFound err \<longleftrightarrow> errors_As as_NotFound err \<noteq> None"

text \<open>The condition of a type.\<close>

definition cond_get :: "string \<Rightarrow> Condition list \<Rightarrow> Condition option" where
  "cond_get t cs = find (\<lambda>c. cond_Type c = t) cs"

section \<open>The contract\<close>

locale kube_laws =
  fixes K :: "'w kube"
  assumes contains: "ContainsFinalizer K m f \<longleftrightarrow> f \<in> set (meta_Finalizers m)"
    and add: "fst (AddFinalizer K m f) =
      (if f \<in> set (meta_Finalizers m) then m else m\<lparr>meta_Finalizers := meta_Finalizers m @ [f]\<rparr>)"
    and remove: "RemoveFinalizer K m f =
      (m\<lparr>meta_Finalizers := removeAll f (meta_Finalizers m)\<rparr>, f \<in> set (meta_Finalizers m))"
    and set_condition: "cond_get t (conditions_Set K c cs) = (if t = cond_Type c then Some c else cond_get t cs)"
    and paused: "IsPaused K cluster (m\<lparr>meta_Finalizers := fs\<rparr>) = IsPaused K cluster m"
    and valid_endpoint: "APIEndpoint_IsValid K ep \<longleftrightarrow> ep_Host ep \<noteq> [] \<and> ep_Port ep \<noteq> 0"

text \<open>The functions as they are documented, with the conditions in a list without repeated types.\<close>

definition ref_conditions_Set :: "Condition \<Rightarrow> Condition list \<Rightarrow> Condition list" where
  "ref_conditions_Set c cs = c # filter (\<lambda>d. cond_Type d \<noteq> cond_Type c) cs"

definition ref_AddFinalizer :: "ObjectMeta \<Rightarrow> string \<Rightarrow> ObjectMeta \<times> bool" where
  "ref_AddFinalizer m f =
     (if f \<in> set (meta_Finalizers m) then (m, False)
      else (m\<lparr>meta_Finalizers := meta_Finalizers m @ [f]\<rparr>, True))"

definition ref_RemoveFinalizer :: "ObjectMeta \<Rightarrow> string \<Rightarrow> ObjectMeta \<times> bool" where
  "ref_RemoveFinalizer m f =
     (m\<lparr>meta_Finalizers := removeAll f (meta_Finalizers m)\<rparr>, f \<in> set (meta_Finalizers m))"

definition ref_IsPaused :: "Cluster \<Rightarrow> ObjectMeta \<Rightarrow> bool" where
  "ref_IsPaused c m \<longleftrightarrow> cluster_Paused c = Some True \<or> meta_Annotations m ''cluster.x-k8s.io/paused'' \<noteq> None"

definition with_ref_utils :: "'w kube \<Rightarrow> 'w kube" where
  "with_ref_utils K =
     K\<lparr>IsPaused := ref_IsPaused, conditions_Set := ref_conditions_Set,
       ContainsFinalizer := (\<lambda>m f. f \<in> set (meta_Finalizers m)),
       AddFinalizer := ref_AddFinalizer, RemoveFinalizer := ref_RemoveFinalizer,
       APIEndpoint_IsValid := (\<lambda>ep. ep_Host ep \<noteq> [] \<and> ep_Port ep \<noteq> 0)\<rparr>"

lemma find_filter_other: "t \<noteq> u \<Longrightarrow> find (\<lambda>c. cond_Type c = t) (filter (\<lambda>d. cond_Type d \<noteq> u) cs) = find (\<lambda>c. cond_Type c = t) cs"
  by (induction cs) auto

interpretation refk: kube_laws "with_ref_utils K" for K
  by unfold_locales
     (auto simp: with_ref_utils_def ref_AddFinalizer_def ref_RemoveFinalizer_def ref_conditions_Set_def
        ref_IsPaused_def cond_get_def find_filter_other)

end
