(* ===== verification/Loader.thy ===== *)
theory Loader
  imports Kube Config
begin

text \<open>
  \<^verbatim>\<open>internal/controller/credentials.go\<close>: the libvirt credentials of a LibvirtCluster, from the Secret it names or
  from the controller-wide one, and the clusters to reconcile when a Secret changes; and
  \<^verbatim>\<open>newCredentialsLoader\<close> of \<^verbatim>\<open>cmd/main.go\<close>.
\<close>

section \<open>Definitions\<close>

definition credentialsRefNameField :: string where
  "credentialsRefNameField = ''.spec.credentialsRef.name''"

record CredentialsLoader =
  loader_DefaultSecret :: NamespacedName

definition TLSCertKey :: string where "TLSCertKey = ''tls.crt''"
definition TLSPrivateKeyKey :: string where "TLSPrivateKeyKey = ''tls.key''"
definition SSHAuthPrivateKey :: string where "SSHAuthPrivateKey = ''ssh-privatekey''"

definition tlsSecretKeys :: "string list" where
  "tlsSecretKeys = [CredentialsCACertKey, TLSCertKey, TLSPrivateKeyKey]"

definition sshSecretKeys :: "string list" where
  "sshSecretKeys = [SSHAuthPrivateKey, CredentialsKnownHostsKey]"

text \<open>The value of a key in a map of byte slices, nil when there is none.\<close>

definition data_at :: "(string \<rightharpoonup> bytes) \<Rightarrow> string \<Rightarrow> bytes" where
  "data_at data key = (case data key of None \<Rightarrow> [] | Some b \<Rightarrow> b)"

fun hasAnyKey :: "(string \<rightharpoonup> bytes) \<Rightarrow> string list \<Rightarrow> bool" where
  "hasAnyKey data [] = False"
| "hasAnyKey data (key # keys) = (if 0 < length (data_at data key) then True else hasAnyKey data keys)"

definition requireKeys :: "(string \<rightharpoonup> bytes) \<Rightarrow> string list \<Rightarrow> goerror option" where
  "requireKeys data keys =
     (let missing = filter (\<lambda>key. length (data_at data key) = 0) keys
      in if 0 < length missing then Some (Errorf ''missing keys: %s'' [strings_Join missing '', '']) else None)"

definition credentialsFromSecret :: "(string \<rightharpoonup> bytes) \<Rightarrow> goerror + Credentials option" where
  "credentialsFromSecret data =
     (let tls = (if hasAnyKey data tlsSecretKeys
                 then (case requireKeys data tlsSecretKeys of
                         Some err \<Rightarrow> Inl err
                       | None \<Rightarrow> Inr (Some \<lparr>tls_CACert = data_at data CredentialsCACertKey,
                                            tls_ClientCert = data_at data TLSCertKey,
                                            tls_ClientKey = data_at data TLSPrivateKeyKey\<rparr>))
                 else Inr None)
      in case tls of
           Inl err \<Rightarrow> Inl err
         | Inr TLS \<Rightarrow>
             (let ssh = (if hasAnyKey data sshSecretKeys
                         then (case requireKeys data sshSecretKeys of
                                 Some err \<Rightarrow> Inl err
                               | None \<Rightarrow> Inr (Some \<lparr>ssh_PrivateKey = data_at data SSHAuthPrivateKey,
                                                    ssh_KnownHosts = data_at data CredentialsKnownHostsKey\<rparr>))
                         else Inr None)
              in case ssh of
                   Inl err \<Rightarrow> Inl err
                 | Inr SSH \<Rightarrow>
                     if TLS = None \<and> SSH = None then Inr None
                     else Inr (Some \<lparr>cred_TLS = TLS, cred_SSH = SSH\<rparr>)))"

definition loadRef :: "'w kube \<Rightarrow> LibvirtCluster \<Rightarrow> CredentialsReference \<Rightarrow> ('w, Credentials option) act" where
  "loadRef K libvirtCluster ref =
     (let key = \<lparr>nn_Namespace = meta_Namespace (lc_Meta libvirtCluster), nn_Name = cref_Name ref\<rparr> in
     tryE (get_Secret K key) (Wrapf ''get credentials secret %s: %w'' [NamespacedName_String key]) (\<lambda>secret.
     tryE (pureE (Some (credentialsFromSecret (secret_Data secret))))
       (Wrapf ''credentials secret %s: %w'' [NamespacedName_String key]) (\<lambda>creds.
     case creds of
       None \<Rightarrow> throw (Errorf ''credentials secret %s: no TLS keys (%s) or SSH keys (%s) found''
                 [NamespacedName_String key, strings_Join tlsSecretKeys '', '', strings_Join sshSecretKeys '', ''])
     | Some _ \<Rightarrow> ret creds)))"

definition Load :: "'w kube \<Rightarrow> CredentialsLoader \<Rightarrow> LibvirtCluster \<Rightarrow> ('w, Credentials option) act" where
  "Load K l libvirtCluster =
     (case lcs_CredentialsRef (lc_Spec libvirtCluster) of
        Some ref \<Rightarrow> loadRef K libvirtCluster ref
      | None \<Rightarrow>
          (let def = loader_DefaultSecret l in
          if nn_Name def = [] then ret None
          else catchE (get_Secret K def)
            (\<lambda>err. if apierrors_IsNotFound err then ret None
                   else throw (Wrapf ''get default credentials secret %s: %w'' [NamespacedName_String def] err))
            (\<lambda>secret.
          tryE (pureE (Some (credentialsFromSecret (secret_Data secret))))
            (Wrapf ''default credentials secret %s: %w'' [NamespacedName_String def]) (\<lambda>creds.
          ret creds))))"

text \<open>The index function gets any object; the dynamic type is a constructor.\<close>

datatype Object = LibvirtClusterObject LibvirtCluster | OtherObject ObjectMeta

fun credentialsRefName :: "Object \<Rightarrow> string list" where
  "credentialsRefName (LibvirtClusterObject libvirtCluster) =
     (case lcs_CredentialsRef (lc_Spec libvirtCluster) of None \<Rightarrow> [] | Some ref \<Rightarrow> [cref_Name ref])"
| "credentialsRefName (OtherObject _) = []"

definition secretToLibvirtClusters ::
  "'w kube \<Rightarrow> CredentialsLoader \<Rightarrow> ObjectMeta \<Rightarrow> 'w \<Rightarrow> (NamespacedName list \<times> 'w) option" where
  "secretToLibvirtClusters K l secret w =
     (let opts = (if ObjectKeyFromObject secret = loader_DefaultSecret l then []
                  else [InNamespace (meta_Namespace secret), MatchingFields credentialsRefNameField (meta_Name secret)])
      in case list_LibvirtClusters K opts w of
           None \<Rightarrow> None
         | Some (Inl err, w') \<Rightarrow> Some ([], w')
         | Some (Inr items, w') \<Rightarrow> Some (map (\<lambda>c. ObjectKeyFromObject (lc_Meta c)) items, w'))"

definition newCredentialsLoader :: "string \<Rightarrow> string \<Rightarrow> CredentialsLoader" where
  "newCredentialsLoader name namespace =
     (if name = [] \<or> namespace = [] then \<lparr>loader_DefaultSecret = \<lparr>nn_Namespace = [], nn_Name = []\<rparr>\<rparr>
      else \<lparr>loader_DefaultSecret = \<lparr>nn_Namespace = namespace, nn_Name = name\<rparr>\<rparr>)"

section \<open>Secrets\<close>

definition has_key :: "(string \<rightharpoonup> bytes) \<Rightarrow> string \<Rightarrow> bool" where
  "has_key data key \<longleftrightarrow> data_at data key \<noteq> []"

lemma hasAnyKey_iff: "hasAnyKey data keys \<longleftrightarrow> (\<exists>key \<in> set keys. has_key data key)"
  by (induction keys) (auto simp: has_key_def)

lemma requireKeys_None: "requireKeys data keys = None \<longleftrightarrow> (\<forall>key \<in> set keys. has_key data key)"
  by (auto simp: requireKeys_def Let_def has_key_def filter_empty_conv)

text \<open>A set of keys is complete, absent, or partial.\<close>

definition complete :: "(string \<rightharpoonup> bytes) \<Rightarrow> string list \<Rightarrow> bool" where
  "complete data keys \<longleftrightarrow> (\<forall>key \<in> set keys. has_key data key)"

definition absent :: "(string \<rightharpoonup> bytes) \<Rightarrow> string list \<Rightarrow> bool" where
  "absent data keys \<longleftrightarrow> (\<forall>key \<in> set keys. \<not> has_key data key)"

lemma not_both: "keys \<noteq> [] \<Longrightarrow> complete data keys \<Longrightarrow> \<not> absent data keys"
  by (cases keys) (auto simp: complete_def absent_def)

lemma keys_nonempty [simp]: "tlsSecretKeys \<noteq> []" "sshSecretKeys \<noteq> []"
  by (simp_all add: tlsSecretKeys_def sshSecretKeys_def)

definition tls_of :: "(string \<rightharpoonup> bytes) \<Rightarrow> TLSCredentials option" where
  "tls_of data =
     (if complete data tlsSecretKeys
      then Some \<lparr>tls_CACert = data_at data ''ca.crt'', tls_ClientCert = data_at data ''tls.crt'',
                 tls_ClientKey = data_at data ''tls.key''\<rparr>
      else None)"

definition ssh_of :: "(string \<rightharpoonup> bytes) \<Rightarrow> SSHCredentials option" where
  "ssh_of data =
     (if complete data sshSecretKeys
      then Some \<lparr>ssh_PrivateKey = data_at data ''ssh-privatekey'', ssh_KnownHosts = data_at data ''known_hosts''\<rparr>
      else None)"

lemma credentialsFromSecret_cases:
  "credentialsFromSecret data =
     (if \<not> complete data tlsSecretKeys \<and> \<not> absent data tlsSecretKeys
      then Inl (Errorf ''missing keys: %s'' [strings_Join (filter (\<lambda>k. \<not> has_key data k) tlsSecretKeys) '', ''])
      else if \<not> complete data sshSecretKeys \<and> \<not> absent data sshSecretKeys
      then Inl (Errorf ''missing keys: %s'' [strings_Join (filter (\<lambda>k. \<not> has_key data k) sshSecretKeys) '', ''])
      else if absent data tlsSecretKeys \<and> absent data sshSecretKeys then Inr None
      else Inr (Some \<lparr>cred_TLS = tls_of data, cred_SSH = ssh_of data\<rparr>))"
proof -
  have any: "hasAnyKey data keys \<longleftrightarrow> \<not> absent data keys" for keys by (simp add: hasAnyKey_iff absent_def)
  have req: "requireKeys data keys = (if complete data keys then None
      else Some (Errorf ''missing keys: %s'' [strings_Join (filter (\<lambda>k. \<not> has_key data k) keys) '', '']))" for keys
  proof (cases "complete data keys")
    case True
    then show ?thesis by (simp add: requireKeys_None complete_def)
  next
    case False
    then have "filter (\<lambda>k. data_at data k = []) keys \<noteq> []" by (auto simp: complete_def has_key_def filter_empty_conv)
    with False show ?thesis by (simp add: requireKeys_def Let_def has_key_def)
  qed
  have keys: "CredentialsCACertKey = ''ca.crt''" "TLSCertKey = ''tls.crt''" "TLSPrivateKeyKey = ''tls.key''"
    "SSHAuthPrivateKey = ''ssh-privatekey''" "CredentialsKnownHostsKey = ''known_hosts''"
    by (simp_all add: CredentialsCACertKey_def TLSCertKey_def TLSPrivateKeyKey_def SSHAuthPrivateKey_def CredentialsKnownHostsKey_def)
  show ?thesis
    unfolding credentialsFromSecret_def Let_def any req keys
    using not_both [of tlsSecretKeys data] not_both [of sshSecretKeys data] by (auto simp: tls_of_def ssh_of_def)
qed

end
