(* ===== verification/ClusterController.thy ===== *)
theory ClusterController
  imports Loader DomainOps
begin

text \<open>
  \<^verbatim>\<open>internal/controller/libvirt_provider.go\<close> and \<^verbatim>\<open>libvirtcluster_controller.go\<close>: the provider interface and the
  reconciliation of LibvirtClusters. A duration is a number of nanoseconds. Logging is left out. The
  pointer to the LibvirtCluster in the scope is the object in the state of a step.
\<close>

section \<open>The provider\<close>

record 'w provider =
  p_EnsureInfra :: "InfraConfig \<Rightarrow> ('w, unit) act"
  p_GetMachineState :: "MachineConfig \<Rightarrow> ('w, DomainState) act"
  p_CreateMachine :: "MachineConfig \<Rightarrow> ('w, unit) act"
  p_StartMachine :: "MachineConfig \<Rightarrow> ('w, unit) act"
  p_DeleteMachine :: "MachineConfig \<Rightarrow> ('w, unit) act"
  p_GetMachineAddress :: "MachineConfig \<Rightarrow> ('w, string) act"

text \<open>The methods of \<^verbatim>\<open>libvirtclient.Provider\<close>.\<close>

definition libvirtclient_Provider :: "'w env \<Rightarrow> 'w provider" where
  "libvirtclient_Provider E =
     \<lparr>p_EnsureInfra = EnsureInfra E, p_GetMachineState = GetMachineState E, p_CreateMachine = CreateMachine E,
      p_StartMachine = StartMachine E, p_DeleteMachine = DeleteMachine E, p_GetMachineAddress = GetMachineAddress E\<rparr>"

section \<open>Results\<close>

record Result =
  RequeueAfter :: int

definition Second :: int where "Second = 1000000000"
definition Minute :: int where "Minute = 60 * Second"

definition requeueTimeShort :: int where "requeueTimeShort = 30 * Second"
definition requeueTimeMedium :: int where "requeueTimeMedium = 3 * Minute"
definition requeueTimeLong :: int where "requeueTimeLong = 5 * Minute"

abbreviation no_requeue :: Result where
  "no_requeue \<equiv> \<lparr>RequeueAfter = 0\<rparr>"

section \<open>LibvirtCluster\<close>

record ClusterScope =
  scope_Cluster :: Cluster
  scope_InfraConfig :: InfraConfig

definition newInfraConfig :: "LibvirtCluster \<Rightarrow> InfraConfig" where
  "newInfraConfig libvirtCluster =
     \<lparr>cfg_URI = lcs_URI (lc_Spec libvirtCluster), cfg_BasePool = lcs_BasePool (lc_Spec libvirtCluster),
      cfg_DomainPool = lcs_DomainPool (lc_Spec libvirtCluster), cfg_Network = lcs_Network (lc_Spec libvirtCluster),
      cfg_Credentials = None\<rparr>"

definition hasControlPlaneEndpoint :: "'w kube \<Rightarrow> ClusterScope \<Rightarrow> LibvirtCluster \<Rightarrow> bool" where
  "hasControlPlaneEndpoint K scope libvirtCluster \<longleftrightarrow>
     APIEndpoint_IsValid K (lcs_ControlPlaneEndpoint (lc_Spec libvirtCluster))
     \<or> APIEndpoint_IsValid K (cluster_ControlPlaneEndpoint (scope_Cluster scope))"

fun as_ErrInfraMissing :: "goerror \<Rightarrow> unit option" where
  "as_ErrInfraMissing (ErrInfraMissing _ _) = Some ()"
| "as_ErrInfraMissing _ = None"

fun as_ErrInfraInactive :: "goerror \<Rightarrow> unit option" where
  "as_ErrInfraInactive (ErrInfraInactive _ _) = Some ()"
| "as_ErrInfraInactive _ = None"

definition getInfraError :: "goerror \<Rightarrow> string" where
  "getInfraError err =
     (if errors_As as_ErrInfraMissing err \<noteq> None then InfrastructureMissingReason
      else if errors_As as_ErrInfraInactive err \<noteq> None then InfrastructureInactiveReason
      else InfrastructureProvisioningFailedReason)"

text \<open>\<^verbatim>\<open>conditions.Set\<close> on a LibvirtCluster, through its accessors.\<close>

definition set_cluster_condition :: "'w kube \<Rightarrow> Condition \<Rightarrow> LibvirtCluster \<Rightarrow> LibvirtCluster" where
  "set_cluster_condition K c l =
     LibvirtCluster_SetConditions (conditions_Set K c (LibvirtCluster_GetConditions l)) l"

definition set_cluster_ready :: "bool \<Rightarrow> LibvirtCluster \<Rightarrow> LibvirtCluster" where
  "set_cluster_ready b l =
     l\<lparr>lc_Status := (lc_Status l)\<lparr>lct_Ready := b, lct_Initialization := \<lparr>lci_Provisioned = b\<rparr>\<rparr>\<rparr>"

definition cluster_reconcileNormal ::
  "'w kube \<Rightarrow> 'w provider \<Rightarrow> CredentialsLoader \<Rightarrow> ClusterScope \<Rightarrow> (LibvirtCluster \<times> 'w, Result) act" where
  "cluster_reconcileNormal K P loader scope =
     readE (\<lambda>libvirtCluster.
     if IsPaused K (scope_Cluster scope) (lc_Meta libvirtCluster) then ret no_requeue
     else if \<not> ContainsFinalizer K (lc_Meta libvirtCluster) LibvirtClusterFinalizer then
       modifyE (\<lambda>l. l\<lparr>lc_Meta := fst (AddFinalizer K (lc_Meta l) LibvirtClusterFinalizer)\<rparr>) (
       ret no_requeue)
     else if \<not> hasControlPlaneEndpoint K scope libvirtCluster then
       modifyE (set_cluster_condition K
         \<lparr>cond_Type = ControlPlaneEndpointReadyCondition, cond_Status = ConditionFalse,
          cond_Reason = ControlPlaneEndpointMissingReason,
          cond_Message = Text ''Set spec.controlPlaneEndpoint on the LibvirtCluster or the Cluster''\<rparr>) (
       modifyE (set_cluster_ready False) (
       ret no_requeue))
     else
       modifyE (set_cluster_condition K
         \<lparr>cond_Type = ControlPlaneEndpointReadyCondition, cond_Status = ConditionTrue,
          cond_Reason = ControlPlaneEndpointReadyReason, cond_Message = Text []\<rparr>) (
       modifyE (set_cluster_condition K
         \<lparr>cond_Type = InfrastructureReadyCondition, cond_Status = ConditionFalse,
          cond_Reason = InfrastructureProvisioningInProgressReason,
          cond_Message = Text ''Infrastructure provisioning in progress''\<rparr>) (
       readE (\<lambda>libvirtCluster.
       catchE (liftE (Load K loader libvirtCluster))
         (\<lambda>err. modifyE (set_cluster_condition K
             \<lparr>cond_Type = InfrastructureReadyCondition, cond_Status = ConditionFalse,
              cond_Reason = CredentialsUnavailableReason, cond_Message = ErrorText err\<rparr>) (
           ret \<lparr>RequeueAfter = requeueTimeShort\<rparr>))
         (\<lambda>creds.
       catchE (liftE (p_EnsureInfra P ((scope_InfraConfig scope)\<lparr>cfg_Credentials := creds\<rparr>)))
         (\<lambda>err. modifyE (set_cluster_condition K
             \<lparr>cond_Type = InfrastructureReadyCondition, cond_Status = ConditionFalse,
              cond_Reason = getInfraError err, cond_Message = ErrorText err\<rparr>) (
           ret \<lparr>RequeueAfter = requeueTimeShort\<rparr>))
         (\<lambda>_.
       modifyE (set_cluster_condition K
         \<lparr>cond_Type = InfrastructureReadyCondition, cond_Status = ConditionTrue,
          cond_Reason = InfrastructureReadyCondition,
          cond_Message = Text ''All infrastructure components are ready''\<rparr>) (
       modifyE (set_cluster_ready True) (
       ret no_requeue))))))))"

definition cluster_reconcileDelete :: "'w kube \<Rightarrow> ClusterScope \<Rightarrow> (LibvirtCluster \<times> 'w, Result) act" where
  "cluster_reconcileDelete K scope =
     readE (\<lambda>libvirtCluster.
     case RemoveFinalizer K (lc_Meta libvirtCluster) LibvirtClusterFinalizer of (meta, ok) \<Rightarrow>
     modifyE (\<lambda>l. l\<lparr>lc_Meta := meta\<rparr>) (
     if \<not> ok then
       throw (Errorf ''unable to remove finalizer %s from LibvirtCluster  %s/%s''
         [LibvirtClusterFinalizer, meta_Namespace (cluster_Meta (scope_Cluster scope)),
          meta_Name (cluster_Meta (scope_Cluster scope))])
     else ret no_requeue))"

definition cluster_Reconcile ::
  "'w kube \<Rightarrow> 'w provider \<Rightarrow> CredentialsLoader \<Rightarrow> NamespacedName \<Rightarrow> ('w, Result) act" where
  "cluster_Reconcile K P loader req =
     catchE (get_LibvirtCluster K req)
       (\<lambda>err. if apierrors_IsNotFound err then ret no_requeue else throw err)
       (\<lambda>libvirtCluster.
     tryE (GetOwnerCluster K (lc_Meta libvirtCluster)) id (\<lambda>clusterOwner.
     tryE (newHelper_LibvirtCluster K libvirtCluster) id (\<lambda>helper.
     deferPatch (patch_LibvirtCluster K helper) libvirtCluster (
     case clusterOwner of
       None \<Rightarrow> ret no_requeue
     | Some cluster \<Rightarrow>
         let scope = \<lparr>scope_Cluster = cluster, scope_InfraConfig = newInfraConfig libvirtCluster\<rparr>
         in if \<not> Time_IsZero (meta_DeletionTimestamp (lc_Meta libvirtCluster))
            then cluster_reconcileDelete K scope
            else cluster_reconcileNormal K P loader scope))))"

end
