(* ===== verification/MachineController.thy ===== *)
theory MachineController
  imports ClusterController
begin

text \<open>
  \<^verbatim>\<open>internal/controller/libvirtmachine_controller.go\<close>: the reconciliation of LibvirtMachines. The pointer to the
  LibvirtMachine in the scope is the object in the state of a step. The branches of \<^verbatim>\<open>reconcileNormal\<close> on the
  state of the domain are definitions of their own.
\<close>

section \<open>Names and configuration\<close>

definition providerIDPrefix :: string where "providerIDPrefix = ''libvirt://''"
definition domainNameMaxLength :: nat where "domainNameMaxLength = 63"
definition domainNameHashLength :: nat where "domainNameHashLength = 6"
definition domainNameSeparator :: char where "domainNameSeparator = CHR ''-''"
definition domainStateCheckInterval :: int where "domainStateCheckInterval = 1 * Minute"

definition domainName :: "LibvirtMachine \<Rightarrow> string" where
  "domainName libvirtMachine =
     (let sum = sha256_Sum256 (meta_Namespace (lm_Meta libvirtMachine) @ ''/'' @ meta_Name (lm_Meta libvirtMachine));
          hash = take domainNameHashLength (hex_EncodeToString sum);
          name = strings_ReplaceAll (meta_Name (lm_Meta libvirtMachine)) (CHR ''.'') domainNameSeparator;
          prefix = meta_Namespace (lm_Meta libvirtMachine) @ [domainNameSeparator] @ name;
          maxPrefixLength = domainNameMaxLength - 1 - domainNameHashLength;
          prefix' = (if length prefix > maxPrefixLength
                     then strings_TrimRight (take maxPrefixLength prefix) [domainNameSeparator]
                     else prefix)
      in prefix' @ [domainNameSeparator] @ hash)"

definition domainUUID :: "LibvirtMachine \<Rightarrow> string" where
  "domainUUID libvirtMachine =
     (case lms_ProviderID (lm_Spec libvirtMachine) of
        None \<Rightarrow> meta_UID (lm_Meta libvirtMachine)
      | Some providerID \<Rightarrow> strings_TrimPrefix providerID providerIDPrefix)"

definition setProviderID :: "LibvirtMachine \<Rightarrow> LibvirtMachine" where
  "setProviderID libvirtMachine =
     (if lms_ProviderID (lm_Spec libvirtMachine) \<noteq> None then libvirtMachine
      else libvirtMachine\<lparr>lm_Spec := (lm_Spec libvirtMachine)
             \<lparr>lms_ProviderID := Some (providerIDPrefix @ domainUUID libvirtMachine)\<rparr>\<rparr>)"

text \<open>The conversions of an \<^verbatim>\<open>int32\<close> to \<^verbatim>\<open>uint\<close> and \<^verbatim>\<open>uint64\<close> keep the value modulo two to the 64.\<close>

definition newMachineConfig :: "LibvirtMachine \<Rightarrow> LibvirtCluster \<Rightarrow> MachineConfig" where
  "newMachineConfig libvirtMachine libvirtCluster =
     \<lparr>cfg_URI = lcs_URI (lc_Spec libvirtCluster), cfg_BasePool = lcs_BasePool (lc_Spec libvirtCluster),
      cfg_DomainPool = lcs_DomainPool (lc_Spec libvirtCluster), cfg_Network = lcs_Network (lc_Spec libvirtCluster),
      cfg_Credentials = None, cfg_DomainName = domainName libvirtMachine,
      cfg_DomainUUID = domainUUID libvirtMachine, cfg_Hostname = meta_Name (lm_Meta libvirtMachine),
      cfg_BaseImage = lms_Image (lm_Spec libvirtMachine),
      cfg_MemoryMiB = scast (lms_MemoryMiB (lm_Spec libvirtMachine)),
      cfg_VCPU = scast (lms_VCPU (lm_Spec libvirtMachine)),
      cfg_DiskSize = scast (lms_DiskGiB (lm_Spec libvirtMachine)), cfg_UserData = []\<rparr>"

section \<open>Reconciliation\<close>

record MachineScope =
  ms_Cluster :: Cluster
  ms_Machine :: Machine
  ms_LibvirtCluster :: LibvirtCluster
  ms_MachineConfig :: MachineConfig

definition set_machine_condition :: "'w kube \<Rightarrow> Condition \<Rightarrow> LibvirtMachine \<Rightarrow> LibvirtMachine" where
  "set_machine_condition K c l =
     LibvirtMachine_SetConditions (conditions_Set K c (LibvirtMachine_GetConditions l)) l"

definition set_machine_ready :: "bool \<Rightarrow> LibvirtMachine \<Rightarrow> LibvirtMachine" where
  "set_machine_ready b l = l\<lparr>lm_Status := (lm_Status l)\<lparr>lmt_Ready := b\<rparr>\<rparr>"

definition set_machine_provisioned :: "bool \<Rightarrow> LibvirtMachine \<Rightarrow> LibvirtMachine" where
  "set_machine_provisioned b l =
     l\<lparr>lm_Status := (lm_Status l)\<lparr>lmt_Initialization := \<lparr>lmi_Provisioned = b\<rparr>\<rparr>\<rparr>"

definition set_machine_addresses :: "MachineAddress list \<Rightarrow> LibvirtMachine \<Rightarrow> LibvirtMachine" where
  "set_machine_addresses as l = l\<lparr>lm_Status := (lm_Status l)\<lparr>lmt_Addresses := as\<rparr>\<rparr>"

definition getCloudInitData :: "'w kube \<Rightarrow> MachineScope \<Rightarrow> string \<Rightarrow> ('w, bytes) act" where
  "getCloudInitData K scope dataSecretName =
     (let name = \<lparr>nn_Namespace = meta_Namespace (machine_Meta (ms_Machine scope)), nn_Name = dataSecretName\<rparr> in
     tryE (get_Secret K name) id (\<lambda>dataSecret.
     case secret_Data dataSecret ''value'' of
       None \<Rightarrow> throw (Errorf ''no userData key found in secret %s'' [NamespacedName_String name])
     | Some userData \<Rightarrow> ret userData))"

definition observeMachineAddress :: "'w provider \<Rightarrow> MachineScope \<Rightarrow> (LibvirtMachine \<times> 'w, Result) act" where
  "observeMachineAddress P scope =
     catchE (liftE (p_GetMachineAddress P (ms_MachineConfig scope)))
       (\<lambda>err. ret \<lparr>RequeueAfter = requeueTimeShort\<rparr>)
       (\<lambda>address.
     if address = [] then ret \<lparr>RequeueAfter = requeueTimeShort\<rparr>
     else modifyE (set_machine_addresses [\<lparr>addr_Type = MachineInternalIP, addr_Address = address\<rparr>]) (
     ret \<lparr>RequeueAfter = domainStateCheckInterval\<rparr>))"

definition reconcileLostDomain :: "'w kube \<Rightarrow> MachineScope \<Rightarrow> (LibvirtMachine \<times> 'w, Result) act" where
  "reconcileLostDomain K scope =
     modifyE (set_machine_ready False) (
     modifyE (set_machine_addresses []) (
     modifyE (set_machine_condition K
       \<lparr>cond_Type = DomainRunningCondition, cond_Status = ConditionFalse, cond_Reason = DomainNotFoundReason,
        cond_Message = Sprintf ''Domain %s was deleted on the libvirt host, delete the Machine to replace it''
          [cfg_DomainName (ms_MachineConfig scope)]\<rparr>) (
     ret \<lparr>RequeueAfter = domainStateCheckInterval\<rparr>)))"

text \<open>The branch of a missing domain of a machine that has no provider ID yet.\<close>

definition reconcileMissing :: "'w kube \<Rightarrow> 'w provider \<Rightarrow> MachineScope \<Rightarrow> (LibvirtMachine \<times> 'w, Result) act" where
  "reconcileMissing K P scope =
     modifyE (set_machine_ready False) (
     modifyE (set_machine_provisioned False) (
     modifyE (set_machine_condition K
       \<lparr>cond_Type = DomainProvisioningReadyCondition, cond_Status = ConditionFalse,
        cond_Reason = DomainProvisioningInProgressReason, cond_Message = Text ''Domain provisioning in progress''\<rparr>) (
     case machine_DataSecretName (ms_Machine scope) of
       None \<Rightarrow> modifyE (set_machine_ready False) (ret \<lparr>RequeueAfter = 1 * Minute\<rparr>)
     | Some dataSecretName \<Rightarrow>
         tryE (liftE (getCloudInitData K scope dataSecretName))
           (Wrapf ''error during getting cloud init user data: %w'' []) (\<lambda>cloudInitUserData.
         catchE (liftE (p_CreateMachine P ((ms_MachineConfig scope)\<lparr>cfg_UserData := cloudInitUserData\<rparr>)))
           (\<lambda>err. modifyE (set_machine_condition K
               \<lparr>cond_Type = DomainProvisioningReadyCondition, cond_Status = ConditionFalse,
                cond_Reason = DomainProvisioningFailedReason, cond_Message = SprintfErr ''Failed to create Domain: %v'' err\<rparr>) (
             throw err))
           (\<lambda>_.
         modifyE setProviderID (
         modifyE (set_machine_condition K
           \<lparr>cond_Type = MachineCreatedCondition, cond_Status = ConditionTrue, cond_Reason = MachineCreatedCondition,
            cond_Message = Text []\<rparr>) (
         modifyE (set_machine_ready True) (
         modifyE (set_machine_provisioned True) (
         ret no_requeue)))))))))"

definition reconcileStopped :: "'w kube \<Rightarrow> 'w provider \<Rightarrow> MachineScope \<Rightarrow> (LibvirtMachine \<times> 'w, Result) act" where
  "reconcileStopped K P scope =
     modifyE (set_machine_ready False) (
     modifyE (set_machine_condition K
       \<lparr>cond_Type = DomainRunningCondition, cond_Status = ConditionFalse, cond_Reason = DomainNotRunningReason,
        cond_Message = Text ''Domain is stopped, starting it''\<rparr>) (
     catchE (liftE (p_StartMachine P (ms_MachineConfig scope)))
       (\<lambda>err. modifyE (set_machine_condition K
           \<lparr>cond_Type = DomainRunningCondition, cond_Status = ConditionFalse, cond_Reason = DomainNotRunningReason,
            cond_Message = SprintfErr ''Failed start Domain: %v'' err\<rparr>) (
         throw err))
       (\<lambda>_.
     modifyE setProviderID (
     modifyE (set_machine_ready True) (
     modifyE (set_machine_provisioned True) (
     ret \<lparr>RequeueAfter = requeueTimeShort\<rparr>))))))"

definition reconcileRunning :: "'w kube \<Rightarrow> 'w provider \<Rightarrow> MachineScope \<Rightarrow> (LibvirtMachine \<times> 'w, Result) act" where
  "reconcileRunning K P scope =
     modifyE (set_machine_condition K
       \<lparr>cond_Type = DomainRunningCondition, cond_Status = ConditionTrue, cond_Reason = DomainRunningCondition,
        cond_Message = Text ''Domain is running''\<rparr>) (
     modifyE setProviderID (
     modifyE (set_machine_ready True) (
     modifyE (set_machine_provisioned True) (
     observeMachineAddress P scope))))"

definition machine_reconcileNormal ::
  "'w kube \<Rightarrow> 'w provider \<Rightarrow> MachineScope \<Rightarrow> (LibvirtMachine \<times> 'w, Result) act" where
  "machine_reconcileNormal K P scope =
     readE (\<lambda>libvirtMachine.
     if IsPaused K (ms_Cluster scope) (lm_Meta libvirtMachine) then
       modifyE (set_machine_ready False) (
       modifyE (set_machine_provisioned False) (
       ret no_requeue))
     else if \<not> ContainsFinalizer K (lm_Meta libvirtMachine) LibvirtMachineFinalizer
             \<and> Time_IsZero (meta_DeletionTimestamp (lm_Meta libvirtMachine)) then
       modifyE (\<lambda>l. l\<lparr>lm_Meta := fst (AddFinalizer K (lm_Meta l) LibvirtMachineFinalizer)\<rparr>) (
       modifyE (set_machine_ready False) (
       modifyE (set_machine_provisioned False) (
       ret no_requeue)))
     else if cluster_InfrastructureProvisioned (ms_Cluster scope) \<noteq> Some True then
       modifyE (set_machine_ready False) (
       modifyE (set_machine_provisioned False) (
       modifyE (set_machine_condition K
         \<lparr>cond_Type = InfrastructureReadyCondition, cond_Status = ConditionFalse,
          cond_Reason = InfrastructureProvisioningInProgressReason,
          cond_Message = Text ''Waiting for cluster infrastructure to be ready''\<rparr>) (
       ret \<lparr>RequeueAfter = requeueTimeShort\<rparr>)))
     else
       modifyE (set_machine_condition K
         \<lparr>cond_Type = InfrastructureReadyCondition, cond_Status = ConditionTrue,
          cond_Reason = InfrastructureReadyReason, cond_Message = Text ''Cluster infrastructure is ready''\<rparr>) (
       tryE (liftE (p_GetMachineState P (ms_MachineConfig scope))) id (\<lambda>state.
       if state = DomainStateNotFound then
         readE (\<lambda>libvirtMachine.
           if lms_ProviderID (lm_Spec libvirtMachine) \<noteq> None then reconcileLostDomain K scope
           else reconcileMissing K P scope)
       else if state = DomainStateStopped then reconcileStopped K P scope
       else if state = DomainStateRunning then reconcileRunning K P scope
       else if state = DomainStateUnknown then
         modifyE (set_machine_ready False) (
         modifyE (set_machine_provisioned False) (
         ret \<lparr>RequeueAfter = requeueTimeShort\<rparr>))
       else ret no_requeue)))"

definition machine_reconcileDelete ::
  "'w kube \<Rightarrow> 'w provider \<Rightarrow> MachineScope \<Rightarrow> (LibvirtMachine \<times> 'w, Result) act" where
  "machine_reconcileDelete K P scope =
     tryE (liftE (p_DeleteMachine P (ms_MachineConfig scope))) id (\<lambda>_.
     readE (\<lambda>libvirtMachine.
     case RemoveFinalizer K (lm_Meta libvirtMachine) LibvirtMachineFinalizer of (meta, ok) \<Rightarrow>
     modifyE (\<lambda>l. l\<lparr>lm_Meta := meta\<rparr>) (
     if \<not> ok then
       throw (Errorf ''unable to remove finalizer %s from LibvirtMachine  %s/%s''
         [LibvirtMachineFinalizer, meta_Namespace (machine_Meta (ms_Machine scope)),
          meta_Name (machine_Meta (ms_Machine scope))])
     else ret no_requeue)))"

text \<open>\<^verbatim>\<open>Reconcile\<close> after the patch helper and its deferred call are in place.\<close>

definition machine_Reconcile_owned ::
  "'w kube \<Rightarrow> 'w provider \<Rightarrow> CredentialsLoader \<Rightarrow> LibvirtMachine \<Rightarrow> (LibvirtMachine \<times> 'w, Result) act" where
  "machine_Reconcile_owned K P loader libvirtMachine =
     tryE (liftE (GetOwnerMachine K (lm_Meta libvirtMachine))) id (\<lambda>ownerMachine.
     case ownerMachine of
       None \<Rightarrow> ret \<lparr>RequeueAfter = requeueTimeShort\<rparr>
     | Some machine \<Rightarrow>
         tryE (liftE (GetClusterFromMetadata K (machine_Meta machine))) id (\<lambda>ownerCluster.
         case ownerCluster of
           None \<Rightarrow> ret no_requeue
         | Some cluster \<Rightarrow>
             tryE (liftE (get_LibvirtCluster K
                 \<lparr>nn_Namespace = meta_Namespace (cluster_Meta cluster), nn_Name = cluster_InfrastructureRefName cluster\<rparr>))
               id (\<lambda>libvirtCluster.
             tryE (liftE (Load K loader libvirtCluster)) id (\<lambda>creds.
             let scope = \<lparr>ms_Cluster = cluster, ms_Machine = machine, ms_LibvirtCluster = libvirtCluster,
                   ms_MachineConfig = (newMachineConfig libvirtMachine libvirtCluster)\<lparr>cfg_Credentials := creds\<rparr>\<rparr>
             in if \<not> Time_IsZero (meta_DeletionTimestamp (lm_Meta libvirtMachine))
                then machine_reconcileDelete K P scope
                else machine_reconcileNormal K P scope))))"

definition machine_Reconcile ::
  "'w kube \<Rightarrow> 'w provider \<Rightarrow> CredentialsLoader \<Rightarrow> NamespacedName \<Rightarrow> ('w, Result) act" where
  "machine_Reconcile K P loader req =
     catchE (get_LibvirtMachine K req)
       (\<lambda>err. if apierrors_IsNotFound err then ret no_requeue else throw err)
       (\<lambda>libvirtMachine.
     tryE (newHelper_LibvirtMachine K libvirtMachine) id (\<lambda>helper.
     deferPatch (patch_LibvirtMachine K helper) libvirtMachine (machine_Reconcile_owned K P loader libvirtMachine)))"

end
