(* ===== verification/Mock.thy ===== *)
theory Mock
  imports ClusterController
begin

text \<open>
  \<^verbatim>\<open>internal/controller/mock_provider.go\<close>: the provider with configured answers. Its world is its own state; the
  mutex serializes the calls, so each is one step.
\<close>

record MockProvider =
  mk_EnsureInfraErr :: "goerror option"
  mk_GetMachineStateErr :: "goerror option"
  mk_CreateMachineErr :: "goerror option"
  mk_StartMachineErr :: "goerror option"
  mk_DeleteMachineErr :: "goerror option"
  mk_MachineAddress :: string
  mk_GetMachineAddressErr :: "goerror option"
  mk_MachineState :: DomainState
  mk_CreatedMachineConfig :: "MachineConfig option"
  mk_EnsuredInfraConfig :: "InfraConfig option"

definition mock_SetEnsureInfraErr :: "goerror option \<Rightarrow> MockProvider \<Rightarrow> MockProvider" where
  "mock_SetEnsureInfraErr err m = m\<lparr>mk_EnsureInfraErr := err\<rparr>"

text \<open>A value and an error as a Go function returns them; a caller that sees an error discards the value.\<close>

definition answer :: "'a \<Rightarrow> goerror option \<Rightarrow> ('w, 'a) act" where
  "answer x err = (case err of None \<Rightarrow> ret x | Some e \<Rightarrow> throw e)"

definition mock_EnsureInfra :: "InfraConfig \<Rightarrow> (MockProvider, unit) act" where
  "mock_EnsureInfra cfg m = answer () (mk_EnsureInfraErr m) (m\<lparr>mk_EnsuredInfraConfig := Some cfg\<rparr>)"

definition mock_GetEnsuredInfraConfig :: "MockProvider \<Rightarrow> InfraConfig option" where
  "mock_GetEnsuredInfraConfig m = mk_EnsuredInfraConfig m"

definition mock_SetGetMachineStateErr :: "goerror option \<Rightarrow> MockProvider \<Rightarrow> MockProvider" where
  "mock_SetGetMachineStateErr err m = m\<lparr>mk_GetMachineStateErr := err\<rparr>"

definition mock_SetMachineState :: "DomainState \<Rightarrow> MockProvider \<Rightarrow> MockProvider" where
  "mock_SetMachineState state m = m\<lparr>mk_MachineState := state\<rparr>"

definition mock_SetCreateMachineErr :: "goerror option \<Rightarrow> MockProvider \<Rightarrow> MockProvider" where
  "mock_SetCreateMachineErr err m = m\<lparr>mk_CreateMachineErr := err\<rparr>"

definition mock_SetStartMachineErr :: "goerror option \<Rightarrow> MockProvider \<Rightarrow> MockProvider" where
  "mock_SetStartMachineErr err m = m\<lparr>mk_StartMachineErr := err\<rparr>"

definition mock_SetDeleteMachineErr :: "goerror option \<Rightarrow> MockProvider \<Rightarrow> MockProvider" where
  "mock_SetDeleteMachineErr err m = m\<lparr>mk_DeleteMachineErr := err\<rparr>"

definition mock_GetMachineState :: "MachineConfig \<Rightarrow> (MockProvider, DomainState) act" where
  "mock_GetMachineState cfg m = answer (mk_MachineState m) (mk_GetMachineStateErr m) m"

definition mock_CreateMachine :: "MachineConfig \<Rightarrow> (MockProvider, unit) act" where
  "mock_CreateMachine cfg m = answer () (mk_CreateMachineErr m) (m\<lparr>mk_CreatedMachineConfig := Some cfg\<rparr>)"

definition mock_GetCreatedMachineConfig :: "MockProvider \<Rightarrow> MachineConfig option" where
  "mock_GetCreatedMachineConfig m = mk_CreatedMachineConfig m"

definition mock_StartMachine :: "MachineConfig \<Rightarrow> (MockProvider, unit) act" where
  "mock_StartMachine cfg m = answer () (mk_StartMachineErr m) m"

definition mock_DeleteMachine :: "MachineConfig \<Rightarrow> (MockProvider, unit) act" where
  "mock_DeleteMachine cfg m = answer () (mk_DeleteMachineErr m) m"

definition mock_SetGetMachineAddressErr :: "goerror option \<Rightarrow> MockProvider \<Rightarrow> MockProvider" where
  "mock_SetGetMachineAddressErr err m = m\<lparr>mk_GetMachineAddressErr := err\<rparr>"

definition mock_SetMachineAddress :: "string \<Rightarrow> MockProvider \<Rightarrow> MockProvider" where
  "mock_SetMachineAddress address m = m\<lparr>mk_MachineAddress := address\<rparr>"

definition mock_GetMachineAddress :: "MachineConfig \<Rightarrow> (MockProvider, string) act" where
  "mock_GetMachineAddress cfg m = answer (mk_MachineAddress m) (mk_GetMachineAddressErr m) m"

definition mock_provider :: "MockProvider provider" where
  "mock_provider =
     \<lparr>p_EnsureInfra = mock_EnsureInfra, p_GetMachineState = mock_GetMachineState, p_CreateMachine = mock_CreateMachine,
      p_StartMachine = mock_StartMachine, p_DeleteMachine = mock_DeleteMachine, p_GetMachineAddress = mock_GetMachineAddress\<rparr>"

lemmas mock_defs =
  mock_provider_def mock_EnsureInfra_def mock_GetMachineState_def mock_CreateMachine_def mock_StartMachine_def
  mock_DeleteMachine_def mock_GetMachineAddress_def answer_def

text \<open>A fresh mock: no errors, no recorded calls, the given state.\<close>

definition fresh_mock :: "DomainState \<Rightarrow> MockProvider" where
  "fresh_mock state =
     \<lparr>mk_EnsureInfraErr = None, mk_GetMachineStateErr = None, mk_CreateMachineErr = None, mk_StartMachineErr = None,
      mk_DeleteMachineErr = None, mk_MachineAddress = [], mk_GetMachineAddressErr = None, mk_MachineState = state,
      mk_CreatedMachineConfig = None, mk_EnsuredInfraConfig = None\<rparr>"

section \<open>Sample objects\<close>

text \<open>An API server without objects, with the documented utilities.\<close>

definition empty_kube :: "'w kube" where
  "empty_kube =
     with_ref_utils
     \<lparr>get_LibvirtCluster = (\<lambda>_. throw NotFoundStatus), get_LibvirtMachine = (\<lambda>_. throw NotFoundStatus),
      get_Secret = (\<lambda>_. throw NotFoundStatus), list_LibvirtClusters = (\<lambda>_. ret []),
      GetOwnerCluster = (\<lambda>_. ret None), GetOwnerMachine = (\<lambda>_. ret None), GetClusterFromMetadata = (\<lambda>_. ret None),
      newHelper_LibvirtCluster = (\<lambda>_. ret (PatchHelper 0)), newHelper_LibvirtMachine = (\<lambda>_. ret (PatchHelper 0)),
      patch_LibvirtCluster = (\<lambda>_ _. ret ()), patch_LibvirtMachine = (\<lambda>_ _. ret ()),
      IsPaused = (\<lambda>_ _. False), conditions_Set = (\<lambda>c cs. cs), ContainsFinalizer = (\<lambda>_ _. False),
      AddFinalizer = (\<lambda>m _. (m, False)), RemoveFinalizer = (\<lambda>m _. (m, False)), APIEndpoint_IsValid = (\<lambda>_. False)\<rparr>"

lemma empty_kube_laws: "kube_laws empty_kube"
  unfolding empty_kube_def by (rule refk.kube_laws_axioms)

definition sample_meta :: "string \<Rightarrow> string list \<Rightarrow> ObjectMeta" where
  "sample_meta name fs =
     \<lparr>meta_Name = name, meta_Namespace = ''default'', meta_UID = ''3f1c0a52'', meta_DeletionTimestamp = None,
      meta_Finalizers = fs, meta_Labels = Map.empty, meta_Annotations = Map.empty, meta_OwnerReferences = []\<rparr>"

definition sample_cluster :: Cluster where
  "sample_cluster =
     \<lparr>cluster_Meta = sample_meta ''c1'' [], cluster_Paused = None,
      cluster_ControlPlaneEndpoint = \<lparr>ep_Host = ''10.0.0.1'', ep_Port = 6443\<rparr>,
      cluster_InfrastructureRefName = ''c1'', cluster_InfrastructureProvisioned = Some True\<rparr>"

definition sample_LibvirtCluster :: "string list \<Rightarrow> LibvirtCluster" where
  "sample_LibvirtCluster fs =
     \<lparr>lc_Meta = sample_meta ''c1'' fs,
      lc_Spec = \<lparr>lcs_URI = ''qemu:///system'', lcs_ControlPlaneEndpoint = \<lparr>ep_Host = [], ep_Port = 0\<rparr>,
                 lcs_BasePool = ''base'', lcs_DomainPool = ''vms'', lcs_Network = ''default'', lcs_CredentialsRef = None\<rparr>,
      lc_Status = \<lparr>lct_Ready = False, lct_Initialization = \<lparr>lci_Provisioned = False\<rparr>, lct_Conditions = []\<rparr>\<rparr>"

definition sample_machine :: Machine where
  "sample_machine = \<lparr>machine_Meta = sample_meta ''m2'' [], machine_DataSecretName = Some ''m2-bootstrap''\<rparr>"

definition sample_LibvirtMachine :: "string list \<Rightarrow> string option \<Rightarrow> LibvirtMachine" where
  "sample_LibvirtMachine fs pid =
     \<lparr>lm_Meta = sample_meta ''m2'' fs,
      lm_Spec = \<lparr>lms_ProviderID = pid, lms_VCPU = 2, lms_MemoryMiB = 2048, lms_DiskGiB = 10, lms_Image = ''image.qcow2''\<rparr>,
      lm_Status = \<lparr>lmt_Ready = True, lmt_Addresses = [], lmt_Conditions = [],
                   lmt_Initialization = \<lparr>lmi_Provisioned = True\<rparr>\<rparr>\<rparr>"

definition off_loader :: CredentialsLoader where
  "off_loader = \<lparr>loader_DefaultSecret = \<lparr>nn_Namespace = [], nn_Name = []\<rparr>\<rparr>"

lemmas sample_defs =
  empty_kube_def with_ref_utils_def ref_IsPaused_def sample_meta_def sample_cluster_def sample_LibvirtCluster_def
  sample_machine_def sample_LibvirtMachine_def off_loader_def

end
