(* ===== verification/MachineProps.thy ===== *)
theory MachineProps
  imports MachineController Mock
begin

text \<open>
  The properties of the machine controller that hold for every provider: the identity of a machine, the
  finalizer, lost domains, the status, names and sizes.
\<close>

section \<open>The identity of a machine\<close>

lemma condition_keeps [simp]:
  "lm_Meta (set_machine_condition K c l) = lm_Meta l" "lm_Spec (set_machine_condition K c l) = lm_Spec l"
  "lmt_Ready (lm_Status (set_machine_condition K c l)) = lmt_Ready (lm_Status l)"
  "lmt_Initialization (lm_Status (set_machine_condition K c l)) = lmt_Initialization (lm_Status l)"
  "lmt_Addresses (lm_Status (set_machine_condition K c l)) = lmt_Addresses (lm_Status l)"
  by (simp_all add: set_machine_condition_def LibvirtMachine_SetConditions_def)

lemma status_keeps [simp]:
  "lm_Meta (set_machine_ready b l) = lm_Meta l" "lm_Spec (set_machine_ready b l) = lm_Spec l"
  "lm_Meta (set_machine_provisioned b l) = lm_Meta l" "lm_Spec (set_machine_provisioned b l) = lm_Spec l"
  "lm_Meta (set_machine_addresses as l) = lm_Meta l" "lm_Spec (set_machine_addresses as l) = lm_Spec l"
  "lm_Meta (setProviderID l) = lm_Meta l" "lm_Status (setProviderID l) = lm_Status l"
  by (simp_all add: set_machine_ready_def set_machine_provisioned_def set_machine_addresses_def setProviderID_def)

lemma status_fields [simp]:
  "lmt_Ready (lm_Status (set_machine_ready b l)) = b"
  "lmt_Ready (lm_Status (set_machine_provisioned b l)) = lmt_Ready (lm_Status l)"
  "lmt_Ready (lm_Status (set_machine_addresses as l)) = lmt_Ready (lm_Status l)"
  "lmi_Provisioned (lmt_Initialization (lm_Status (set_machine_provisioned b l))) = b"
  "lmt_Initialization (lm_Status (set_machine_ready b l)) = lmt_Initialization (lm_Status l)"
  "lmt_Initialization (lm_Status (set_machine_addresses as l)) = lmt_Initialization (lm_Status l)"
  "lmt_Addresses (lm_Status (set_machine_ready b l)) = lmt_Addresses (lm_Status l)"
  "lmt_Addresses (lm_Status (set_machine_provisioned b l)) = lmt_Addresses (lm_Status l)"
  "lmt_Addresses (lm_Status (set_machine_addresses as l)) = as"
  "lmt_Conditions (lm_Status (set_machine_ready b l)) = lmt_Conditions (lm_Status l)"
  "lmt_Conditions (lm_Status (set_machine_provisioned b l)) = lmt_Conditions (lm_Status l)"
  "lmt_Conditions (lm_Status (set_machine_addresses as l)) = lmt_Conditions (lm_Status l)"
  by (simp_all add: set_machine_ready_def set_machine_provisioned_def set_machine_addresses_def)

lemma setProviderID_set [simp]: "\<exists>p. lms_ProviderID (lm_Spec (setProviderID l)) = Some p"
  by (auto simp: setProviderID_def)

lemma domainUUID_setProviderID [simp]: "domainUUID (setProviderID l) = domainUUID l"
  by (simp add: setProviderID_def domainUUID_def)

text \<open>
  What identifies a machine: its metadata but for finalizers, its specification but for the provider ID, the
  identifier of its domain; and a provider ID that is set stays.
\<close>

definition same_machine_id :: "LibvirtMachine \<Rightarrow> LibvirtMachine \<Rightarrow> bool" where
  "same_machine_id l l' \<longleftrightarrow>
     (lm_Meta l')\<lparr>meta_Finalizers := []\<rparr> = (lm_Meta l)\<lparr>meta_Finalizers := []\<rparr>
     \<and> (lm_Spec l')\<lparr>lms_ProviderID := None\<rparr> = (lm_Spec l)\<lparr>lms_ProviderID := None\<rparr>
     \<and> domainUUID l' = domainUUID l
     \<and> (\<forall>p. lms_ProviderID (lm_Spec l) = Some p \<longrightarrow> lms_ProviderID (lm_Spec l') = Some p)"

interpretation mid: object_relation same_machine_id
  by unfold_locales (simp_all add: same_machine_id_def)

lemma domainUUID_same: "lm_Meta l' = lm_Meta l \<Longrightarrow> lm_Spec l' = lm_Spec l \<Longrightarrow> domainUUID l' = domainUUID l"
  by (simp add: domainUUID_def split: option.split)

lemma same_id_status: "lm_Meta l' = lm_Meta l \<Longrightarrow> lm_Spec l' = lm_Spec l \<Longrightarrow> same_machine_id l l'"
  using domainUUID_same [of l' l] by (simp add: same_machine_id_def)

lemma same_id_setProviderID: "same_machine_id l (setProviderID l)"
  by (simp add: same_machine_id_def) (simp add: setProviderID_def)

lemma same_id_finalizers:
  "m\<lparr>meta_Finalizers := []\<rparr> = (lm_Meta l)\<lparr>meta_Finalizers := []\<rparr> \<Longrightarrow> same_machine_id l (l\<lparr>lm_Meta := m\<rparr>)"
  unfolding same_machine_id_def domainUUID_def
  by (cases m; cases "lm_Meta l") (simp split: option.split)

lemma meta_eq_fields:
  "(m :: ObjectMeta)\<lparr>meta_Finalizers := []\<rparr> = m'\<lparr>meta_Finalizers := []\<rparr> \<Longrightarrow>
     meta_Name m = meta_Name m' \<and> meta_Namespace m = meta_Namespace m' \<and> meta_UID m = meta_UID m'"
  by (cases m; cases m') simp

lemma spec_eq_fields:
  "(s :: LibvirtMachineSpec)\<lparr>lms_ProviderID := None\<rparr> = s'\<lparr>lms_ProviderID := None\<rparr> \<Longrightarrow>
     lms_VCPU s = lms_VCPU s' \<and> lms_MemoryMiB s = lms_MemoryMiB s' \<and> lms_DiskGiB s = lms_DiskGiB s' \<and> lms_Image s = lms_Image s'"
  by (cases s; cases s') simp

lemma same_id_config:
  assumes "same_machine_id l l'"
  shows "newMachineConfig l' c = newMachineConfig l c"
proof -
  note meta = meta_eq_fields [of "lm_Meta l'" "lm_Meta l"] and spec = spec_eq_fields [of "lm_Spec l'" "lm_Spec l"]
  from assms meta have "domainName l' = domainName l" by (simp add: same_machine_id_def domainName_def)
  with assms meta spec show ?thesis by (simp add: same_machine_id_def newMachineConfig_def)
qed

lemmas branch_defs =
  reconcileLostDomain_def reconcileMissing_def reconcileStopped_def reconcileRunning_def observeMachineAddress_def

lemma branches_keep_id:
  "keeps same_machine_id (reconcileLostDomain K scope)" "keeps same_machine_id (reconcileMissing K P scope)"
  "keeps same_machine_id (reconcileStopped K P scope)" "keeps same_machine_id (reconcileRunning K P scope)"
  unfolding branch_defs
  by (rule mid.keeps_intros same_id_setProviderID | (rule same_id_status; simp; fail))+

lemma reconcileNormal_keeps_id:
  assumes "kube_laws K"
  shows "keeps same_machine_id (machine_reconcileNormal K P scope)"
proof -
  have add: "same_machine_id l (l\<lparr>lm_Meta := fst (AddFinalizer K (lm_Meta l) f)\<rparr>)" for l f
    by (rule same_id_finalizers) (simp add: kube_laws.add [OF assms])
  show ?thesis
    unfolding machine_reconcileNormal_def
    by (rule mid.keeps_intros branches_keep_id add | (rule same_id_status; simp; fail))+
qed

definition sample_scope :: "LibvirtMachine \<Rightarrow> MachineScope" where
  "sample_scope l =
     \<lparr>ms_Cluster = sample_cluster, ms_Machine = sample_machine, ms_LibvirtCluster = sample_LibvirtCluster [],
      ms_MachineConfig = newMachineConfig l (sample_LibvirtCluster [])\<rparr>"

text \<open>
  A reconciliation of a machine, however it ends, changes neither its name nor its specification nor the
  identifier of its domain: the libvirt configuration computed from the object afterwards is the one computed
  before, and a provider ID that is set stays as it is.
\<close>

lemma machine_identity:
  assumes "kube_laws K" "machine_reconcileNormal K P scope (l, w) = Some (r, (l', w'))"
  shows "newMachineConfig l' c = newMachineConfig l c
     \<and> (lms_ProviderID (lm_Spec l) \<noteq> None \<longrightarrow> lms_ProviderID (lm_Spec l') = lms_ProviderID (lm_Spec l))"
proof -
  have "same_machine_id l l'" using reconcileNormal_keeps_id [OF assms(1)] assms(2) unfolding keeps_def by blast
  then show ?thesis by (auto simp: same_id_config same_machine_id_def)
qed

text \<open>A machine that is not paused, has the finalizer (unless it is being deleted), and whose cluster is provisioned.\<close>

definition active :: "'w kube \<Rightarrow> MachineScope \<Rightarrow> LibvirtMachine \<Rightarrow> bool" where
  "active K scope l \<longleftrightarrow>
     \<not> IsPaused K (ms_Cluster scope) (lm_Meta l)
     \<and> (ContainsFinalizer K (lm_Meta l) LibvirtMachineFinalizer \<or> \<not> Time_IsZero (meta_DeletionTimestamp (lm_Meta l)))
     \<and> cluster_InfrastructureProvisioned (ms_Cluster scope) = Some True"

definition infra_is_ready :: Condition where
  "infra_is_ready =
     \<lparr>cond_Type = InfrastructureReadyCondition, cond_Status = ConditionTrue,
      cond_Reason = InfrastructureReadyReason, cond_Message = Text ''Cluster infrastructure is ready''\<rparr>"

definition by_state :: "'w kube \<Rightarrow> 'w provider \<Rightarrow> MachineScope \<Rightarrow> DomainState \<Rightarrow> (LibvirtMachine \<times> 'w, Result) act" where
  "by_state K P scope state =
     (if state = DomainStateNotFound then
        readE (\<lambda>l. if lms_ProviderID (lm_Spec l) \<noteq> None then reconcileLostDomain K scope else reconcileMissing K P scope)
      else if state = DomainStateStopped then reconcileStopped K P scope
      else if state = DomainStateRunning then reconcileRunning K P scope
      else if state = DomainStateUnknown then
        modifyE (set_machine_ready False) (modifyE (set_machine_provisioned False) (
        ret \<lparr>RequeueAfter = requeueTimeShort\<rparr>))
      else ret no_requeue)"

lemma reconcileNormal_active:
  assumes "active K scope l"
  shows "machine_reconcileNormal K P scope (l, w) =
     tryE (liftE (p_GetMachineState P (ms_MachineConfig scope))) id (by_state K P scope)
       (set_machine_condition K infra_is_ready l, w)"
  using assms unfolding active_def machine_reconcileNormal_def by_state_def [abs_def] infra_is_ready_def by auto

lemma active_sample: "active empty_kube (sample_scope l) (sample_LibvirtMachine [LibvirtMachineFinalizer] pid)"
  by (simp add: active_def sample_scope_def sample_defs)

section \<open>The life of a machine\<close>

text \<open>
  C17: No domain without a finalizer: while the LibvirtMachine does not carry the finalizer, its reconciliation
  calls nothing outside, adds the finalizer and ends.
\<close>

theorem finalizer_first:
  assumes "kube_laws K" "LibvirtMachineFinalizer \<notin> set (meta_Finalizers (lm_Meta l))"
    "Time_IsZero (meta_DeletionTimestamp (lm_Meta l))" "\<not> IsPaused K (ms_Cluster scope) (lm_Meta l)"
  shows "\<exists>l'. machine_reconcileNormal K P scope (l, w) = Some (Inr no_requeue, (l', w))
     \<and> LibvirtMachineFinalizer \<in> set (meta_Finalizers (lm_Meta l')) \<and> \<not> lmt_Ready (lm_Status l')"
proof -
  have "\<not> ContainsFinalizer K (lm_Meta l) LibvirtMachineFinalizer" using assms(2) by (simp add: kube_laws.contains [OF assms(1)])
  with assms(2-4) show ?thesis
    by (simp add: machine_reconcileNormal_def kube_laws.add [OF assms(1)])
qed

theorem finalizer_first_witness:
  "\<exists>l'. machine_reconcileNormal empty_kube mock_provider (sample_scope (sample_LibvirtMachine [] None))
       (sample_LibvirtMachine [] None, fresh_mock DomainStateNotFound)
     = Some (Inr no_requeue, (l', fresh_mock DomainStateNotFound))
     \<and> LibvirtMachineFinalizer \<in> set (meta_Finalizers (lm_Meta l')) \<and> \<not> lmt_Ready (lm_Status l')"
  by (rule finalizer_first [OF empty_kube_laws]) (simp_all add: sample_scope_def sample_defs Time_IsZero_def)

text \<open>
  C13: A lost domain is not recreated: when the machine has a provider ID and the host has no domain for it, nothing
  but the query is called; the machine is marked not ready, its addresses are cleared, and the condition
  says that the domain is gone. And whatever the state of the domain, a machine with a provider ID is never
  created again.
\<close>

theorem lost_domain_not_recreated:
  assumes "kube_laws K" "active K scope l" "lms_ProviderID (lm_Spec l) \<noteq> None"
  shows "machine_reconcileNormal K (P\<lparr>p_CreateMachine := f\<rparr>) scope (l, w) = machine_reconcileNormal K P scope (l, w)
     \<and> (p_GetMachineState P (ms_MachineConfig scope) w = Some (Inr DomainStateNotFound, w') \<longrightarrow>
        (\<exists>l'. machine_reconcileNormal K P scope (l, w) = Some (Inr \<lparr>RequeueAfter = domainStateCheckInterval\<rparr>, (l', w'))
           \<and> \<not> lmt_Ready (lm_Status l') \<and> lmt_Addresses (lm_Status l') = []
           \<and> map_option cond_Reason (cond_get DomainRunningCondition (lmt_Conditions (lm_Status l'))) = Some DomainNotFoundReason))"
proof -
  have conds: "lmt_Conditions (lm_Status (set_machine_condition K c m)) = conditions_Set K c (lmt_Conditions (lm_Status m))" for c m
    by (simp add: set_machine_condition_def LibvirtMachine_SetConditions_def LibvirtMachine_GetConditions_def)
  show ?thesis
    using assms(3) kube_laws.set_condition [OF assms(1)]
    by (auto simp: reconcileNormal_active [OF assms(2)] tryE_def catchE_def by_state_def reconcileLostDomain_def
        reconcileStopped_def reconcileRunning_def observeMachineAddress_def conds split: option.split sum.split)
qed

theorem lost_domain_not_recreated_witness:
  "\<exists>l'. machine_reconcileNormal empty_kube mock_provider
       (sample_scope (sample_LibvirtMachine [LibvirtMachineFinalizer] (Some ''libvirt://3f1c0a52'')))
       (sample_LibvirtMachine [LibvirtMachineFinalizer] (Some ''libvirt://3f1c0a52''), fresh_mock DomainStateNotFound)
     = Some (Inr \<lparr>RequeueAfter = domainStateCheckInterval\<rparr>, (l', fresh_mock DomainStateNotFound))
     \<and> \<not> lmt_Ready (lm_Status l')"
proof -
  let ?l = "sample_LibvirtMachine [LibvirtMachineFinalizer] (Some ''libvirt://3f1c0a52'')"
  have pid: "lms_ProviderID (lm_Spec ?l) \<noteq> None" by (simp add: sample_LibvirtMachine_def)
  have "p_GetMachineState mock_provider (ms_MachineConfig (sample_scope ?l)) (fresh_mock DomainStateNotFound)
      = Some (Inr DomainStateNotFound, fresh_mock DomainStateNotFound)"
    by (simp add: mock_defs fresh_mock_def)
  then show ?thesis
    using lost_domain_not_recreated [OF empty_kube_laws active_sample pid, where P = mock_provider] by blast
qed

text \<open>
  The finalizer of a machine goes only after its domain, disks and reservation are deleted: when it is gone after
  \<^verbatim>\<open>reconcileDelete\<close>, the provider's \<^verbatim>\<open>DeleteMachine\<close> has succeeded; when the deletion fails, its error is returned
  and the object is unchanged.
\<close>

lemma reconcileDelete_cases:
  assumes "kube_laws K"
  shows "machine_reconcileDelete K P scope (l, w) =
     (case p_DeleteMachine P (ms_MachineConfig scope) w of
        None \<Rightarrow> None
      | Some (Inl e, w') \<Rightarrow> Some (Inl e, (l, w'))
      | Some (Inr _, w') \<Rightarrow>
          Some (if LibvirtMachineFinalizer \<in> set (meta_Finalizers (lm_Meta l)) then Inr no_requeue
                else Inl (Errorf ''unable to remove finalizer %s from LibvirtMachine  %s/%s''
                  [LibvirtMachineFinalizer, meta_Namespace (machine_Meta (ms_Machine scope)), meta_Name (machine_Meta (ms_Machine scope))]),
                (l\<lparr>lm_Meta := (lm_Meta l)\<lparr>meta_Finalizers := removeAll LibvirtMachineFinalizer (meta_Finalizers (lm_Meta l))\<rparr>\<rparr>, w')))"
  by (simp add: machine_reconcileDelete_def tryE_def catchE_def kube_laws.remove [OF assms] split: option.split sum.split)

definition ready_inv :: "LibvirtMachine \<Rightarrow> bool" where
  "ready_inv l \<longleftrightarrow>
     (lmt_Ready (lm_Status l) \<longrightarrow> lmi_Provisioned (lmt_Initialization (lm_Status l)) \<and> lms_ProviderID (lm_Spec l) \<noteq> None)"

lemma by_state_ready:
  assumes "by_state K P scope state (l, w) = Some (r, (l', w'))" "ready_inv l"
  shows "ready_inv l'"
  using assms unfolding by_state_def branch_defs
  by (auto simp: ready_inv_def tryE_def catchE_def split: option.splits sum.splits if_splits)

lemma reconcileNormal_ready:
  assumes "machine_reconcileNormal K P scope (l, w) = Some (r, (l', w'))" "ready_inv l"
  shows "ready_inv l'"
proof (cases "active K scope l")
  case True
  have "ready_inv (set_machine_condition K infra_is_ready l)" using assms(2) by (simp add: ready_inv_def)
  with assms(1) show ?thesis
    by (auto simp: reconcileNormal_active [OF True] tryE_def catchE_def split: option.splits sum.splits
        dest: by_state_ready)
next
  case False
  with assms show ?thesis
    unfolding machine_reconcileNormal_def
    by (auto simp: active_def ready_inv_def split: if_splits)
qed

text \<open>
  C16: A machine that is reported ready is provisioned and has a provider ID: every reconciliation, also one that
  fails, keeps this, whatever the provider answers.
\<close>

theorem machine_ready_inv:
  assumes "machine_reconcileNormal K P scope (l, w) = Some (r, (l', w'))" "ready_inv l"
  shows "ready_inv l'"
  by (rule reconcileNormal_ready [OF assms])

theorem machine_ready_inv_witness:
  "\<exists>r l' w'. machine_reconcileNormal empty_kube mock_provider
       (sample_scope (sample_LibvirtMachine [LibvirtMachineFinalizer] (Some ''libvirt://3f1c0a52'')))
       (sample_LibvirtMachine [LibvirtMachineFinalizer] (Some ''libvirt://3f1c0a52''),
        mock_SetStartMachineErr (Some (External ''no memory'')) (fresh_mock DomainStateStopped)) = Some (r, (l', w'))
     \<and> ready_inv l'"
proof -
  let ?l = "sample_LibvirtMachine [LibvirtMachineFinalizer] (Some ''libvirt://3f1c0a52'')"
  obtain r l' w' where run: "machine_reconcileNormal empty_kube mock_provider (sample_scope ?l)
      (?l, mock_SetStartMachineErr (Some (External ''no memory'')) (fresh_mock DomainStateStopped)) = Some (r, (l', w'))"
    by (simp add: reconcileNormal_active [OF active_sample] by_state_def reconcileStopped_def mock_SetStartMachineErr_def
        mock_defs fresh_mock_def tryE_def catchE_def DomainState_defs)
  have "ready_inv ?l" by (simp add: ready_inv_def sample_LibvirtMachine_def)
  with machine_ready_inv [OF run] run show ?thesis by blast
qed

section \<open>Sizes and names\<close>

lemma uint_scast: "0 \<le> sint x \<Longrightarrow> uint (scast (x :: 32 word) :: u64) = sint x"
proof -
  have "uint (scast x :: u64) = take_bit 64 (sint x)" by transfer simp
  then show "0 \<le> sint x \<Longrightarrow> uint (scast (x :: 32 word) :: u64) = sint x"
    using sint_lt [of x] by (simp add: take_bit_int_eq_self)
qed

lemma scast_zero: "0 \<le> sint x \<Longrightarrow> (scast (x :: 32 word) :: u64) = 0 \<longleftrightarrow> sint x = 0"
  using uint_scast [of x] by (simp add: word_uint_eq_iff)

text \<open>
  C36: The sizes of a machine reach libvirt unchanged: a specification without negative numbers gives a configuration
  with the same numbers, and a zero gives the default of libvirtclient.
\<close>

theorem machine_sizes:
  assumes "0 \<le> sint (lms_MemoryMiB (lm_Spec l))" "0 \<le> sint (lms_VCPU (lm_Spec l))" "0 \<le> sint (lms_DiskGiB (lm_Spec l))"
  shows "uint (memoryMiB (newMachineConfig l c)) = (if sint (lms_MemoryMiB (lm_Spec l)) = 0 then 1024 else sint (lms_MemoryMiB (lm_Spec l)))
     \<and> uint (vCPU (newMachineConfig l c)) = (if sint (lms_VCPU (lm_Spec l)) = 0 then 1 else sint (lms_VCPU (lm_Spec l)))
     \<and> uint (diskSizeGiB (newMachineConfig l c)) = (if sint (lms_DiskGiB (lm_Spec l)) = 0 then 20 else sint (lms_DiskGiB (lm_Spec l)))"
  using assms by (simp add: newMachineConfig_def memoryMiB_def vCPU_def diskSizeGiB_def uint_scast scast_zero
      DefaultMemoryMiB_def DefaultCPU_def DefaultVolumeCapacityGiB_def)

theorem machine_sizes_witness:
  "uint (memoryMiB (newMachineConfig (sample_LibvirtMachine [] None) (sample_LibvirtCluster []))) = 2048"
  using machine_sizes [of "sample_LibvirtMachine [] None" "sample_LibvirtCluster []"] by (simp add: sample_LibvirtMachine_def)

text \<open>Host names: the characters of a DNS label, and a label.\<close>

definition label_char :: "char \<Rightarrow> bool" where
  "label_char c \<longleftrightarrow> c \<in> set ''abcdefghijklmnopqrstuvwxyz0123456789-''"

definition dns_label :: "string \<Rightarrow> bool" where
  "dns_label s \<longleftrightarrow>
     s \<noteq> [] \<and> length s \<le> 63 \<and> (\<forall>c \<in> set s. label_char c) \<and> hd s \<noteq> CHR ''-'' \<and> last s \<noteq> CHR ''-''"

lemma hex_chars: "ch \<in> set (hex_EncodeToString bs) \<Longrightarrow> ch \<in> set digits_hex"
proof -
  have "unat b div 16 < length digits_hex" "unat b mod 16 < length digits_hex" for b :: "8 word"
    using unat_byte [of b] by (simp_all add: less_mult_imp_div_less)
  then show "ch \<in> set (hex_EncodeToString bs) \<Longrightarrow> ch \<in> set digits_hex"
    by (auto simp: hex_EncodeToString_def hex_byte_def simp del: length_digits_hex intro!: nth_mem)
qed

lemma length_sum: "length (hex_EncodeToString (sha256_Sum256 s)) = 64"
proof -
  have two: "length (concat (map hex_byte bs)) = 2 * length bs" for bs by (induction bs) auto
  have four: "length (concat (map BigEndian_PutUint32 ws)) = 4 * length ws" for ws by (induction ws) auto
  have "length (sha_words st) = 8" for st by (simp add: sha_words_def split: prod.split)
  then show ?thesis by (simp add: hex_EncodeToString_def sha256_Sum256_def two four Let_def)
qed

lemma TrimRight_hd:
  assumes "s \<noteq> []" "hd s \<notin> set cs"
  shows "strings_TrimRight s cs \<noteq> []" "hd (strings_TrimRight s cs) = hd s"
proof -
  obtain t where t: "s = strings_TrimRight s cs @ t" "set t \<subseteq> set cs" using TrimRight_prefix by blast
  show ne: "strings_TrimRight s cs \<noteq> []"
  proof
    assume "strings_TrimRight s cs = []"
    with t(1) have "s = t" by simp
    with assms t(2) show False by (metis hd_in_set subsetD)
  qed
  then show "hd (strings_TrimRight s cs) = hd s" using t(1) by (metis hd_append2)
qed

lemma label_dash: "label_char (CHR ''-'')"
  by (simp add: label_char_def)

lemma label_hex: "\<forall>ch \<in> set digits_hex. label_char ch \<and> ch \<noteq> CHR ''-''"
  by (simp add: digits_hex_def label_char_def)

lemma trimmed_prefix:
  assumes "p \<noteq> []" "hd p \<notin> set cs" "0 < n"
  defines "q \<equiv> if length p > n then strings_TrimRight (take n p) cs else p"
  shows "q \<noteq> []" "hd q = hd p" "set q \<subseteq> set p" "length q \<le> n"
proof -
  let ?t = "strings_TrimRight (take n p) cs"
  obtain t where t: "take n p = ?t @ t" using TrimRight_prefix by blast
  have "hd (take n p) = hd p" "take n p \<noteq> []" using assms(1,3) by simp_all
  then have "?t \<noteq> []" "hd ?t = hd p" using TrimRight_hd [of "take n p" cs] assms(2) by simp_all
  moreover have "set ?t \<subseteq> set (take n p)" by (subst t) simp
  then have "set ?t \<subseteq> set p" using set_take_subset by (rule subset_trans)
  moreover have "length ?t \<le> length (take n p)" by (subst t) simp
  ultimately show "q \<noteq> []" "hd q = hd p" "set q \<subseteq> set p" "length q \<le> n" using assms(1) by (auto simp: q_def)
qed

lemma domainName_label:
  assumes "meta_Namespace (lm_Meta l) \<noteq> []" "hd (meta_Namespace (lm_Meta l)) \<noteq> CHR ''-''"
    "\<forall>ch \<in> set (meta_Namespace (lm_Meta l)). label_char ch"
    "\<forall>ch \<in> set (meta_Name (lm_Meta l)). label_char ch \<or> ch = CHR ''.''"
  shows "dns_label (domainName l)
     \<and> drop (length (domainName l) - 6) (domainName l) =
         take 6 (hex_EncodeToString (sha256_Sum256 (meta_Namespace (lm_Meta l) @ ''/'' @ meta_Name (lm_Meta l))))"
proof -
  let ?ns = "meta_Namespace (lm_Meta l)" and ?n = "meta_Name (lm_Meta l)"
  define h where "h = take 6 (hex_EncodeToString (sha256_Sum256 (?ns @ ''/'' @ ?n)))"
  define p where "p = ?ns @ ''-'' @ strings_ReplaceAll ?n (CHR ''.'') (CHR ''-'')"
  define q where "q = (if length p > 56 then strings_TrimRight (take 56 p) ''-'' else p)"
  have name: "domainName l = q @ ''-'' @ h"
    unfolding domainName_def q_def p_def h_def by (simp add: Let_def domainNameSeparator_def domainNameMaxLength_def domainNameHashLength_def)
  have h: "length h = 6" "\<forall>ch \<in> set h. ch \<in> set digits_hex"
    using length_sum hex_chars by (auto simp: h_def dest!: in_set_takeD)
  have p: "p \<noteq> []" "hd p \<notin> set ''-''" "\<forall>ch \<in> set p. label_char ch"
    using assms label_dash by (auto simp: p_def strings_ReplaceAll_def)
  note q = trimmed_prefix [OF p(1,2), of 56, folded q_def]
  have "label_char ch \<and> ch \<noteq> CHR ''-''" if "ch \<in> set h" for ch
    using h(2) label_hex that by blast
  moreover have "last (domainName l) = last h" "h \<noteq> []" using h(1) by (auto simp: name)
  ultimately have "dns_label (domainName l)"
    unfolding dns_label_def using p q h(1) label_dash by (auto simp: name)
  then show ?thesis using h(1) by (simp add: name) (simp add: h_def)
qed

text \<open>
  C35: The domain name of a machine in a namespace is a DNS label: at most 63 characters, all of them lower-case
  letters, digits or hyphens, without a hyphen at either end. It ends with the first six hex digits of the
  SHA-256 sum of the namespaced name, so machines for which they differ have different names.
\<close>

theorem domainName_dns_label:
  assumes "meta_Namespace (lm_Meta l) \<noteq> []" "hd (meta_Namespace (lm_Meta l)) \<noteq> CHR ''-''"
    "\<forall>ch \<in> set (meta_Namespace (lm_Meta l)). label_char ch"
    "\<forall>ch \<in> set (meta_Name (lm_Meta l)). label_char ch \<or> ch = CHR ''.''"
  shows "dns_label (domainName l)
     \<and> drop (length (domainName l) - 6) (domainName l) =
         take 6 (hex_EncodeToString (sha256_Sum256 (meta_Namespace (lm_Meta l) @ ''/'' @ meta_Name (lm_Meta l))))"
  by (rule domainName_label [OF assms])

theorem domainName_dns_label_witness:
  "dns_label (domainName (sample_LibvirtMachine [] None))
     \<and> take 11 (domainName (sample_LibvirtMachine [] None)) = ''default-m2-''"
proof -
  have "dns_label (domainName (sample_LibvirtMachine [] None))"
    using domainName_dns_label [of "sample_LibvirtMachine [] None"]
    by (simp add: sample_LibvirtMachine_def sample_meta_def label_char_def)
  then show ?thesis
    by (simp add: domainName_def sample_LibvirtMachine_def sample_meta_def Let_def strings_ReplaceAll_def
        domainNameSeparator_def domainNameMaxLength_def domainNameHashLength_def)
qed

section \<open>What is written back\<close>

lemma keepsD: "keeps R m \<Longrightarrow> m (x, w) = Some (r, (x', w')) \<Longrightarrow> R x x'"
  unfolding keeps_def by blast

definition written_back :: "LibvirtMachine \<Rightarrow> LibvirtMachine \<Rightarrow> bool" where
  "written_back l l' \<longleftrightarrow> same_machine_id l l' \<and> (ready_inv l \<longrightarrow> ready_inv l')"

interpretation wb: object_relation written_back
  by unfold_locales (auto simp: written_back_def intro: mid.refl mid.trans)

lemma reconcileNormal_written_back: "kube_laws K \<Longrightarrow> keeps written_back (machine_reconcileNormal K P scope)"
  using reconcileNormal_keeps_id [of K P scope] reconcileNormal_ready [of K P scope]
  unfolding keeps_def written_back_def by meson

lemma reconcileDelete_written_back:
  assumes "kube_laws K"
  shows "keeps written_back (machine_reconcileDelete K P scope)"
proof -
  have "written_back l (l\<lparr>lm_Meta := (lm_Meta l)\<lparr>meta_Finalizers := fs\<rparr>\<rparr>)" for l fs
    using same_id_finalizers [of "(lm_Meta l)\<lparr>meta_Finalizers := fs\<rparr>" l] by (simp add: written_back_def ready_inv_def)
  then show ?thesis
    unfolding keeps_def machine_reconcileDelete_def
    by (auto simp: kube_laws.remove [OF assms] tryE_def catchE_def wb.refl split: option.splits sum.splits if_splits)
qed

lemma owned_written_back:
  assumes "kube_laws K"
  shows "keeps written_back (machine_Reconcile_owned K P loader l)"
proof -
  note keep = wb.keeps_intros reconcileNormal_written_back [OF assms] reconcileDelete_written_back [OF assms]
  show ?thesis unfolding machine_Reconcile_owned_def Let_def by (rule keep)+
qed

lemma patch_irrelevant_parts:
  "set_machine_condition (K\<lparr>patch_LibvirtMachine := f\<rparr>) = set_machine_condition K"
  "reconcileLostDomain (K\<lparr>patch_LibvirtMachine := f\<rparr>) scope = reconcileLostDomain K scope"
  "getCloudInitData (K\<lparr>patch_LibvirtMachine := f\<rparr>) scope = getCloudInitData K scope"
  "reconcileMissing (K\<lparr>patch_LibvirtMachine := f\<rparr>) P scope = reconcileMissing K P scope"
  "reconcileStopped (K\<lparr>patch_LibvirtMachine := f\<rparr>) P scope = reconcileStopped K P scope"
  "reconcileRunning (K\<lparr>patch_LibvirtMachine := f\<rparr>) P scope = reconcileRunning K P scope"
  "Load (K\<lparr>patch_LibvirtMachine := f\<rparr>) loader c = Load K loader c"
  by (simp_all add: set_machine_condition_def [abs_def] reconcileLostDomain_def getCloudInitData_def [abs_def]
      reconcileMissing_def reconcileStopped_def reconcileRunning_def Load_def loadRef_def Let_def cong: if_cong option.case_cong)

lemma patch_irrelevant:
  "machine_Reconcile_owned (K\<lparr>patch_LibvirtMachine := f\<rparr>) P loader l = machine_Reconcile_owned K P loader l"
proof -
  have "machine_reconcileNormal (K\<lparr>patch_LibvirtMachine := f\<rparr>) P scope = machine_reconcileNormal K P scope" for scope
    by (simp add: machine_reconcileNormal_def patch_irrelevant_parts cong del: if_weak_cong)
  moreover have "machine_reconcileDelete (K\<lparr>patch_LibvirtMachine := f\<rparr>) P scope = machine_reconcileDelete K P scope" for scope
    by (simp add: machine_reconcileDelete_def)
  ultimately show ?thesis by (simp add: machine_Reconcile_owned_def patch_irrelevant_parts Let_def cong: if_cong option.case_cong)
qed

lemma Reconcile_writes:
  assumes "kube_laws K" "get_LibvirtMachine K req w = Some (Inr l, w1)"
    "\<And>h l'. written_back l l' \<Longrightarrow> f h l' = patch_LibvirtMachine K h l'"
  shows "machine_Reconcile (K\<lparr>patch_LibvirtMachine := f\<rparr>) P loader req w = machine_Reconcile K P loader req w"
proof -
  let ?body = "machine_Reconcile_owned K P loader l"
  have "keeps written_back ?body" by (rule owned_written_back [OF assms(1)])
  then have "deferPatch (f h) l ?body w' = deferPatch (patch_LibvirtMachine K h) l ?body w'" for h w'
    by (intro deferPatch_cong assms(3)) (rule keepsD)
  then show ?thesis
    unfolding machine_Reconcile_def
    by (simp add: patch_irrelevant assms(2) tryE_def catchE_def split: option.split sum.split)
qed

text \<open>
  C15: Whatever happens in a reconciliation request for a machine, what is written back to the API server keeps the
  identity of the machine and the relation of its status fields: the request behaves the same with any
  server that handles such objects the same.
\<close>

theorem machine_Reconcile_writes:
  assumes "kube_laws K" "get_LibvirtMachine K req w = Some (Inr l, w1)"
    "\<And>h l'. written_back l l' \<Longrightarrow> f h l' = patch_LibvirtMachine K h l'"
  shows "machine_Reconcile (K\<lparr>patch_LibvirtMachine := f\<rparr>) P loader req w = machine_Reconcile K P loader req w"
  by (rule Reconcile_writes [OF assms])

text \<open>An API server with one LibvirtMachine, without an owner yet.\<close>

definition one_machine_kube :: "LibvirtMachine \<Rightarrow> 'w kube" where
  "one_machine_kube l = empty_kube\<lparr>get_LibvirtMachine := (\<lambda>_. ret l)\<rparr>"

lemma one_machine_laws: "kube_laws (one_machine_kube l)"
proof -
  have "one_machine_kube l = with_ref_utils ((one_machine_kube l) :: 'a kube)"
    by (simp add: one_machine_kube_def empty_kube_def with_ref_utils_def)
  then show "kube_laws ((one_machine_kube l) :: 'a kube)" by (metis refk.kube_laws_axioms)
qed

theorem machine_Reconcile_writes_witness:
  "let l = sample_LibvirtMachine [] None;
       K = one_machine_kube l :: MockProvider kube;
       refuse = (\<lambda>h l'. if written_back l l' then ret () else throw (External ''changed''));
       req = \<lparr>nn_Namespace = ''default'', nn_Name = ''m2''\<rparr>
   in machine_Reconcile (K\<lparr>patch_LibvirtMachine := refuse\<rparr>) mock_provider off_loader req (fresh_mock DomainStateNotFound)
      = machine_Reconcile K mock_provider off_loader req (fresh_mock DomainStateNotFound)"
  unfolding Let_def
  by (rule machine_Reconcile_writes [OF one_machine_laws]) (auto simp: one_machine_kube_def empty_kube_def with_ref_utils_def)

end
