(* ===== verification/ClusterProps.thy ===== *)
theory ClusterProps
  imports Mock
begin

text \<open>
  The properties of the cluster controller, of the credentials loader and of the mock provider.
\<close>

section \<open>LibvirtClusters\<close>

lemma cluster_condition_keeps [simp]:
  "lc_Meta (set_cluster_condition K c l) = lc_Meta l" "lc_Spec (set_cluster_condition K c l) = lc_Spec l"
  "lct_Ready (lc_Status (set_cluster_condition K c l)) = lct_Ready (lc_Status l)"
  "lct_Initialization (lc_Status (set_cluster_condition K c l)) = lct_Initialization (lc_Status l)"
  "lct_Conditions (lc_Status (set_cluster_condition K c l)) = conditions_Set K c (lct_Conditions (lc_Status l))"
  by (simp_all add: set_cluster_condition_def LibvirtCluster_SetConditions_def LibvirtCluster_GetConditions_def)

lemma cluster_ready_keeps [simp]:
  "lc_Meta (set_cluster_ready b l) = lc_Meta l" "lc_Spec (set_cluster_ready b l) = lc_Spec l"
  "lct_Ready (lc_Status (set_cluster_ready b l)) = b"
  "lci_Provisioned (lct_Initialization (lc_Status (set_cluster_ready b l))) = b"
  "lct_Conditions (lc_Status (set_cluster_ready b l)) = lct_Conditions (lc_Status l)"
  by (simp_all add: set_cluster_ready_def)

lemma Load_same: "lc_Meta l' = lc_Meta l \<Longrightarrow> lc_Spec l' = lc_Spec l \<Longrightarrow> Load K loader l' = Load K loader l"
  by (simp add: Load_def loadRef_def split: option.split)

text \<open>The checks before the host is asked.\<close>

definition cluster_checkable :: "'w kube \<Rightarrow> ClusterScope \<Rightarrow> LibvirtCluster \<Rightarrow> bool" where
  "cluster_checkable K scope l \<longleftrightarrow>
     \<not> IsPaused K (scope_Cluster scope) (lc_Meta l)
     \<and> ContainsFinalizer K (lc_Meta l) LibvirtClusterFinalizer \<and> hasControlPlaneEndpoint K scope l"

definition infra_condition :: "LibvirtCluster \<Rightarrow> (ConditionStatus \<times> string) option" where
  "infra_condition l =
     map_option (\<lambda>c. (cond_Status c, cond_Reason c)) (cond_get InfrastructureReadyCondition (lct_Conditions (lc_Status l)))"

text \<open>Metadata and specification are kept.\<close>

definition same_cluster :: "LibvirtCluster \<Rightarrow> LibvirtCluster \<Rightarrow> bool" where
  "same_cluster l l' \<longleftrightarrow> lc_Meta l' = lc_Meta l \<and> lc_Spec l' = lc_Spec l"

text \<open>The status flags are kept: ready, and provisioned.\<close>

definition same_flags :: "LibvirtCluster \<Rightarrow> LibvirtCluster \<Rightarrow> bool" where
  "same_flags l l' \<longleftrightarrow>
     lct_Ready (lc_Status l') = lct_Ready (lc_Status l)
     \<and> lct_Initialization (lc_Status l') = lct_Initialization (lc_Status l)"

text \<open>An error in the tree of another one, through wrapping and joining.\<close>

inductive part_of :: "goerror \<Rightarrow> goerror \<Rightarrow> bool" where
  part_self: "part_of e e"
| part_wrapped: "part_of c e \<Longrightarrow> part_of c (Wrapf f as e)"
| part_joined: "part_of c e \<Longrightarrow> e \<in> set es \<Longrightarrow> part_of c (Joined es)"

inductive_simps part_of_Wrapf: "part_of c (Wrapf f as e)"
inductive_simps part_of_Joined: "part_of c (Joined es)"

text \<open>The reason for a fault: a missing resource before an inactive one before anything else.\<close>

definition fault_reason :: "goerror \<Rightarrow> string" where
  "fault_reason e =
     (if \<exists>k n. part_of (ErrInfraMissing k n) e then ''InfrastructureMissing''
      else if \<exists>k n. part_of (ErrInfraInactive k n) e then ''InfrastructureInactive''
      else ''InfrastructureProvisioningFailed'')"

lemma part_of_leaf:
  assumes "\<And>f as e'. e \<noteq> Wrapf f as e'" "\<And>es. e \<noteq> Joined es"
  shows "part_of c e \<longleftrightarrow> c = e"
proof
  assume "part_of c e"
  then show "c = e" by (cases rule: part_of.cases) (use assms in auto)
qed (simp add: part_self)

lemma errors_As_part_of:
  "errors_As t e \<noteq> None \<longleftrightarrow> (\<exists>c. part_of c e \<and> t c \<noteq> None)"
  "errors_As_list t es \<noteq> None \<longleftrightarrow> (\<exists>e \<in> set es. \<exists>c. part_of c e \<and> t c \<noteq> None)"
proof (induction t e and t es rule: errors_As_errors_As_list.induct)
  case (1 t e)
  show ?case
  proof (cases "t e")
    case None
    with 1 show ?thesis
      by (cases e) (auto simp: errors_As.simps part_of_Wrapf part_of_Joined part_of_leaf)
  qed (auto simp: errors_As.simps intro: part_self)
qed (auto split: option.splits)

lemma getInfraError_fault_reason: "getInfraError e = fault_reason e"
proof -
  have "as_ErrInfraMissing c \<noteq> None \<longleftrightarrow> (\<exists>k n. c = ErrInfraMissing k n)"
    "as_ErrInfraInactive c \<noteq> None \<longleftrightarrow> (\<exists>k n. c = ErrInfraInactive k n)" for c
    by (cases c; simp)+
  then show ?thesis
    unfolding getInfraError_def fault_reason_def errors_As_part_of
    by (auto simp: InfrastructureMissingReason_def InfrastructureInactiveReason_def InfrastructureProvisioningFailedReason_def)
qed

lemma reconcileNormal_verdict:
  assumes "kube_laws K" "cluster_checkable K scope l"
  shows "case Load K loader l w of
       None \<Rightarrow> cluster_reconcileNormal K P loader scope (l, w) = None
     | Some (Inl e, w1) \<Rightarrow>
         (\<exists>l'. same_cluster l l' \<and> cluster_reconcileNormal K P loader scope (l, w) = Some (Inr \<lparr>RequeueAfter = requeueTimeShort\<rparr>, (l', w1))
            \<and> infra_condition l' = Some (ConditionFalse, CredentialsUnavailableReason)
            \<and> same_flags l l')
     | Some (Inr creds, w1) \<Rightarrow>
         (case p_EnsureInfra P ((scope_InfraConfig scope)\<lparr>cfg_Credentials := creds\<rparr>) w1 of
            None \<Rightarrow> cluster_reconcileNormal K P loader scope (l, w) = None
          | Some (Inl e, w2) \<Rightarrow>
              (\<exists>l'. same_cluster l l' \<and> cluster_reconcileNormal K P loader scope (l, w) = Some (Inr \<lparr>RequeueAfter = requeueTimeShort\<rparr>, (l', w2))
                 \<and> infra_condition l' = Some (ConditionFalse, getInfraError e)
                 \<and> same_flags l l')
          | Some (Inr _, w2) \<Rightarrow>
              (\<exists>l'. same_cluster l l' \<and> cluster_reconcileNormal K P loader scope (l, w) = Some (Inr no_requeue, (l', w2))
                 \<and> infra_condition l' = Some (ConditionTrue, InfrastructureReadyReason)
                 \<and> lct_Ready (lc_Status l') \<and> lci_Provisioned (lct_Initialization (lc_Status l'))))"
proof -
  have load: "Load K loader (set_cluster_condition K c (set_cluster_condition K d l)) = Load K loader l" for c d
    by (rule Load_same) simp_all
  note conds = infra_condition_def same_cluster_def same_flags_def kube_laws.set_condition [OF assms(1)] InfrastructureReadyCondition_def InfrastructureReadyReason_def
  show ?thesis
    using assms(2) unfolding cluster_checkable_def cluster_reconcileNormal_def
    by (auto simp: load catchE_def conds split: option.split sum.split)
qed

text \<open>
  C20: The verdict on the infrastructure of a cluster that is not paused, has the finalizer and a control plane
  endpoint: when the credentials cannot be loaded, or the provider finds a fault, the condition is false, the
  request is repeated after half a minute, and the flags ready and provisioned are as they were. The reason says
  that the credentials are unavailable; or that a resource is missing, when the error has a missing resource
  anywhere in it; or else that one is inactive, when it has an inactive one; or else that provisioning failed. If
  there is no fault the condition is true and the cluster is ready and provisioned. The credentials that were
  loaded are the ones the provider gets. Metadata and specification are kept.
\<close>

theorem cluster_verdict:
  assumes "kube_laws K" "cluster_checkable K scope l"
  shows "case Load K loader l w of
       None \<Rightarrow> cluster_reconcileNormal K P loader scope (l, w) = None
     | Some (Inl e, w1) \<Rightarrow>
         (\<exists>l'. same_cluster l l' \<and> cluster_reconcileNormal K P loader scope (l, w) = Some (Inr \<lparr>RequeueAfter = 30 * Second\<rparr>, (l', w1))
            \<and> infra_condition l' = Some (ConditionFalse, ''CredentialsUnavailable'')
            \<and> same_flags l l')
     | Some (Inr creds, w1) \<Rightarrow>
         (case p_EnsureInfra P ((scope_InfraConfig scope)\<lparr>cfg_Credentials := creds\<rparr>) w1 of
            None \<Rightarrow> cluster_reconcileNormal K P loader scope (l, w) = None
          | Some (Inl e, w2) \<Rightarrow>
              (\<exists>l'. same_cluster l l' \<and> cluster_reconcileNormal K P loader scope (l, w) = Some (Inr \<lparr>RequeueAfter = 30 * Second\<rparr>, (l', w2))
                 \<and> infra_condition l' = Some (ConditionFalse, fault_reason e)
                 \<and> same_flags l l')
          | Some (Inr _, w2) \<Rightarrow>
              (\<exists>l'. same_cluster l l' \<and> cluster_reconcileNormal K P loader scope (l, w) = Some (Inr no_requeue, (l', w2))
                 \<and> infra_condition l' = Some (ConditionTrue, ''InfrastructureReady'')
                 \<and> lct_Ready (lc_Status l') \<and> lci_Provisioned (lct_Initialization (lc_Status l'))))"
  by (rule reconcileNormal_verdict [OF assms, unfolded getInfraError_fault_reason CredentialsUnavailableReason_def
      InfrastructureReadyReason_def requeueTimeShort_def])

definition sample_cluster_scope :: ClusterScope where
  "sample_cluster_scope =
     \<lparr>scope_Cluster = sample_cluster, scope_InfraConfig = newInfraConfig (sample_LibvirtCluster [LibvirtClusterFinalizer])\<rparr>"

lemma checkable_sample: "cluster_checkable empty_kube sample_cluster_scope (sample_LibvirtCluster [LibvirtClusterFinalizer])"
  by (simp add: cluster_checkable_def sample_cluster_scope_def hasControlPlaneEndpoint_def sample_defs)

lemma load_off: "Load K off_loader (sample_LibvirtCluster fs) = ret None"
  by (simp add: Load_def off_loader_def sample_LibvirtCluster_def)

theorem cluster_verdict_witness:
  "\<exists>l' m. cluster_reconcileNormal empty_kube mock_provider off_loader sample_cluster_scope
       (sample_LibvirtCluster [LibvirtClusterFinalizer],
        mock_SetEnsureInfraErr (Some (ErrInfraInactive ''network'' ''default'')) (fresh_mock DomainStateNotFound))
     = Some (Inr \<lparr>RequeueAfter = requeueTimeShort\<rparr>, (l', m))
     \<and> infra_condition l' = Some (ConditionFalse, InfrastructureInactiveReason)"
proof -
  let ?m = "mock_SetEnsureInfraErr (Some (ErrInfraInactive ''network'' ''default'')) (fresh_mock DomainStateNotFound)"
  have "p_EnsureInfra mock_provider cfg ?m =
      Some (Inl (ErrInfraInactive ''network'' ''default''), ?m\<lparr>mk_EnsuredInfraConfig := Some cfg\<rparr>)" for cfg
    by (simp add: mock_defs mock_SetEnsureInfraErr_def fresh_mock_def)
  moreover have "fault_reason (ErrInfraInactive ''network'' ''default'') = InfrastructureInactiveReason"
    by (simp add: fault_reason_def part_of_leaf InfrastructureInactiveReason_def)
  ultimately show ?thesis
    using cluster_verdict [OF empty_kube_laws checkable_sample, where loader = off_loader and w = ?m and P = mock_provider]
    by (auto simp: load_off requeueTimeShort_def)
qed

text \<open>
  C21: Before that nothing outside is called: a paused cluster is left alone; one without the finalizer gets it and no
  other change; one without a control plane endpoint is marked not ready and not provisioned, with the
  reason.
\<close>

theorem cluster_gates:
  assumes "kube_laws K" "\<not> cluster_checkable K scope l"
  shows "\<exists>l'. cluster_reconcileNormal K P loader scope (l, w) = Some (Inr no_requeue, (l', w))
     \<and> (if IsPaused K (scope_Cluster scope) (lc_Meta l) then l' = l
        else if LibvirtClusterFinalizer \<notin> set (meta_Finalizers (lc_Meta l))
        then l' = l\<lparr>lc_Meta := (lc_Meta l)\<lparr>meta_Finalizers := meta_Finalizers (lc_Meta l) @ [LibvirtClusterFinalizer]\<rparr>\<rparr>
        else \<not> lct_Ready (lc_Status l') \<and> \<not> lci_Provisioned (lct_Initialization (lc_Status l'))
          \<and> map_option cond_Reason (cond_get ControlPlaneEndpointReadyCondition (lct_Conditions (lc_Status l')))
             = Some ControlPlaneEndpointMissingReason)"
  using assms(2) unfolding cluster_checkable_def cluster_reconcileNormal_def
  by (auto simp: kube_laws.contains [OF assms(1)] kube_laws.add [OF assms(1)] kube_laws.set_condition [OF assms(1)])

theorem cluster_gates_witness:
  "\<exists>l'. cluster_reconcileNormal empty_kube mock_provider off_loader sample_cluster_scope
       (sample_LibvirtCluster [], fresh_mock DomainStateNotFound) = Some (Inr no_requeue, (l', fresh_mock DomainStateNotFound))
     \<and> meta_Finalizers (lc_Meta l') = [LibvirtClusterFinalizer]"
proof -
  have "\<not> cluster_checkable empty_kube sample_cluster_scope (sample_LibvirtCluster [])"
    by (simp add: cluster_checkable_def sample_defs)
  from cluster_gates [OF empty_kube_laws this, where loader = off_loader and w = "fresh_mock DomainStateNotFound" and P = mock_provider]
  show ?thesis by (auto simp: sample_defs sample_cluster_scope_def)
qed

section \<open>Credentials\<close>

text \<open>
  C28: What a Secret gives: the TLS keys and the SSH keys each have to be all there or all absent, otherwise the
  first incomplete set is an error that names exactly its missing keys; with none at all there are no
  credentials; otherwise there are exactly the complete sets, with the data of the Secret.
\<close>

theorem credentialsFromSecret_correct:
  "credentialsFromSecret data =
     (if \<not> complete data tlsSecretKeys \<and> \<not> absent data tlsSecretKeys
      then Inl (Errorf ''missing keys: %s'' [strings_Join (filter (\<lambda>k. \<not> has_key data k) tlsSecretKeys) '', ''])
      else if \<not> complete data sshSecretKeys \<and> \<not> absent data sshSecretKeys
      then Inl (Errorf ''missing keys: %s'' [strings_Join (filter (\<lambda>k. \<not> has_key data k) sshSecretKeys) '', ''])
      else if absent data tlsSecretKeys \<and> absent data sshSecretKeys then Inr None
      else Inr (Some \<lparr>cred_TLS = tls_of data, cred_SSH = ssh_of data\<rparr>))"
  by (rule credentialsFromSecret_cases)

text \<open>The answer of a server that holds the objects \<open>stored\<close> and indexes them with \<open>credentialsRefName\<close>.\<close>

fun list_matches :: "LibvirtCluster \<Rightarrow> ListOption \<Rightarrow> bool" where
  "list_matches c (InNamespace ns) \<longleftrightarrow> meta_Namespace (lc_Meta c) = ns"
| "list_matches c (MatchingFields field value) \<longleftrightarrow>
     field = credentialsRefNameField \<and> value \<in> set (credentialsRefName (LibvirtClusterObject c))"

text \<open>
  A change of a Secret reaches every cluster it matters to: if two states of the API server differ only in one
  Secret, and the credentials of a stored cluster come out differently, then the cluster is among the requests
  that the change of the Secret makes.
\<close>

lemma secret_change_enqueues:
  assumes "\<And>opts. list_LibvirtClusters K opts w = Some (Inr (filter (\<lambda>c. \<forall>opt \<in> set opts. list_matches c opt) stored), w)"
    and "\<And>n. n \<noteq> ObjectKeyFromObject secret \<Longrightarrow> get_Secret K' n = get_Secret K n"
    and "c \<in> set stored" "Load K' l c \<noteq> Load K l c"
  shows "\<exists>reqs. secretToLibvirtClusters K l secret w = Some (reqs, w) \<and> ObjectKeyFromObject (lc_Meta c) \<in> set reqs"
proof -
  have "ObjectKeyFromObject secret = loader_DefaultSecret l
      \<or> (\<forall>opt \<in> set [InNamespace (meta_Namespace secret), MatchingFields credentialsRefNameField (meta_Name secret)]. list_matches c opt)"
  proof (cases "lcs_CredentialsRef (lc_Spec c)")
    case None
    with assms(4) have "get_Secret K' (loader_DefaultSecret l) \<noteq> get_Secret K (loader_DefaultSecret l)"
      by (auto simp: Load_def Let_def)
    with assms(2) show ?thesis by metis
  next
    case (Some ref)
    let ?key = "\<lparr>nn_Namespace = meta_Namespace (lc_Meta c), nn_Name = cref_Name ref\<rparr>"
    from Some assms(4) have "get_Secret K' ?key \<noteq> get_Secret K ?key" by (auto simp: Load_def loadRef_def Let_def)
    with assms(2) have "?key = ObjectKeyFromObject secret" by metis
    with Some show ?thesis by (simp add: ObjectKeyFromObject_def)
  qed
  with assms(3) show ?thesis by (auto simp: secretToLibvirtClusters_def Let_def assms(1))
qed

definition with_secret :: "(string \<rightharpoonup> bytes) \<Rightarrow> 'w kube \<Rightarrow> 'w kube" where
  "with_secret data K =
     K\<lparr>get_Secret := (\<lambda>n. if n = \<lparr>nn_Namespace = ''default'', nn_Name = ''creds''\<rparr>
         then ret \<lparr>secret_Meta = sample_meta ''creds'' [], secret_Data = data\<rparr> else throw NotFoundStatus)\<rparr>"

definition cluster_with_ref :: LibvirtCluster where
  "cluster_with_ref =
     (sample_LibvirtCluster [])\<lparr>lc_Spec := (lc_Spec (sample_LibvirtCluster []))\<lparr>lcs_CredentialsRef := Some \<lparr>cref_Name = ''creds''\<rparr>\<rparr>\<rparr>"

definition one_cluster_kube :: "'w kube" where
  "one_cluster_kube =
     empty_kube\<lparr>list_LibvirtClusters := (\<lambda>opts. ret (filter (\<lambda>c. \<forall>opt \<in> set opts. list_matches c opt) [cluster_with_ref]))\<rparr>"

section \<open>The mock provider\<close>

text \<open>
  The mock provider answers as configured and records its calls: after setting an error or not, the next call
  gives it, and the recorded configuration is that of the last call; the queries change nothing.
\<close>

lemma mock_provider_records:
  "p_EnsureInfra mock_provider icfg (mock_SetEnsureInfraErr err m) =
     Some (case err of None \<Rightarrow> Inr () | Some e \<Rightarrow> Inl e, (mock_SetEnsureInfraErr err m)\<lparr>mk_EnsuredInfraConfig := Some icfg\<rparr>)
   \<and> mock_GetEnsuredInfraConfig (m\<lparr>mk_EnsuredInfraConfig := Some icfg\<rparr>) = Some icfg
   \<and> p_CreateMachine mock_provider cfg (mock_SetCreateMachineErr err m) =
     Some (case err of None \<Rightarrow> Inr () | Some e \<Rightarrow> Inl e, (mock_SetCreateMachineErr err m)\<lparr>mk_CreatedMachineConfig := Some cfg\<rparr>)
   \<and> mock_GetCreatedMachineConfig (m\<lparr>mk_CreatedMachineConfig := Some cfg\<rparr>) = Some cfg
   \<and> p_GetMachineState mock_provider cfg (mock_SetMachineState st (mock_SetGetMachineStateErr err m)) =
     Some (case err of None \<Rightarrow> Inr st | Some e \<Rightarrow> Inl e, mock_SetMachineState st (mock_SetGetMachineStateErr err m))
   \<and> p_GetMachineAddress mock_provider cfg (mock_SetMachineAddress a (mock_SetGetMachineAddressErr err m)) =
     Some (case err of None \<Rightarrow> Inr a | Some e \<Rightarrow> Inl e, mock_SetMachineAddress a (mock_SetGetMachineAddressErr err m))
   \<and> p_StartMachine mock_provider cfg (mock_SetStartMachineErr err m) =
     Some (case err of None \<Rightarrow> Inr () | Some e \<Rightarrow> Inl e, mock_SetStartMachineErr err m)
   \<and> p_DeleteMachine mock_provider cfg (mock_SetDeleteMachineErr err m) =
     Some (case err of None \<Rightarrow> Inr () | Some e \<Rightarrow> Inl e, mock_SetDeleteMachineErr err m)"
  by (simp add: mock_defs mock_SetEnsureInfraErr_def mock_GetEnsuredInfraConfig_def mock_SetCreateMachineErr_def
      mock_GetCreatedMachineConfig_def mock_SetMachineState_def mock_SetGetMachineStateErr_def mock_SetMachineAddress_def
      mock_SetGetMachineAddressErr_def mock_SetStartMachineErr_def mock_SetDeleteMachineErr_def split: option.split)

end
