(* ===== verification/IPUtils.thy ===== *)
theory IPUtils
  imports MachineNetwork
begin

text \<open>
  \<^verbatim>\<open>pkg/utils/ip.go\<close>, with the parts of \<^verbatim>\<open>net\<close> that it adds: \<^verbatim>\<open>ParseCIDR\<close>, \<^verbatim>\<open>CIDRMask\<close>, masks of both address
  lengths and \<^verbatim>\<open>IPMask.Size\<close>.
\<close>

unbundle bit_operations_syntax

section \<open>CIDR notation in package net\<close>

text \<open>\<^verbatim>\<open>net.dtoi\<close>: the number at the start of the string, how many characters it has, and whether it is one.\<close>

fun dtoi_loop :: "string \<Rightarrow> int \<Rightarrow> nat \<Rightarrow> int \<times> nat \<times> bool" where
  "dtoi_loop [] n i = (n, i, 0 < i)"
| "dtoi_loop (ch # s) n i =
     (if is_digit ch then
        (let n' = n * 10 + int (digit_val ch)
         in if 0xFFFFFF \<le> n' then (0xFFFFFF, i, False) else dtoi_loop s n' (Suc i))
      else (n, i, 0 < i))"

definition dtoi :: "string \<Rightarrow> int \<times> nat \<times> bool" where
  "dtoi s = dtoi_loop s 0 0"

fun cidr_bytes :: "nat \<Rightarrow> nat \<Rightarrow> bytes" where
  "cidr_bytes 0 n = []"
| "cidr_bytes (Suc l) n =
     (if 8 \<le> n then 0xff # cidr_bytes l (n - 8) else NOT (drop_bit n 0xff) # cidr_bytes l 0)"

definition net_CIDRMask :: "nat \<Rightarrow> nat \<Rightarrow> bytes" where
  "net_CIDRMask ones bits = cidr_bytes (bits div 8) ones"

text \<open>\<^verbatim>\<open>IP.Mask\<close> on a 16-byte address, with a mask of either length.\<close>

definition IP_Mask16 :: "bytes \<Rightarrow> bytes \<Rightarrow> bytes" where
  "IP_Mask16 ip m =
     (let ip' = (if length m = 4 \<and> length ip = 16 \<and> take 12 ip = v4_in_v6 [] then drop 12 ip else ip)
      in if length ip' \<noteq> length m then [] else map2 (AND) ip' m)"

text \<open>\<^verbatim>\<open>simpleMaskLength\<close> and \<^verbatim>\<open>IPMask.Size\<close>: the leading ones when all other bits are zero.\<close>

fun byte_ones :: "nat \<Rightarrow> 8 word \<Rightarrow> nat" where
  "byte_ones 0 b = 0"
| "byte_ones (Suc k) b = (if bit b k then Suc (byte_ones k b) else 0)"

fun simpleMaskLength :: "bytes \<Rightarrow> nat option" where
  "simpleMaskLength [] = Some 0"
| "simpleMaskLength (b # bs) =
     (if b = 0xff then map_option (\<lambda>n. 8 + n) (simpleMaskLength bs)
      else let n = byte_ones 8 b
           in if b = NOT (drop_bit n 0xff) \<and> (\<forall>c \<in> set bs. c = 0) then Some n else None)"

definition IPMask_Size :: "bytes \<Rightarrow> nat \<times> nat" where
  "IPMask_Size m = (case simpleMaskLength m of None \<Rightarrow> (0, 0) | Some ones \<Rightarrow> (ones, length m * 8))"

text \<open>\<^verbatim>\<open>netip.ParseAddr\<close> without a zone, as the 16-byte form and the length of the address in bits.\<close>

definition netip_ParseAddr :: "string \<Rightarrow> (bytes \<times> nat) option" where
  "netip_ParseAddr s =
     (case dropWhile (\<lambda>c. c \<notin> set ''.:%'') s of
        [] \<Rightarrow> None
      | c # _ \<Rightarrow> map_option (\<lambda>ip. (ip, if c = CHR ''.'' then 32 else 128)) (net_ParseIP s))"

definition net_ParseCIDR :: "string \<Rightarrow> (bytes \<times> IPNet) option" where
  "net_ParseCIDR s =
     (case strings_Cut s (CHR ''/'') of
        None \<Rightarrow> None
      | Some (addr, suffix) \<Rightarrow>
          (case netip_ParseAddr addr of
             None \<Rightarrow> None
           | Some (ip, bits) \<Rightarrow>
               (case dtoi suffix of (n, i, ok) \<Rightarrow>
                  if \<not> ok \<or> i \<noteq> length suffix \<or> n < 0 \<or> int bits < n then None
                  else let m = net_CIDRMask (nat n) bits
                       in Some (ip, \<lparr>ipnet_IP = IP_Mask16 ip m, ipnet_Mask = m\<rparr>))))"

section \<open>The utilities\<close>

definition IsIP :: "string \<Rightarrow> bool" where
  "IsIP address = (net_ParseIP address \<noteq> None)"

definition IsIPv4 :: "string \<Rightarrow> bool" where
  "IsIPv4 address = (case net_ParseIP address of None \<Rightarrow> False | Some ip \<Rightarrow> IP_To4 ip \<noteq> None)"

definition IsIPv6 :: "string \<Rightarrow> bool" where
  "IsIPv6 address = (case net_ParseIP address of None \<Rightarrow> False | Some ip \<Rightarrow> IP_To4 ip = None)"

definition IsIPv4CIDR :: "string \<Rightarrow> bool" where
  "IsIPv4CIDR cidr = (case net_ParseCIDR cidr of None \<Rightarrow> False | Some (ip, _) \<Rightarrow> IP_To4 ip \<noteq> None)"

definition IsIPv6CIDR :: "string \<Rightarrow> bool" where
  "IsIPv6CIDR cidr = (case net_ParseCIDR cidr of None \<Rightarrow> False | Some (ip, _) \<Rightarrow> IP_To4 ip = None)"

definition StripCIDR :: "string \<Rightarrow> string" where
  "StripCIDR ip = (case strings_Cut ip (CHR ''/'') of Some (before_slash, _) \<Rightarrow> before_slash | None \<Rightarrow> ip)"

definition FirstHostAndPrefix :: "string \<Rightarrow> goerror + string \<times> nat" where
  "FirstHostAndPrefix cidr =
     (case net_ParseCIDR cidr of
        None \<Rightarrow> Inl (Wrapf ''parse CIDR %q: %w'' [cidr] (External ''invalid CIDR address''))
      | Some (_, ipnet) \<Rightarrow>
          (case IP_To4 (ipnet_IP ipnet) of
             None \<Rightarrow> Inl (Errorf ''CIDR %q is not IPv4'' [cidr])
           | Some ip4 \<Rightarrow>
               (case IPMask_Size (ipnet_Mask ipnet) of (ones, _) \<Rightarrow>
                if ones > 30 then Inl (Errorf ''CIDR %q has no usable host addresses'' [cidr])
                else let first = BigEndian_Uint32 ip4 + 1
                     in if first = 0 then Inl (Errorf ''CIDR %q has no usable host addresses'' [cidr])
                        else Inr (IPv4_String (BigEndian_PutUint32 first), ones))))"

section \<open>Masks and prefixes\<close>

lemma dtoi_octet:
  assumes "unat p < 100"
  shows "dtoi (octet_String p) = (int (unat p), length (octet_String p), True)"
proof -
  define x where "x = unat p"
  then have "x < 100" using assms by simp
  moreover have "int (x div 10) * 10 + int (x mod 10) = int x"
    by (metis div_mult_mod_eq of_nat_add of_nat_mult of_nat_numeral)
  ultimately have "int (x div 10) * 10 + int (x mod 10) = int x" "x div 10 < 10" by simp_all
  with \<open>x < 100\<close> show ?thesis
    by (auto simp: dtoi_def octet_String_def Let_def digits_dec_digit x_def [symmetric])
qed

lemma CIDRMask_32:
  assumes "n \<le> 32"
  shows "length (net_CIDRMask n 32) = 4 \<and> IPMask_Size (net_CIDRMask n 32) = (n, 32)
       \<and> BigEndian_Uint32 (net_CIDRMask n 32) = NOT (mask (32 - n))"
proof -
  have "\<forall>n \<in> set [0..<33]. length (net_CIDRMask n 32) = 4 \<and> IPMask_Size (net_CIDRMask n 32) = (n, 32)
       \<and> BigEndian_Uint32 (net_CIDRMask n 32) = NOT (mask (32 - n))"
    by code_simp
  then show ?thesis using assms by simp
qed

lemma CIDRMask_128:
  assumes "n \<le> 128"
  shows "length (net_CIDRMask n 128) = 16 \<and> IPMask_Size (net_CIDRMask n 128) = (n, 128)
       \<and> (net_CIDRMask n 128 ! 11 = 255 \<longrightarrow> 96 \<le> n)"
proof -
  have "\<forall>n \<in> set [0..<129]. length (net_CIDRMask n 128) = 16 \<and> IPMask_Size (net_CIDRMask n 128) = (n, 128)
       \<and> (net_CIDRMask n 128 ! 11 = 255 \<longrightarrow> 96 \<le> n)"
    by code_simp
  then show ?thesis using assms by simp
qed

lemma of_nat_unat_id: "of_nat (unat (w :: u32)) = w"
  by simp

lemma unat_prefix: "unat (w AND NOT (mask k) :: u32) = unat w - unat w mod 2 ^ k"
proof -
  have "w = (w AND mask k) + (w AND NOT (mask k))"
    by (subst disjunctive_add) (auto simp: bit_simps intro: bit_word_eqI)
  then have "w AND NOT (mask k) = w - take_bit k w" by (simp add: take_bit_eq_mask algebra_simps)
  moreover have "take_bit k w \<le> w" by (simp add: take_bit_eq_mask word_and_le2)
  ultimately have "unat (w AND NOT (mask k)) = unat w - take_bit k (unat w)"
    by (simp add: unat_sub unsigned_take_bit_eq)
  then show ?thesis by (simp add: take_bit_eq_mod)
qed

lemma IPv4_String_dot:
  "dropWhile (\<lambda>ch. ch \<notin> set ''.:%'') (IPv4_String [a, b, c, d])
   = CHR ''.'' # octet_String b @ ''.'' @ octet_String c @ ''.'' @ octet_String d"
proof -
  have "\<forall>ch \<in> set (octet_String a). ch \<notin> set ''.:%''"
    by (auto dest!: octet_String_digits simp: is_digit_def)
  then show ?thesis by (simp add: IPv4_String_def dropWhile_append2)
qed

lemma Cut_append: "sep \<notin> set s \<Longrightarrow> strings_Cut (s @ sep # t) sep = Some (s, t)"
  by (induction s) auto

lemma IPv4_String_no_slash: "CHR ''/'' \<notin> set (IPv4_String [a, b, c, d])"
  by (auto simp: IPv4_String_def is_digit_def dest!: octet_String_digits)

lemma ParseCIDR_IPv4:
  assumes "unat p \<le> 32"
  shows "net_ParseCIDR (IPv4_String [a, b, c, d] @ ''/'' @ octet_String p) =
     Some (v4_in_v6 [a, b, c, d],
       \<lparr>ipnet_IP = IP_Mask [a, b, c, d] (net_CIDRMask (unat p) 32), ipnet_Mask = net_CIDRMask (unat p) 32\<rparr>)"
proof -
  have "netip_ParseAddr (IPv4_String [a, b, c, d]) = Some (v4_in_v6 [a, b, c, d], 32)"
    by (simp only: netip_ParseAddr_def IPv4_String_dot) (simp add: ParseIP_IPv4_String)
  moreover have "IP_Mask16 (v4_in_v6 [a, b, c, d]) (net_CIDRMask (unat p) 32) = IP_Mask [a, b, c, d] (net_CIDRMask (unat p) 32)"
    using CIDRMask_32 [OF assms] by (simp add: IP_Mask16_def IP_Mask_def v4_in_v6_def)
  moreover have "\<not> 32 < int (unat p)" using assms by linarith
  ultimately show ?thesis
    by (simp add: net_ParseCIDR_def Cut_append IPv4_String_no_slash dtoi_octet [OF order_le_less_trans [OF assms]] Let_def del: of_nat_unat)
qed

lemma ParseCIDR_parts:
  assumes "net_ParseCIDR c = Some (ip, nw)"
  obtains n bits where "n \<le> bits" "bits = 32 \<or> bits = 128" "ipnet_Mask nw = net_CIDRMask n bits"
    "ipnet_IP nw = IP_Mask16 ip (net_CIDRMask n bits)"
proof -
  from assms obtain addr n bits where addr: "netip_ParseAddr addr = Some (ip, bits)" and n: "0 \<le> n" "n \<le> int bits"
    and nw: "nw = \<lparr>ipnet_IP = IP_Mask16 ip (net_CIDRMask (nat n) bits), ipnet_Mask = net_CIDRMask (nat n) bits\<rparr>"
    by (auto simp: net_ParseCIDR_def Let_def not_less split: option.splits prod.splits if_splits)
  from addr have "bits = 32 \<or> bits = 128" by (auto simp: netip_ParseAddr_def split: list.splits if_splits)
  then show thesis using that [of "nat n" bits] n nw by simp
qed

lemma byte_AND_255: "(x :: 8 word) AND y = 255 \<Longrightarrow> y = 255"
proof -
  assume "x AND y = 255"
  then have "255 \<le> y" by (metis word_and_le1)
  moreover have "y \<le> 255" using unat_byte [of y] by (simp add: word_le_nat_alt)
  ultimately show "y = 255" by simp
qed

text \<open>A network address of four bytes comes from IPv4, or from a prefix that covers the first twelve bytes.\<close>

lemma masked_To4:
  assumes "IP_To4 (IP_Mask16 ip (net_CIDRMask n bits)) = Some ip4" "n \<le> bits" "bits = 32 \<or> bits = 128"
  shows "IP_To4 ip \<noteq> None \<or> bits = 128 \<and> 96 \<le> n"
proof (cases "bits = 32")
  case True
  with assms CIDRMask_32 [of n] show ?thesis
    by (auto simp: IP_Mask16_def IP_To4_def Let_def split: if_splits)
next
  case False
  then have bits: "bits = 128" using assms(3) by simp
  let ?m = "net_CIDRMask n 128"
  have m: "length ?m = 16" "?m ! 11 = 255 \<Longrightarrow> 96 \<le> n" using CIDRMask_128 [of n] assms(2) by (simp_all add: bits)
  with assms(1) have "length ip = 16" "take 12 (map2 (AND) ip ?m) = v4_in_v6 []"
    by (auto simp: bits IP_Mask16_def IP_To4_def Let_def split: if_splits)
  then have "length ip = 16" "take 12 (map2 (AND) ip ?m) ! 11 = v4_in_v6 [] ! 11" by simp_all
  then have "(ip ! 11) AND (?m ! 11) = 255" using m(1) by (simp add: v4_in_v6_def nth_append)
  then have "?m ! 11 = 255" by (rule byte_AND_255)
  with m(2) bits show ?thesis by simp
qed

lemma FirstHost_IPv4:
  assumes "FirstHostAndPrefix c = Inr (s, n)"
  shows "IsIPv4CIDR c \<and> IsIPv4 s \<and> n \<le> 30"
proof -
  from assms obtain ip nw ip4 where parse: "net_ParseCIDR c = Some (ip, nw)" and ip4: "IP_To4 (ipnet_IP nw) = Some ip4"
    and size: "fst (IPMask_Size (ipnet_Mask nw)) \<le> 30" "n = fst (IPMask_Size (ipnet_Mask nw))"
    and s: "s = IPv4_String (BigEndian_PutUint32 (BigEndian_Uint32 ip4 + 1))"
    by (auto simp: FirstHostAndPrefix_def Let_def split: option.splits prod.splits if_splits)
  obtain k bits where mask: "k \<le> bits" "bits = 32 \<or> bits = 128" "ipnet_Mask nw = net_CIDRMask k bits"
    "ipnet_IP nw = IP_Mask16 ip (net_CIDRMask k bits)"
    using ParseCIDR_parts [OF parse] by blast
  have "IP_To4 ip \<noteq> None"
    using masked_To4 [of ip k bits ip4] mask ip4 size CIDRMask_128 [of k] by auto
  moreover have "IsIPv4 s"
    by (simp add: s IsIPv4_def BigEndian_PutUint32_def ParseIP_IPv4_String)
  ultimately show ?thesis using parse size by (simp add: IsIPv4CIDR_def)
qed

section \<open>Properties\<close>

text \<open>
  C39: The first host of an IPv4 network: for an address and a prefix length of at most 30 bits it is the address with
  the host bits cleared, plus one, and the prefix length is returned; a longer prefix is an error, and so is
  everything that is not IPv4 in CIDR notation.
\<close>

theorem FirstHostAndPrefix_correct:
  assumes "unat p \<le> 32" and "A = unat (BigEndian_Uint32 [a, b, c, d])"
    and "cidr = IPv4_String [a, b, c, d] @ ''/'' @ octet_String p"
  shows "FirstHostAndPrefix cidr =
     (if 30 < unat p then Inl (Errorf ''CIDR %q has no usable host addresses'' [cidr])
      else Inr (formatIPv4 (of_nat (A - A mod 2 ^ (32 - unat p) + 1)), unat p))
   \<and> (\<forall>c s n. FirstHostAndPrefix c = Inr (s, n) \<longrightarrow> IsIPv4CIDR c \<and> IsIPv4 s \<and> n \<le> 30)"
    (is "_ = ?result \<and> _")
proof -
  let ?m = "net_CIDRMask (unat p) 32"
  note m = CIDRMask_32 [OF assms(1)]
  define w where "w = BigEndian_Uint32 (IP_Mask [a, b, c, d] ?m)"
  have len: "length (IP_Mask [a, b, c, d] ?m) = 4" using m by (simp add: IP_Mask_def)
  have w: "w = BigEndian_Uint32 [a, b, c, d] AND NOT (mask (32 - unat p))"
    unfolding w_def using m by (subst Uint32_Mask) simp_all
  then have host: "w + 1 = of_nat (A - A mod 2 ^ (32 - unat p) + 1)"
    using unat_prefix [of "BigEndian_Uint32 [a, b, c, d]" "32 - unat p"]
    by (metis assms(2) of_nat_unat_id of_nat_add of_nat_1)
  have "w + 1 \<noteq> 0" if "unat p \<le> 30"
  proof
    assume "w + 1 = 0"
    then have "bit w 0" by (simp add: eq_neg_iff_add_eq_0 [symmetric])
    with that show False by (simp add: w bit_simps)
  qed
  moreover have "net_ParseCIDR cidr = Some (v4_in_v6 [a, b, c, d], \<lparr>ipnet_IP = IP_Mask [a, b, c, d] ?m, ipnet_Mask = ?m\<rparr>)"
    unfolding assms(3) by (rule ParseCIDR_IPv4 [OF assms(1)])
  ultimately have "FirstHostAndPrefix cidr = ?result"
    unfolding host [symmetric] using m len
    by (simp add: FirstHostAndPrefix_def IP_To4_def formatIPv4_def w_def [symmetric] Let_def)
  then show ?thesis using FirstHost_IPv4 by blast
qed

theorem FirstHostAndPrefix_correct_witness:
  "FirstHostAndPrefix ''192.168.122.77/24'' = Inr (''192.168.122.1'', 24)"
proof -
  have cidr: "''192.168.122.77/24'' = IPv4_String [192, 168, 122, 77] @ ''/'' @ octet_String 24" by code_simp
  have "BigEndian_Uint32 [192, 168, 122, 77] = 3232266829" by code_simp
  moreover have "formatIPv4 3232266753 = ''192.168.122.1''" by code_simp
  ultimately show ?thesis
    using FirstHostAndPrefix_correct [OF _ refl cidr] by simp
qed

text \<open>
  C40: An address is IPv4 or IPv6 and not both; and the predicates on CIDR notation hold only when the same
  predicate holds of the address before the slash.
\<close>

theorem ip_kinds:
  "(IsIP a \<longleftrightarrow> IsIPv4 a \<or> IsIPv6 a) \<and> \<not> (IsIPv4 a \<and> IsIPv6 a)
   \<and> (IsIPv4CIDR c \<longrightarrow> IsIPv4 (StripCIDR c)) \<and> (IsIPv6CIDR c \<longrightarrow> IsIPv6 (StripCIDR c))
   \<and> \<not> (IsIPv4CIDR c \<and> IsIPv6CIDR c)"
proof -
  have parse: "net_ParseIP (StripCIDR c) = Some ip" if "net_ParseCIDR c = Some (ip, n)" for ip n
    using that by (auto simp: net_ParseCIDR_def StripCIDR_def netip_ParseAddr_def Let_def
        split: option.splits prod.splits list.splits if_splits)
  show ?thesis
    using parse by (auto simp: IsIP_def IsIPv4_def IsIPv6_def IsIPv4CIDR_def IsIPv6CIDR_def split: option.splits)
qed

theorem ip_kinds_witness:
  "IsIPv4 (StripCIDR ''10.0.0.7/24'') \<and> \<not> IsIPv6 (StripCIDR ''10.0.0.7/24'') \<and> IsIPv4CIDR ''10.0.0.7/24''"
proof -
  have "IsIPv4CIDR ''10.0.0.7/24''" by code_simp
  then show ?thesis using ip_kinds [of "StripCIDR ''10.0.0.7/24''" "''10.0.0.7/24''"] by blast
qed

end
