(* ===== verification/ApiServer.thy ===== *)
theory ApiServer
  imports MachineController
begin

text \<open>
  The API server as the controllers see it: a store of objects. The locale \<open>api_server\<close> says what the calls of
  the client read from the store and what a patch makes of it; it is interpreted on \<open>store_kube\<close>. The world is a
  pair of the server's side and the rest, which no call to the server touches.
\<close>

section \<open>The store\<close>

text \<open>
  Owners are found through the namespace and the owner references of an object, the Cluster of a Machine
  through the namespace and the labels.
\<close>

record api =
  api_machines :: "NamespacedName \<rightharpoonup> LibvirtMachine"
  api_clusters :: "NamespacedName \<rightharpoonup> LibvirtCluster"
  api_secrets :: "NamespacedName \<rightharpoonup> Secret"
  api_owner_machine :: "string \<Rightarrow> OwnerReference list \<Rightarrow> goerror + Machine option"
  api_owner_cluster :: "string \<Rightarrow> OwnerReference list \<Rightarrow> goerror + Cluster option"
  api_labelled_cluster :: "string \<Rightarrow> (string \<rightharpoonup> string) \<Rightarrow> goerror + Cluster option"

text \<open>An object that is being deleted is removed when its last finalizer goes.\<close>

definition removable :: "ObjectMeta \<Rightarrow> bool" where
  "removable m \<longleftrightarrow> meta_DeletionTimestamp m \<noteq> None \<and> meta_Finalizers m = []"

definition store_machine :: "LibvirtMachine \<Rightarrow> api \<Rightarrow> api" where
  "store_machine l A =
     A\<lparr>api_machines := (api_machines A)
         (ObjectKeyFromObject (lm_Meta l) := if removable (lm_Meta l) then None else Some l)\<rparr>"

definition store_cluster :: "LibvirtCluster \<Rightarrow> api \<Rightarrow> api" where
  "store_cluster l A =
     A\<lparr>api_clusters := (api_clusters A)
         (ObjectKeyFromObject (lc_Meta l) := if removable (lc_Meta l) then None else Some l)\<rparr>"

lemma store_selects [simp]:
  "api_clusters (store_machine l A) = api_clusters A" "api_secrets (store_machine l A) = api_secrets A"
  "api_owner_machine (store_machine l A) = api_owner_machine A" "api_owner_cluster (store_machine l A) = api_owner_cluster A"
  "api_labelled_cluster (store_machine l A) = api_labelled_cluster A"
  "api_machines (store_cluster c A) = api_machines A" "api_secrets (store_cluster c A) = api_secrets A"
  "api_owner_machine (store_cluster c A) = api_owner_machine A" "api_owner_cluster (store_cluster c A) = api_owner_cluster A"
  "api_labelled_cluster (store_cluster c A) = api_labelled_cluster A"
  by (simp_all add: store_machine_def store_cluster_def)

definition found :: "'x option \<Rightarrow> goerror + 'x" where
  "found x = (case x of None \<Rightarrow> Inl NotFoundStatus | Some y \<Rightarrow> Inr y)"

lemma found_simps [simp]: "found None = Inl NotFoundStatus" "found (Some y) = Inr y"
  by (simp_all add: found_def)

section \<open>The contract\<close>

locale api_server = kube_laws K for K :: "('a \<times> 'h) kube" +
  fixes store :: "'a \<Rightarrow> api"
  assumes get_machine: "get_LibvirtMachine K n (a, h) = Some (found (api_machines (store a) n), (a, h))"
    and get_cluster: "get_LibvirtCluster K n (a, h) = Some (found (api_clusters (store a) n), (a, h))"
    and get_secret: "get_Secret K n (a, h) = Some (found (api_secrets (store a) n), (a, h))"
    and owner_machine: "GetOwnerMachine K m (a, h) =
      Some (api_owner_machine (store a) (meta_Namespace m) (meta_OwnerReferences m), (a, h))"
    and owner_cluster: "GetOwnerCluster K m (a, h) =
      Some (api_owner_cluster (store a) (meta_Namespace m) (meta_OwnerReferences m), (a, h))"
    and labelled_cluster: "GetClusterFromMetadata K m (a, h) =
      Some (api_labelled_cluster (store a) (meta_Namespace m) (meta_Labels m), (a, h))"
    and machine_helper: "\<exists>p. newHelper_LibvirtMachine K l (a, h) = Some (Inr p, (a, h))"
    and cluster_helper: "\<exists>p. newHelper_LibvirtCluster K c (a, h) = Some (Inr p, (a, h))"
    and patch_machine: "\<exists>a'. patch_LibvirtMachine K p l (a, h) = Some (Inr (), (a', h)) \<and> store a' = store_machine l (store a)"
    and patch_cluster: "\<exists>a'. patch_LibvirtCluster K p c (a, h) = Some (Inr (), (a', h)) \<and> store a' = store_cluster c (store a)"
begin

text \<open>Loading credentials only reads Secrets.\<close>

lemma Load_reads: "\<exists>r. Load K loader lc (a, h) = Some (r, (a, h))"
  by (auto simp: Load_def loadRef_def Let_def get_secret tryE_def catchE_def pureE_def split: option.split sum.split)

lemma Load_secrets:
  assumes "Load K loader lc (a, h) = Some (r, (a, h))" "api_secrets (store a') = api_secrets (store a)"
  shows "Load K loader lc (a', h') = Some (r, (a', h'))"
  using assms
  by (auto simp: Load_def loadRef_def Let_def get_secret tryE_def catchE_def pureE_def split: option.splits sum.splits if_splits)

end

section \<open>A server\<close>

definition store_kube :: "(api \<times> 'h) kube" where
  "store_kube =
     with_ref_utils
     \<lparr>get_LibvirtCluster = (\<lambda>n s. Some (found (api_clusters (fst s) n), s)),
      get_LibvirtMachine = (\<lambda>n s. Some (found (api_machines (fst s) n), s)),
      get_Secret = (\<lambda>n s. Some (found (api_secrets (fst s) n), s)),
      list_LibvirtClusters = (\<lambda>_. ret []),
      GetOwnerCluster = (\<lambda>m s. Some (api_owner_cluster (fst s) (meta_Namespace m) (meta_OwnerReferences m), s)),
      GetOwnerMachine = (\<lambda>m s. Some (api_owner_machine (fst s) (meta_Namespace m) (meta_OwnerReferences m), s)),
      GetClusterFromMetadata = (\<lambda>m s. Some (api_labelled_cluster (fst s) (meta_Namespace m) (meta_Labels m), s)),
      newHelper_LibvirtCluster = (\<lambda>_. ret (PatchHelper 0)), newHelper_LibvirtMachine = (\<lambda>_. ret (PatchHelper 0)),
      patch_LibvirtCluster = (\<lambda>_ l s. Some (Inr (), (store_cluster l (fst s), snd s))),
      patch_LibvirtMachine = (\<lambda>_ l s. Some (Inr (), (store_machine l (fst s), snd s))),
      IsPaused = (\<lambda>_ _. False), conditions_Set = (\<lambda>c cs. cs), ContainsFinalizer = (\<lambda>_ _. False),
      AddFinalizer = (\<lambda>m _. (m, False)), RemoveFinalizer = (\<lambda>m _. (m, False)), APIEndpoint_IsValid = (\<lambda>_. False)\<rparr>"

lemma store_kube_laws: "kube_laws store_kube"
  unfolding store_kube_def by (rule refk.kube_laws_axioms)

interpretation sk: api_server store_kube id
  by (rule api_server.intro [OF store_kube_laws], unfold_locales)
     (simp_all add: store_kube_def with_ref_utils_def)

section \<open>Requests\<close>

text \<open>The objects a request for a LibvirtMachine needs.\<close>

definition belongs :: "api \<Rightarrow> LibvirtMachine \<Rightarrow> Machine \<Rightarrow> Cluster \<Rightarrow> LibvirtCluster \<Rightarrow> bool" where
  "belongs A l m c lc \<longleftrightarrow>
     api_owner_machine A (meta_Namespace (lm_Meta l)) (meta_OwnerReferences (lm_Meta l)) = Inr (Some m)
     \<and> api_labelled_cluster A (meta_Namespace (machine_Meta m)) (meta_Labels (machine_Meta m)) = Inr (Some c)
     \<and> api_clusters A \<lparr>nn_Namespace = meta_Namespace (cluster_Meta c), nn_Name = cluster_InfrastructureRefName c\<rparr> = Some lc"

definition scope_for :: "LibvirtMachine \<Rightarrow> Machine \<Rightarrow> Cluster \<Rightarrow> LibvirtCluster \<Rightarrow> Credentials option \<Rightarrow> MachineScope" where
  "scope_for l m c lc creds =
     \<lparr>ms_Cluster = c, ms_Machine = m, ms_LibvirtCluster = lc,
      ms_MachineConfig = (newMachineConfig l lc)\<lparr>cfg_Credentials := creds\<rparr>\<rparr>"

context api_server
begin

lemma deferPatch_machine:
  assumes "body (l, (a, h)) = Some (r, (l', (a1, h1)))"
  shows "\<exists>a'. deferPatch (patch_LibvirtMachine K p) l body (a, h) = Some (r, (a', h1)) \<and> store a' = store_machine l' (store a1)"
proof -
  obtain a' where "patch_LibvirtMachine K p l' (a1, h1) = Some (Inr (), (a', h1))" "store a' = store_machine l' (store a1)"
    using patch_machine by blast
  then show ?thesis by (simp add: deferPatch_def assms)
qed

text \<open>A request for a stored LibvirtMachine runs one of the two reconciliations and stores what it makes of the object.\<close>

lemma machine_request:
  assumes "api_machines (store a) n = Some l" "belongs (store a) l m c lc"
    "Load K loader lc (a, h) = Some (Inr creds, (a, h))"
    "(if Time_IsZero (meta_DeletionTimestamp (lm_Meta l)) then machine_reconcileNormal K P (scope_for l m c lc creds)
      else machine_reconcileDelete K P (scope_for l m c lc creds)) (l, (a, h)) = Some (r, (l', (a1, h1)))"
  shows "\<exists>a'. machine_Reconcile K P loader n (a, h) = Some (r, (a', h1)) \<and> store a' = store_machine l' (store a1)"
proof -
  obtain p where p: "newHelper_LibvirtMachine K l (a, h) = Some (Inr p, (a, h))" using machine_helper by blast
  have "machine_Reconcile_owned K P loader l (l, (a, h)) = Some (r, (l', (a1, h1)))"
    using assms(2-4)
    by (auto simp: machine_Reconcile_owned_def belongs_def scope_for_def tryE_def catchE_def owner_machine labelled_cluster
        get_cluster Let_def split: if_splits)
  from deferPatch_machine [where body = "machine_Reconcile_owned K P loader l" and p = p, OF this] show ?thesis
    by (simp add: machine_Reconcile_def get_machine assms(1) p tryE_def catchE_def)
qed

text \<open>A request for an object that is not stored does nothing.\<close>

lemma machine_request_gone:
  "api_machines (store a) n = None \<Longrightarrow> machine_Reconcile K P loader n (a, h) = Some (Inr no_requeue, (a, h))"
  by (simp add: machine_Reconcile_def get_machine catchE_def apierrors_IsNotFound_def)

end

end
