(* ===== verification/ProviderContract.thy ===== *)
theory ProviderContract
  imports ClusterController CreateOps
begin

text \<open>
  What the controllers rely on when they call the provider: the contract of the interface, as the locale
  \<open>machine_provider\<close> over the state of the host. \<^verbatim>\<open>libvirtclient.Provider\<close> keeps it on every host that keeps
  \<open>libvirt_host\<close>.
\<close>

lemma tidied_trans:
  assumes "tidied flaky s t" "tidied flaky t u"
  shows "tidied flaky s u"
proof -
  from assms obtain f g where "tidy flaky (disk s) f" "t = s\<lparr>disk := f\<rparr>" and g: "tidy flaky f g" "u = t\<lparr>disk := g\<rparr>"
    by (auto simp: tidied_def)
  then have "tidy flaky (disk s) g" "u = s\<lparr>disk := g\<rparr>" by (auto intro: tidy_trans)
  then show ?thesis unfolding tidied_def by blast
qed

lemma tidied_machine:
  assumes "tidied flaky s t"
  shows "create_obstacle t cfg = create_obstacle s cfg" "networks_inv t = networks_inv s"
    "allocation_returns t cfg = allocation_returns s cfg"
  by (simp_all add: create_obstacle_def pools_active_def no_root_source_def reserve_obstacle_def domain_taken_def
      networks_inv_def allocation_returns_def tidied_selects [OF assms] cong: option.case_cong)

section \<open>The contract\<close>

text \<open>\<open>created cfg s s'\<close> says that in \<open>s'\<close> the machine \<open>cfg\<close> exists, when it was asked for in \<open>s\<close>.\<close>

locale machine_provider =
  fixes P :: "'h provider"
    and view :: "'h \<Rightarrow> sys"
    and created :: "MachineConfig \<Rightarrow> sys \<Rightarrow> sys \<Rightarrow> bool"
    and flaky :: bool
  assumes ensure: "run view s (p_EnsureInfra P icfg) (\<lambda>_ s'. infra_ready s icfg \<and> tidied flaky s s')
      (\<lambda>e s'. (flaky \<or> \<not> credentials_ok icfg \<or> infra_error s icfg e) \<and> tidied flaky s s')"
    and state: "run view s (p_GetMachineState P cfg)
      (\<lambda>st s'. st = (case domains s (cfg_DomainName cfg) of
          None \<Rightarrow> DomainStateNotFound | Some x \<Rightarrow> domain_state_of (d_state x)) \<and> tidied flaky s s')
      (\<lambda>e s'. (flaky \<or> \<not> credentials_ok cfg) \<and> tidied flaky s s')"
    and create: "networks_inv s \<Longrightarrow> allocation_returns s cfg \<Longrightarrow> CHR ''/'' \<notin> set (cfg_DomainName cfg) \<Longrightarrow>
      run view s (p_CreateMachine P cfg) (\<lambda>_ s'. created cfg s s' \<and> machine_frame flaky cfg s s')
      (\<lambda>e s'. (flaky \<or> create_obstacle s cfg) \<and> machine_frame flaky cfg s s')"
    and delete: "networks_inv s \<Longrightarrow>
      run view s (p_DeleteMachine P cfg) (\<lambda>_ s'. machine_gone flaky cfg s s' \<and> machine_frame flaky cfg s s')
      (\<lambda>e s'. (flaky \<or> delete_obstacle s cfg) \<and> machine_frame flaky cfg s s')"
    and address: "run view s (p_GetMachineAddress P cfg)
      (\<lambda>a s'. (\<exists>x. networks s (cfg_Network cfg) = Some x
          \<and> a = leaseAddressForMac (net_leases x) (machine_mac cfg)) \<and> tidied flaky s s')
      (\<lambda>e s'. (flaky \<or> \<not> credentials_ok cfg \<or> networks s (cfg_Network cfg) = None) \<and> tidied flaky s s')"
    and created_runs: "created cfg s s' \<Longrightarrow>
      \<exists>x. domains s' (cfg_DomainName cfg) = Some x \<and> d_state x = DOMAIN_RUNNING"
    and created_deletable: "\<not> create_obstacle s cfg \<Longrightarrow> machine_entry_ours s cfg \<Longrightarrow> created cfg s s' \<Longrightarrow>
      machine_frame flaky cfg s s' \<Longrightarrow> \<not> delete_obstacle s' cfg"
    and created_tidied: "tidied flaky s t \<Longrightarrow> created cfg t s' = created cfg s s'"
      "tidied flaky s' t' \<Longrightarrow> created cfg s t' = created cfg s s'"

text \<open>The provider of the repository.\<close>

lemma libvirtclient_selects:
  "p_EnsureInfra (libvirtclient_Provider E) = EnsureInfra E" "p_GetMachineState (libvirtclient_Provider E) = GetMachineState E"
  "p_CreateMachine (libvirtclient_Provider E) = CreateMachine E" "p_DeleteMachine (libvirtclient_Provider E) = DeleteMachine E"
  "p_GetMachineAddress (libvirtclient_Provider E) = GetMachineAddress E"
  by (simp_all add: libvirtclient_Provider_def)

sublocale libvirt_host \<subseteq> prov: machine_provider "libvirtclient_Provider E" view
  "machine_created vol_path mk_iso (yaml_Marshal E)" flaky
proof (unfold_locales, goal_cases)
  case (6 cfg s s')
  then show ?case by (auto simp: machine_created_def domain_up_def)
next
  case (7 s cfg s')
  then show ?case by (rule created_deletable)
next
  case (8 s t cfg s')
  then show ?case
    by (simp add: machine_created_def root_ready_def iso_ready_def tidied_selects [OF 8] Let_def cong: option.case_cong)
next
  case (9 s' t' cfg s)
  then show ?case
    by (simp add: machine_created_def root_ready_def iso_ready_def tidied_selects [OF 9] Let_def cong: option.case_cong)
qed (unfold libvirtclient_selects, (rule EnsureInfra_run GetMachineState_run CreateMachine_run DeleteMachine_run GetMachineAddress_run; assumption)+)

context libvirt_host
begin

lemma keeps_contract:
  "machine_provider (libvirtclient_Provider E) view (machine_created vol_path mk_iso (yaml_Marshal E)) flaky"
  by (rule prov.machine_provider_axioms)

end

section \<open>What it gives to its clients\<close>

lemma run_cases:
  assumes "run view (view h) m Q X"
  obtains x h' where "m h = Some (Inr x, h')" "Q x (view h')" | e h' where "m h = Some (Inl e, h')" "X e (view h')"
proof -
  from assms obtain r h' where "m h = Some (r, h')" "case r of Inl e \<Rightarrow> X e (view h') | Inr x \<Rightarrow> Q x (view h')"
    unfolding run_def valid_def by blast
  then show thesis using that by (cases r) auto
qed

lemma run_ok:
  assumes "run view (view h) m Q (\<lambda>e s'. False)"
  obtains x h' where "m h = Some (Inr x, h')" "Q x (view h')"
  using assms by (rule run_cases) (use that in blast)+

text \<open>What a machine that can be created finds on a host where no call fails by itself.\<close>

definition creatable :: "sys \<Rightarrow> MachineConfig \<Rightarrow> bool" where
  "creatable s cfg \<longleftrightarrow>
     networks_inv s \<and> allocation_returns s cfg \<and> \<not> create_obstacle s cfg
     \<and> domains s (cfg_DomainName cfg) = None \<and> CHR ''/'' \<notin> set (cfg_DomainName cfg)"

context machine_provider
begin

lemma provision:
  assumes ok: "creatable (view h) (cfg\<lparr>cfg_UserData := data\<rparr>)" and stable: "\<not> flaky"
  obtains h1 h2 where "p_GetMachineState P cfg h = Some (Inr DomainStateNotFound, h1)"
    "p_CreateMachine P (cfg\<lparr>cfg_UserData := data\<rparr>) h1 = Some (Inr (), h2)"
    "created (cfg\<lparr>cfg_UserData := data\<rparr>) (view h) (view h2)" "machine_frame flaky (cfg\<lparr>cfg_UserData := data\<rparr>) (view h) (view h2)"
proof -
  have off: "flaky = False" using stable by simp
  let ?c = "cfg\<lparr>cfg_UserData := data\<rparr>"
  have creds: "credentials_ok cfg" using ok by (auto simp: creatable_def create_obstacle_def credentials_ok_def split: option.splits)
  have "run view (view h) (p_GetMachineState P cfg) (\<lambda>st s'. st = DomainStateNotFound \<and> tidied flaky (view h) s') (\<lambda>e s'. False)"
    by (rule run_post [OF state]) (use ok creds stable in \<open>auto simp: creatable_def\<close>)
  then obtain st h1 where st: "p_GetMachineState P cfg h = Some (Inr st, h1)" "st = DomainStateNotFound"
    and t: "tidied flaky (view h) (view h1)" by (auto elim: run_ok)
  have inv: "networks_inv (view h)" using ok by (simp add: creatable_def)
  have "run view (view h1) (p_CreateMachine P ?c) (\<lambda>_ s'. created ?c (view h) s' \<and> machine_frame flaky ?c (view h) s') (\<lambda>e s'. False)"
    by (rule run_post [OF create])
       (use ok stable in \<open>auto simp: creatable_def tidied_machine [OF t] created_tidied(1) [OF t]
          intro: machine_frame_trans [OF frame_tidied [OF inv t], unfolded off]\<close>)
  then obtain u h2 where "p_CreateMachine P ?c h1 = Some (Inr u, h2)" "created ?c (view h) (view h2)"
    "machine_frame flaky ?c (view h) (view h2)" by (auto elim: run_ok)
  with st show thesis using that by auto
qed

lemma observe:
  assumes creds: "credentials_ok cfg" and stable: "\<not> flaky"
    and dom: "domains (view h) (cfg_DomainName cfg) = Some x" "d_state x = DOMAIN_RUNNING"
    and net: "networks (view h) (cfg_Network cfg) = Some nw"
  obtains h1 h2 where "p_GetMachineState P cfg h = Some (Inr DomainStateRunning, h1)"
    "p_GetMachineAddress P cfg h1 = Some (Inr (leaseAddressForMac (net_leases nw) (machine_mac cfg)), h2)"
    "tidied flaky (view h) (view h2)"
proof -
  have off: "flaky = False" using stable by simp
  have "run view (view h) (p_GetMachineState P cfg) (\<lambda>st s'. st = DomainStateRunning \<and> tidied flaky (view h) s') (\<lambda>e s'. False)"
    by (rule run_post [OF state]) (use dom creds stable in \<open>auto simp: domain_state_of_def\<close>)
  then obtain st h1 where st: "p_GetMachineState P cfg h = Some (Inr st, h1)" "st = DomainStateRunning"
    and t: "tidied flaky (view h) (view h1)" by (auto elim: run_ok)
  have "run view (view h1) (p_GetMachineAddress P cfg)
      (\<lambda>a s'. a = leaseAddressForMac (net_leases nw) (machine_mac cfg) \<and> tidied flaky (view h) s') (\<lambda>e s'. False)"
    by (rule run_post [OF address])
       (use creds net stable in \<open>auto simp: tidied_selects [OF t] intro: tidied_trans [OF t, unfolded off]\<close>)
  then obtain a h2 where "p_GetMachineAddress P cfg h1 = Some (Inr a, h2)" "a = leaseAddressForMac (net_leases nw) (machine_mac cfg)"
    "tidied flaky (view h) (view h2)" by (auto elim: run_ok)
  with st show thesis using that by auto
qed

end

end
