(* ===== verification/System.thy ===== *)
theory System
  imports ApiServer ProviderContract MachineProps ClusterProps HostProps
begin

text \<open>
  The controllers between an API server and a libvirt host: whole requests, from the object in the store to the
  domain on the host and back. The world is a pair of the two sides; the provider acts on the second.
\<close>

section \<open>A provider on its side of the world\<close>

definition hosted :: "'h provider \<Rightarrow> ('a \<times> 'h) provider" where
  "hosted P =
     \<lparr>p_EnsureInfra = (\<lambda>cfg. liftE (p_EnsureInfra P cfg)), p_GetMachineState = (\<lambda>cfg. liftE (p_GetMachineState P cfg)),
      p_CreateMachine = (\<lambda>cfg. liftE (p_CreateMachine P cfg)), p_StartMachine = (\<lambda>cfg. liftE (p_StartMachine P cfg)),
      p_DeleteMachine = (\<lambda>cfg. liftE (p_DeleteMachine P cfg)), p_GetMachineAddress = (\<lambda>cfg. liftE (p_GetMachineAddress P cfg))\<rparr>"

lemma hosted_selects [simp]:
  "p_EnsureInfra (hosted P) icfg = liftE (p_EnsureInfra P icfg)" "p_GetMachineState (hosted P) cfg = liftE (p_GetMachineState P cfg)"
  "p_CreateMachine (hosted P) cfg = liftE (p_CreateMachine P cfg)" "p_StartMachine (hosted P) cfg = liftE (p_StartMachine P cfg)"
  "p_DeleteMachine (hosted P) cfg = liftE (p_DeleteMachine P cfg)" "p_GetMachineAddress (hosted P) cfg = liftE (p_GetMachineAddress P cfg)"
  by (simp_all add: hosted_def)

text \<open>The provider of the repository on the reference host.\<close>

interpretation refp: machine_provider "libvirtclient_Provider ref_env" ref_view
  "machine_created ref_path ref_iso (yaml_Marshal ref_env)" False
  by (rule libvirt_host.keeps_contract [OF ref.libvirt_host_axioms])

section \<open>The steps of a machine\<close>

lemma machine_conditions [simp]:
  "lmt_Conditions (lm_Status (set_machine_condition K c l)) = conditions_Set K c (lmt_Conditions (lm_Status l))"
  by (simp add: set_machine_condition_def LibvirtMachine_SetConditions_def LibvirtMachine_GetConditions_def)

text \<open>A machine that is up: ready, provisioned, with the provider ID of its domain.\<close>

definition machine_up :: "LibvirtMachine \<Rightarrow> bool" where
  "machine_up l \<longleftrightarrow>
     lmt_Ready (lm_Status l) \<and> lmi_Provisioned (lmt_Initialization (lm_Status l))
     \<and> lms_ProviderID (lm_Spec l) \<noteq> None"

lemma setProviderID_fresh:
  "lms_ProviderID (lm_Spec l) = None \<Longrightarrow>
     lms_ProviderID (lm_Spec (setProviderID l)) = Some (providerIDPrefix @ meta_UID (lm_Meta l))"
  by (simp add: setProviderID_def domainUUID_def)

lemma create_step:
  assumes "active K scope l" "lms_ProviderID (lm_Spec l) = None" "machine_DataSecretName (ms_Machine scope) = Some d"
    and "p_GetMachineState P (ms_MachineConfig scope) h = Some (Inr DomainStateNotFound, h1)"
    and "\<And>h. getCloudInitData K scope d (a, h) = Some (Inr data, (a, h))"
    and "p_CreateMachine P ((ms_MachineConfig scope)\<lparr>cfg_UserData := data\<rparr>) h1 = Some (Inr (), h2)"
  shows "\<exists>l'. machine_reconcileNormal K (hosted P) scope (l, (a, h)) = Some (Inr no_requeue, (l', (a, h2)))
     \<and> lm_Meta l' = lm_Meta l \<and> machine_up l' \<and> lms_ProviderID (lm_Spec l') = Some (providerIDPrefix @ meta_UID (lm_Meta l))"
  using assms(2-6)
  by (simp add: reconcileNormal_active [OF assms(1)] by_state_def reconcileMissing_def tryE_def catchE_def
      machine_up_def setProviderID_fresh)

lemma running_step:
  assumes laws: "kube_laws K" and "active K scope l"
    and "p_GetMachineState P (ms_MachineConfig scope) h = Some (Inr DomainStateRunning, h1)"
    and "p_GetMachineAddress P (ms_MachineConfig scope) h1 = Some (Inr addr, h2)"
  shows "\<exists>l'. machine_reconcileNormal K (hosted P) scope (l, (a, h)) =
       Some (Inr \<lparr>RequeueAfter = if addr = [] then requeueTimeShort else domainStateCheckInterval\<rparr>, (l', (a, h2)))
     \<and> lm_Meta l' = lm_Meta l \<and> machine_up l' \<and> same_machine_id l l'
     \<and> map_option cond_Status (cond_get DomainRunningCondition (lmt_Conditions (lm_Status l'))) = Some ConditionTrue
     \<and> (addr \<noteq> [] \<longrightarrow> lmt_Addresses (lm_Status l') = [\<lparr>addr_Type = MachineInternalIP, addr_Address = addr\<rparr>])"
proof -
  let ?run = "machine_reconcileNormal K (hosted P) scope (l, (a, h))"
  have "\<exists>l'. ?run = Some (Inr \<lparr>RequeueAfter = if addr = [] then requeueTimeShort else domainStateCheckInterval\<rparr>, (l', (a, h2)))
     \<and> lm_Meta l' = lm_Meta l \<and> machine_up l'
     \<and> map_option cond_Status (cond_get DomainRunningCondition (lmt_Conditions (lm_Status l'))) = Some ConditionTrue
     \<and> (addr \<noteq> [] \<longrightarrow> lmt_Addresses (lm_Status l') = [\<lparr>addr_Type = MachineInternalIP, addr_Address = addr\<rparr>])"
    using assms(3,4)
    by (simp add: reconcileNormal_active [OF assms(2)] by_state_def reconcileRunning_def observeMachineAddress_def
        tryE_def catchE_def machine_up_def DomainState_defs kube_laws.set_condition [OF laws])
  moreover have "same_machine_id l l'" if "?run = Some (r, (l', s))" for r l' s
    using reconcileNormal_keeps_id [OF laws] that unfolding keeps_def by (cases s) blast
  ultimately show ?thesis by blast
qed

section \<open>Requests in sequence\<close>

definition requestable ::
  "('a \<times> 'h) kube \<Rightarrow> ('a \<Rightarrow> api) \<Rightarrow> CredentialsLoader \<Rightarrow> 'a \<Rightarrow> LibvirtMachine \<Rightarrow> Machine \<Rightarrow> Cluster \<Rightarrow> LibvirtCluster
     \<Rightarrow> Credentials option \<Rightarrow> bool" where
  "requestable K store loader a l m c lc creds \<longleftrightarrow>
     api_machines (store a) (ObjectKeyFromObject (lm_Meta l)) = Some l \<and> belongs (store a) l m c lc
     \<and> (\<forall>h. Load K loader lc (a, h) = Some (Inr creds, (a, h)))"

lemma same_id_meta:
  assumes "same_machine_id l l'"
  shows "meta_Namespace (lm_Meta l') = meta_Namespace (lm_Meta l)" "meta_Name (lm_Meta l') = meta_Name (lm_Meta l)"
    "meta_OwnerReferences (lm_Meta l') = meta_OwnerReferences (lm_Meta l)" "meta_UID (lm_Meta l') = meta_UID (lm_Meta l)"
    "meta_DeletionTimestamp (lm_Meta l') = meta_DeletionTimestamp (lm_Meta l)"
  using assms by (cases "lm_Meta l"; cases "lm_Meta l'"; simp add: same_machine_id_def)+

lemma scope_for_same: "same_machine_id l l' \<Longrightarrow> scope_for l' m c lc creds = scope_for l m c lc creds"
  by (simp add: scope_for_def same_id_config)

context api_server
begin

lemma requestable_stored:
  assumes "requestable K store loader a l m c lc creds" "store a' = store_machine l' (store a)"
    "meta_Namespace (lm_Meta l') = meta_Namespace (lm_Meta l)" "meta_Name (lm_Meta l') = meta_Name (lm_Meta l)"
    "meta_OwnerReferences (lm_Meta l') = meta_OwnerReferences (lm_Meta l)" "\<not> removable (lm_Meta l')"
  shows "requestable K store loader a' l' m c lc creds"
proof -
  have "Load K loader lc (a', h) = Some (Inr creds, (a', h))" for h
    by (rule Load_secrets [of loader lc a h]) (use assms(1,2) in \<open>simp_all add: requestable_def\<close>)
  with assms show ?thesis
    by (simp add: requestable_def belongs_def store_machine_def)
qed

text \<open>A request for a machine that is not being deleted.\<close>

lemma normal_request:
  assumes "requestable K store loader a l m c lc creds" "meta_DeletionTimestamp (lm_Meta l) = None"
    and run: "machine_reconcileNormal K P (scope_for l m c lc creds) (l, (a, h)) = Some (r, (l', (a, h1)))"
  shows "\<exists>a'. machine_Reconcile K P loader (ObjectKeyFromObject (lm_Meta l)) (a, h) = Some (r, (a', h1))
     \<and> requestable K store loader a' l' m c lc creds \<and> store a' = store_machine l' (store a)"
proof -
  have id: "same_machine_id l l'" using reconcileNormal_keeps_id [OF kube_laws_axioms] run unfolding keeps_def by blast
  then have "\<not> removable (lm_Meta l')" using assms(2) by (simp add: removable_def same_id_meta [OF id])
  with id machine_request [of a "ObjectKeyFromObject (lm_Meta l)" l m c lc loader h creds P r l' a h1] assms run
    requestable_stored [OF assms(1) _ same_id_meta(1-3) [OF id]]
  show ?thesis by (auto simp: requestable_def Time_IsZero_def)
qed

end

text \<open>A machine as it is created: no finalizer, no provider ID, not being deleted; its cluster is provisioned and not paused.\<close>

definition fresh_machine :: "'w kube \<Rightarrow> Cluster \<Rightarrow> LibvirtMachine \<Rightarrow> bool" where
  "fresh_machine K c l \<longleftrightarrow>
     \<not> IsPaused K c (lm_Meta l) \<and> LibvirtMachineFinalizer \<notin> set (meta_Finalizers (lm_Meta l))
     \<and> meta_DeletionTimestamp (lm_Meta l) = None \<and> lms_ProviderID (lm_Spec l) = None
     \<and> cluster_InfrastructureProvisioned c = Some True"

definition bootstrap_data :: "api \<Rightarrow> Machine \<Rightarrow> bytes option" where
  "bootstrap_data A m =
     Option.bind (machine_DataSecretName m) (\<lambda>d.
     Option.bind (api_secrets A \<lparr>nn_Namespace = meta_Namespace (machine_Meta m), nn_Name = d\<rparr>) (\<lambda>secret.
     secret_Data secret ''value''))"

text \<open>The machine is known to the server and admitted: the state in which the host is asked.\<close>

definition admitted :: "'w kube \<Rightarrow> Cluster \<Rightarrow> LibvirtMachine \<Rightarrow> bool" where
  "admitted K c l \<longleftrightarrow>
     \<not> IsPaused K c (lm_Meta l) \<and> LibvirtMachineFinalizer \<in> set (meta_Finalizers (lm_Meta l))
     \<and> meta_DeletionTimestamp (lm_Meta l) = None \<and> cluster_InfrastructureProvisioned c = Some True"

context api_server
begin

lemma admitted_active: "admitted K c l \<Longrightarrow> active K (scope_for l0 m c lc creds) l"
  by (simp add: admitted_def active_def scope_for_def contains)

lemma finalizer_request:
  assumes req: "requestable K store loader a l m c lc creds" and "fresh_machine K c l"
  shows "\<exists>a' l'. machine_Reconcile K P loader (ObjectKeyFromObject (lm_Meta l)) (a, h) = Some (Inr no_requeue, (a', h))
     \<and> requestable K store loader a' l' m c lc creds \<and> same_machine_id l l' \<and> admitted K c l'
     \<and> lms_ProviderID (lm_Spec l') = None \<and> store a' = store_machine l' (store a)
     \<and> meta_Finalizers (lm_Meta l') = meta_Finalizers (lm_Meta l) @ [LibvirtMachineFinalizer]"
proof -
  have del: "meta_DeletionTimestamp (lm_Meta l) = None" using assms(2) by (simp add: fresh_machine_def)
  obtain l' where run: "machine_reconcileNormal K P (scope_for l m c lc creds) (l, (a, h)) = Some (Inr no_requeue, (l', (a, h)))"
    and l': "admitted K c l'" "lms_ProviderID (lm_Spec l') = None"
      "meta_Finalizers (lm_Meta l') = meta_Finalizers (lm_Meta l) @ [LibvirtMachineFinalizer]"
    using assms(2)
    by (simp add: machine_reconcileNormal_def fresh_machine_def admitted_def scope_for_def Time_IsZero_def contains add paused)
  have "same_machine_id l l'"
    using reconcileNormal_keeps_id [OF kube_laws_axioms] run unfolding keeps_def by blast
  with normal_request [OF req del run] l' show ?thesis by blast
qed

lemma create_request:
  assumes req: "requestable K store loader a l m c lc creds" and adm: "admitted K c l"
    and new: "lms_ProviderID (lm_Spec l) = None" and data: "bootstrap_data (store a) m = Some data"
    and state: "p_GetMachineState P ((newMachineConfig l lc)\<lparr>cfg_Credentials := creds\<rparr>) h = Some (Inr DomainStateNotFound, h1)"
    and create: "p_CreateMachine P ((newMachineConfig l lc)\<lparr>cfg_Credentials := creds, cfg_UserData := data\<rparr>) h1 = Some (Inr (), h2)"
  shows "\<exists>a' l'. machine_Reconcile K (hosted P) loader (ObjectKeyFromObject (lm_Meta l)) (a, h) = Some (Inr no_requeue, (a', h2))
     \<and> requestable K store loader a' l' m c lc creds \<and> lm_Meta l' = lm_Meta l \<and> same_machine_id l l' \<and> machine_up l'
     \<and> lms_ProviderID (lm_Spec l') = Some (providerIDPrefix @ meta_UID (lm_Meta l))"
proof -
  let ?scope = "scope_for l m c lc creds"
  have scope: "ms_MachineConfig ?scope = (newMachineConfig l lc)\<lparr>cfg_Credentials := creds\<rparr>" "ms_Machine ?scope = m"
    by (simp_all add: scope_for_def)
  obtain d where d: "machine_DataSecretName m = Some d" using data by (cases "machine_DataSecretName m") (auto simp: bootstrap_data_def)
  have secret: "getCloudInitData K ?scope d (a, h) = Some (Inr data, (a, h))" for h
    using data d
    by (auto simp: bootstrap_data_def getCloudInitData_def scope_for_def get_secret tryE_def catchE_def Let_def
        split: Option.bind_splits)
  obtain l' where run: "machine_reconcileNormal K (hosted P) ?scope (l, (a, h)) = Some (Inr no_requeue, (l', (a, h2)))"
    and l': "lm_Meta l' = lm_Meta l" "machine_up l'" "lms_ProviderID (lm_Spec l') = Some (providerIDPrefix @ meta_UID (lm_Meta l))"
    using create_step [OF admitted_active [OF adm, of l m lc creds] new _ _ secret, of P h h1 h2, unfolded scope, OF d state create]
    by blast
  have "same_machine_id l l'"
    using reconcileNormal_keeps_id [OF kube_laws_axioms] run unfolding keeps_def by blast
  moreover have "meta_DeletionTimestamp (lm_Meta l) = None" using adm by (simp add: admitted_def)
  ultimately show ?thesis using normal_request [OF req _ run] l' by blast
qed

lemma running_request:
  assumes req: "requestable K store loader a l m c lc creds" and adm: "admitted K c l"
    and state: "p_GetMachineState P ((newMachineConfig l lc)\<lparr>cfg_Credentials := creds\<rparr>) h = Some (Inr DomainStateRunning, h1)"
    and address: "p_GetMachineAddress P ((newMachineConfig l lc)\<lparr>cfg_Credentials := creds\<rparr>) h1 = Some (Inr addr, h2)"
  shows "\<exists>a' l'. machine_Reconcile K (hosted P) loader (ObjectKeyFromObject (lm_Meta l)) (a, h) =
       Some (Inr \<lparr>RequeueAfter = if addr = [] then requeueTimeShort else domainStateCheckInterval\<rparr>, (a', h2))
     \<and> requestable K store loader a' l' m c lc creds \<and> lm_Meta l' = lm_Meta l \<and> same_machine_id l l' \<and> machine_up l'
     \<and> map_option cond_Status (cond_get DomainRunningCondition (lmt_Conditions (lm_Status l'))) = Some ConditionTrue
     \<and> (addr \<noteq> [] \<longrightarrow> lmt_Addresses (lm_Status l') = [\<lparr>addr_Type = MachineInternalIP, addr_Address = addr\<rparr>])"
proof -
  let ?scope = "scope_for l m c lc creds"
  have cfg: "ms_MachineConfig ?scope = (newMachineConfig l lc)\<lparr>cfg_Credentials := creds\<rparr>" by (simp add: scope_for_def)
  have del: "meta_DeletionTimestamp (lm_Meta l) = None" using adm by (simp add: admitted_def)
  from running_step [OF kube_laws_axioms admitted_active [OF adm, of l m lc creds], of P h h1 addr h2 a, unfolded cfg, OF state address]
  show ?thesis using normal_request [OF req del] by blast
qed

text \<open>The three requests that bring a machine up, when the provider finds no domain, creates it and then finds it running.\<close>

lemma three_requests:
  fixes P :: "'h provider"
  assumes req: "requestable K store loader a l m c lc creds" and fresh: "fresh_machine K c l"
    and data: "bootstrap_data (store a) m = Some data"
    and cfg: "cfg = (newMachineConfig l lc)\<lparr>cfg_Credentials := creds\<rparr>"
    and host: "p_GetMachineState P cfg h = Some (Inr DomainStateNotFound, h1)"
      "p_CreateMachine P (cfg\<lparr>cfg_UserData := data\<rparr>) h1 = Some (Inr (), h2)"
      "p_GetMachineState P cfg h2 = Some (Inr DomainStateRunning, h3)" "p_GetMachineAddress P cfg h3 = Some (Inr addr, h4)"
    and R: "R = machine_Reconcile K (hosted P) loader (ObjectKeyFromObject (lm_Meta l))"
  shows "\<exists>a1 a2 a3 l3. R (a, h) = Some (Inr no_requeue, (a1, h)) \<and> R (a1, h) = Some (Inr no_requeue, (a2, h2))
     \<and> R (a2, h2) = Some (Inr \<lparr>RequeueAfter = if addr = [] then requeueTimeShort else domainStateCheckInterval\<rparr>, (a3, h4))
     \<and> requestable K store loader a3 l3 m c lc creds \<and> same_machine_id l l3 \<and> admitted K c l3 \<and> machine_up l3
     \<and> meta_Finalizers (lm_Meta l3) = meta_Finalizers (lm_Meta l) @ [LibvirtMachineFinalizer]
     \<and> lms_ProviderID (lm_Spec l3) = Some (providerIDPrefix @ meta_UID (lm_Meta l))
     \<and> map_option cond_Status (cond_get DomainRunningCondition (lmt_Conditions (lm_Status l3))) = Some ConditionTrue
     \<and> (addr \<noteq> [] \<longrightarrow> lmt_Addresses (lm_Status l3) = [\<lparr>addr_Type = MachineInternalIP, addr_Address = addr\<rparr>])"
proof -
  have key: "ObjectKeyFromObject (lm_Meta l') = ObjectKeyFromObject (lm_Meta l)" if "same_machine_id l l'" for l'
    by (simp add: ObjectKeyFromObject_def same_id_meta [OF that])
  obtain a1 l1 where 1: "R (a, h) = Some (Inr no_requeue, (a1, h))" "requestable K store loader a1 l1 m c lc creds"
    "same_machine_id l l1" "admitted K c l1" "lms_ProviderID (lm_Spec l1) = None" "store a1 = store_machine l1 (store a)"
    "meta_Finalizers (lm_Meta l1) = meta_Finalizers (lm_Meta l) @ [LibvirtMachineFinalizer]"
    using finalizer_request [OF req fresh, of "hosted P" h] unfolding R by blast
  have cfg1: "(newMachineConfig l1 lc)\<lparr>cfg_Credentials := creds\<rparr> = cfg" by (simp add: cfg same_id_config [OF 1(3)])
  have data1: "bootstrap_data (store a1) m = Some data" using data by (simp add: bootstrap_data_def 1(6))
  obtain a2 l2 where 2: "R (a1, h) = Some (Inr no_requeue, (a2, h2))" "requestable K store loader a2 l2 m c lc creds"
    "lm_Meta l2 = lm_Meta l1" "same_machine_id l1 l2" "lms_ProviderID (lm_Spec l2) = Some (providerIDPrefix @ meta_UID (lm_Meta l1))"
    using create_request [OF 1(2,4,5) data1, of P h h1 h2, unfolded cfg1, OF host(1,2)] unfolding R key [OF 1(3)] by blast
  have id2: "same_machine_id l l2" using 1(3) 2(4) by (rule mid.trans)
  have adm2: "admitted K c l2" using 1(4) by (simp add: admitted_def 2(3))
  have cfg2: "(newMachineConfig l2 lc)\<lparr>cfg_Credentials := creds\<rparr> = cfg" by (simp add: cfg same_id_config [OF id2])
  obtain a3 l3 where 3: "requestable K store loader a3 l3 m c lc creds" "lm_Meta l3 = lm_Meta l2" "same_machine_id l2 l3" "machine_up l3"
    and last: "R (a2, h2) = Some (Inr \<lparr>RequeueAfter = if addr = [] then requeueTimeShort else domainStateCheckInterval\<rparr>, (a3, h4))"
    "map_option cond_Status (cond_get DomainRunningCondition (lmt_Conditions (lm_Status l3))) = Some ConditionTrue"
    "addr \<noteq> [] \<longrightarrow> lmt_Addresses (lm_Status l3) = [\<lparr>addr_Type = MachineInternalIP, addr_Address = addr\<rparr>]"
    using running_request [OF 2(2) adm2, of P h2 h3 addr h4, unfolded cfg2, OF host(3,4)] unfolding R key [OF id2] by blast
  have "same_machine_id l l3" using id2 3(3) by (rule mid.trans)
  moreover have "admitted K c l3" "meta_Finalizers (lm_Meta l3) = meta_Finalizers (lm_Meta l) @ [LibvirtMachineFinalizer]"
    using adm2 by (simp_all add: admitted_def 3(2) 2(3) 1(7))
  moreover have "lms_ProviderID (lm_Spec l3) = Some (providerIDPrefix @ meta_UID (lm_Meta l))"
    using 2(5) 3(3) same_id_meta(4) [OF 1(3)] by (simp add: same_machine_id_def)
  ultimately show ?thesis using 1(1) 2(1) 3(1,4) last by blast
qed

end

section \<open>A machine comes up\<close>

subsection \<open>A sample system\<close>

text \<open>A network with a DHCP range and no host entry, and a host with it, two pools and a base image.\<close>

definition quiet_network :: Network where
  "quiet_network =
     \<lparr>net_IPs = [\<lparr>ip_Address = ''192.168.122.1'', ip_Family = ''inet'', ip_Netmask = ''255.255.255.0'',
        ip_DHCP = Some \<lparr>dhcp_Ranges = [\<lparr>range_Start = ''192.168.122.2'', range_End = ''192.168.122.5''\<rparr>], dhcp_Hosts = []\<rparr>\<rparr>]\<rparr>"

definition quiet_net :: net_state where
  "quiet_net = \<lparr>net_active = True, net_doc = quiet_network, net_leases = []\<rparr>"

definition quiet_world :: rworld where
  "quiet_world = sample_world\<lparr>core := (core sample_world)\<lparr>networks := [''default'' \<mapsto> quiet_net]\<rparr>\<rparr>"

lemma quiet_state [simp]:
  "networks (ref_view quiet_world) = [''default'' \<mapsto> quiet_net]"
  "pools (ref_view quiet_world) ''base'' = Some True" "pools (ref_view quiet_world) ''vms'' = Some True"
  "domains (ref_view quiet_world) n = None" "volumes (ref_view quiet_world) (''base'', ''image.qcow2'') \<noteq> None"
  by (simp_all add: ref_view_selects quiet_world_def sample_world_def)

lemma quiet_hosts [simp]: "hosts_of quiet_network = []" "hostIPSet quiet_network = Map.empty"
  by (simp_all add: hosts_of_def ip_hosts_def quiet_network_def hostIPSet_def)

lemma quiet_allocation: "\<exists>ip. allocateMachineIPIn quiet_network d mac = Some (Inr ip)"
proof -
  have same: "allocationCandidates quiet_network = allocationCandidates example_network"
    by (simp add: allocationCandidates_def quiet_network_def example_network_def firstDHCPRange_def cong: sum.case_cong option.case_cong)
  have "find (free_for Map.empty mac) xs = Some (hd xs)" if "xs \<noteq> []" for xs
    using that by (cases xs) (simp_all add: free_for_def)
  moreover have "reservation_order d [0xc0a87a02, 0xc0a87a03, 0xc0a87a04, 0xc0a87a05] \<noteq> []"
    by (simp add: reservation_order_def)
  ultimately show ?thesis by (simp add: allocate_first_free [OF same [unfolded example_candidates]])
qed

lemma quiet_subnet [simp]:
  "\<not> endless_range quiet_network" "first_hosts quiet_network = []" "later_hosts quiet_network = []"
  "first_subnet_free quiet_network d mac"
  using quiet_allocation [of d mac] allocate_None [of quiet_network d mac]
  by (auto simp: first_subnet_free_def first_hosts_def later_hosts_def quiet_network_def ipv6_subnet_def ip_hosts_def)

definition sample_api :: "LibvirtMachine \<Rightarrow> api" where
  "sample_api l =
     \<lparr>api_machines = [ObjectKeyFromObject (lm_Meta l) \<mapsto> l],
      api_clusters = [\<lparr>nn_Namespace = ''default'', nn_Name = ''c1''\<rparr> \<mapsto> sample_LibvirtCluster []],
      api_secrets = [\<lparr>nn_Namespace = ''default'', nn_Name = ''m2-bootstrap''\<rparr> \<mapsto>
        \<lparr>secret_Meta = sample_meta ''m2-bootstrap'' [], secret_Data = [''value'' \<mapsto> [35, 33]]\<rparr>],
      api_owner_machine = (\<lambda>_ _. Inr (Some sample_machine)), api_owner_cluster = (\<lambda>_ _. Inr (Some sample_cluster)),
      api_labelled_cluster = (\<lambda>_ _. Inr (Some sample_cluster))\<rparr>"

lemma sample_requestable:
  "requestable store_kube id off_loader (sample_api l) l sample_machine sample_cluster (sample_LibvirtCluster []) None"
  by (simp add: requestable_def sample_api_def belongs_def load_off sample_cluster_def sample_meta_def)

lemma sample_fresh: "fresh_machine store_kube sample_cluster (sample_LibvirtMachine [] None)"
  by (simp add: fresh_machine_def store_kube_def sample_defs)

lemma sample_bootstrap: "bootstrap_data (id (sample_api l)) sample_machine = Some [35, 33]"
  by (simp add: bootstrap_data_def sample_api_def sample_machine_def sample_meta_def)

lemma sample_creatable:
  "creatable (ref_view quiet_world)
     ((newMachineConfig (sample_LibvirtMachine [] None) (sample_LibvirtCluster []))\<lparr>cfg_Credentials := None, cfg_UserData := [35, 33]\<rparr>)"
proof -
  let ?l = "sample_LibvirtMachine [] None"
  have "dns_label (domainName ?l)"
    using domainName_label [of ?l] by (simp add: sample_LibvirtMachine_def sample_meta_def label_char_def)
  moreover have "\<not> label_char (CHR ''/'')" by (simp add: label_char_def)
  ultimately have "CHR ''/'' \<notin> set (domainName ?l)" unfolding dns_label_def by blast
  moreover obtain ip where "allocateMachineIPIn quiet_network (domainName ?l) (deriveDomainMAC (domainName ?l)) = Some (Inr ip)"
    using quiet_allocation by blast
  ultimately show ?thesis
    by (simp add: creatable_def newMachineConfig_def sample_LibvirtCluster_def networks_inv_def quiet_net_def hosts_inv_def
        allocation_returns_def create_obstacle_def credentials_ok_def pools_active_def no_root_source_def reserve_obstacle_def
        domain_taken_def sample_LibvirtMachine_def)
qed

lemma comes_up:
  assumes prov: "machine_provider P view created False" and api: "api_server K store"
    and req: "requestable K store loader a l m c lc creds" and fresh: "fresh_machine K c l"
    and data: "bootstrap_data (store a) m = Some data"
    and cfg: "cfg = (newMachineConfig l lc)\<lparr>cfg_Credentials := creds, cfg_UserData := data\<rparr>"
    and ok: "creatable (view h) cfg" and net: "networks (view h) (cfg_Network cfg) = Some nw"
    and R: "R = machine_Reconcile K (hosted P) loader (ObjectKeyFromObject (lm_Meta l))"
    and addr: "addr = leaseAddressForMac (net_leases nw) (machine_mac cfg)"
  obtains a1 a2 a3 h2 h3 l3 where "R (a, h) = Some (Inr no_requeue, (a1, h))" "R (a1, h) = Some (Inr no_requeue, (a2, h2))"
    "R (a2, h2) = Some (Inr \<lparr>RequeueAfter = if addr = [] then requeueTimeShort else domainStateCheckInterval\<rparr>, (a3, h3))"
    "requestable K store loader a3 l3 m c lc creds" "same_machine_id l l3" "admitted K c l3" "machine_up l3"
    "meta_Finalizers (lm_Meta l3) = meta_Finalizers (lm_Meta l) @ [LibvirtMachineFinalizer]"
    "lms_ProviderID (lm_Spec l3) = Some (providerIDPrefix @ meta_UID (lm_Meta l))"
    "addr \<noteq> [] \<longrightarrow> lmt_Addresses (lm_Status l3) = [\<lparr>addr_Type = MachineInternalIP, addr_Address = addr\<rparr>]"
    "created cfg (view h) (view h3)" "machine_frame False cfg (view h) (view h3)"
proof -
  define cfg0 where "cfg0 = (newMachineConfig l lc)\<lparr>cfg_Credentials := creds\<rparr>"
  have c0: "cfg = cfg0\<lparr>cfg_UserData := data\<rparr>" by (simp add: cfg cfg0_def)
  obtain h1 h2 where state: "p_GetMachineState P cfg0 h = Some (Inr DomainStateNotFound, h1)"
    and create: "p_CreateMachine P cfg h1 = Some (Inr (), h2)"
    and made: "created cfg (view h) (view h2)" "machine_frame False cfg (view h) (view h2)"
    using machine_provider.provision [OF prov] ok unfolding c0 by blast
  obtain x where x: "domains (view h2) (cfg_DomainName cfg0) = Some x" "d_state x = DOMAIN_RUNNING"
    using machine_provider.created_runs [OF prov made(1)] by (auto simp: c0)
  obtain nw2 where nw: "networks (view h2) (cfg_Network cfg0) = Some nw2" "net_leases nw2 = net_leases nw"
    using made(2) net by (auto simp: machine_frame_def c0 net_same_but_mac_def elim: option.rel_cases)
  have "credentials_ok cfg0" using ok by (auto simp: c0 creatable_def create_obstacle_def credentials_ok_def split: option.splits)
  from machine_provider.observe [OF prov this _ x nw(1)] obtain h3 h4
    where running: "p_GetMachineState P cfg0 h2 = Some (Inr DomainStateRunning, h3)"
    and address: "p_GetMachineAddress P cfg0 h3 = Some (Inr addr, h4)"
    and tidy: "tidied False (view h2) (view h4)" unfolding nw(2) c0 addr by auto
  note steps = state create [unfolded c0] running address
  have frame: "machine_frame False cfg (view h) (view h4)"
    using ok by (intro machine_frame_trans [OF made(2) frame_tidied [OF machine_frame_inv [OF _ made(2)] tidy]]) (simp add: creatable_def)
  show thesis
    using api_server.three_requests [OF api req fresh data cfg0_def, of P h h1 h2 h3 addr h4 R] steps R that
      made(1) [folded machine_provider.created_tidied(2) [OF prov tidy]] frame
    by metis
qed

text \<open>
  C1: A machine comes up: for a fresh LibvirtMachine of a provisioned cluster, with bootstrap data, on a host where no
  call fails by itself and nothing stands in the way, the first request adds the finalizer, the second creates
  the machine on the host, and after the third the stored object is ready and provisioned, has the provider ID
  of its UID and, once there is a lease, its address. The host has the machine's disks, reservation and running
  domain, and nothing else on it has changed.
\<close>

theorem machine_comes_up:
  assumes host: "libvirt_host E view vp mi False" and api: "api_server K store"
    and req: "requestable K store loader a l m c lc creds" and fresh: "fresh_machine K c l"
    and data: "bootstrap_data (store a) m = Some data"
    and cfg: "cfg = (newMachineConfig l lc)\<lparr>cfg_Credentials := creds, cfg_UserData := data\<rparr>"
    and ok: "creatable (view h) cfg" and net: "networks (view h) (cfg_Network cfg) = Some nw"
  shows "\<exists>a1 a2 a3 h2 h3 l3. let R = machine_Reconcile K (hosted (libvirtclient_Provider E)) loader (ObjectKeyFromObject (lm_Meta l));
         addr = leaseAddressForMac (net_leases nw) (machine_mac cfg)
     in R (a, h) = Some (Inr no_requeue, (a1, h)) \<and> R (a1, h) = Some (Inr no_requeue, (a2, h2))
        \<and> R (a2, h2) = Some (Inr \<lparr>RequeueAfter = if addr = [] then requeueTimeShort else domainStateCheckInterval\<rparr>, (a3, h3))
        \<and> api_machines (store a3) (ObjectKeyFromObject (lm_Meta l)) = Some l3 \<and> machine_up l3
        \<and> lms_ProviderID (lm_Spec l3) = Some (providerIDPrefix @ meta_UID (lm_Meta l))
        \<and> (addr \<noteq> [] \<longrightarrow> lmt_Addresses (lm_Status l3) = [\<lparr>addr_Type = MachineInternalIP, addr_Address = addr\<rparr>])
        \<and> machine_created vp mi (yaml_Marshal E) cfg (view h) (view h3) \<and> machine_frame False cfg (view h) (view h3)"
proof (rule comes_up [OF libvirt_host.keeps_contract [OF host] assms(2-) refl refl], goal_cases)
  case (1 a1 a2 a3 h2 h3 l3)
  then have "api_machines (store a3) (ObjectKeyFromObject (lm_Meta l)) = Some l3"
    by (simp add: requestable_def ObjectKeyFromObject_def same_id_meta [of l l3])
  with 1 show ?case unfolding Let_def by blast
qed

theorem machine_comes_up_witness:
  "\<exists>a1 a2 a3 h2 h3 l3. let l = sample_LibvirtMachine [] None; n = ObjectKeyFromObject (lm_Meta l);
         R = machine_Reconcile store_kube (hosted (libvirtclient_Provider ref_env)) off_loader n
     in R (sample_api l, quiet_world) = Some (Inr no_requeue, (a1, quiet_world)) \<and> R (a1, quiet_world) = Some (Inr no_requeue, (a2, h2))
        \<and> R (a2, h2) = Some (Inr \<lparr>RequeueAfter = requeueTimeShort\<rparr>, (a3, h3))
        \<and> api_machines a3 n = Some l3 \<and> machine_up l3 \<and> lms_ProviderID (lm_Spec l3) = Some ''libvirt://3f1c0a52''"
proof -
  let ?l = "sample_LibvirtMachine [] None"
  have pid: "providerIDPrefix @ meta_UID (lm_Meta ?l) = ''libvirt://3f1c0a52''"
    by (simp add: providerIDPrefix_def sample_LibvirtMachine_def sample_meta_def)
  have net: "networks (ref_view quiet_world) (cfg_Network ((newMachineConfig ?l (sample_LibvirtCluster []))
      \<lparr>cfg_Credentials := None, cfg_UserData := [35, 33]\<rparr>)) = Some quiet_net"
    by (simp add: newMachineConfig_def sample_LibvirtCluster_def)
  show ?thesis
    using machine_comes_up [OF ref.libvirt_host_axioms sk.api_server_axioms sample_requestable sample_fresh sample_bootstrap
        refl sample_creatable net]
    unfolding pid Let_def by (auto simp: quiet_net_def)
qed

section \<open>A machine goes away\<close>

definition marked_deleted :: "LibvirtMachine \<Rightarrow> bool" where
  "marked_deleted l \<longleftrightarrow>
     \<not> Time_IsZero (meta_DeletionTimestamp (lm_Meta l)) \<and> LibvirtMachineFinalizer \<in> set (meta_Finalizers (lm_Meta l))"

context api_server
begin

lemma delete_request:
  assumes req: "requestable K store loader a l m c lc creds" and del: "marked_deleted l"
    and "p_DeleteMachine P ((newMachineConfig l lc)\<lparr>cfg_Credentials := creds\<rparr>) h = Some (r, h')"
  shows "\<exists>a'. machine_Reconcile K (hosted P) loader (ObjectKeyFromObject (lm_Meta l)) (a, h) =
       Some (case r of Inl e \<Rightarrow> Inl e | Inr _ \<Rightarrow> Inr no_requeue, (a', h'))
     \<and> api_machines (store a') (ObjectKeyFromObject (lm_Meta l)) =
         (case r of Inl e \<Rightarrow> Some l
          | Inr _ \<Rightarrow> let fs = removeAll LibvirtMachineFinalizer (meta_Finalizers (lm_Meta l))
                    in if fs = [] then None else Some (l\<lparr>lm_Meta := (lm_Meta l)\<lparr>meta_Finalizers := fs\<rparr>\<rparr>))"
proof -
  let ?fs = "removeAll LibvirtMachineFinalizer (meta_Finalizers (lm_Meta l))"
  define l' where "l' = (case r of Inl e \<Rightarrow> l | Inr _ \<Rightarrow> l\<lparr>lm_Meta := (lm_Meta l)\<lparr>meta_Finalizers := ?fs\<rparr>\<rparr>)"
  have run: "machine_reconcileDelete K (hosted P) (scope_for l m c lc creds) (l, (a, h)) =
      Some (case r of Inl e \<Rightarrow> Inl e | Inr _ \<Rightarrow> Inr no_requeue, (l', (a, h')))"
    using assms(3) del
    by (auto simp: reconcileDelete_cases [OF kube_laws_axioms] scope_for_def l'_def marked_deleted_def split: sum.split)
  have "meta_Finalizers (lm_Meta l) \<noteq> []" "meta_DeletionTimestamp (lm_Meta l) \<noteq> None"
    using del by (auto simp: marked_deleted_def Time_IsZero_def split: option.splits)
  then have "api_machines (store_machine l' (store a)) (ObjectKeyFromObject (lm_Meta l)) =
      (case r of Inl e \<Rightarrow> Some l | Inr _ \<Rightarrow> if ?fs = [] then None else Some l')"
    by (auto simp: l'_def store_machine_def removable_def ObjectKeyFromObject_def split: sum.split)
  then show ?thesis
    using machine_request [of a "ObjectKeyFromObject (lm_Meta l)" l m c lc loader h creds "hosted P" _ l' a h'] req del run
    by (fastforce simp: requestable_def marked_deleted_def l'_def Let_def split: sum.splits)
qed

end

lemma goes_away:
  assumes prov: "machine_provider P view created flaky" and api: "api_server K store"
    and req: "requestable K store loader a l m c lc creds" and del: "marked_deleted l"
    and cfg: "cfg = (newMachineConfig l lc)\<lparr>cfg_Credentials := creds\<rparr>" and inv: "networks_inv (view h)"
    and R: "R = machine_Reconcile K (hosted P) loader (ObjectKeyFromObject (lm_Meta l))"
  shows "(\<exists>a' h'. R (a, h) = Some (Inr no_requeue, (a', h')) \<and> machine_gone flaky cfg (view h) (view h')
       \<and> machine_frame flaky cfg (view h) (view h')
       \<and> (meta_Finalizers (lm_Meta l) = [LibvirtMachineFinalizer]
          \<longrightarrow> api_machines (store a') (ObjectKeyFromObject (lm_Meta l)) = None))
   \<or> (\<exists>e a' h'. R (a, h) = Some (Inl e, (a', h')) \<and> (flaky \<or> delete_obstacle (view h) cfg)
       \<and> machine_frame flaky cfg (view h) (view h')
       \<and> api_machines (store a') (ObjectKeyFromObject (lm_Meta l)) = Some l)"
proof (rule run_cases [OF machine_provider.delete [OF prov inv, of cfg]], goal_cases)
  case (1 u h')
  then have "p_DeleteMachine P ((newMachineConfig l lc)\<lparr>cfg_Credentials := creds\<rparr>) h = Some (Inr u, h')"
    by (simp add: cfg)
  from api_server.delete_request [OF api req del this] 1(2) show ?case unfolding R by (fastforce simp: Let_def)
next
  case (2 e h')
  then have "p_DeleteMachine P ((newMachineConfig l lc)\<lparr>cfg_Credentials := creds\<rparr>) h = Some (Inl e, h')"
    by (simp add: cfg)
  from api_server.delete_request [OF api req del this] 2(2) show ?case unfolding R by fastforce
qed

text \<open>
  C3: A machine goes away: the request for a LibvirtMachine that is being deleted, whose cluster is found and whose
  credentials can be loaded, deletes the machine on the host (where the host entries of every network are
  consistent) and removes the finalizer only then. If the object is gone afterwards, so is the machine: there is no host entry of its
  hardware address, neither of its volumes is left (volumes of a pool that is not defined are not looked for), and its
  domain is gone, except that a running domain stays, no longer persistent, when the host failed to tell whether it
  runs. If the deletion fails, the object stays as it was. On a host where no call fails by itself one request is
  enough, unless one of the causes of \<open>delete_obstacle\<close> stands in the way, and the domain is always gone. Nothing else
  on the host changes.
\<close>

theorem machine_goes_away:
  assumes host: "libvirt_host E view vp mi flaky" and api: "api_server K store"
    and req: "requestable K store loader a l m c lc creds" and del: "marked_deleted l"
    and cfg: "cfg = (newMachineConfig l lc)\<lparr>cfg_Credentials := creds\<rparr>" and inv: "networks_inv (view h)"
    and R: "R = machine_Reconcile K (hosted (libvirtclient_Provider E)) loader (ObjectKeyFromObject (lm_Meta l))"
  shows "(\<exists>a' h'. R (a, h) = Some (Inr no_requeue, (a', h')) \<and> machine_gone flaky cfg (view h) (view h')
       \<and> machine_frame flaky cfg (view h) (view h')
       \<and> (meta_Finalizers (lm_Meta l) = [LibvirtMachineFinalizer]
          \<longrightarrow> api_machines (store a') (ObjectKeyFromObject (lm_Meta l)) = None))
   \<or> (\<exists>e a' h'. R (a, h) = Some (Inl e, (a', h')) \<and> (flaky \<or> delete_obstacle (view h) cfg)
       \<and> machine_frame flaky cfg (view h) (view h')
       \<and> api_machines (store a') (ObjectKeyFromObject (lm_Meta l)) = Some l)"
  by (rule goes_away [OF libvirt_host.keeps_contract [OF host] assms(2-)])

definition deleted_machine :: LibvirtMachine where
  "deleted_machine =
     (let l = sample_LibvirtMachine [LibvirtMachineFinalizer] (Some ''libvirt://3f1c0a52'')
      in l\<lparr>lm_Meta := (lm_Meta l)\<lparr>meta_DeletionTimestamp := Some 1\<rparr>\<rparr>)"

theorem machine_goes_away_witness:
  "\<exists>a' h'. machine_Reconcile store_kube (hosted (libvirtclient_Provider ref_env)) off_loader
       \<lparr>nn_Namespace = ''default'', nn_Name = ''m2''\<rparr> (sample_api deleted_machine, quiet_world) = Some (Inr no_requeue, (a', h'))
     \<and> api_machines a' \<lparr>nn_Namespace = ''default'', nn_Name = ''m2''\<rparr> = None"
proof -
  let ?cfg = "(newMachineConfig deleted_machine (sample_LibvirtCluster []))\<lparr>cfg_Credentials := None\<rparr>"
  have del: "marked_deleted deleted_machine" "meta_Finalizers (lm_Meta deleted_machine) = [LibvirtMachineFinalizer]"
    "ObjectKeyFromObject (lm_Meta deleted_machine) = \<lparr>nn_Namespace = ''default'', nn_Name = ''m2''\<rparr>"
    by (simp_all add: marked_deleted_def deleted_machine_def sample_LibvirtMachine_def sample_meta_def Time_IsZero_def
        ObjectKeyFromObject_def Let_def)
  have inv: "networks_inv (ref_view quiet_world)" by (simp add: networks_inv_def quiet_net_def hosts_inv_def)
  have "\<not> delete_obstacle (ref_view quiet_world) ?cfg"
    by (simp add: delete_obstacle_def credentials_ok_def newMachineConfig_def sample_LibvirtCluster_def machine_entry_ours_def
        entry_ours_def quiet_net_def)
  then show ?thesis
    using machine_goes_away [OF ref.libvirt_host_axioms sk.api_server_axioms sample_requestable del(1) refl inv refl]
    unfolding del(2,3) id_apply by blast
qed

section \<open>The life of a machine\<close>

lemma user_data_irrelevant [simp]:
  "machine_gone flaky (cfg\<lparr>cfg_UserData := d\<rparr>) = machine_gone flaky cfg"
  "machine_frame flaky (cfg\<lparr>cfg_UserData := d\<rparr>) = machine_frame flaky cfg"
  "delete_obstacle s (cfg\<lparr>cfg_UserData := d\<rparr>) = delete_obstacle s cfg"
  by (auto simp: machine_gone_def [abs_def] machine_frame_def [abs_def] delete_obstacle_def machine_volumes_def domainDiskName_def
      isoDiskName_def credentials_ok_def machine_entry_ours_def cfg_domainName_def fun_eq_iff split: option.splits)

definition mark_deleted :: "nat \<Rightarrow> LibvirtMachine \<Rightarrow> LibvirtMachine" where
  "mark_deleted t l = l\<lparr>lm_Meta := (lm_Meta l)\<lparr>meta_DeletionTimestamp := Some t\<rparr>\<rparr>"

lemma config_mark_deleted: "newMachineConfig (mark_deleted t l) lc = newMachineConfig l lc"
  by (simp add: newMachineConfig_def mark_deleted_def domainName_def domainUUID_def split: option.split)

text \<open>
  C6: The life of a machine leaves no trace: after the three requests that bring a fresh machine without other
  finalizers up, on a host where no call fails by itself and nothing stands in the way of its creation, and when no
  host entry of its hardware address was there before under another name or in another subnet than the first, marking the LibvirtMachine as deleted and one more request
  remove it from the API server and from the host, and everything else on the host is as before the first request.
\<close>

theorem machine_life:
  assumes host: "libvirt_host E view vp mi False" and api: "api_server K store"
    and req: "requestable K store loader a l m c lc creds" and fresh: "fresh_machine K c l" "meta_Finalizers (lm_Meta l) = []"
    and data: "bootstrap_data (store a) m = Some data"
    and cfg: "cfg = (newMachineConfig l lc)\<lparr>cfg_Credentials := creds, cfg_UserData := data\<rparr>"
    and ok: "creatable (view h) cfg" "machine_entry_ours (view h) cfg" and net: "networks (view h) (cfg_Network cfg) = Some nw"
    and R: "R = machine_Reconcile K (hosted (libvirtclient_Provider E)) loader (ObjectKeyFromObject (lm_Meta l))"
  shows "\<exists>a1 a2 a3 r h2 h3 l3. R (a, h) = Some (Inr no_requeue, (a1, h)) \<and> R (a1, h) = Some (Inr no_requeue, (a2, h2))
     \<and> R (a2, h2) = Some (Inr r, (a3, h3)) \<and> machine_up l3
     \<and> (\<forall>a4 t. 0 < t \<and> store a4 = store_machine (mark_deleted t l3) (store a3) \<longrightarrow>
          (\<exists>a5 h5. R (a4, h3) = Some (Inr no_requeue, (a5, h5)) \<and> api_machines (store a5) (ObjectKeyFromObject (lm_Meta l)) = None
             \<and> machine_gone False cfg (view h) (view h5) \<and> machine_frame False cfg (view h) (view h5)))"
proof (rule comes_up [OF libvirt_host.keeps_contract [OF host] api req fresh(1) data cfg ok(1) net R refl], goal_cases)
  case (1 a1 a2 a3 h2 h3 l3)
  let ?cfg0 = "(newMachineConfig l lc)\<lparr>cfg_Credentials := creds\<rparr>"
  have c0: "cfg = ?cfg0\<lparr>cfg_UserData := data\<rparr>" by (simp add: cfg)
  have gone: "\<exists>a5 h5. R (a4, h3) = Some (Inr no_requeue, (a5, h5)) \<and> api_machines (store a5) (ObjectKeyFromObject (lm_Meta l)) = None
      \<and> machine_gone False cfg (view h) (view h5) \<and> machine_frame False cfg (view h) (view h5)"
    if t: "0 < t" and a4: "store a4 = store_machine (mark_deleted t l3) (store a3)" for a4 t
  proof -
    let ?l = "mark_deleted t l3"
    have l4: "requestable K store loader a4 ?l m c lc creds"
      by (rule api_server.requestable_stored [OF api 1(4) a4])
         (simp_all add: mark_deleted_def removable_def 1(8))
    have del: "marked_deleted ?l" "meta_Finalizers (lm_Meta ?l) = [LibvirtMachineFinalizer]"
      "ObjectKeyFromObject (lm_Meta ?l) = ObjectKeyFromObject (lm_Meta l)"
      using t fresh(2) by (simp_all add: marked_deleted_def mark_deleted_def Time_IsZero_def 1(8) ObjectKeyFromObject_def same_id_meta [OF 1(5)])
    have c4: "?cfg0 = (newMachineConfig ?l lc)\<lparr>cfg_Credentials := creds\<rparr>"
      by (simp add: config_mark_deleted same_id_config [OF 1(5)])
    have inv: "networks_inv (view h3)" using ok(1) 1(12) by (auto simp: creatable_def intro: machine_frame_inv)
    have ok3: "\<not> delete_obstacle (view h3) ?cfg0"
      using libvirt_host.created_deletable [OF host _ ok(2) 1(11,12)] ok(1) by (simp add: creatable_def c0)
    from goes_away [OF libvirt_host.keeps_contract [OF host] api l4 del(1) c4 inv refl] ok3 obtain a5 h5
      where "R (a4, h3) = Some (Inr no_requeue, (a5, h5))" "api_machines (store a5) (ObjectKeyFromObject (lm_Meta l)) = None"
        and g: "machine_gone False ?cfg0 (view h3) (view h5)" "machine_frame False ?cfg0 (view h3) (view h5)"
      unfolding R del(2,3) by blast
    moreover have "machine_gone False cfg (view h) (view h5)"
      using g(1) 1(12) by (simp add: c0) (simp add: machine_gone_def machine_frame_def)
    moreover have "machine_frame False cfg (view h) (view h5)"
      using machine_frame_trans [OF 1(12), of "view h5"] g(2) by (simp add: c0)
    ultimately show ?thesis by blast
  qed
  then show ?case using 1(1-3,7) by blast
qed

theorem machine_life_witness:
  "\<exists>a3 r h3 l3 a5 h5. machine_up l3
     \<and> machine_Reconcile store_kube (hosted (libvirtclient_Provider ref_env)) off_loader
         (ObjectKeyFromObject (lm_Meta (sample_LibvirtMachine [] None))) (store_machine (mark_deleted 1 l3) a3, h3) = Some (r, (a5, h5))
     \<and> api_machines a5 (ObjectKeyFromObject (lm_Meta (sample_LibvirtMachine [] None))) = None
     \<and> domains (ref_view h5) = domains (ref_view quiet_world)"
proof -
  let ?l = "sample_LibvirtMachine [] None"
  let ?cfg = "(newMachineConfig ?l (sample_LibvirtCluster []))\<lparr>cfg_Credentials := None, cfg_UserData := [35, 33]\<rparr>"
  let ?R = "machine_Reconcile store_kube (hosted (libvirtclient_Provider ref_env)) off_loader (ObjectKeyFromObject (lm_Meta ?l))"
  have fin: "meta_Finalizers (lm_Meta ?l) = []" by (simp add: sample_LibvirtMachine_def sample_meta_def)
  have net: "networks (ref_view quiet_world) (cfg_Network ?cfg) = Some quiet_net"
    by (simp add: newMachineConfig_def sample_LibvirtCluster_def)
  have name: "machine_entry_ours (ref_view quiet_world) ?cfg" by (simp add: machine_entry_ours_def entry_ours_def quiet_net_def)
  obtain a3 h3 l3 where up: "machine_up l3"
    and gone: "\<forall>a4 t. 0 < t \<and> id a4 = store_machine (mark_deleted t l3) (id a3) \<longrightarrow>
      (\<exists>a5 h5. ?R (a4, h3) = Some (Inr no_requeue, (a5, h5)) \<and> api_machines (id a5) (ObjectKeyFromObject (lm_Meta ?l)) = None
        \<and> machine_gone False ?cfg (ref_view quiet_world) (ref_view h5) \<and> machine_frame False ?cfg (ref_view quiet_world) (ref_view h5))"
    using machine_life [OF ref.libvirt_host_axioms sk.api_server_axioms sample_requestable sample_fresh fin sample_bootstrap
        refl sample_creatable name net refl] by (elim exE conjE) (rule that)
  from spec [OF spec [OF gone], of 1 "store_machine (mark_deleted 1 l3) a3"] obtain a5 h5
    where last: "?R (store_machine (mark_deleted 1 l3) a3, h3) = Some (Inr no_requeue, (a5, h5))"
    "api_machines a5 (ObjectKeyFromObject (lm_Meta ?l)) = None" "machine_gone False ?cfg (ref_view quiet_world) (ref_view h5)"
    "machine_frame False ?cfg (ref_view quiet_world) (ref_view h5)" by auto
  have "domains (ref_view h5) n = domains (ref_view quiet_world) n" for n
    using last(3,4) by (cases "n = cfg_DomainName ?cfg") (simp_all add: machine_gone_def machine_frame_def)
  then have "domains (ref_view h5) = domains (ref_view quiet_world)" by (rule ext)
  with up last(1,2) show ?thesis by blast
qed

end
