(* ===== verification/Runs.thy ===== *)
theory Runs
  imports System
begin

text \<open>
  Runs of the machine controller: requests for one LibvirtMachine, interleaved with anything the host does, edits
  of the objects by others, and updates of the API server that get lost.
\<close>

section \<open>Counting creations\<close>

text \<open>A provider together with a record of the machines it has created.\<close>

definition unlogged :: "('h, 'x) act \<Rightarrow> ('h \<times> MachineConfig list, 'x) act" where
  "unlogged m s = map_option (\<lambda>(r, h). (r, (h, snd s))) (m (fst s))"

definition counting :: "'h provider \<Rightarrow> ('h \<times> MachineConfig list) provider" where
  "counting P =
     \<lparr>p_EnsureInfra = (\<lambda>cfg. unlogged (p_EnsureInfra P cfg)), p_GetMachineState = (\<lambda>cfg. unlogged (p_GetMachineState P cfg)),
      p_CreateMachine = (\<lambda>cfg s. map_option (\<lambda>(r, h). (r, (h, case r of Inl _ \<Rightarrow> snd s | Inr _ \<Rightarrow> snd s @ [cfg])))
        (p_CreateMachine P cfg (fst s))),
      p_StartMachine = (\<lambda>cfg. unlogged (p_StartMachine P cfg)), p_DeleteMachine = (\<lambda>cfg. unlogged (p_DeleteMachine P cfg)),
      p_GetMachineAddress = (\<lambda>cfg. unlogged (p_GetMachineAddress P cfg))\<rparr>"

lemma counting_queries [simp]:
  "p_GetMachineState (counting P) cfg (h, log) = map_option (\<lambda>(r, h). (r, (h, log))) (p_GetMachineState P cfg h)"
  by (simp add: counting_def unlogged_def)

abbreviation pid :: "LibvirtMachine \<Rightarrow> string option" where
  "pid l \<equiv> lms_ProviderID (lm_Spec l)"

text \<open>What a reconciliation of \<open>l\<close> does to the record: nothing, or one entry for a machine without a provider ID, which then has one.\<close>

definition log_effect :: "string \<Rightarrow> LibvirtMachine \<Rightarrow> MachineConfig list \<Rightarrow> LibvirtMachine \<Rightarrow> MachineConfig list \<Rightarrow> bool" where
  "log_effect d l log l' log' \<longleftrightarrow>
     (pid l \<noteq> None \<longrightarrow> pid l' \<noteq> None)
     \<and> (log' = log \<or> pid l = None \<and> pid l' \<noteq> None \<and> (\<exists>cfg. log' = log @ [cfg] \<and> cfg_DomainName cfg = d))"

lemma log_effect_refl [simp]: "log_effect d l log l log"
  by (simp add: log_effect_def)

context api_server
begin

lemma getCloudInitData_reads: "\<exists>r. getCloudInitData K scope d (a, h) = Some (r, (a, h))"
  by (auto simp: getCloudInitData_def Let_def get_secret tryE_def catchE_def split: option.split sum.split)

end

lemma by_state_effect:
  fixes K :: "('a \<times> ('h \<times> MachineConfig list)) kube"
  assumes api: "api_server K store"
    and run: "by_state K (hosted (counting P)) scope state (l, (a, (h, log))) = Some (r, (l', (a', (h', log'))))"
  shows "a' = a \<and> log_effect (cfg_DomainName (ms_MachineConfig scope)) l log l' log'"
proof -
  have data: "getCloudInitData K scope d (a, x) = Some (q, y) \<Longrightarrow> y = (a, x)" for d x q y
    using api_server.getCloudInitData_reads [OF api, of scope d a x] by auto
  show ?thesis
    using run unfolding by_state_def branch_defs
    by (auto simp: log_effect_def counting_def unlogged_def tryE_def catchE_def
        split: option.splits sum.splits if_splits dest!: data)
qed

lemma config_name [simp]: "cfg_DomainName (newMachineConfig l lc) = domainName l"
  by (simp add: newMachineConfig_def)

lemma normal_effect:
  fixes K :: "('a \<times> ('h \<times> MachineConfig list)) kube"
  assumes api: "api_server K store"
    and run: "machine_reconcileNormal K (hosted (counting P)) scope (l, (a, (h, log))) = Some (r, (l', (a', (h', log'))))"
  shows "a' = a \<and> log_effect (cfg_DomainName (ms_MachineConfig scope)) l log l' log'"
proof (cases "active K scope l")
  case True
  let ?l = "set_machine_condition K infra_is_ready l"
  show ?thesis
  proof (cases "p_GetMachineState P (ms_MachineConfig scope) h")
    case None
    with run show ?thesis by (simp add: reconcileNormal_active [OF True] tryE_def catchE_def)
  next
    case (Some res)
    obtain q h1 where res: "res = (q, h1)" by fastforce
    with Some run have "(case q of Inl e \<Rightarrow> Some (Inl e, (?l, (a, (h1, log))))
         | Inr state \<Rightarrow> by_state K (hosted (counting P)) scope state (?l, (a, (h1, log)))) = Some (r, (l', (a', (h', log'))))"
      by (simp add: reconcileNormal_active [OF True] tryE_def catchE_def split: sum.splits)
    then show ?thesis
      by (cases q) (auto simp: log_effect_def dest!: by_state_effect [OF api])
  qed
next
  case False
  with run show ?thesis
    unfolding machine_reconcileNormal_def by (auto simp: active_def log_effect_def split: if_splits)
qed

lemma delete_effect:
  assumes laws: "kube_laws K"
    and run: "machine_reconcileDelete K (hosted (counting P)) scope (l, (a, (h, log))) = Some (r, (l', (a', (h', log'))))"
  shows "a' = a \<and> log_effect d l log l' log'"
  using run
  by (auto simp: reconcileDelete_cases [OF laws] log_effect_def counting_def unlogged_def split: option.splits sum.splits)

lemma owned_effect:
  fixes K :: "('a \<times> ('h \<times> MachineConfig list)) kube"
  assumes api: "api_server K store"
    and run: "machine_Reconcile_owned K (hosted (counting P)) loader l (l, (a, (h, log))) = Some (r, (l', (a', (h', log'))))"
  shows "a' = a \<and> log_effect (domainName l) l log l' log'"
proof -
  note laws = api_server.axioms(1) [OF api]
  note reads = api_server.owner_machine [OF api] api_server.labelled_cluster [OF api] api_server.get_cluster [OF api]
  have load: "Load K loader lc (a, x) = Some (q, y) \<Longrightarrow> y = (a, x)" for lc x q y
    using api_server.Load_reads [OF api, of loader lc a x] by auto
  show ?thesis
    using run unfolding machine_Reconcile_owned_def Let_def
    by (auto simp: tryE_def catchE_def reads split: option.splits sum.splits if_splits
        dest!: load normal_effect [OF api] delete_effect [OF laws, where d = "domainName l"])
qed

lemma request_effect:
  fixes K :: "('a \<times> ('h \<times> MachineConfig list)) kube"
  assumes api: "api_server K store"
    and run: "machine_Reconcile K (hosted (counting P)) loader n (a, (h, log)) = Some (r, (a', (h', log')))"
  shows "(case api_machines (store a) n of
       None \<Rightarrow> store a' = store a \<and> log' = log
     | Some l \<Rightarrow> \<exists>l'. store a' = store_machine l' (store a) \<and> written_back l l' \<and> log_effect (domainName l) l log l' log')"
proof (cases "api_machines (store a) n")
  case None
  with run api_server.machine_request_gone [OF api] show ?thesis by simp
next
  case (Some l)
  obtain p where p: "newHelper_LibvirtMachine K l (a, (h, log)) = Some (Inr p, (a, (h, log)))"
    using api_server.machine_helper [OF api] by blast
  have patched: "deferPatch (patch_LibvirtMachine K p) l (machine_Reconcile_owned K (hosted (counting P)) loader l) (a, (h, log))
      = Some (r, (a', (h', log')))"
    using run by (simp add: machine_Reconcile_def api_server.get_machine [OF api] Some p tryE_def catchE_def)
  then obtain q l' a1 h1 log1 where owned: "machine_Reconcile_owned K (hosted (counting P)) loader l (l, (a, (h, log)))
      = Some (q, (l', (a1, (h1, log1))))"
    by (auto simp: deferPatch_def split: option.splits)
  have eff: "a1 = a \<and> log_effect (domainName l) l log l' log1" by (rule owned_effect [OF api owned])
  have "written_back l l'" using owned by (rule keepsD [OF owned_written_back [OF api_server.axioms(1) [OF api]]])
  moreover have "store a' = store_machine l' (store a) \<and> log' = log1"
    using patched api_server.patch_machine [OF api, of p l' a1 "(h1, log1)"] eff by (auto simp: deferPatch_def owned)
  ultimately show ?thesis using Some eff by auto
qed

section \<open>Runs\<close>

text \<open>
  What others may do to the objects: anything, as long as an object is stored under its own name. Some edits make
  the controller forget that it has created the machine: those after which there is a LibvirtMachine without
  a provider ID although there was none before, so the provider ID has been taken away, or the object has been
  deleted and created again.
\<close>

definition edits :: "NamespacedName \<Rightarrow> api \<Rightarrow> api \<Rightarrow> bool" where
  "edits n A A' \<longleftrightarrow> (\<forall>l'. api_machines A' n = Some l' \<longrightarrow> ObjectKeyFromObject (lm_Meta l') = n)"

definition forgets :: "NamespacedName \<Rightarrow> api \<Rightarrow> api \<Rightarrow> bool" where
  "forgets n A A' \<longleftrightarrow>
     map_option pid (api_machines A' n) = Some None \<and> map_option pid (api_machines A n) \<noteq> Some None"

text \<open>
  The steps of a run; the number counts the requests whose update was lost (the API server refused it, or the
  controller was killed after its work on the host) and the edits that make the controller forget.
\<close>

inductive evolves ::
  "('a \<times> ('h \<times> MachineConfig list)) kube \<Rightarrow> ('a \<Rightarrow> api) \<Rightarrow> 'h provider \<Rightarrow> CredentialsLoader \<Rightarrow> NamespacedName
     \<Rightarrow> ('a \<times> ('h \<times> MachineConfig list)) \<times> nat \<Rightarrow> ('a \<times> ('h \<times> MachineConfig list)) \<times> nat \<Rightarrow> bool"
  for K store P loader n where
  request: "machine_Reconcile K (hosted (counting P)) loader n s = Some (r, s') \<Longrightarrow> evolves K store P loader n (s, k) (s', k)"
| lost: "machine_Reconcile K (hosted (counting P)) loader n (a, x) = Some (r, (a', x')) \<Longrightarrow>
     evolves K store P loader n ((a, x), k) ((a, x'), Suc k)"
| host: "evolves K store P loader n ((a, (h, log)), k) ((a, (h', log)), k)"
| edit: "edits n (store a) (store a') \<Longrightarrow>
     evolves K store P loader n ((a, x), k) ((a', x), if forgets n (store a) (store a') then Suc k else k)"

text \<open>
  The invariant: the record has at most one entry more than there are lost updates and forgetting edits, and that
  one only for an object that has its provider ID or is gone; all entries are for the domain of the object.
\<close>

definition keyed :: "NamespacedName \<Rightarrow> string \<Rightarrow> bool" where
  "keyed n d \<longleftrightarrow> (\<forall>l. ObjectKeyFromObject (lm_Meta l) = n \<longrightarrow> domainName l = d)"

definition run_inv :: "('a \<Rightarrow> api) \<Rightarrow> NamespacedName \<Rightarrow> string \<Rightarrow> ('a \<times> ('h \<times> MachineConfig list)) \<times> nat \<Rightarrow> bool" where
  "run_inv store n d t =
     (case t of ((a, (h, log)), k) \<Rightarrow>
        keyed n d \<and> (\<forall>cfg \<in> set log. cfg_DomainName cfg = d)
        \<and> (case api_machines (store a) n of
             None \<Rightarrow> length log \<le> Suc k
           | Some l \<Rightarrow> ObjectKeyFromObject (lm_Meta l) = n
               \<and> length log \<le> k + (if pid l = None then 0 else 1)))"

lemma domainName_key:
  "ObjectKeyFromObject (lm_Meta l') = ObjectKeyFromObject (lm_Meta l) \<Longrightarrow> domainName l' = domainName l"
  by (simp add: domainName_def ObjectKeyFromObject_def)

lemma same_id_key: "same_machine_id l l' \<Longrightarrow> ObjectKeyFromObject (lm_Meta l') = ObjectKeyFromObject (lm_Meta l)"
  by (simp add: ObjectKeyFromObject_def same_id_meta [of l l'])

lemma request_inv:
  fixes K :: "('a \<times> ('h \<times> MachineConfig list)) kube"
  assumes api: "api_server K store" and inv: "run_inv store n d ((a, (h, log)), k)"
    and run: "machine_Reconcile K (hosted (counting P)) loader n (a, (h, log)) = Some (r, (a', (h', log')))"
  shows "run_inv store n d ((a', (h', log')), k) \<and> run_inv store n d ((a, (h', log')), Suc k)"
proof (cases "api_machines (store a) n")
  case None
  with request_effect [OF api run] inv show ?thesis by (simp add: run_inv_def)
next
  case (Some l)
  with request_effect [OF api run] obtain l' where a': "store a' = store_machine l' (store a)"
    and id: "same_machine_id l l'" and eff: "log_effect (domainName l) l log l' log'"
    by (auto simp: written_back_def)
  note key = same_id_key [OF id]
  from inv Some have l: "ObjectKeyFromObject (lm_Meta l) = n" "domainName l = d" "\<forall>cfg \<in> set log. cfg_DomainName cfg = d"
    "length log \<le> k + (if pid l = None then 0 else 1)" and n: "keyed n d"
    by (simp_all add: run_inv_def keyed_def)
  then have now: "api_machines (store a') n = (if removable (lm_Meta l') then None else Some l')"
    by (simp add: a' store_machine_def key)
  have log': "length log' \<le> k + (if pid l' = None then 0 else 1)" "length log' \<le> Suc k + (if pid l = None then 0 else 1)"
    "\<forall>cfg \<in> set log'. cfg_DomainName cfg = d"
    using eff l by (auto simp: log_effect_def split: if_splits)
  then show ?thesis using l(1) n by (auto simp: run_inv_def now Some key split: if_splits)
qed

lemma evolves_inv:
  fixes K :: "('a \<times> ('h \<times> MachineConfig list)) kube"
  assumes "evolves K store P loader n t t'" and api: "api_server K store" and "run_inv store n d t"
  shows "run_inv store n d t'"
  using assms(1,3)
proof (induction rule: evolves.induct)
  case (request s r s' k)
  obtain a h log where "s = (a, (h, log))" by (cases s) auto
  moreover obtain a' h' log' where "s' = (a', (h', log'))" by (cases s') auto
  ultimately show ?case using request request_inv [OF api] by blast
next
  case (lost a x r a' x' k)
  obtain h log where "x = (h, log)" by (cases x) auto
  moreover obtain h' log' where "x' = (h', log')" by (cases x') auto
  ultimately show ?case using lost request_inv [OF api] by blast
next
  case (host a h log k h')
  then show ?case by (simp add: run_inv_def)
next
  case (edit a a' x k)
  obtain h log where x: "x = (h, log)" by (cases x) auto
  from edit show ?case
    by (auto simp: x run_inv_def edits_def forgets_def split: option.splits if_splits)
qed

lemma run_keeps_inv:
  assumes "(evolves K store P loader n)\<^sup>*\<^sup>* t t'" "api_server K store" "run_inv store n d t"
  shows "run_inv store n d t'"
  using assms(1) by (induction rule: rtranclp_induct) (use assms(2,3) evolves_inv in blast)+

text \<open>
  C2: At most one creation: in every run of requests for a LibvirtMachine, with any behaviour of the host and of the
  provider, with any edits of the objects by others and with lost updates in between, the number of machines created
  on the host exceeds by at most one the number of lost updates and of edits that make the controller forget (they
  take the provider ID away, or create the object anew without one). They all have the domain name of the
  LibvirtMachine. Without such an event, the object has its provider ID as soon as the machine is created.
\<close>

theorem at_most_one_creation:
  assumes "api_server K store" "(evolves K store P loader n)\<^sup>*\<^sup>* ((a, (h, [])), 0) ((a', (h', log)), k)"
    and "api_machines (store a) n = Some l" "ObjectKeyFromObject (lm_Meta l) = n"
  shows "length log \<le> Suc k \<and> (\<forall>cfg \<in> set log. cfg_DomainName cfg = domainName l)
     \<and> (k = 0 \<and> log \<noteq> [] \<longrightarrow> (\<forall>l'. api_machines (store a') n = Some l' \<longrightarrow> pid l' \<noteq> None))"
proof -
  have "keyed n (domainName l)" using assms(4) by (auto simp: keyed_def intro: domainName_key)
  then have "run_inv store n (domainName l) ((a, (h, [])), 0)" using assms(3,4) by (simp add: run_inv_def)
  from run_keeps_inv [OF assms(2,1) this] show ?thesis
    by (cases log) (auto simp: run_inv_def split: option.splits if_splits)
qed

theorem at_most_one_creation_witness:
  "\<exists>a' h' log. (evolves store_kube id mock_provider off_loader (ObjectKeyFromObject (lm_Meta (sample_LibvirtMachine [] None))))\<^sup>*\<^sup>*
       ((sample_api (sample_LibvirtMachine [] None), (fresh_mock DomainStateNotFound, [])), 0) ((a', (h', log)), 0)
     \<and> length log = 1
     \<and> (\<forall>l'. api_machines a' (ObjectKeyFromObject (lm_Meta (sample_LibvirtMachine [] None))) = Some l' \<longrightarrow> pid l' \<noteq> None)"
proof -
  let ?l = "sample_LibvirtMachine [] None" and ?c = "sample_LibvirtCluster []" and ?h = "fresh_mock DomainStateNotFound"
  let ?n = "ObjectKeyFromObject (lm_Meta ?l)" and ?P = "hosted (counting mock_provider)"
  let ?K = "store_kube :: (api \<times> (MockProvider \<times> MachineConfig list)) kube"
  let ?cfg = "(newMachineConfig ?l ?c)\<lparr>cfg_Credentials := None\<rparr>"
  let ?made = "?cfg\<lparr>cfg_UserData := [35, 33]\<rparr>"
  obtain a1 l1 where 1: "machine_Reconcile store_kube ?P off_loader ?n (sample_api ?l, (?h, [])) = Some (Inr no_requeue, (a1, (?h, [])))"
    "requestable ?K id off_loader a1 l1 sample_machine sample_cluster ?c None" "same_machine_id ?l l1"
    "admitted ?K sample_cluster l1" "pid l1 = None" "id a1 = store_machine l1 (id (sample_api ?l))"
    using sk.finalizer_request [OF sample_requestable sample_fresh, of ?P "(?h, [])"] by blast
  have cfg: "(newMachineConfig l1 ?c)\<lparr>cfg_Credentials := None\<rparr> = ?cfg" by (simp add: same_id_config [OF 1(3)])
  have data: "bootstrap_data (id a1) sample_machine = Some [35, 33]"
    using sample_bootstrap [of ?l] 1(6) by (simp add: bootstrap_data_def)
  have host: "p_GetMachineState (counting mock_provider) ?cfg (?h, []) = Some (Inr DomainStateNotFound, (?h, []))"
    "p_CreateMachine (counting mock_provider) ?made (?h, []) = Some (Inr (), (?h\<lparr>mk_CreatedMachineConfig := Some ?made\<rparr>, [?made]))"
    by (simp_all add: counting_def mock_defs fresh_mock_def unlogged_def)
  from sk.create_request [OF 1(2,4,5) data, of "counting mock_provider" "(?h, [])", unfolded cfg, OF host]
  obtain a2 where 2: "machine_Reconcile store_kube ?P off_loader ?n (a1, (?h, [])) =
      Some (Inr no_requeue, (a2, (?h\<lparr>mk_CreatedMachineConfig := Some ?made\<rparr>, [?made])))"
    unfolding same_id_key [OF 1(3)] by blast
  have run: "(evolves store_kube id mock_provider off_loader ?n)\<^sup>*\<^sup>* ((sample_api ?l, (?h, [])), 0)
      ((a2, (?h\<lparr>mk_CreatedMachineConfig := Some ?made\<rparr>, [?made])), 0)"
    using evolves.request [OF 1(1)] evolves.request [OF 2] by (meson converse_rtranclp_into_rtranclp r_into_rtranclp)
  have stored: "api_machines (id (sample_api ?l)) ?n = Some ?l" by (simp add: sample_api_def)
  have "\<forall>l'. api_machines a2 ?n = Some l' \<longrightarrow> pid l' \<noteq> None"
    using at_most_one_creation [OF sk.api_server_axioms run stored] by simp
  then show ?thesis using run by (intro exI conjI) (assumption, simp, blast)
qed

end
