(* ===== verification/ClusterSystem.thy ===== *)
theory ClusterSystem
  imports System
begin

text \<open>
  Whole requests for a LibvirtCluster: the verdict that is stored on the API server, and what is on the host.
\<close>

definition cluster_requestable ::
  "('a \<times> 'h) kube \<Rightarrow> ('a \<Rightarrow> api) \<Rightarrow> CredentialsLoader \<Rightarrow> 'a \<Rightarrow> LibvirtCluster \<Rightarrow> Cluster \<Rightarrow> Credentials option \<Rightarrow> bool" where
  "cluster_requestable K store loader a l c creds \<longleftrightarrow>
     api_clusters (store a) (ObjectKeyFromObject (lc_Meta l)) = Some l
     \<and> api_owner_cluster (store a) (meta_Namespace (lc_Meta l)) (meta_OwnerReferences (lc_Meta l)) = Inr (Some c)
     \<and> meta_DeletionTimestamp (lc_Meta l) = None
     \<and> (\<forall>h. Load K loader l (a, h) = Some (Inr creds, (a, h)))"

definition cluster_scope :: "LibvirtCluster \<Rightarrow> Cluster \<Rightarrow> ClusterScope" where
  "cluster_scope l c = \<lparr>scope_Cluster = c, scope_InfraConfig = newInfraConfig l\<rparr>"

context api_server
begin

lemma cluster_request:
  assumes "cluster_requestable K store loader a l c creds"
    "cluster_reconcileNormal K P loader (cluster_scope l c) (l, (a, h)) = Some (r, (l', (a, h1)))"
  shows "\<exists>a'. cluster_Reconcile K P loader (ObjectKeyFromObject (lc_Meta l)) (a, h) = Some (r, (a', h1))
     \<and> store a' = store_cluster l' (store a)"
proof -
  obtain p where p: "newHelper_LibvirtCluster K l (a, h) = Some (Inr p, (a, h))" using cluster_helper by blast
  obtain a' where "patch_LibvirtCluster K p l' (a, h1) = Some (Inr (), (a', h1))" "store a' = store_cluster l' (store a)"
    using patch_cluster by blast
  then show ?thesis
    using assms
    by (simp add: cluster_Reconcile_def cluster_requestable_def cluster_scope_def get_cluster owner_cluster p Time_IsZero_def
        tryE_def catchE_def deferPatch_def Let_def)
qed

end

text \<open>The reason that the controller gives for what it finds on the host.\<close>

definition infra_reason :: "sys \<Rightarrow> InfraConfig \<Rightarrow> string" where
  "infra_reason s cfg =
     (let first_bad = find (\<lambda>st. st \<noteq> Some True)
        [map_option net_active (networks s (cfg_Network cfg)), pools s (cfg_BasePool cfg), pools s (cfg_DomainPool cfg)]
      in if first_bad = Some (Some False) then InfrastructureInactiveReason else InfrastructureProvisioningFailedReason)"

lemma infra_error_reason: "infra_error s cfg e \<Longrightarrow> getInfraError e = infra_reason s cfg"
  by (auto simp: infra_error_def check_error_def getInfraError_def infra_reason_def Let_def)

lemma infra_error_not_ready: "infra_error s cfg e \<Longrightarrow> \<not> infra_ready s cfg"
  by (auto simp: infra_error_def check_error_def infra_ready_def Let_def)

text \<open>
  C7: The stored verdict tells what is on the host: on a host where no call fails by itself, one request for a
  LibvirtCluster that passes the checks before sets the condition to true exactly when the network and the
  two pools exist and are active. Otherwise it is false, with the reason of an inactive resource when the first
  bad one is inactive; a missing one is reported as a failed provisioning. The host is unchanged.
\<close>

theorem cluster_verdict_on_host:
  assumes host: "libvirt_host E view vp mi False" and api: "api_server K store"
    and req: "cluster_requestable K store loader a l c creds" and chk: "cluster_checkable K (cluster_scope l c) l"
    and cfg: "cfg = (newInfraConfig l)\<lparr>cfg_Credentials := creds\<rparr>" and creds: "credentials_ok cfg"
  shows "\<exists>r a' h' l'. cluster_Reconcile K (hosted (libvirtclient_Provider E)) loader (ObjectKeyFromObject (lc_Meta l)) (a, h)
         = Some (Inr r, (a', h'))
     \<and> api_clusters (store a') (ObjectKeyFromObject (lc_Meta l)) = Some l' \<and> tidied False (view h) (view h')
     \<and> (if infra_ready (view h) cfg
        then infra_condition l' = Some (ConditionTrue, InfrastructureReadyReason) \<and> lct_Ready (lc_Status l') \<and> r = no_requeue
        else infra_condition l' = Some (ConditionFalse, infra_reason (view h) cfg)
          \<and> lct_Ready (lc_Status l') = lct_Ready (lc_Status l) \<and> RequeueAfter r = requeueTimeShort)"
proof -
  let ?P = "hosted (libvirtclient_Provider E)" and ?n = "ObjectKeyFromObject (lc_Meta l)"
  let ?verdict = "\<lambda>r l'. if infra_ready (view h) cfg
        then infra_condition l' = Some (ConditionTrue, InfrastructureReadyReason) \<and> lct_Ready (lc_Status l') \<and> r = no_requeue
        else infra_condition l' = Some (ConditionFalse, infra_reason (view h) cfg)
          \<and> lct_Ready (lc_Status l') = lct_Ready (lc_Status l) \<and> RequeueAfter r = requeueTimeShort"
  have load: "Load K loader l (a, h) = Some (Inr creds, (a, h))" using req by (simp add: cluster_requestable_def)
  have icfg: "(scope_InfraConfig (cluster_scope l c))\<lparr>cfg_Credentials := creds\<rparr> = cfg" by (simp add: cluster_scope_def cfg)
  note verdict = reconcileNormal_verdict [OF api_server.axioms(1) [OF api] chk, where P = ?P and loader = loader and w = "(a, h)"]
  have "\<exists>r l' h'. cluster_reconcileNormal K ?P loader (cluster_scope l c) (l, (a, h)) = Some (Inr r, (l', (a, h')))
      \<and> same_cluster l l' \<and> tidied False (view h) (view h') \<and> ?verdict r l'"
  proof (rule run_cases [OF machine_provider.ensure [OF libvirt_host.keeps_contract [OF host], of "view h" cfg]], goal_cases)
    case (1 u h')
    then have "p_EnsureInfra ?P cfg (a, h) = Some (Inr u, (a, h'))" by simp
    with verdict 1(2) show ?case by (fastforce simp: load icfg)
  next
    case (2 e h')
    then have "p_EnsureInfra ?P cfg (a, h) = Some (Inl e, (a, h'))" by simp
    with verdict 2(2) creds show ?case
      by (fastforce simp: load icfg infra_error_reason same_flags_def dest: infra_error_not_ready)
  qed
  then obtain r l' h' where run: "cluster_reconcileNormal K ?P loader (cluster_scope l c) (l, (a, h)) = Some (Inr r, (l', (a, h')))"
    and l': "same_cluster l l'" "tidied False (view h) (view h')" "?verdict r l'" by blast
  obtain a' where "cluster_Reconcile K ?P loader ?n (a, h) = Some (Inr r, (a', h'))" "store a' = store_cluster l' (store a)"
    using api_server.cluster_request [OF api req run] by blast
  moreover have "api_clusters (store_cluster l' (store a)) ?n = Some l'"
    using l'(1) req by (simp add: same_cluster_def store_cluster_def removable_def cluster_requestable_def)
  ultimately show ?thesis using l' by metis
qed

theorem cluster_verdict_on_host_witness:
  "\<exists>r a' h' l'. cluster_Reconcile store_kube (hosted (libvirtclient_Provider ref_env)) off_loader
       \<lparr>nn_Namespace = ''default'', nn_Name = ''c1''\<rparr>
       ((sample_api (sample_LibvirtMachine [] None))\<lparr>api_clusters :=
          [\<lparr>nn_Namespace = ''default'', nn_Name = ''c1''\<rparr> \<mapsto> sample_LibvirtCluster [LibvirtClusterFinalizer]]\<rparr>, quiet_world)
       = Some (Inr r, (a', h'))
     \<and> api_clusters a' \<lparr>nn_Namespace = ''default'', nn_Name = ''c1''\<rparr> = Some l'
     \<and> infra_condition l' = Some (ConditionTrue, InfrastructureReadyReason)"
proof -
  let ?l = "sample_LibvirtCluster [LibvirtClusterFinalizer]"
  let ?a = "(sample_api (sample_LibvirtMachine [] None))\<lparr>api_clusters :=
      [\<lparr>nn_Namespace = ''default'', nn_Name = ''c1''\<rparr> \<mapsto> ?l]\<rparr>"
  let ?cfg = "(newInfraConfig ?l)\<lparr>cfg_Credentials := None\<rparr>"
  have key: "ObjectKeyFromObject (lc_Meta ?l) = \<lparr>nn_Namespace = ''default'', nn_Name = ''c1''\<rparr>"
    by (simp add: sample_LibvirtCluster_def sample_meta_def ObjectKeyFromObject_def)
  have req: "cluster_requestable store_kube id off_loader ?a ?l sample_cluster None"
    by (simp add: cluster_requestable_def load_off) (simp add: sample_api_def sample_LibvirtCluster_def sample_meta_def ObjectKeyFromObject_def)
  have chk: "cluster_checkable store_kube (cluster_scope ?l sample_cluster) ?l"
    by (simp add: cluster_checkable_def cluster_scope_def hasControlPlaneEndpoint_def store_kube_def sample_defs)
  have "infra_ready (ref_view quiet_world) ?cfg" "credentials_ok ?cfg"
    by (simp_all add: infra_ready_def newInfraConfig_def sample_LibvirtCluster_def quiet_net_def credentials_ok_def)
  with cluster_verdict_on_host [OF ref.libvirt_host_axioms sk.api_server_axioms req chk refl, of quiet_world]
  show ?thesis unfolding key by auto
qed

end
