(* ===== verification/Templates.thy ===== *)
theory Templates
  imports Api
begin

text \<open>
  The other types of \<^verbatim>\<open>api/v1alpha1\<close>: the templates, the lists, and the registration of the API group
  (\<^verbatim>\<open>groupversion_info.go\<close>, the \<^verbatim>\<open>init\<close> functions). Of \<^verbatim>\<open>clusterv1.ObjectMeta\<close> there are its two fields.
\<close>

record TypeMeta =
  tm_Kind :: string
  tm_APIVersion :: string

record TemplateMeta =
  tmeta_Labels :: "string \<rightharpoonup> string"
  tmeta_Annotations :: "string \<rightharpoonup> string"

section \<open>Templates\<close>

record LibvirtClusterTemplateResource =
  lctr_Meta :: TemplateMeta
  lctr_Spec :: LibvirtClusterSpec

record LibvirtClusterTemplateSpec =
  lcts_Template :: LibvirtClusterTemplateResource

record LibvirtClusterTemplate =
  lctp_TypeMeta :: TypeMeta
  lctp_Meta :: ObjectMeta
  lctp_Spec :: LibvirtClusterTemplateSpec

record LibvirtMachineTemplateResource =
  lmtr_Meta :: TemplateMeta
  lmtr_Spec :: LibvirtMachineSpec

record LibvirtMachineTemplateSpec =
  lmts_Template :: LibvirtMachineTemplateResource

record LibvirtMachineTemplate =
  lmtp_TypeMeta :: TypeMeta
  lmtp_Meta :: ObjectMeta
  lmtp_Spec :: LibvirtMachineTemplateSpec

section \<open>Lists\<close>

text \<open>The metadata of a list is whatever Kubernetes makes it.\<close>

record ('l, 'x) object_list =
  list_TypeMeta :: TypeMeta
  list_Meta :: 'l
  list_Items :: "'x list"

type_synonym 'l LibvirtClusterList = "('l, TypeMeta \<times> LibvirtCluster) object_list"
type_synonym 'l LibvirtMachineList = "('l, TypeMeta \<times> LibvirtMachine) object_list"
type_synonym 'l LibvirtClusterTemplateList = "('l, LibvirtClusterTemplate) object_list"
type_synonym 'l LibvirtMachineTemplateList = "('l, LibvirtMachineTemplate) object_list"

section \<open>Registration\<close>

record GroupVersion =
  gv_Group :: string
  gv_Version :: string

definition SchemeGroupVersion :: GroupVersion where
  "SchemeGroupVersion = \<lparr>gv_Group = ''infrastructure.cluster.x-k8s.io'', gv_Version = ''v1alpha1''\<rparr>"

text \<open>A scheme knows kinds of group versions. A builder holds a group version and the kinds registered with it.\<close>

type_synonym scheme = "(GroupVersion \<times> string) set"

record SchemeBuilder =
  sb_GroupVersion :: GroupVersion
  sb_Kinds :: "string list"

definition Register :: "string list \<Rightarrow> SchemeBuilder \<Rightarrow> SchemeBuilder" where
  "Register kinds b = b\<lparr>sb_Kinds := sb_Kinds b @ kinds\<rparr>"

definition AddToScheme :: "SchemeBuilder \<Rightarrow> scheme \<Rightarrow> scheme" where
  "AddToScheme b s = s \<union> (\<lambda>k. (sb_GroupVersion b, k)) ` set (sb_Kinds b)"

definition init_LibvirtCluster :: "SchemeBuilder \<Rightarrow> SchemeBuilder" where
  "init_LibvirtCluster = Register [''LibvirtCluster'', ''LibvirtClusterList'']"

definition init_LibvirtClusterTemplate :: "SchemeBuilder \<Rightarrow> SchemeBuilder" where
  "init_LibvirtClusterTemplate = Register [''LibvirtClusterTemplate'', ''LibvirtClusterTemplateList'']"

definition init_LibvirtMachine :: "SchemeBuilder \<Rightarrow> SchemeBuilder" where
  "init_LibvirtMachine = Register [''LibvirtMachine'', ''LibvirtMachineList'']"

definition init_LibvirtMachineTemplate :: "SchemeBuilder \<Rightarrow> SchemeBuilder" where
  "init_LibvirtMachineTemplate = Register [''LibvirtMachineTemplate'', ''LibvirtMachineTemplateList'']"

text \<open>The builder of the package after its initialisation, file by file.\<close>

definition v1alpha1_SchemeBuilder :: SchemeBuilder where
  "v1alpha1_SchemeBuilder =
     init_LibvirtMachineTemplate (init_LibvirtMachine (init_LibvirtClusterTemplate (init_LibvirtCluster
       \<lparr>sb_GroupVersion = SchemeGroupVersion, sb_Kinds = []\<rparr>)))"

end
