(* ===== verification/Admission.thy ===== *)
theory Admission
  imports MachineProps ClusterProps Templates
begin

text \<open>
  The rules that the markers of \<^verbatim>\<open>api/v1alpha1\<close> put into the custom resource definitions: required fields, defaults,
  minimal values, and the transition rules \<^verbatim>\<open>self == oldSelf\<close>. The API server applies them to the JSON form of an
  object. A transition rule of a field is evaluated when the field is there both before and after. A number
  of JSON is an integer; \<^verbatim>\<open>omitempty\<close> leaves a zero out.
\<close>

section \<open>The JSON form of a specification\<close>

record machine_json =
  js_providerID :: "string option"
  js_vcpu :: "int option"
  js_memoryMiB :: "int option"
  js_diskGiB :: "int option"
  js_image :: "string option"

definition json_int32 :: "32 word \<Rightarrow> int option" where
  "json_int32 x = (if x = 0 then None else Some (sint x))"

definition machine_spec_json :: "LibvirtMachineSpec \<Rightarrow> machine_json" where
  "machine_spec_json s =
     \<lparr>js_providerID = lms_ProviderID s, js_vcpu = json_int32 (lms_VCPU s), js_memoryMiB = json_int32 (lms_MemoryMiB s),
      js_diskGiB = json_int32 (lms_DiskGiB s), js_image = Some (lms_Image s)\<rparr>"

definition int32_of :: "int option \<Rightarrow> 32 word" where
  "int32_of n = (case n of None \<Rightarrow> 0 | Some i \<Rightarrow> word_of_int i)"

definition machine_spec_of :: "machine_json \<Rightarrow> LibvirtMachineSpec" where
  "machine_spec_of j =
     \<lparr>lms_ProviderID = js_providerID j, lms_VCPU = int32_of (js_vcpu j), lms_MemoryMiB = int32_of (js_memoryMiB j),
      lms_DiskGiB = int32_of (js_diskGiB j), lms_Image = (case js_image j of None \<Rightarrow> [] | Some s \<Rightarrow> s)\<rparr>"

section \<open>The rules\<close>

definition with_default :: "'a \<Rightarrow> 'a option \<Rightarrow> 'a option" where
  "with_default d x = (case x of None \<Rightarrow> Some d | Some y \<Rightarrow> Some y)"

definition machine_defaults :: "machine_json \<Rightarrow> machine_json" where
  "machine_defaults j =
     j\<lparr>js_vcpu := with_default 1 (js_vcpu j), js_memoryMiB := with_default 1024 (js_memoryMiB j),
       js_diskGiB := with_default 20 (js_diskGiB j)\<rparr>"

definition minimum :: "int \<Rightarrow> int option \<Rightarrow> bool" where
  "minimum m x = (case x of None \<Rightarrow> True | Some i \<Rightarrow> m \<le> i)"

definition min_length :: "nat \<Rightarrow> string \<Rightarrow> bool" where
  "min_length n s \<longleftrightarrow> n \<le> length s"

definition machine_valid :: "machine_json \<Rightarrow> bool" where
  "machine_valid j \<longleftrightarrow>
     minimum 1 (js_vcpu j) \<and> minimum 256 (js_memoryMiB j) \<and> minimum 1 (js_diskGiB j)
     \<and> (case js_image j of None \<Rightarrow> False | Some s \<Rightarrow> min_length 1 s)"

definition self_eq_oldSelf :: "'a option \<Rightarrow> 'a option \<Rightarrow> bool" where
  "self_eq_oldSelf self oldSelf = (case (self, oldSelf) of (Some x, Some y) \<Rightarrow> x = y | _ \<Rightarrow> True)"

definition machine_transition :: "machine_json \<Rightarrow> machine_json \<Rightarrow> bool" where
  "machine_transition self oldSelf \<longleftrightarrow>
     self_eq_oldSelf (js_providerID self) (js_providerID oldSelf) \<and> self_eq_oldSelf (js_vcpu self) (js_vcpu oldSelf)
     \<and> self_eq_oldSelf (js_memoryMiB self) (js_memoryMiB oldSelf) \<and> self_eq_oldSelf (js_diskGiB self) (js_diskGiB oldSelf)
     \<and> self_eq_oldSelf (js_image self) (js_image oldSelf)"

text \<open>Creating an object, and replacing the stored one: an error, or what is stored.\<close>

definition admit_create :: "machine_json \<Rightarrow> goerror + machine_json" where
  "admit_create j =
     (let j' = machine_defaults j in if machine_valid j' then Inr j' else Inl (External ''Invalid''))"

definition admit_update :: "machine_json \<Rightarrow> machine_json \<Rightarrow> goerror + machine_json" where
  "admit_update old j =
     (let j' = machine_defaults j in
      if machine_valid j' \<and> machine_transition j' old then Inr j' else Inl (External ''Invalid''))"

definition cluster_valid :: "LibvirtClusterSpec \<Rightarrow> bool" where
  "cluster_valid s \<longleftrightarrow>
     min_length 1 (lcs_URI s) \<and> min_length 1 (lcs_BasePool s) \<and> min_length 1 (lcs_DomainPool s) \<and> min_length 1 (lcs_Network s)
     \<and> (case lcs_CredentialsRef s of None \<Rightarrow> True | Some r \<Rightarrow> min_length 1 (cref_Name r))"

text \<open>The machine in a template is under the same rules.\<close>

definition template_admits :: "LibvirtMachineTemplate \<Rightarrow> LibvirtMachineTemplate \<Rightarrow> bool" where
  "template_admits old t \<longleftrightarrow>
     (case admit_update (machine_spec_json (lmtr_Spec (lmts_Template (lmtp_Spec old))))
        (machine_spec_json (lmtr_Spec (lmts_Template (lmtp_Spec t)))) of Inl _ \<Rightarrow> False | Inr _ \<Rightarrow> True)"

section \<open>Stored specifications\<close>

definition admitted :: "LibvirtMachineSpec \<Rightarrow> bool" where
  "admitted s \<longleftrightarrow> 1 \<le> sint (lms_VCPU s) \<and> 256 \<le> sint (lms_MemoryMiB s) \<and> 1 \<le> sint (lms_DiskGiB s) \<and> lms_Image s \<noteq> []"

lemma json_int32_pos: "0 < sint x \<Longrightarrow> json_int32 x = Some (sint x)"
  by (auto simp: json_int32_def)

lemma int32_json [simp]: "int32_of (json_int32 x) = x"
  by (simp add: int32_of_def json_int32_def)

lemma spec_json_roundtrip [simp]: "machine_spec_of (machine_spec_json s) = s"
  by (simp add: machine_spec_of_def machine_spec_json_def)

lemma admitted_json:
  assumes "admitted s"
  shows "machine_defaults (machine_spec_json s) = machine_spec_json s" "machine_valid (machine_spec_json s)"
  using assms
  by (simp_all add: admitted_def machine_defaults_def machine_spec_json_def json_int32_pos with_default_def machine_valid_def
      minimum_def min_length_def Suc_le_eq)

text \<open>What is stored, with numbers of 32 bits, is admitted.\<close>

definition int32_range :: "int option \<Rightarrow> bool" where
  "int32_range n = (case n of None \<Rightarrow> True | Some i \<Rightarrow> - (2 ^ 31) \<le> i \<and> i < 2 ^ 31)"

lemma sint_int32: "int32_range (Some i) \<Longrightarrow> sint (int32_of (Some i)) = i"
proof -
  have "sint (word_of_int i :: 32 word) = signed_take_bit 31 i" by transfer simp
  then show "int32_range (Some i) \<Longrightarrow> sint (int32_of (Some i)) = i"
    by (simp add: int32_range_def int32_of_def signed_take_bit_int_eq_self_iff)
qed

lemma valid_admitted:
  assumes "machine_valid (machine_defaults j)" "int32_range (js_vcpu j)" "int32_range (js_memoryMiB j)" "int32_range (js_diskGiB j)"
  shows "admitted (machine_spec_of (machine_defaults j))"
  using assms sint_int32 [of 1] sint_int32 [of 1024] sint_int32 [of 20]
  by (auto simp: admitted_def machine_valid_def machine_defaults_def machine_spec_of_def with_default_def minimum_def
      min_length_def sint_int32 int32_range_def split: option.splits)

section \<open>The controllers and the rules\<close>

text \<open>
  A server that applies the rules to the update of a LibvirtMachine that is stored as \<open>old\<close>, and stores what they
  make of it.
\<close>

definition admitting_machine :: "'w kube \<Rightarrow> LibvirtMachine \<Rightarrow> PatchHelper \<Rightarrow> LibvirtMachine \<Rightarrow> ('w, unit) act" where
  "admitting_machine K old h l =
     (case admit_update (machine_spec_json (lm_Spec old)) (machine_spec_json (lm_Spec l)) of
        Inl e \<Rightarrow> throw e
      | Inr j \<Rightarrow> patch_LibvirtMachine K h (l\<lparr>lm_Spec := machine_spec_of j\<rparr>))"

definition admitting_cluster :: "'w kube \<Rightarrow> PatchHelper \<Rightarrow> LibvirtCluster \<Rightarrow> ('w, unit) act" where
  "admitting_cluster K h l =
     (if cluster_valid (lc_Spec l) then patch_LibvirtCluster K h l else throw (External ''Invalid''))"

lemma same_id_admitted:
  assumes "same_machine_id l l'" "admitted (lm_Spec l)"
  shows "admit_update (machine_spec_json (lm_Spec l)) (machine_spec_json (lm_Spec l')) = Inr (machine_spec_json (lm_Spec l'))"
proof -
  have spec: "lms_VCPU (lm_Spec l') = lms_VCPU (lm_Spec l)" "lms_MemoryMiB (lm_Spec l') = lms_MemoryMiB (lm_Spec l)"
    "lms_DiskGiB (lm_Spec l') = lms_DiskGiB (lm_Spec l)" "lms_Image (lm_Spec l') = lms_Image (lm_Spec l)"
    using spec_eq_fields [of "lm_Spec l'" "lm_Spec l"] assms(1) by (simp_all add: same_machine_id_def)
  then have "admitted (lm_Spec l')" using assms(2) by (simp add: admitted_def)
  note json = admitted_json [OF this]
  have "machine_transition (machine_spec_json (lm_Spec l')) (machine_spec_json (lm_Spec l))"
    using spec assms(1)
    by (auto simp: machine_transition_def machine_spec_json_def self_eq_oldSelf_def same_machine_id_def split: option.splits)
  with json show ?thesis by (simp add: admit_update_def)
qed

definition same_cluster_spec :: "LibvirtCluster \<Rightarrow> LibvirtCluster \<Rightarrow> bool" where
  "same_cluster_spec l l' \<longleftrightarrow> lc_Spec l' = lc_Spec l"

interpretation cls: object_relation same_cluster_spec
  by unfold_locales (simp_all add: same_cluster_spec_def)

lemma cluster_keeps_spec:
  "keeps same_cluster_spec (cluster_reconcileNormal K P loader scope)" "keeps same_cluster_spec (cluster_reconcileDelete K scope)"
  unfolding cluster_reconcileNormal_def cluster_reconcileDelete_def case_prod_beta
  by (rule cls.keeps_intros | (simp add: same_cluster_spec_def; fail))+

lemma cluster_patch_irrelevant:
  "Load (K\<lparr>patch_LibvirtCluster := f\<rparr>) loader c = Load K loader c"
  "cluster_reconcileNormal (K\<lparr>patch_LibvirtCluster := f\<rparr>) P loader scope = cluster_reconcileNormal K P loader scope"
  "cluster_reconcileDelete (K\<lparr>patch_LibvirtCluster := f\<rparr>) scope = cluster_reconcileDelete K scope"
proof -
  show load: "Load (K\<lparr>patch_LibvirtCluster := f\<rparr>) loader c = Load K loader c" for c
    by (simp add: Load_def loadRef_def Let_def cong: if_cong option.case_cong)
  have cond: "set_cluster_condition (K\<lparr>patch_LibvirtCluster := f\<rparr>) = set_cluster_condition K"
    by (simp add: set_cluster_condition_def [abs_def])
  have ep: "hasControlPlaneEndpoint (K\<lparr>patch_LibvirtCluster := f\<rparr>) = hasControlPlaneEndpoint K"
    by (simp add: hasControlPlaneEndpoint_def [abs_def])
  show "cluster_reconcileNormal (K\<lparr>patch_LibvirtCluster := f\<rparr>) P loader scope = cluster_reconcileNormal K P loader scope"
    by (simp add: cluster_reconcileNormal_def load cond ep cong del: if_weak_cong)
  show "cluster_reconcileDelete (K\<lparr>patch_LibvirtCluster := f\<rparr>) scope = cluster_reconcileDelete K scope"
    by (simp add: cluster_reconcileDelete_def)
qed

lemma cluster_Reconcile_writes:
  assumes "get_LibvirtCluster K req w = Some (Inr l, w1)"
    "\<And>h l'. same_cluster_spec l l' \<Longrightarrow> f h l' = patch_LibvirtCluster K h l'"
  shows "cluster_Reconcile (K\<lparr>patch_LibvirtCluster := f\<rparr>) P loader req w = cluster_Reconcile K P loader req w"
proof -
  define body where "body = (\<lambda>owner. case owner of
       None \<Rightarrow> ret no_requeue
     | Some cluster \<Rightarrow>
         let scope = \<lparr>scope_Cluster = cluster, scope_InfraConfig = newInfraConfig l\<rparr>
         in if \<not> Time_IsZero (meta_DeletionTimestamp (lc_Meta l)) then cluster_reconcileDelete K scope
            else cluster_reconcileNormal K P loader scope)"
  have "keeps same_cluster_spec (body owner)" for owner
    unfolding body_def Let_def by (rule cls.keeps_intros cluster_keeps_spec)+
  then have "deferPatch (f h) l (body owner) = deferPatch (patch_LibvirtCluster K h) l (body owner)" for h owner
    by (intro ext deferPatch_cong assms(2)) (rule keepsD)
  moreover have "cluster_Reconcile (K\<lparr>patch_LibvirtCluster := f\<rparr>) P loader req w =
      tryE (GetOwnerCluster K (lc_Meta l)) id (\<lambda>owner. tryE (newHelper_LibvirtCluster K l) id (\<lambda>h. deferPatch (f h) l (body owner))) w1"
    unfolding cluster_Reconcile_def body_def
    by (simp add: cluster_patch_irrelevant assms(1) catchE_def Let_def cong: option.case_cong if_cong)
  moreover have "cluster_Reconcile K P loader req w =
      tryE (GetOwnerCluster K (lc_Meta l)) id (\<lambda>owner. tryE (newHelper_LibvirtCluster K l) id
        (\<lambda>h. deferPatch (patch_LibvirtCluster K h) l (body owner))) w1"
    unfolding cluster_Reconcile_def body_def by (simp add: assms(1) catchE_def)
  ultimately show ?thesis by simp
qed

text \<open>
  C14: The API server never refuses what the controllers write, and never changes it: a request for a LibvirtMachine whose
  stored specification satisfies the rules of its definition, or for such a LibvirtCluster, has the same
  effect with a server that applies the rules (defaults, minimal values, immutable fields) to the update
  as with one that stores every update.
\<close>

theorem controller_updates_admitted:
  assumes "kube_laws K"
  shows "(get_LibvirtMachine K req w = Some (Inr l, w1) \<longrightarrow> admitted (lm_Spec l) \<longrightarrow>
        machine_Reconcile (K\<lparr>patch_LibvirtMachine := admitting_machine K l\<rparr>) P loader req w = machine_Reconcile K P loader req w)
     \<and> (get_LibvirtCluster K req w = Some (Inr c, w1) \<longrightarrow> cluster_valid (lc_Spec c) \<longrightarrow>
        cluster_Reconcile (K\<lparr>patch_LibvirtCluster := admitting_cluster K\<rparr>) P loader req w = cluster_Reconcile K P loader req w)"
proof (intro conjI impI)
  assume get: "get_LibvirtMachine K req w = Some (Inr l, w1)" and adm: "admitted (lm_Spec l)"
  have "admitting_machine K l h l' = patch_LibvirtMachine K h l'" if "written_back l l'" for h l'
    using same_id_admitted [of l l'] adm that by (simp add: written_back_def admitting_machine_def)
  then show "machine_Reconcile (K\<lparr>patch_LibvirtMachine := admitting_machine K l\<rparr>) P loader req w = machine_Reconcile K P loader req w"
    by (rule Reconcile_writes [OF assms get])
next
  assume get: "get_LibvirtCluster K req w = Some (Inr c, w1)" and "cluster_valid (lc_Spec c)"
  then show "cluster_Reconcile (K\<lparr>patch_LibvirtCluster := admitting_cluster K\<rparr>) P loader req w = cluster_Reconcile K P loader req w"
    by (intro cluster_Reconcile_writes [OF get]) (simp add: same_cluster_spec_def admitting_cluster_def)
qed

theorem controller_updates_admitted_witness:
  "let l = sample_LibvirtMachine [] None; K = one_machine_kube l :: MockProvider kube;
       req = \<lparr>nn_Namespace = ''default'', nn_Name = ''m2''\<rparr>
   in admitted (lm_Spec l)
      \<and> machine_Reconcile (K\<lparr>patch_LibvirtMachine := admitting_machine K l\<rparr>) mock_provider off_loader req (fresh_mock DomainStateNotFound)
        = machine_Reconcile K mock_provider off_loader req (fresh_mock DomainStateNotFound)"
proof -
  let ?l = "sample_LibvirtMachine [] None"
  have adm: "admitted (lm_Spec ?l)" by (simp add: admitted_def sample_LibvirtMachine_def)
  have "get_LibvirtMachine (one_machine_kube ?l) n m = Some (Inr ?l, m)" for n m by (simp add: one_machine_kube_def)
  note conjunct1 [OF controller_updates_admitted [OF one_machine_laws], THEN mp, THEN mp, OF this adm]
  with adm show ?thesis by (simp add: Let_def)
qed

section \<open>Consequences of the rules\<close>

text \<open>An admitted machine gets exactly the sizes of its specification: the defaults of \<^verbatim>\<open>libvirtclient\<close> do not apply.\<close>

lemma admitted_sizes:
  assumes "admitted (lm_Spec l)"
  shows "uint (memoryMiB (newMachineConfig l c)) = sint (lms_MemoryMiB (lm_Spec l))"
    "uint (vCPU (newMachineConfig l c)) = sint (lms_VCPU (lm_Spec l))"
    "uint (diskSizeGiB (newMachineConfig l c)) = sint (lms_DiskGiB (lm_Spec l))"
  using assms
  by (auto simp: admitted_def newMachineConfig_def memoryMiB_def vCPU_def diskSizeGiB_def uint_scast scast_zero)

lemma self_eq_present: "self_eq_oldSelf x y \<Longrightarrow> x \<noteq> None \<Longrightarrow> y \<noteq> None \<Longrightarrow> x = y"
  by (auto simp: self_eq_oldSelf_def)

text \<open>The sizes and the image of a stored machine, also in a template, cannot be changed by an update.\<close>

lemma update_keeps_sizes:
  assumes "admitted old" "admit_update (machine_spec_json old) j = Inr j'"
  shows "js_vcpu j' = js_vcpu (machine_spec_json old)" "js_memoryMiB j' = js_memoryMiB (machine_spec_json old)"
    "js_diskGiB j' = js_diskGiB (machine_spec_json old)" "js_image j' = js_image (machine_spec_json old)"
proof -
  have j': "j' = machine_defaults j" "machine_valid j'" "machine_transition j' (machine_spec_json old)"
    using assms(2) by (simp_all add: admit_update_def Let_def split: if_splits)
  have present: "js_vcpu j' \<noteq> None" "js_memoryMiB j' \<noteq> None" "js_diskGiB j' \<noteq> None" "js_image j' \<noteq> None"
    using j'(2) by (auto simp: j'(1) machine_defaults_def with_default_def machine_valid_def split: option.splits)
  have stored: "js_vcpu (machine_spec_json old) \<noteq> None" "js_memoryMiB (machine_spec_json old) \<noteq> None"
    "js_diskGiB (machine_spec_json old) \<noteq> None" "js_image (machine_spec_json old) \<noteq> None"
    using assms(1) by (simp_all add: machine_spec_json_def admitted_def json_int32_pos)
  from j'(3) have rules: "self_eq_oldSelf (js_vcpu j') (js_vcpu (machine_spec_json old))"
    "self_eq_oldSelf (js_memoryMiB j') (js_memoryMiB (machine_spec_json old))"
    "self_eq_oldSelf (js_diskGiB j') (js_diskGiB (machine_spec_json old))"
    "self_eq_oldSelf (js_image j') (js_image (machine_spec_json old))"
    unfolding machine_transition_def by blast+
  show "js_vcpu j' = js_vcpu (machine_spec_json old)" by (rule self_eq_present [OF rules(1) present(1) stored(1)])
  show "js_memoryMiB j' = js_memoryMiB (machine_spec_json old)" by (rule self_eq_present [OF rules(2) present(2) stored(2)])
  show "js_diskGiB j' = js_diskGiB (machine_spec_json old)" by (rule self_eq_present [OF rules(3) present(3) stored(3)])
  show "js_image j' = js_image (machine_spec_json old)" by (rule self_eq_present [OF rules(4) present(4) stored(4)])
qed

text \<open>The provider ID can be replaced in two updates: it is optional, and its rule says nothing about an update that removes it.\<close>

lemma providerID_replaceable:
  assumes "admitted s"
  shows "admit_update (machine_spec_json (s\<lparr>lms_ProviderID := Some p\<rparr>)) (machine_spec_json (s\<lparr>lms_ProviderID := None\<rparr>))
       = Inr (machine_spec_json (s\<lparr>lms_ProviderID := None\<rparr>))
     \<and> admit_update (machine_spec_json (s\<lparr>lms_ProviderID := None\<rparr>)) (machine_spec_json (s\<lparr>lms_ProviderID := Some q\<rparr>))
       = Inr (machine_spec_json (s\<lparr>lms_ProviderID := Some q\<rparr>))"
proof -
  have "admitted (s\<lparr>lms_ProviderID := x\<rparr>)" for x using assms by (simp add: admitted_def)
  then have json: "machine_defaults (machine_spec_json (s\<lparr>lms_ProviderID := x\<rparr>)) = machine_spec_json (s\<lparr>lms_ProviderID := x\<rparr>)"
    "machine_valid (machine_spec_json (s\<lparr>lms_ProviderID := x\<rparr>))" for x
    by (simp_all add: admitted_json)
  have "machine_transition (machine_spec_json (s\<lparr>lms_ProviderID := x\<rparr>)) (machine_spec_json (s\<lparr>lms_ProviderID := y\<rparr>))"
    if "x = None \<or> y = None" for x y
    using that by (auto simp: machine_transition_def machine_spec_json_def self_eq_oldSelf_def split: option.split)
  then show ?thesis by (simp add: admit_update_def json)
qed

lemma update_keeps_rest:
  assumes "admitted s" "admit_update (machine_spec_json s) j = Inr j'"
  shows "machine_spec_of j' = s\<lparr>lms_ProviderID := js_providerID j'\<rparr>"
proof -
  have "int32_of (js_vcpu (machine_spec_json s)) = lms_VCPU s" "int32_of (js_memoryMiB (machine_spec_json s)) = lms_MemoryMiB s"
    "int32_of (js_diskGiB (machine_spec_json s)) = lms_DiskGiB s" "js_image (machine_spec_json s) = Some (lms_Image s)"
    by (simp_all add: machine_spec_json_def)
  with update_keeps_sizes [OF assms] show ?thesis by (cases s) (simp add: machine_spec_of_def)
qed

text \<open>
  C18: What the rules for a LibvirtMachine guarantee: an update that is accepted changes nothing of a stored specification but
  the provider ID, and leaves one that satisfies the rules; and memory, processors and disk of such a
  specification reach libvirt as they are, without the defaults of the libvirt client. A provider ID that is
  set cannot be exchanged in one update, but it can be removed and then set to another value.
\<close>

theorem update_rules:
  assumes "admitted s"
  shows "(\<forall>j j'. admit_update (machine_spec_json s) j = Inr j' \<longrightarrow>
        machine_spec_of j' = s\<lparr>lms_ProviderID := js_providerID j'\<rparr> \<and> admitted (machine_spec_of j'))
     \<and> (lm_Spec l = s \<longrightarrow> uint (memoryMiB (newMachineConfig l c)) = sint (lms_MemoryMiB s)
        \<and> uint (vCPU (newMachineConfig l c)) = sint (lms_VCPU s) \<and> uint (diskSizeGiB (newMachineConfig l c)) = sint (lms_DiskGiB s))
     \<and> (p \<noteq> q \<longrightarrow> (\<exists>e. admit_update (machine_spec_json (s\<lparr>lms_ProviderID := Some p\<rparr>)) (machine_spec_json (s\<lparr>lms_ProviderID := Some q\<rparr>)) = Inl e))
     \<and> admit_update (machine_spec_json (s\<lparr>lms_ProviderID := Some p\<rparr>)) (machine_spec_json (s\<lparr>lms_ProviderID := None\<rparr>))
       = Inr (machine_spec_json (s\<lparr>lms_ProviderID := None\<rparr>))
     \<and> admit_update (machine_spec_json (s\<lparr>lms_ProviderID := None\<rparr>)) (machine_spec_json (s\<lparr>lms_ProviderID := Some q\<rparr>))
       = Inr (machine_spec_json (s\<lparr>lms_ProviderID := Some q\<rparr>))"
proof -
  have "admitted (s\<lparr>lms_ProviderID := x\<rparr>)" for x using assms by (simp add: admitted_def)
  with update_keeps_rest [OF assms] have "machine_spec_of j' = s\<lparr>lms_ProviderID := js_providerID j'\<rparr> \<and> admitted (machine_spec_of j')"
    if "admit_update (machine_spec_json s) j = Inr j'" for j j'
    using that by metis
  moreover have "\<exists>e. admit_update (machine_spec_json (s\<lparr>lms_ProviderID := Some p\<rparr>)) (machine_spec_json (s\<lparr>lms_ProviderID := Some q\<rparr>)) = Inl e"
    if "p \<noteq> q"
    using that by (simp add: admit_update_def Let_def machine_transition_def machine_defaults_def machine_spec_json_def self_eq_oldSelf_def)
  ultimately show ?thesis using admitted_sizes [of l c] providerID_replaceable [OF assms, of p q] assms by blast
qed

theorem update_rules_witness:
  "uint (memoryMiB (newMachineConfig (sample_LibvirtMachine [] None) (sample_LibvirtCluster []))) = 2048
     \<and> admit_update (machine_spec_json ((lm_Spec (sample_LibvirtMachine [] None))\<lparr>lms_ProviderID := Some ''libvirt://a''\<rparr>))
         (machine_spec_json ((lm_Spec (sample_LibvirtMachine [] None))\<lparr>lms_ProviderID := None\<rparr>))
       = Inr (machine_spec_json ((lm_Spec (sample_LibvirtMachine [] None))\<lparr>lms_ProviderID := None\<rparr>))"
proof -
  let ?l = "sample_LibvirtMachine [] None"
  have "admitted (lm_Spec ?l)" by (simp add: admitted_def sample_LibvirtMachine_def)
  note rules = update_rules [OF this, where l = ?l and c = "sample_LibvirtCluster []" and p = "''libvirt://a''"]
  have "sint (lms_MemoryMiB (lm_Spec ?l)) = 2048" by (simp add: sample_LibvirtMachine_def)
  with rules show ?thesis by simp
qed

end
