(* ===== verification/GoHeap.thy ===== *)
theory GoHeap
  imports Prelude
begin

text \<open>
  Memory of a Go program, for the code that is about sharing: cells that hold arrays, pointers to elements,
  slices, \<^verbatim>\<open>new\<close>, \<^verbatim>\<open>make\<close>. A computation on memory gives \<^term>\<open>None\<close> when it panics. The locale \<open>deep_copy\<close> is the
  contract of a deep copy: it returns, the copy reads as the original, nothing that was there is changed,
  and the copy consists of new cells only. The lemmas below it build deep copies of structs, pointers and
  slices from those of their parts.
\<close>

section \<open>Memory\<close>

text \<open>Every address below the bound is allocated or was so; a new cell gets the bound as its address.\<close>

record 'k heap =
  cells :: "nat \<Rightarrow> 'k option"
  lim :: nat

type_synonym ('k, 'a) mem = "'k heap \<Rightarrow> ('a \<times> 'k heap) option"

definition mret :: "'a \<Rightarrow> ('k, 'a) mem" where
  "mret x h = Some (x, h)"

definition mbind :: "('k, 'a) mem \<Rightarrow> ('a \<Rightarrow> ('k, 'b) mem) \<Rightarrow> ('k, 'b) mem" where
  "mbind m f h = (case m h of None \<Rightarrow> None | Some (x, h') \<Rightarrow> f x h')"

lemma mbind_laws [simp]:
  "mbind (mret x) f = f x"
  "mbind (mbind m f) g = mbind m (\<lambda>x. mbind (f x) g)"
  by (simp_all add: fun_eq_iff mbind_def mret_def split: option.split)

text \<open>The arrays of one element type among the cells.\<close>

record ('k, 'x) kind =
  wrap :: "'x list \<Rightarrow> 'k"
  unwrap :: "'k \<Rightarrow> 'x list option"

definition kind_ok :: "('k, 'x) kind \<Rightarrow> bool" where
  "kind_ok kd \<longleftrightarrow> (\<forall>xs. unwrap kd (wrap kd xs) = Some xs)"

definition array_at :: "('k, 'x) kind \<Rightarrow> 'k heap \<Rightarrow> nat \<Rightarrow> 'x list option" where
  "array_at kd h a = (case cells h a of None \<Rightarrow> None | Some c \<Rightarrow> unwrap kd c)"

text \<open>A pointer is a cell and an index; a slice is a cell, the index of its first element and a length.\<close>

type_synonym ptr = "nat \<times> nat"

record slice =
  sl_array :: nat
  sl_offset :: nat
  sl_len :: nat

definition make_array :: "('k, 'x) kind \<Rightarrow> 'x list \<Rightarrow> ('k, nat) mem" where
  "make_array kd xs h = Some (lim h, h\<lparr>cells := (cells h)(lim h \<mapsto> wrap kd xs), lim := lim h + 1\<rparr>)"

definition new :: "('k, 'x) kind \<Rightarrow> 'x \<Rightarrow> ('k, ptr) mem" where
  "new kd zero = mbind (make_array kd [zero]) (\<lambda>a. mret (a, 0))"

definition make_slice :: "('k, 'x) kind \<Rightarrow> 'x \<Rightarrow> nat \<Rightarrow> ('k, slice) mem" where
  "make_slice kd zero n =
     mbind (make_array kd (replicate n zero)) (\<lambda>a. mret \<lparr>sl_array = a, sl_offset = 0, sl_len = n\<rparr>)"

definition deref :: "('k, 'x) kind \<Rightarrow> ptr \<Rightarrow> ('k, 'x) mem" where
  "deref kd p h =
     (case array_at kd h (fst p) of
        None \<Rightarrow> None
      | Some xs \<Rightarrow> if snd p < length xs then Some (xs ! snd p, h) else None)"

definition assign :: "('k, 'x) kind \<Rightarrow> ptr \<Rightarrow> 'x \<Rightarrow> ('k, unit) mem" where
  "assign kd p x h =
     (case array_at kd h (fst p) of
        None \<Rightarrow> None
      | Some xs \<Rightarrow>
          if snd p < length xs then Some ((), h\<lparr>cells := (cells h)(fst p \<mapsto> wrap kd (xs[snd p := x]))\<rparr>) else None)"

text \<open>The address of an element of a slice; an index out of range panics.\<close>

definition index :: "slice \<Rightarrow> nat \<Rightarrow> ('k, ptr) mem" where
  "index s i = (if i < sl_len s then mret (sl_array s, sl_offset s + i) else (\<lambda>_. None))"

section \<open>The contract of a deep copy\<close>

text \<open>
  How a representation is read in memory: whether it is well-formed, the cells it consists of, and the value
  it stands for.
\<close>

record ('k, 'a, 'v) view =
  wf :: "'k heap \<Rightarrow> 'a \<Rightarrow> bool"
  foot :: "'k heap \<Rightarrow> 'a \<Rightarrow> nat set"
  val :: "'k heap \<Rightarrow> 'a \<Rightarrow> 'v"

definition agree :: "nat set \<Rightarrow> 'k heap \<Rightarrow> 'k heap \<Rightarrow> bool" where
  "agree A h h' \<longleftrightarrow> (\<forall>a \<in> A. cells h' a = cells h a) \<and> lim h \<le> lim h'"

definition grows :: "'k heap \<Rightarrow> 'k heap \<Rightarrow> bool" where
  "grows h h' \<longleftrightarrow> agree {..<lim h} h h'"

lemma grows_simps: "grows h h' \<longleftrightarrow> (\<forall>a < lim h. cells h' a = cells h a) \<and> lim h \<le> lim h'"
  by (auto simp: grows_def agree_def)

lemma grows_refl [simp]: "grows h h"
  by (simp add: grows_simps)

lemma grows_trans: "grows h g \<Longrightarrow> grows g k \<Longrightarrow> grows h k"
  by (auto simp: grows_simps)

text \<open>A view is local when it depends on its cells only, and these are allocated.\<close>

locale local_view =
  fixes V :: "('k, 'a, 'v) view"
  assumes allocated: "wf V h x \<Longrightarrow> foot V h x \<subseteq> {..<lim h}"
    and local: "wf V h x \<Longrightarrow> agree (foot V h x) h h' \<Longrightarrow> wf V h' x \<and> foot V h' x = foot V h x \<and> val V h' x = val V h x"
begin

lemma grown:
  assumes "wf V h x" "grows h h'"
  shows "wf V h' x" "foot V h' x = foot V h x" "val V h' x = val V h x"
proof -
  have "agree (foot V h x) h h'" using allocated [OF assms(1)] assms(2) by (auto simp: agree_def grows_simps)
  with local [OF assms(1)] show "wf V h' x" "foot V h' x = foot V h x" "val V h' x = val V h x" by simp_all
qed

end

text \<open>
  A copy is isolated from its original: it is made, it reads as the original, nothing that was there is changed,
  the two have no cell in common, and after any later changes to the cells of the one the other still
  reads as the original did.
\<close>

definition isolates :: "('k, 'a, 'v) view \<Rightarrow> ('a \<Rightarrow> ('k, 'a) mem) \<Rightarrow> 'k heap \<Rightarrow> 'a \<Rightarrow> bool" where
  "isolates V copy h x \<longleftrightarrow> (wf V h x \<longrightarrow>
     (\<exists>y h'. copy x h = Some (y, h') \<and> wf V h' y \<and> val V h' y = val V h x
        \<and> (\<forall>a < lim h. cells h' a = cells h a) \<and> foot V h' x \<inter> foot V h' y = {}
        \<and> (\<forall>g. agree (- foot V h' y) h' g \<longrightarrow> val V g x = val V h x)
        \<and> (\<forall>g. agree (- foot V h' x) h' g \<longrightarrow> val V g y = val V h x)))"

locale deep_copy = local_view V for V :: "('k, 'a, 'v) view" +
  fixes copy :: "'a \<Rightarrow> ('k, 'a) mem"
  assumes copies: "wf V h x \<Longrightarrow>
    \<exists>y h'. copy x h = Some (y, h') \<and> grows h h' \<and> wf V h' y \<and> val V h' y = val V h x \<and> foot V h' y \<subseteq> {lim h..<lim h'}"
begin

lemma copies_obtain:
  assumes "wf V h x"
  obtains y h' where "copy x h = Some (y, h')" "grows h h'" "wf V h' y" "val V h' y = val V h x" "foot V h' y \<subseteq> {lim h..<lim h'}"
  using copies [OF assms] by blast

text \<open>Whatever is written later through the copy, the original reads as before, and the other way round.\<close>

lemma isolated: "isolates V copy h x"
  unfolding isolates_def
proof
  assume wf: "wf V h x"
  obtain y h' where c: "copy x h = Some (y, h')" "grows h h'" "wf V h' y" "val V h' y = val V h x" "foot V h' y \<subseteq> {lim h..<lim h'}"
    using copies_obtain [OF wf] .
  note x = grown [OF wf c(2)]
  have disjoint: "foot V h' x \<inter> foot V h' y = {}" using allocated [OF wf] x(2) c(5) by fastforce
  have "val V g x = val V h x" if "agree (- foot V h' y) h' g" for g
    using local [OF x(1), of g] that disjoint x(3) by (auto simp: agree_def)
  moreover have "val V g y = val V h x" if "agree (- foot V h' x) h' g" for g
    using local [OF c(3), of g] that disjoint c(4) by (auto simp: agree_def)
  ultimately show "\<exists>y h'. copy x h = Some (y, h') \<and> wf V h' y \<and> val V h' y = val V h x
     \<and> (\<forall>a < lim h. cells h' a = cells h a) \<and> foot V h' x \<inter> foot V h' y = {}
     \<and> (\<forall>g. agree (- foot V h' y) h' g \<longrightarrow> val V g x = val V h x)
     \<and> (\<forall>g. agree (- foot V h' x) h' g \<longrightarrow> val V g y = val V h x)"
    using c disjoint by (auto simp: grows_simps)
qed

end

section \<open>Values and structs\<close>

definition plain :: "('k, 'a, 'a) view" where
  "plain = \<lparr>wf = \<lambda>h x. True, foot = \<lambda>h x. {}, val = \<lambda>h x. x\<rparr>"

lemma plain_copy: "deep_copy plain mret"
  by unfold_locales (simp_all add: plain_def mret_def)

definition both :: "('k, 'a, 'v) view \<Rightarrow> ('k, 'b, 'u) view \<Rightarrow> ('k, 'a \<times> 'b, 'v \<times> 'u) view" where
  "both V W =
     \<lparr>wf = \<lambda>h (x, y). wf V h x \<and> wf W h y, foot = \<lambda>h (x, y). foot V h x \<union> foot W h y, val = \<lambda>h (x, y). (val V h x, val W h y)\<rparr>"

definition copy_both :: "('a \<Rightarrow> ('k, 'a) mem) \<Rightarrow> ('b \<Rightarrow> ('k, 'b) mem) \<Rightarrow> 'a \<times> 'b \<Rightarrow> ('k, 'a \<times> 'b) mem" where
  "copy_both c d p = mbind (c (fst p)) (\<lambda>x. mbind (d (snd p)) (\<lambda>y. mret (x, y)))"

lemma agree_mono: "agree A h h' \<Longrightarrow> B \<subseteq> A \<Longrightarrow> agree B h h'"
  by (auto simp: agree_def)

lemma both_local:
  assumes "local_view V" "local_view W"
  shows "local_view (both V W)"
proof unfold_locales
  fix h x
  assume wf: "wf (both V W) h x"
  then show "foot (both V W) h x \<subseteq> {..<lim h}"
    using local_view.allocated [OF assms(1)] local_view.allocated [OF assms(2)] by (auto simp: both_def split: prod.splits)
  fix h'
  assume agree: "agree (foot (both V W) h x) h h'"
  obtain y z where x: "x = (y, z)" by (cases x)
  have "agree (foot V h y) h h'" "agree (foot W h z) h h'"
    using agree by (simp_all add: both_def x agree_def)
  then show "wf (both V W) h' x \<and> foot (both V W) h' x = foot (both V W) h x \<and> val (both V W) h' x = val (both V W) h x"
    using local_view.local [OF assms(1), of h y h'] local_view.local [OF assms(2), of h z h'] wf by (simp add: both_def x)
qed

lemma both_copy:
  assumes "deep_copy V c" "deep_copy W d"
  shows "deep_copy (both V W) (copy_both c d)"
proof (rule deep_copy.intro)
  have locals: "local_view V" "local_view W" using assms by (simp_all add: deep_copy_def)
  show "local_view (both V W)" by (rule both_local [OF locals])
  show "deep_copy_axioms (both V W) (copy_both c d)"
  proof
    fix h p
    assume wf: "wf (both V W) h p"
    obtain x y where p: "p = (x, y)" by (cases p)
    with wf have xy: "wf V h x" "wf W h y" by (simp_all add: both_def)
    obtain x' h1 where c: "c x h = Some (x', h1)" "grows h h1" "wf V h1 x'" "val V h1 x' = val V h x" "foot V h1 x' \<subseteq> {lim h..<lim h1}"
      using deep_copy.copies_obtain [OF assms(1) xy(1)] .
    note y = local_view.grown [OF locals(2) xy(2) c(2)]
    obtain y' h2 where d: "d y h1 = Some (y', h2)" "grows h1 h2" "wf W h2 y'" "val W h2 y' = val W h1 y" "foot W h2 y' \<subseteq> {lim h1..<lim h2}"
      using deep_copy.copies_obtain [OF assms(2) y(1)] .
    note x' = local_view.grown [OF locals(1) c(3) d(2)]
    have "copy_both c d p h = Some ((x', y'), h2)" by (simp add: copy_both_def p mbind_def c(1) d(1) mret_def)
    moreover have "foot V h2 x' \<union> foot W h2 y' \<subseteq> {lim h..<lim h2}"
      using c(2,5) d(2,5) x'(2) by (auto simp: grows_simps)
    ultimately show "\<exists>q h'. copy_both c d p h = Some (q, h') \<and> grows h h' \<and> wf (both V W) h' q
        \<and> val (both V W) h' q = val (both V W) h p \<and> foot (both V W) h' q \<subseteq> {lim h..<lim h'}"
      using c d x' y grows_trans [OF c(2) d(2)] by (simp add: both_def p)
  qed
qed

text \<open>A struct whose parts with references are \<open>parts\<close>: the rest of it is copied by the assignment of the struct.\<close>

definition via :: "('s \<Rightarrow> 'a) \<Rightarrow> ('s \<Rightarrow> 'v \<Rightarrow> 'u) \<Rightarrow> ('k, 'a, 'v) view \<Rightarrow> ('k, 's, 'u) view" where
  "via parts F V =
     \<lparr>wf = \<lambda>h x. wf V h (parts x), foot = \<lambda>h x. foot V h (parts x), val = \<lambda>h x. F x (val V h (parts x))\<rparr>"

lemma via_local: "local_view V \<Longrightarrow> local_view (via parts F V)"
proof unfold_locales
  fix h h' x
  assume V: "local_view V" and wf: "wf (via parts F V) h x"
  then show "foot (via parts F V) h x \<subseteq> {..<lim h}" using local_view.allocated [OF V, of h "parts x"] by (simp add: via_def)
  assume "agree (foot (via parts F V) h x) h h'"
  with wf show "wf (via parts F V) h' x \<and> foot (via parts F V) h' x = foot (via parts F V) h x \<and> val (via parts F V) h' x = val (via parts F V) h x"
    using local_view.local [OF V, of h "parts x" h'] by (simp add: via_def)
qed

lemma via_copy:
  assumes "deep_copy V c" "\<And>x y. parts (put x y) = y" "\<And>x y. F (put x y) = F x"
    "\<And>x. into x = mbind (c (parts x)) (\<lambda>y. mret (put x y))"
  shows "deep_copy (via parts F V) into"
proof (rule deep_copy.intro)
  show "local_view (via parts F V)" using assms(1) by (intro via_local) (simp add: deep_copy_def)
  show "deep_copy_axioms (via parts F V) into"
  proof
    fix h x
    assume "wf (via parts F V) h x"
    then have "wf V h (parts x)" by (simp add: via_def)
    then obtain y h' where "c (parts x) h = Some (y, h')" "grows h h'" "wf V h' y" "val V h' y = val V h (parts x)"
      "foot V h' y \<subseteq> {lim h..<lim h'}" using deep_copy.copies_obtain [OF assms(1)] by blast
    then show "\<exists>y h'. into x h = Some (y, h') \<and> grows h h' \<and> wf (via parts F V) h' y
        \<and> val (via parts F V) h' y = val (via parts F V) h x \<and> foot (via parts F V) h' y \<subseteq> {lim h..<lim h'}"
      by (simp add: via_def assms(2-4) mbind_def mret_def)
  qed
qed

section \<open>Pointers\<close>

definition opt :: "('k, 'a, 'v) view \<Rightarrow> ('k, 'a option, 'v option) view" where
  "opt V =
     \<lparr>wf = \<lambda>h x. (case x of None \<Rightarrow> True | Some y \<Rightarrow> wf V h y),
      foot = \<lambda>h x. (case x of None \<Rightarrow> {} | Some y \<Rightarrow> foot V h y), val = \<lambda>h x. map_option (val V h) x\<rparr>"

definition copy_opt :: "('a \<Rightarrow> ('k, 'a) mem) \<Rightarrow> 'a option \<Rightarrow> ('k, 'a option) mem" where
  "copy_opt c x = (case x of None \<Rightarrow> mret None | Some y \<Rightarrow> mbind (c y) (\<lambda>z. mret (Some z)))"

lemma opt_copy:
  assumes "deep_copy V c"
  shows "deep_copy (opt V) (copy_opt c)"
proof (rule deep_copy.intro)
  have V: "local_view V" using assms by (simp add: deep_copy_def)
  show "local_view (opt V)"
  proof unfold_locales
    fix h h' x
    assume wf: "wf (opt V) h x"
    then show "foot (opt V) h x \<subseteq> {..<lim h}" using local_view.allocated [OF V] by (auto simp: opt_def split: option.splits)
    assume "agree (foot (opt V) h x) h h'"
    with wf show "wf (opt V) h' x \<and> foot (opt V) h' x = foot (opt V) h x \<and> val (opt V) h' x = val (opt V) h x"
      using local_view.local [OF V, of h "the x" h'] by (cases x) (simp_all add: opt_def)
  qed
  show "deep_copy_axioms (opt V) (copy_opt c)"
  proof
    fix h x
    assume wf: "wf (opt V) h x"
    show "\<exists>y h'. copy_opt c x h = Some (y, h') \<and> grows h h' \<and> wf (opt V) h' y
        \<and> val (opt V) h' y = val (opt V) h x \<and> foot (opt V) h' y \<subseteq> {lim h..<lim h'}"
    proof (cases x)
      case None
      then show ?thesis by (simp add: opt_def copy_opt_def mret_def)
    next
      case (Some z)
      with wf have "wf V h z" by (simp add: opt_def)
      then obtain y h' where "c z h = Some (y, h')" "grows h h'" "wf V h' y" "val V h' y = val V h z"
        "foot V h' y \<subseteq> {lim h..<lim h'}" using deep_copy.copies_obtain [OF assms] by blast
      with Some have "copy_opt c x h = Some (Some y, h') \<and> grows h h' \<and> wf (opt V) h' (Some y)
        \<and> val (opt V) h' (Some y) = val (opt V) h x \<and> foot (opt V) h' (Some y) \<subseteq> {lim h..<lim h'}"
        by (simp add: opt_def copy_opt_def mbind_def mret_def)
      then show ?thesis by blast
    qed
  qed
qed

definition ptr_view :: "('k, 'x) kind \<Rightarrow> ('k, 'x, 'v) view \<Rightarrow> ('k, ptr, 'v) view" where
  "ptr_view kd V =
     \<lparr>wf = \<lambda>h p. fst p < lim h \<and> (case deref kd p h of None \<Rightarrow> False | Some (x, _) \<Rightarrow> wf V h x),
      foot = \<lambda>h p. {fst p} \<union> (case deref kd p h of None \<Rightarrow> {} | Some (x, _) \<Rightarrow> foot V h x),
      val = \<lambda>h p. val V h (fst (the (deref kd p h)))\<rparr>"

text \<open>\<^verbatim>\<open>out := new(T)\<close>, then the copy of what the pointer points to is stored there.\<close>

definition copy_new :: "('k, 'x) kind \<Rightarrow> 'x \<Rightarrow> ('x \<Rightarrow> ('k, 'x) mem) \<Rightarrow> ptr \<Rightarrow> ('k, ptr) mem" where
  "copy_new kd zero into p =
     mbind (new kd zero) (\<lambda>out.
     mbind (deref kd p) (\<lambda>x.
     mbind (into x) (\<lambda>y.
     mbind (assign kd out y) (\<lambda>_.
     mret out))))"

lemma deref_iff:
  "deref kd p h = Some (x, g) \<longleftrightarrow> g = h \<and> (\<exists>xs. array_at kd h (fst p) = Some xs \<and> snd p < length xs \<and> x = xs ! snd p)"
  by (auto simp: deref_def split: option.splits)

lemma deref_cell: "cells h' (fst p) = cells h (fst p) \<Longrightarrow> deref kd p h' = map_option (\<lambda>(x, _). (x, h')) (deref kd p h)"
  by (simp add: deref_def array_at_def split: option.split)

lemma ptr_iff: "wf (ptr_view kd V) h p \<longleftrightarrow> fst p < lim h \<and> (\<exists>x. deref kd p h = Some (x, h) \<and> wf V h x)"
  by (auto simp: ptr_view_def deref_iff split: option.splits) (auto simp: deref_def split: option.splits if_splits)

lemma ptr_at:
  "deref kd p h = Some (x, h) \<Longrightarrow> foot (ptr_view kd V) h p = insert (fst p) (foot V h x) \<and> val (ptr_view kd V) h p = val V h x"
  by (simp add: ptr_view_def)

lemma ptr_local:
  assumes "local_view V"
  shows "local_view (ptr_view kd V)"
proof unfold_locales
  fix h h' p
  assume "wf (ptr_view kd V) h p"
  then obtain x where x: "fst p < lim h" "deref kd p h = Some (x, h)" "wf V h x" by (auto simp: ptr_iff)
  note at = ptr_at [OF x(2), of V]
  show "foot (ptr_view kd V) h p \<subseteq> {..<lim h}" using local_view.allocated [OF assms x(3)] x(1) at by simp
  assume "agree (foot (ptr_view kd V) h p) h h'"
  then have agree: "cells h' (fst p) = cells h (fst p)" "agree (foot V h x) h h'" "lim h \<le> lim h'" using at by (auto simp: agree_def)
  have x': "deref kd p h' = Some (x, h')" using deref_cell [OF agree(1), of kd] x(2) by simp
  with local_view.local [OF assms x(3) agree(2)] at ptr_at [OF x', of V] x(1) agree(3)
  show "wf (ptr_view kd V) h' p \<and> foot (ptr_view kd V) h' p = foot (ptr_view kd V) h p
      \<and> val (ptr_view kd V) h' p = val (ptr_view kd V) h p"
    by (auto simp: ptr_iff)
qed

lemma make_array_at:
  assumes "kind_ok kd" "make_array kd xs h = Some (a, h')"
  shows "a = lim h" "lim h' = lim h + 1" "array_at kd h' a = Some xs" "grows h h'"
  using assms by (auto simp: make_array_def array_at_def kind_ok_def grows_simps)

lemma assign_at:
  assumes "kind_ok kd" "array_at kd h (fst p) = Some xs" "snd p < length xs"
  shows "\<exists>h'. assign kd p x h = Some ((), h') \<and> lim h' = lim h \<and> array_at kd h' (fst p) = Some (xs[snd p := x])
     \<and> agree (- {fst p}) h h'"
  using assms by (simp add: assign_def array_at_def kind_ok_def agree_def)

lemma array_at_cell: "cells h' a = cells h a \<Longrightarrow> array_at kd h' a = array_at kd h a"
  by (simp add: array_at_def)

lemma ptr_copy:
  assumes "kind_ok kd" "deep_copy V into"
  shows "deep_copy (ptr_view kd V) (copy_new kd zero into)"
proof (rule deep_copy.intro)
  have V: "local_view V" using assms(2) by (simp add: deep_copy_def)
  show "local_view (ptr_view kd V)" by (rule ptr_local [OF V])
  show "deep_copy_axioms (ptr_view kd V) (copy_new kd zero into)"
  proof
    fix h p
    assume "wf (ptr_view kd V) h p"
    then obtain x where x: "fst p < lim h" "deref kd p h = Some (x, h)" "wf V h x" by (auto simp: ptr_iff)
    obtain h1 where m: "make_array kd [zero] h = Some (lim h, h1)" by (simp add: make_array_def)
    note m' = make_array_at [OF assms(1) m]
    have d: "deref kd p h1 = Some (x, h1)" using deref_cell [of h1 p h kd] x(1,2) m'(4) by (simp add: grows_simps)
    note x1 = local_view.grown [OF V x(3) m'(4)]
    obtain y h2 where c: "into x h1 = Some (y, h2)" "grows h1 h2" "wf V h2 y" "val V h2 y = val V h1 x" "foot V h2 y \<subseteq> {lim h1..<lim h2}"
      using deep_copy.copies_obtain [OF assms(2) x1(1)] .
    have "array_at kd h2 (lim h) = Some [zero]"
      using c(2) m'(2,3) array_at_cell [of h2 "lim h" h1 kd] by (simp add: grows_simps)
    then obtain h3 where a: "assign kd (lim h, 0) y h2 = Some ((), h3)" "lim h3 = lim h2" "array_at kd h3 (lim h) = Some [y]"
      "agree (- {lim h}) h2 h3" using assign_at [OF assms(1), of h2 "(lim h, 0)" "[zero]" y] by auto
    have y: "deref kd (lim h, 0) h3 = Some (y, h3)" using a(3) by (simp add: deref_def)
    have "agree (foot V h2 y) h2 h3" using a(4) c(5) m'(2) by (auto simp: agree_def)
    note y3 = local_view.local [OF V c(3) this]
    have "grows h h3" using m'(2,4) c(2) a(2,4) by (auto simp: grows_simps agree_def)
    moreover have "copy_new kd zero into p h = Some ((lim h, 0), h3)"
      by (simp add: copy_new_def new_def mbind_def m d c(1) a(1) mret_def)
    moreover have "insert (lim h) (foot V h2 y) \<subseteq> {lim h..<lim h3}" using c(2,5) m'(2) a(2) by (auto simp: grows_simps)
    ultimately show "\<exists>q h'. copy_new kd zero into p h = Some (q, h') \<and> grows h h' \<and> wf (ptr_view kd V) h' q
        \<and> val (ptr_view kd V) h' q = val (ptr_view kd V) h p \<and> foot (ptr_view kd V) h' q \<subseteq> {lim h..<lim h'}"
      using ptr_at [OF y, of V] ptr_at [OF x(2), of V] y3 y c(2,4) x1(3) m'(2) a(2)
      by (intro exI [of _ "(lim h, 0)"] exI [of _ h3]) (auto simp: ptr_iff grows_simps)
  qed
qed

section \<open>Slices\<close>

definition elems :: "('k, 'x) kind \<Rightarrow> 'k heap \<Rightarrow> slice \<Rightarrow> 'x list" where
  "elems kd h s = (case array_at kd h (sl_array s) of None \<Rightarrow> [] | Some xs \<Rightarrow> take (sl_len s) (drop (sl_offset s) xs))"

definition slice_view :: "('k, 'x) kind \<Rightarrow> ('k, 'x, 'v) view \<Rightarrow> ('k, slice, 'v list) view" where
  "slice_view kd V =
     \<lparr>wf = \<lambda>h s. sl_array s < lim h \<and> length (elems kd h s) = sl_len s \<and> array_at kd h (sl_array s) \<noteq> None
          \<and> (\<forall>x \<in> set (elems kd h s). wf V h x),
      foot = \<lambda>h s. insert (sl_array s) (\<Union>x \<in> set (elems kd h s). foot V h x),
      val = \<lambda>h s. map (val V h) (elems kd h s)\<rparr>"

text \<open>The loop that fills the elements of one slice, from an index on, with copies of the elements of another.\<close>

fun fill :: "('k, 'x) kind \<Rightarrow> ('x \<Rightarrow> ('k, 'x) mem) \<Rightarrow> slice \<Rightarrow> slice \<Rightarrow> nat \<Rightarrow> nat \<Rightarrow> ('k, unit) mem" where
  "fill kd into src out i 0 = mret ()"
| "fill kd into src out i (Suc n) =
     mbind (index src i) (\<lambda>p.
     mbind (deref kd p) (\<lambda>x.
     mbind (into x) (\<lambda>y.
     mbind (index out i) (\<lambda>q.
     mbind (assign kd q y) (\<lambda>_.
     fill kd into src out (i + 1) n)))))"

text \<open>\<^verbatim>\<open>*out = make([]T, len(*in))\<close>, then every element is copied.\<close>

definition copy_slice :: "('k, 'x) kind \<Rightarrow> 'x \<Rightarrow> ('x \<Rightarrow> ('k, 'x) mem) \<Rightarrow> slice \<Rightarrow> ('k, slice) mem" where
  "copy_slice kd zero into src =
     mbind (make_slice kd zero (sl_len src)) (\<lambda>out.
     mbind (fill kd into src out 0 (sl_len src)) (\<lambda>_.
     mret out))"

text \<open>The built-in function \<^verbatim>\<open>copy\<close>.\<close>

definition go_copy :: "('k, 'x) kind \<Rightarrow> slice \<Rightarrow> slice \<Rightarrow> ('k, unit) mem" where
  "go_copy kd out src = fill kd mret src out 0 (min (sl_len out) (sl_len src))"

definition copy_values :: "('k, 'x) kind \<Rightarrow> 'x \<Rightarrow> slice \<Rightarrow> ('k, slice) mem" where
  "copy_values kd zero src =
     mbind (make_slice kd zero (sl_len src)) (\<lambda>out.
     mbind (go_copy kd out src) (\<lambda>_.
     mret out))"

lemma elems_cell: "cells h' (sl_array s) = cells h (sl_array s) \<Longrightarrow> elems kd h' s = elems kd h s"
  by (simp add: elems_def array_at_def)

lemma slice_local:
  assumes "local_view V"
  shows "local_view (slice_view kd V)"
proof unfold_locales
  fix h h' s
  assume wf: "wf (slice_view kd V) h s"
  then show "foot (slice_view kd V) h s \<subseteq> {..<lim h}"
    using local_view.allocated [OF assms] by (fastforce simp: slice_view_def)
  assume agree: "agree (foot (slice_view kd V) h s) h h'"
  then have cell: "cells h' (sl_array s) = cells h (sl_array s)" and lim: "lim h \<le> lim h'" by (auto simp: slice_view_def agree_def)
  have "agree (foot V h x) h h'" if "x \<in> set (elems kd h s)" for x using agree that by (auto simp: slice_view_def agree_def)
  then have "wf V h' x \<and> foot V h' x = foot V h x \<and> val V h' x = val V h x" if "x \<in> set (elems kd h s)" for x
    using local_view.local [OF assms, of h x h'] wf that by (simp add: slice_view_def)
  then show "wf (slice_view kd V) h' s \<and> foot (slice_view kd V) h' s = foot (slice_view kd V) h s
      \<and> val (slice_view kd V) h' s = val (slice_view kd V) h s"
    using wf lim elems_cell [OF cell, of kd] array_at_cell [OF cell, of kd] by (auto simp: slice_view_def)
qed

text \<open>A copy \<open>y\<close> of \<open>x\<close> made between \<open>h\<close> and \<open>h'\<close>.\<close>

definition copied :: "('k, 'x, 'v) view \<Rightarrow> 'k heap \<Rightarrow> 'k heap \<Rightarrow> 'x \<Rightarrow> 'x \<Rightarrow> bool" where
  "copied V h h' x y \<longleftrightarrow> wf V h' y \<and> val V h' y = val V h x \<and> foot V h' y \<subseteq> {lim h..<lim h'}"

lemma copied_later:
  assumes "local_view V" "copied V h g x y" "agree ({..<lim g} - {a}) g h'" "a < lim h"
  shows "copied V h h' x y"
proof -
  have "agree (foot V g y) g h'" using assms(2-4) by (fastforce simp: agree_def copied_def)
  with local_view.local [OF assms(1), of g y h'] assms(2) show ?thesis by (fastforce simp: copied_def agree_def)
qed

lemma elems_nth:
  assumes "array_at kd h (sl_array s) \<noteq> None" "length (elems kd h s) = sl_len s" "i < sl_len s"
  shows "deref kd (sl_array s, sl_offset s + i) h = Some (elems kd h s ! i, h)"
  using assms by (auto simp: elems_def deref_def)

lemma index_in: "i < sl_len s \<Longrightarrow> index s i h = Some ((sl_array s, sl_offset s + i), h)"
  by (simp add: index_def mret_def)

text \<open>One round of the loop.\<close>

lemma fill_step:
  assumes kd: "kind_ok kd" and c: "deep_copy V into" and src: "wf (slice_view kd V) h src" "i < sl_len src"
    and a: "sl_array src \<noteq> a" "a < lim h" "array_at kd h a = Some zs" "i < length zs" "i < m"
    and out: "out = \<lparr>sl_array = a, sl_offset = 0, sl_len = m\<rparr>"
  shows "\<exists>y g. copied V h g (elems kd h src ! i) y \<and> agree ({..<lim h} - {a}) h g \<and> array_at kd g a = Some (zs[i := y])
     \<and> (\<forall>n. fill kd into src out i (Suc n) h = fill kd into src out (i + 1) n g)"
proof -
  have V: "local_view V" using c by (simp add: deep_copy_def)
  let ?x = "elems kd h src ! i"
  have wf: "array_at kd h (sl_array src) \<noteq> None" "length (elems kd h src) = sl_len src" "wf V h ?x"
    using src by (auto simp: slice_view_def)
  obtain y h1 where y: "into ?x h = Some (y, h1)" "grows h h1" "wf V h1 y" "val V h1 y = val V h ?x" "foot V h1 y \<subseteq> {lim h..<lim h1}"
    using deep_copy.copies_obtain [OF c wf(3)] .
  have "array_at kd h1 a = Some zs" using a(2,3) y(2) array_at_cell [of h1 a h kd] by (simp add: grows_simps)
  then obtain g where g: "assign kd (a, i) y h1 = Some ((), g)" "lim g = lim h1" "array_at kd g a = Some (zs[i := y])"
    "agree (- {a}) h1 g" using assign_at [OF kd, of h1 "(a, i)" zs y] a(4) by auto
  have "agree (foot V h1 y) h1 g" using y(5) a(2) g(4) by (auto simp: agree_def)
  then have "copied V h g ?x y" using local_view.local [OF V y(3), of g] y(4,5) g(2) by (simp add: copied_def)
  moreover have "agree ({..<lim h} - {a}) h g" using y(2) g(2,4) by (auto simp: agree_def grows_simps)
  moreover have "fill kd into src out i (Suc n) h = fill kd into src out (i + 1) n g" for n
    using a(5) by (simp add: mbind_def index_in src(2) elems_nth [OF wf(1,2) src(2)] y(1) out g(1))
  ultimately show ?thesis using g(3) by blast
qed

text \<open>The source slice is read in the same way after changes elsewhere.\<close>

lemma slice_kept:
  assumes "local_view V" "wf (slice_view kd V) h src" "a \<notin> foot (slice_view kd V) h src" "agree ({..<lim h} - {a}) h g"
  shows "wf (slice_view kd V) g src \<and> foot (slice_view kd V) g src = foot (slice_view kd V) h src
     \<and> elems kd g src = elems kd h src \<and> (\<forall>x \<in> set (elems kd h src). val V g x = val V h x)"
proof -
  have sub: "foot (slice_view kd V) h src \<subseteq> {..<lim h} - {a}"
    using local_view.allocated [OF slice_local [OF assms(1)] assms(2)] assms(3) by blast
  then have "agree (foot (slice_view kd V) h src) h g" using assms(4) by (rule agree_mono [rotated])
  note kept = local_view.local [OF slice_local [OF assms(1)] assms(2) this]
  have "sl_array src \<in> {..<lim h} - {a}" using sub by (auto simp: slice_view_def)
  then have el: "elems kd g src = elems kd h src" using assms(4) by (intro elems_cell) (simp add: agree_def)
  then have "map (val V g) (elems kd h src) = map (val V h) (elems kd h src)" using kept by (simp add: slice_view_def)
  with kept el show ?thesis by simp
qed

lemma copied_earlier:
  "copied V g h' x y \<Longrightarrow> val V g x = val V h x \<Longrightarrow> lim h \<le> lim g \<Longrightarrow> copied V h h' x y"
  by (auto simp: copied_def)

lemma fill_copies:
  assumes "kind_ok kd" "deep_copy V into" "out = \<lparr>sl_array = a, sl_offset = 0, sl_len = m\<rparr>"
    and "wf (slice_view kd V) h src" "a \<notin> foot (slice_view kd V) h src" "a < lim h"
    and "array_at kd h a = Some zs" "length zs = m" "i + n = sl_len src" "i + n \<le> m"
  shows "\<exists>ys h'. fill kd into src out i n h = Some ((), h') \<and> agree ({..<lim h} - {a}) h h'
     \<and> array_at kd h' a = Some (take i zs @ ys @ drop (i + n) zs)
     \<and> list_all2 (copied V h h') (drop i (elems kd h src)) ys"
  using assms(4-)
proof (induction n arbitrary: i h zs)
  case 0
  then have "length (elems kd h src) = i" by (simp add: slice_view_def)
  with 0 show ?case by (simp add: mret_def agree_def)
next
  case (Suc n)
  have V: "local_view V" using assms(2) by (simp add: deep_copy_def)
  have len: "length (elems kd h src) = sl_len src" using Suc.prems(1) by (simp add: slice_view_def)
  have arr: "sl_array src \<noteq> a" using Suc.prems(2) by (auto simp: slice_view_def)
  have bounds: "i < sl_len src" "i < length zs" "i < m" using Suc.prems by simp_all
  obtain y g where g: "copied V h g (elems kd h src ! i) y" "agree ({..<lim h} - {a}) h g" "array_at kd g a = Some (zs[i := y])"
    "\<And>n. fill kd into src out i (Suc n) h = fill kd into src out (i + 1) n g"
    using fill_step [OF assms(1,2) Suc.prems(1) bounds(1) arr Suc.prems(3,4) bounds(2,3) assms(3)] by blast
  note kept = slice_kept [OF V Suc.prems(1,2) g(2)]
  have lim: "lim h \<le> lim g" using g(2) by (simp add: agree_def)
  from Suc.IH [of g "zs[i := y]" "i + 1"] kept g(3) Suc.prems lim
  obtain ys h' where h': "fill kd into src out (i + 1) n g = Some ((), h')" "agree ({..<lim g} - {a}) g h'"
    "array_at kd h' a = Some (take (i + 1) (zs[i := y]) @ ys @ drop (i + 1 + n) (zs[i := y]))"
    "list_all2 (copied V g h') (drop (i + 1) (elems kd h src)) ys"
    by auto
  have "copied V h h' (elems kd h src ! i) y" by (rule copied_later [OF V g(1) h'(2) Suc.prems(3)])
  moreover have "list_all2 (copied V h h') (drop (i + 1) (elems kd h src)) ys"
    using h'(4) by (rule list.rel_mono_strong) (use kept lim in \<open>auto intro: copied_earlier dest: in_set_dropD\<close>)
  ultimately have "list_all2 (copied V h h') (drop i (elems kd h src)) (y # ys)"
    using bounds len by (simp add: Cons_nth_drop_Suc [symmetric])
  moreover have "take (i + 1) (zs[i := y]) @ ys @ drop (i + 1 + n) (zs[i := y]) = take i zs @ (y # ys) @ drop (i + Suc n) zs"
    using bounds by (simp add: take_Suc_conv_app_nth)
  moreover have "agree ({..<lim h} - {a}) h h'" using g(2) h'(2) by (auto simp: agree_def)
  ultimately show ?case using h'(1,3) g(4) by metis
qed

lemma slice_copy:
  assumes "kind_ok kd" "deep_copy V into"
  shows "deep_copy (slice_view kd V) (copy_slice kd zero into)"
proof (rule deep_copy.intro)
  have V: "local_view V" using assms(2) by (simp add: deep_copy_def)
  show "local_view (slice_view kd V)" by (rule slice_local [OF V])
  show "deep_copy_axioms (slice_view kd V) (copy_slice kd zero into)"
  proof
    fix h src
    assume wf: "wf (slice_view kd V) h src"
    let ?n = "sl_len src" and ?a = "lim h"
    let ?out = "\<lparr>sl_array = ?a, sl_offset = 0, sl_len = ?n\<rparr>"
    obtain h1 where m: "make_array kd (replicate ?n zero) h = Some (?a, h1)" by (simp add: make_array_def)
    note m' = make_array_at [OF assms(1) m]
    note src = local_view.grown [OF slice_local [OF V] wf m'(4)]
    have "?a \<notin> foot (slice_view kd V) h1 src" using local_view.allocated [OF slice_local [OF V] wf] src(2) by auto
    from fill_copies [OF assms refl src(1) this _ m'(3), of ?n 0 ?n] m'(2)
    obtain ys h2 where f: "fill kd into src ?out 0 ?n h1 = Some ((), h2)" "agree ({..<lim h1} - {?a}) h1 h2"
      "array_at kd h2 ?a = Some ys" "list_all2 (copied V h1 h2) (elems kd h1 src) ys"
      by auto
    have len: "length ys = ?n" using list_all2_lengthD [OF f(4)] src(1) by (simp add: slice_view_def)
    then have el: "elems kd h2 ?out = ys" using f(3) by (simp add: elems_def)
    have all: "copied V h1 h2 (elems kd h1 src ! i) (ys ! i)" if "i < ?n" for i
      using list_all2_nthD2 [OF f(4)] that len by simp
    then have each: "wf V h2 y \<and> foot V h2 y \<subseteq> {lim h1..<lim h2}" if "y \<in> set ys" for y
      using that len by (auto simp: in_set_conv_nth copied_def)
    have "val (slice_view kd V) h2 ?out = val (slice_view kd V) h1 src"
      using all len list_all2_lengthD [OF f(4)] by (auto simp: slice_view_def el copied_def intro: nth_equalityI)
    moreover have "wf (slice_view kd V) h2 ?out" using each len f(2,3) m'(2) by (auto simp: slice_view_def el agree_def)
    moreover have "foot (slice_view kd V) h2 ?out \<subseteq> {?a..<lim h2}" using each f(2) m'(2) by (fastforce simp: slice_view_def el agree_def)
    moreover have "grows h h2" using f(2) m'(2,4) by (auto simp: agree_def grows_simps)
    moreover have "copy_slice kd zero into src h = Some (?out, h2)"
      by (simp add: copy_slice_def make_slice_def mbind_def m f(1) mret_def)
    ultimately show "\<exists>q h'. copy_slice kd zero into src h = Some (q, h') \<and> grows h h' \<and> wf (slice_view kd V) h' q
        \<and> val (slice_view kd V) h' q = val (slice_view kd V) h src \<and> foot (slice_view kd V) h' q \<subseteq> {lim h..<lim h'}"
      using src(3) by auto
  qed
qed

lemma copy_values_eq: "copy_values kd zero = copy_slice kd zero mret"
  by (simp add: fun_eq_iff copy_values_def copy_slice_def go_copy_def make_slice_def)

lemma values_copy: "kind_ok kd \<Longrightarrow> deep_copy (slice_view kd plain) (copy_values kd zero)"
  unfolding copy_values_eq by (rule slice_copy [OF _ plain_copy])

lemmas copy_rules = plain_copy both_copy opt_copy ptr_copy slice_copy values_copy

end
