(* ===== verification/DeepCopy.thy ===== *)
theory DeepCopy
  imports GoHeap Templates
begin

text \<open>
  \<^verbatim>\<open>api/v1alpha1/zz_generated.deepcopy.go\<close> on the memory of \<open>GoHeap\<close>. A type that has pointers or slices is a record
  of its own here (\<open>h\<close> and the name of the type), with the same fields; its view reads it as the record of \<open>Api\<close> or
  \<open>Templates\<close>. \<^verbatim>\<open>DeepCopyInto\<close> takes what \<^verbatim>\<open>in\<close> points to and gives what it stores in \<^verbatim>\<open>out\<close>. The deep copies of the types of
  Kubernetes and Cluster API are parameters; that they are deep copies is the locale \<open>foreign_copies\<close>.
\<close>

section \<open>Types in memory\<close>

record hLibvirtClusterSpec =
  hcs_URI :: string
  hcs_ControlPlaneEndpoint :: APIEndpoint
  hcs_BasePool :: string
  hcs_DomainPool :: string
  hcs_Network :: string
  hcs_CredentialsRef :: "ptr option"

record hLibvirtClusterStatus =
  hct_Ready :: bool
  hct_Initialization :: LibvirtClusterInitializationStatus
  hct_Conditions :: "slice option"

record 'm hLibvirtCluster =
  hc_TypeMeta :: TypeMeta
  hc_Meta :: 'm
  hc_Spec :: hLibvirtClusterSpec
  hc_Status :: hLibvirtClusterStatus

record hLibvirtMachineSpec =
  hms_ProviderID :: "ptr option"
  hms_VCPU :: "32 word"
  hms_MemoryMiB :: "32 word"
  hms_DiskGiB :: "32 word"
  hms_Image :: string

record hLibvirtMachineStatus =
  hmt_Ready :: bool
  hmt_Addresses :: "slice option"
  hmt_Conditions :: "slice option"
  hmt_Initialization :: LibvirtMachineInitializationStatus

record 'm hLibvirtMachine =
  hm_TypeMeta :: TypeMeta
  hm_Meta :: 'm
  hm_Spec :: hLibvirtMachineSpec
  hm_Status :: hLibvirtMachineStatus

record ('t, 's) hTemplateResource =
  htr_Meta :: 't
  htr_Spec :: 's

record ('t, 's) hTemplateSpec =
  hts_Template :: "('t, 's) hTemplateResource"

record ('m, 't, 's) hTemplate =
  htp_TypeMeta :: TypeMeta
  htp_Meta :: 'm
  htp_Spec :: "('t, 's) hTemplateSpec"

type_synonym 't hLibvirtClusterTemplateResource = "('t, hLibvirtClusterSpec) hTemplateResource"
type_synonym 't hLibvirtClusterTemplateSpec = "('t, hLibvirtClusterSpec) hTemplateSpec"
type_synonym ('m, 't) hLibvirtClusterTemplate = "('m, 't, hLibvirtClusterSpec) hTemplate"
type_synonym 't hLibvirtMachineTemplateResource = "('t, hLibvirtMachineSpec) hTemplateResource"
type_synonym 't hLibvirtMachineTemplateSpec = "('t, hLibvirtMachineSpec) hTemplateSpec"
type_synonym ('m, 't) hLibvirtMachineTemplate = "('m, 't, hLibvirtMachineSpec) hTemplate"

text \<open>The four list types.\<close>

record 'l hList =
  hl_TypeMeta :: TypeMeta
  hl_Meta :: 'l
  hl_Items :: "slice option"

text \<open>
  A cell is an array of one of the types. The type variables are the metadata of objects, of lists and of
  templates, conditions, and the cells of the foreign types.
\<close>

datatype ('m, 'l, 't, 'c, 'f) cell =
    Strings "string list"
  | CredentialsReferences "CredentialsReference list"
  | Conditions "'c list"
  | MachineAddresses "MachineAddress list"
  | ClusterInitializationStatuses "LibvirtClusterInitializationStatus list"
  | ClusterSpecs "hLibvirtClusterSpec list"
  | ClusterStatuses "hLibvirtClusterStatus list"
  | Clusters "'m hLibvirtCluster list"
  | ClusterLists "'l hList list"
  | ClusterTemplateResources "'t hLibvirtClusterTemplateResource list"
  | ClusterTemplateSpecs "'t hLibvirtClusterTemplateSpec list"
  | ClusterTemplates "('m, 't) hLibvirtClusterTemplate list"
  | ClusterTemplateLists "'l hList list"
  | MachineInitializationStatuses "LibvirtMachineInitializationStatus list"
  | MachineSpecs "hLibvirtMachineSpec list"
  | MachineStatuses "hLibvirtMachineStatus list"
  | Machines "'m hLibvirtMachine list"
  | MachineLists "'l hList list"
  | MachineTemplateResources "'t hLibvirtMachineTemplateResource list"
  | MachineTemplateSpecs "'t hLibvirtMachineTemplateSpec list"
  | MachineTemplates "('m, 't) hLibvirtMachineTemplate list"
  | MachineTemplateLists "'l hList list"
  | Foreign 'f

definition Strings_kind :: "(('m, 'l, 't, 'c, 'f) cell, string) kind" where
  "Strings_kind = \<lparr>wrap = Strings, unwrap = \<lambda>c. (case c of Strings xs \<Rightarrow> Some xs | _ \<Rightarrow> None)\<rparr>"

definition CredentialsReferences_kind :: "(('m, 'l, 't, 'c, 'f) cell, CredentialsReference) kind" where
  "CredentialsReferences_kind = \<lparr>wrap = CredentialsReferences, unwrap = \<lambda>c. (case c of CredentialsReferences xs \<Rightarrow> Some xs | _ \<Rightarrow> None)\<rparr>"

definition Conditions_kind :: "(('m, 'l, 't, 'c, 'f) cell, 'c) kind" where
  "Conditions_kind = \<lparr>wrap = Conditions, unwrap = \<lambda>c. (case c of Conditions xs \<Rightarrow> Some xs | _ \<Rightarrow> None)\<rparr>"

definition MachineAddresses_kind :: "(('m, 'l, 't, 'c, 'f) cell, MachineAddress) kind" where
  "MachineAddresses_kind = \<lparr>wrap = MachineAddresses, unwrap = \<lambda>c. (case c of MachineAddresses xs \<Rightarrow> Some xs | _ \<Rightarrow> None)\<rparr>"

definition ClusterInitializationStatuses_kind :: "(('m, 'l, 't, 'c, 'f) cell, LibvirtClusterInitializationStatus) kind" where
  "ClusterInitializationStatuses_kind = \<lparr>wrap = ClusterInitializationStatuses, unwrap = \<lambda>c. (case c of ClusterInitializationStatuses xs \<Rightarrow> Some xs | _ \<Rightarrow> None)\<rparr>"

definition ClusterSpecs_kind :: "(('m, 'l, 't, 'c, 'f) cell, hLibvirtClusterSpec) kind" where
  "ClusterSpecs_kind = \<lparr>wrap = ClusterSpecs, unwrap = \<lambda>c. (case c of ClusterSpecs xs \<Rightarrow> Some xs | _ \<Rightarrow> None)\<rparr>"

definition ClusterStatuses_kind :: "(('m, 'l, 't, 'c, 'f) cell, hLibvirtClusterStatus) kind" where
  "ClusterStatuses_kind = \<lparr>wrap = ClusterStatuses, unwrap = \<lambda>c. (case c of ClusterStatuses xs \<Rightarrow> Some xs | _ \<Rightarrow> None)\<rparr>"

definition Clusters_kind :: "(('m, 'l, 't, 'c, 'f) cell, 'm hLibvirtCluster) kind" where
  "Clusters_kind = \<lparr>wrap = Clusters, unwrap = \<lambda>c. (case c of Clusters xs \<Rightarrow> Some xs | _ \<Rightarrow> None)\<rparr>"

definition ClusterLists_kind :: "(('m, 'l, 't, 'c, 'f) cell, 'l hList) kind" where
  "ClusterLists_kind = \<lparr>wrap = ClusterLists, unwrap = \<lambda>c. (case c of ClusterLists xs \<Rightarrow> Some xs | _ \<Rightarrow> None)\<rparr>"

definition ClusterTemplateResources_kind :: "(('m, 'l, 't, 'c, 'f) cell, 't hLibvirtClusterTemplateResource) kind" where
  "ClusterTemplateResources_kind = \<lparr>wrap = ClusterTemplateResources, unwrap = \<lambda>c. (case c of ClusterTemplateResources xs \<Rightarrow> Some xs | _ \<Rightarrow> None)\<rparr>"

definition ClusterTemplateSpecs_kind :: "(('m, 'l, 't, 'c, 'f) cell, 't hLibvirtClusterTemplateSpec) kind" where
  "ClusterTemplateSpecs_kind = \<lparr>wrap = ClusterTemplateSpecs, unwrap = \<lambda>c. (case c of ClusterTemplateSpecs xs \<Rightarrow> Some xs | _ \<Rightarrow> None)\<rparr>"

definition ClusterTemplates_kind :: "(('m, 'l, 't, 'c, 'f) cell, ('m, 't) hLibvirtClusterTemplate) kind" where
  "ClusterTemplates_kind = \<lparr>wrap = ClusterTemplates, unwrap = \<lambda>c. (case c of ClusterTemplates xs \<Rightarrow> Some xs | _ \<Rightarrow> None)\<rparr>"

definition ClusterTemplateLists_kind :: "(('m, 'l, 't, 'c, 'f) cell, 'l hList) kind" where
  "ClusterTemplateLists_kind = \<lparr>wrap = ClusterTemplateLists, unwrap = \<lambda>c. (case c of ClusterTemplateLists xs \<Rightarrow> Some xs | _ \<Rightarrow> None)\<rparr>"

definition MachineInitializationStatuses_kind :: "(('m, 'l, 't, 'c, 'f) cell, LibvirtMachineInitializationStatus) kind" where
  "MachineInitializationStatuses_kind = \<lparr>wrap = MachineInitializationStatuses, unwrap = \<lambda>c. (case c of MachineInitializationStatuses xs \<Rightarrow> Some xs | _ \<Rightarrow> None)\<rparr>"

definition MachineSpecs_kind :: "(('m, 'l, 't, 'c, 'f) cell, hLibvirtMachineSpec) kind" where
  "MachineSpecs_kind = \<lparr>wrap = MachineSpecs, unwrap = \<lambda>c. (case c of MachineSpecs xs \<Rightarrow> Some xs | _ \<Rightarrow> None)\<rparr>"

definition MachineStatuses_kind :: "(('m, 'l, 't, 'c, 'f) cell, hLibvirtMachineStatus) kind" where
  "MachineStatuses_kind = \<lparr>wrap = MachineStatuses, unwrap = \<lambda>c. (case c of MachineStatuses xs \<Rightarrow> Some xs | _ \<Rightarrow> None)\<rparr>"

definition Machines_kind :: "(('m, 'l, 't, 'c, 'f) cell, 'm hLibvirtMachine) kind" where
  "Machines_kind = \<lparr>wrap = Machines, unwrap = \<lambda>c. (case c of Machines xs \<Rightarrow> Some xs | _ \<Rightarrow> None)\<rparr>"

definition MachineLists_kind :: "(('m, 'l, 't, 'c, 'f) cell, 'l hList) kind" where
  "MachineLists_kind = \<lparr>wrap = MachineLists, unwrap = \<lambda>c. (case c of MachineLists xs \<Rightarrow> Some xs | _ \<Rightarrow> None)\<rparr>"

definition MachineTemplateResources_kind :: "(('m, 'l, 't, 'c, 'f) cell, 't hLibvirtMachineTemplateResource) kind" where
  "MachineTemplateResources_kind = \<lparr>wrap = MachineTemplateResources, unwrap = \<lambda>c. (case c of MachineTemplateResources xs \<Rightarrow> Some xs | _ \<Rightarrow> None)\<rparr>"

definition MachineTemplateSpecs_kind :: "(('m, 'l, 't, 'c, 'f) cell, 't hLibvirtMachineTemplateSpec) kind" where
  "MachineTemplateSpecs_kind = \<lparr>wrap = MachineTemplateSpecs, unwrap = \<lambda>c. (case c of MachineTemplateSpecs xs \<Rightarrow> Some xs | _ \<Rightarrow> None)\<rparr>"

definition MachineTemplates_kind :: "(('m, 'l, 't, 'c, 'f) cell, ('m, 't) hLibvirtMachineTemplate) kind" where
  "MachineTemplates_kind = \<lparr>wrap = MachineTemplates, unwrap = \<lambda>c. (case c of MachineTemplates xs \<Rightarrow> Some xs | _ \<Rightarrow> None)\<rparr>"

definition MachineTemplateLists_kind :: "(('m, 'l, 't, 'c, 'f) cell, 'l hList) kind" where
  "MachineTemplateLists_kind = \<lparr>wrap = MachineTemplateLists, unwrap = \<lambda>c. (case c of MachineTemplateLists xs \<Rightarrow> Some xs | _ \<Rightarrow> None)\<rparr>"

lemmas kind_defs = kind_ok_def
  Strings_kind_def CredentialsReferences_kind_def Conditions_kind_def
  MachineAddresses_kind_def ClusterInitializationStatuses_kind_def ClusterSpecs_kind_def
  ClusterStatuses_kind_def Clusters_kind_def ClusterLists_kind_def
  ClusterTemplateResources_kind_def ClusterTemplateSpecs_kind_def ClusterTemplates_kind_def
  ClusterTemplateLists_kind_def MachineInitializationStatuses_kind_def MachineSpecs_kind_def
  MachineStatuses_kind_def Machines_kind_def MachineLists_kind_def
  MachineTemplateResources_kind_def MachineTemplateSpecs_kind_def MachineTemplates_kind_def
  MachineTemplateLists_kind_def

lemma kinds_ok [simp, intro]:
  "kind_ok Strings_kind"
  "kind_ok CredentialsReferences_kind"
  "kind_ok Conditions_kind"
  "kind_ok MachineAddresses_kind"
  "kind_ok ClusterInitializationStatuses_kind"
  "kind_ok ClusterSpecs_kind"
  "kind_ok ClusterStatuses_kind"
  "kind_ok Clusters_kind"
  "kind_ok ClusterLists_kind"
  "kind_ok ClusterTemplateResources_kind"
  "kind_ok ClusterTemplateSpecs_kind"
  "kind_ok ClusterTemplates_kind"
  "kind_ok ClusterTemplateLists_kind"
  "kind_ok MachineInitializationStatuses_kind"
  "kind_ok MachineSpecs_kind"
  "kind_ok MachineStatuses_kind"
  "kind_ok Machines_kind"
  "kind_ok MachineLists_kind"
  "kind_ok MachineTemplateResources_kind"
  "kind_ok MachineTemplateSpecs_kind"
  "kind_ok MachineTemplates_kind"
  "kind_ok MachineTemplateLists_kind"
  by (simp_all add: kind_defs)

section \<open>Foreign types\<close>

text \<open>The deep copies of the types of Kubernetes and Cluster API, with the zero values of the types.\<close>

record ('m, 'l, 't, 'c, 'f) foreign =
  ObjectMeta_DeepCopyInto :: "'m \<Rightarrow> (('m, 'l, 't, 'c, 'f) cell, 'm) mem"
  ListMeta_DeepCopyInto :: "'l \<Rightarrow> (('m, 'l, 't, 'c, 'f) cell, 'l) mem"
  TemplateMeta_DeepCopyInto :: "'t \<Rightarrow> (('m, 'l, 't, 'c, 'f) cell, 't) mem"
  Condition_DeepCopyInto :: "'c \<Rightarrow> (('m, 'l, 't, 'c, 'f) cell, 'c) mem"
  zero_ObjectMeta :: 'm
  zero_ListMeta :: 'l
  zero_TemplateMeta :: 't
  zero_Condition :: 'c

text \<open>What these types stand for.\<close>

record ('m, 'l, 't, 'c, 'f, 'v) foreign_views =
  ObjectMeta_view :: "(('m, 'l, 't, 'c, 'f) cell, 'm, ObjectMeta) view"
  ListMeta_view :: "(('m, 'l, 't, 'c, 'f) cell, 'l, 'v) view"
  TemplateMeta_view :: "(('m, 'l, 't, 'c, 'f) cell, 't, TemplateMeta) view"
  Condition_view :: "(('m, 'l, 't, 'c, 'f) cell, 'c, Condition) view"

section \<open>Zero values\<close>

definition zero_TypeMeta :: TypeMeta where
  "zero_TypeMeta = \<lparr>tm_Kind = [], tm_APIVersion = []\<rparr>"

definition zero_CredentialsReference :: CredentialsReference where
  "zero_CredentialsReference = \<lparr>cref_Name = []\<rparr>"

definition zero_MachineAddress :: MachineAddress where
  "zero_MachineAddress = \<lparr>addr_Type = OtherAddressType [], addr_Address = []\<rparr>"

definition zero_LibvirtClusterSpec :: hLibvirtClusterSpec where
  "zero_LibvirtClusterSpec =
     \<lparr>hcs_URI = [], hcs_ControlPlaneEndpoint = \<lparr>ep_Host = [], ep_Port = 0\<rparr>, hcs_BasePool = [], hcs_DomainPool = [],
      hcs_Network = [], hcs_CredentialsRef = None\<rparr>"

definition zero_LibvirtClusterStatus :: hLibvirtClusterStatus where
  "zero_LibvirtClusterStatus =
     \<lparr>hct_Ready = False, hct_Initialization = \<lparr>lci_Provisioned = False\<rparr>, hct_Conditions = None\<rparr>"

definition zero_LibvirtCluster :: "('m, 'l, 't, 'c, 'f) foreign \<Rightarrow> 'm hLibvirtCluster" where
  "zero_LibvirtCluster X =
     \<lparr>hc_TypeMeta = zero_TypeMeta, hc_Meta = zero_ObjectMeta X, hc_Spec = zero_LibvirtClusterSpec,
      hc_Status = zero_LibvirtClusterStatus\<rparr>"

definition zero_LibvirtMachineSpec :: hLibvirtMachineSpec where
  "zero_LibvirtMachineSpec =
     \<lparr>hms_ProviderID = None, hms_VCPU = 0, hms_MemoryMiB = 0, hms_DiskGiB = 0, hms_Image = []\<rparr>"

definition zero_LibvirtMachineStatus :: hLibvirtMachineStatus where
  "zero_LibvirtMachineStatus =
     \<lparr>hmt_Ready = False, hmt_Addresses = None, hmt_Conditions = None, hmt_Initialization = \<lparr>lmi_Provisioned = False\<rparr>\<rparr>"

definition zero_LibvirtMachine :: "('m, 'l, 't, 'c, 'f) foreign \<Rightarrow> 'm hLibvirtMachine" where
  "zero_LibvirtMachine X =
     \<lparr>hm_TypeMeta = zero_TypeMeta, hm_Meta = zero_ObjectMeta X, hm_Spec = zero_LibvirtMachineSpec,
      hm_Status = zero_LibvirtMachineStatus\<rparr>"

definition zero_List :: "('m, 'l, 't, 'c, 'f) foreign \<Rightarrow> 'l hList" where
  "zero_List X = \<lparr>hl_TypeMeta = zero_TypeMeta, hl_Meta = zero_ListMeta X, hl_Items = None\<rparr>"

definition zero_TemplateResource :: "('m, 'l, 't, 'c, 'f) foreign \<Rightarrow> 's \<Rightarrow> ('t, 's) hTemplateResource" where
  "zero_TemplateResource X spec = \<lparr>htr_Meta = zero_TemplateMeta X, htr_Spec = spec\<rparr>"

definition zero_TemplateSpec :: "('m, 'l, 't, 'c, 'f) foreign \<Rightarrow> 's \<Rightarrow> ('t, 's) hTemplateSpec" where
  "zero_TemplateSpec X spec = \<lparr>hts_Template = zero_TemplateResource X spec\<rparr>"

definition zero_Template :: "('m, 'l, 't, 'c, 'f) foreign \<Rightarrow> 's \<Rightarrow> ('m, 't, 's) hTemplate" where
  "zero_Template X spec =
     \<lparr>htp_TypeMeta = zero_TypeMeta, htp_Meta = zero_ObjectMeta X, htp_Spec = zero_TemplateSpec X spec\<rparr>"

section \<open>The generated functions\<close>

text \<open>An interface value of type \<^verbatim>\<open>runtime.Object\<close>: nil, or a pointer with its type.\<close>

datatype RuntimeObject =
    LibvirtClusterPtr ptr | LibvirtClusterListPtr ptr | LibvirtClusterTemplatePtr ptr | LibvirtClusterTemplateListPtr ptr
  | LibvirtMachinePtr ptr | LibvirtMachineListPtr ptr | LibvirtMachineTemplatePtr ptr | LibvirtMachineTemplateListPtr ptr

definition as_object :: "(ptr \<Rightarrow> RuntimeObject) \<Rightarrow> (ptr option \<Rightarrow> ('k, ptr option) mem) \<Rightarrow> ptr option \<Rightarrow> ('k, RuntimeObject option) mem" where
  "as_object con copy p =
     mbind (copy p) (\<lambda>c.
     case c of Some q \<Rightarrow> mret (Some (con q)) | None \<Rightarrow> mret None)"

definition CredentialsReference_DeepCopyInto ::
  "CredentialsReference \<Rightarrow> (('m, 'l, 't, 'c, 'f) cell, CredentialsReference) mem" where
  "CredentialsReference_DeepCopyInto inp =
     mret inp"

definition CredentialsReference_DeepCopy :: "ptr option \<Rightarrow> (('m, 'l, 't, 'c, 'f) cell, ptr option) mem" where
  "CredentialsReference_DeepCopy = copy_opt (copy_new CredentialsReferences_kind zero_CredentialsReference CredentialsReference_DeepCopyInto)"

definition LibvirtClusterInitializationStatus_DeepCopyInto ::
  "LibvirtClusterInitializationStatus \<Rightarrow> (('m, 'l, 't, 'c, 'f) cell, LibvirtClusterInitializationStatus) mem" where
  "LibvirtClusterInitializationStatus_DeepCopyInto inp =
     mret inp"

definition LibvirtClusterInitializationStatus_DeepCopy :: "ptr option \<Rightarrow> (('m, 'l, 't, 'c, 'f) cell, ptr option) mem" where
  "LibvirtClusterInitializationStatus_DeepCopy = copy_opt (copy_new ClusterInitializationStatuses_kind \<lparr>lci_Provisioned = False\<rparr> LibvirtClusterInitializationStatus_DeepCopyInto)"

definition LibvirtClusterSpec_DeepCopyInto ::
  "hLibvirtClusterSpec \<Rightarrow> (('m, 'l, 't, 'c, 'f) cell, hLibvirtClusterSpec) mem" where
  "LibvirtClusterSpec_DeepCopyInto inp =
     mbind (copy_opt (copy_new CredentialsReferences_kind zero_CredentialsReference mret) (hcs_CredentialsRef inp)) (\<lambda>CredentialsRef.
     mret (inp\<lparr>hcs_CredentialsRef := CredentialsRef\<rparr>))"

definition LibvirtClusterSpec_DeepCopy :: "ptr option \<Rightarrow> (('m, 'l, 't, 'c, 'f) cell, ptr option) mem" where
  "LibvirtClusterSpec_DeepCopy = copy_opt (copy_new ClusterSpecs_kind zero_LibvirtClusterSpec LibvirtClusterSpec_DeepCopyInto)"

definition LibvirtClusterStatus_DeepCopyInto ::
  "('m, 'l, 't, 'c, 'f) foreign \<Rightarrow> hLibvirtClusterStatus \<Rightarrow> (('m, 'l, 't, 'c, 'f) cell, hLibvirtClusterStatus) mem" where
  "LibvirtClusterStatus_DeepCopyInto X inp =
     mbind (copy_opt (copy_slice Conditions_kind (zero_Condition X) (Condition_DeepCopyInto X)) (hct_Conditions inp)) (\<lambda>Conditions.
     mret (inp\<lparr>hct_Conditions := Conditions\<rparr>))"

definition LibvirtClusterStatus_DeepCopy :: "('m, 'l, 't, 'c, 'f) foreign \<Rightarrow> ptr option \<Rightarrow> (('m, 'l, 't, 'c, 'f) cell, ptr option) mem" where
  "LibvirtClusterStatus_DeepCopy X = copy_opt (copy_new ClusterStatuses_kind zero_LibvirtClusterStatus (LibvirtClusterStatus_DeepCopyInto X))"

definition LibvirtCluster_DeepCopyInto ::
  "('m, 'l, 't, 'c, 'f) foreign \<Rightarrow> 'm hLibvirtCluster \<Rightarrow> (('m, 'l, 't, 'c, 'f) cell, 'm hLibvirtCluster) mem" where
  "LibvirtCluster_DeepCopyInto X inp =
     mbind (ObjectMeta_DeepCopyInto X (hc_Meta inp)) (\<lambda>ObjectMeta.
     mbind (LibvirtClusterSpec_DeepCopyInto (hc_Spec inp)) (\<lambda>Spec.
     mbind (LibvirtClusterStatus_DeepCopyInto X (hc_Status inp)) (\<lambda>Status.
     mret (inp\<lparr>hc_Meta := ObjectMeta, hc_Spec := Spec, hc_Status := Status\<rparr>))))"

definition LibvirtCluster_DeepCopy :: "('m, 'l, 't, 'c, 'f) foreign \<Rightarrow> ptr option \<Rightarrow> (('m, 'l, 't, 'c, 'f) cell, ptr option) mem" where
  "LibvirtCluster_DeepCopy X = copy_opt (copy_new Clusters_kind (zero_LibvirtCluster X) (LibvirtCluster_DeepCopyInto X))"

definition LibvirtCluster_DeepCopyObject :: "('m, 'l, 't, 'c, 'f) foreign \<Rightarrow> ptr option \<Rightarrow> (('m, 'l, 't, 'c, 'f) cell, RuntimeObject option) mem" where
  "LibvirtCluster_DeepCopyObject X = as_object LibvirtClusterPtr (LibvirtCluster_DeepCopy X)"

definition LibvirtClusterList_DeepCopyInto ::
  "('m, 'l, 't, 'c, 'f) foreign \<Rightarrow> 'l hList \<Rightarrow> (('m, 'l, 't, 'c, 'f) cell, 'l hList) mem" where
  "LibvirtClusterList_DeepCopyInto X inp =
     mbind (ListMeta_DeepCopyInto X (hl_Meta inp)) (\<lambda>ListMeta.
     mbind (copy_opt (copy_slice Clusters_kind (zero_LibvirtCluster X) (LibvirtCluster_DeepCopyInto X)) (hl_Items inp)) (\<lambda>Items.
     mret (inp\<lparr>hl_Meta := ListMeta, hl_Items := Items\<rparr>)))"

definition LibvirtClusterList_DeepCopy :: "('m, 'l, 't, 'c, 'f) foreign \<Rightarrow> ptr option \<Rightarrow> (('m, 'l, 't, 'c, 'f) cell, ptr option) mem" where
  "LibvirtClusterList_DeepCopy X = copy_opt (copy_new ClusterLists_kind (zero_List X) (LibvirtClusterList_DeepCopyInto X))"

definition LibvirtClusterList_DeepCopyObject :: "('m, 'l, 't, 'c, 'f) foreign \<Rightarrow> ptr option \<Rightarrow> (('m, 'l, 't, 'c, 'f) cell, RuntimeObject option) mem" where
  "LibvirtClusterList_DeepCopyObject X = as_object LibvirtClusterListPtr (LibvirtClusterList_DeepCopy X)"

definition LibvirtClusterTemplateResource_DeepCopyInto ::
  "('m, 'l, 't, 'c, 'f) foreign \<Rightarrow> 't hLibvirtClusterTemplateResource \<Rightarrow> (('m, 'l, 't, 'c, 'f) cell, 't hLibvirtClusterTemplateResource) mem" where
  "LibvirtClusterTemplateResource_DeepCopyInto X inp =
     mbind (TemplateMeta_DeepCopyInto X (htr_Meta inp)) (\<lambda>ObjectMeta.
     mbind (LibvirtClusterSpec_DeepCopyInto (htr_Spec inp)) (\<lambda>Spec.
     mret (inp\<lparr>htr_Meta := ObjectMeta, htr_Spec := Spec\<rparr>)))"

definition LibvirtClusterTemplateResource_DeepCopy :: "('m, 'l, 't, 'c, 'f) foreign \<Rightarrow> ptr option \<Rightarrow> (('m, 'l, 't, 'c, 'f) cell, ptr option) mem" where
  "LibvirtClusterTemplateResource_DeepCopy X = copy_opt (copy_new ClusterTemplateResources_kind (zero_TemplateResource X zero_LibvirtClusterSpec) (LibvirtClusterTemplateResource_DeepCopyInto X))"

definition LibvirtClusterTemplateSpec_DeepCopyInto ::
  "('m, 'l, 't, 'c, 'f) foreign \<Rightarrow> 't hLibvirtClusterTemplateSpec \<Rightarrow> (('m, 'l, 't, 'c, 'f) cell, 't hLibvirtClusterTemplateSpec) mem" where
  "LibvirtClusterTemplateSpec_DeepCopyInto X inp =
     mbind (LibvirtClusterTemplateResource_DeepCopyInto X (hts_Template inp)) (\<lambda>Template.
     mret (inp\<lparr>hts_Template := Template\<rparr>))"

definition LibvirtClusterTemplateSpec_DeepCopy :: "('m, 'l, 't, 'c, 'f) foreign \<Rightarrow> ptr option \<Rightarrow> (('m, 'l, 't, 'c, 'f) cell, ptr option) mem" where
  "LibvirtClusterTemplateSpec_DeepCopy X = copy_opt (copy_new ClusterTemplateSpecs_kind (zero_TemplateSpec X zero_LibvirtClusterSpec) (LibvirtClusterTemplateSpec_DeepCopyInto X))"

definition LibvirtClusterTemplate_DeepCopyInto ::
  "('m, 'l, 't, 'c, 'f) foreign \<Rightarrow> ('m, 't) hLibvirtClusterTemplate \<Rightarrow> (('m, 'l, 't, 'c, 'f) cell, ('m, 't) hLibvirtClusterTemplate) mem" where
  "LibvirtClusterTemplate_DeepCopyInto X inp =
     mbind (ObjectMeta_DeepCopyInto X (htp_Meta inp)) (\<lambda>ObjectMeta.
     mbind (LibvirtClusterTemplateSpec_DeepCopyInto X (htp_Spec inp)) (\<lambda>Spec.
     mret (inp\<lparr>htp_Meta := ObjectMeta, htp_Spec := Spec\<rparr>)))"

definition LibvirtClusterTemplate_DeepCopy :: "('m, 'l, 't, 'c, 'f) foreign \<Rightarrow> ptr option \<Rightarrow> (('m, 'l, 't, 'c, 'f) cell, ptr option) mem" where
  "LibvirtClusterTemplate_DeepCopy X = copy_opt (copy_new ClusterTemplates_kind (zero_Template X zero_LibvirtClusterSpec) (LibvirtClusterTemplate_DeepCopyInto X))"

definition LibvirtClusterTemplate_DeepCopyObject :: "('m, 'l, 't, 'c, 'f) foreign \<Rightarrow> ptr option \<Rightarrow> (('m, 'l, 't, 'c, 'f) cell, RuntimeObject option) mem" where
  "LibvirtClusterTemplate_DeepCopyObject X = as_object LibvirtClusterTemplatePtr (LibvirtClusterTemplate_DeepCopy X)"

definition LibvirtClusterTemplateList_DeepCopyInto ::
  "('m, 'l, 't, 'c, 'f) foreign \<Rightarrow> 'l hList \<Rightarrow> (('m, 'l, 't, 'c, 'f) cell, 'l hList) mem" where
  "LibvirtClusterTemplateList_DeepCopyInto X inp =
     mbind (ListMeta_DeepCopyInto X (hl_Meta inp)) (\<lambda>ListMeta.
     mbind (copy_opt (copy_slice ClusterTemplates_kind (zero_Template X zero_LibvirtClusterSpec) (LibvirtClusterTemplate_DeepCopyInto X)) (hl_Items inp)) (\<lambda>Items.
     mret (inp\<lparr>hl_Meta := ListMeta, hl_Items := Items\<rparr>)))"

definition LibvirtClusterTemplateList_DeepCopy :: "('m, 'l, 't, 'c, 'f) foreign \<Rightarrow> ptr option \<Rightarrow> (('m, 'l, 't, 'c, 'f) cell, ptr option) mem" where
  "LibvirtClusterTemplateList_DeepCopy X = copy_opt (copy_new ClusterTemplateLists_kind (zero_List X) (LibvirtClusterTemplateList_DeepCopyInto X))"

definition LibvirtClusterTemplateList_DeepCopyObject :: "('m, 'l, 't, 'c, 'f) foreign \<Rightarrow> ptr option \<Rightarrow> (('m, 'l, 't, 'c, 'f) cell, RuntimeObject option) mem" where
  "LibvirtClusterTemplateList_DeepCopyObject X = as_object LibvirtClusterTemplateListPtr (LibvirtClusterTemplateList_DeepCopy X)"

definition LibvirtMachineInitializationStatus_DeepCopyInto ::
  "LibvirtMachineInitializationStatus \<Rightarrow> (('m, 'l, 't, 'c, 'f) cell, LibvirtMachineInitializationStatus) mem" where
  "LibvirtMachineInitializationStatus_DeepCopyInto inp =
     mret inp"

definition LibvirtMachineInitializationStatus_DeepCopy :: "ptr option \<Rightarrow> (('m, 'l, 't, 'c, 'f) cell, ptr option) mem" where
  "LibvirtMachineInitializationStatus_DeepCopy = copy_opt (copy_new MachineInitializationStatuses_kind \<lparr>lmi_Provisioned = False\<rparr> LibvirtMachineInitializationStatus_DeepCopyInto)"

definition LibvirtMachineSpec_DeepCopyInto ::
  "hLibvirtMachineSpec \<Rightarrow> (('m, 'l, 't, 'c, 'f) cell, hLibvirtMachineSpec) mem" where
  "LibvirtMachineSpec_DeepCopyInto inp =
     mbind (copy_opt (copy_new Strings_kind [] mret) (hms_ProviderID inp)) (\<lambda>ProviderID.
     mret (inp\<lparr>hms_ProviderID := ProviderID\<rparr>))"

definition LibvirtMachineSpec_DeepCopy :: "ptr option \<Rightarrow> (('m, 'l, 't, 'c, 'f) cell, ptr option) mem" where
  "LibvirtMachineSpec_DeepCopy = copy_opt (copy_new MachineSpecs_kind zero_LibvirtMachineSpec LibvirtMachineSpec_DeepCopyInto)"

definition LibvirtMachineStatus_DeepCopyInto ::
  "('m, 'l, 't, 'c, 'f) foreign \<Rightarrow> hLibvirtMachineStatus \<Rightarrow> (('m, 'l, 't, 'c, 'f) cell, hLibvirtMachineStatus) mem" where
  "LibvirtMachineStatus_DeepCopyInto X inp =
     mbind (copy_opt (copy_values MachineAddresses_kind zero_MachineAddress) (hmt_Addresses inp)) (\<lambda>Addresses.
     mbind (copy_opt (copy_slice Conditions_kind (zero_Condition X) (Condition_DeepCopyInto X)) (hmt_Conditions inp)) (\<lambda>Conditions.
     mret (inp\<lparr>hmt_Addresses := Addresses, hmt_Conditions := Conditions\<rparr>)))"

definition LibvirtMachineStatus_DeepCopy :: "('m, 'l, 't, 'c, 'f) foreign \<Rightarrow> ptr option \<Rightarrow> (('m, 'l, 't, 'c, 'f) cell, ptr option) mem" where
  "LibvirtMachineStatus_DeepCopy X = copy_opt (copy_new MachineStatuses_kind zero_LibvirtMachineStatus (LibvirtMachineStatus_DeepCopyInto X))"

definition LibvirtMachine_DeepCopyInto ::
  "('m, 'l, 't, 'c, 'f) foreign \<Rightarrow> 'm hLibvirtMachine \<Rightarrow> (('m, 'l, 't, 'c, 'f) cell, 'm hLibvirtMachine) mem" where
  "LibvirtMachine_DeepCopyInto X inp =
     mbind (ObjectMeta_DeepCopyInto X (hm_Meta inp)) (\<lambda>ObjectMeta.
     mbind (LibvirtMachineSpec_DeepCopyInto (hm_Spec inp)) (\<lambda>Spec.
     mbind (LibvirtMachineStatus_DeepCopyInto X (hm_Status inp)) (\<lambda>Status.
     mret (inp\<lparr>hm_Meta := ObjectMeta, hm_Spec := Spec, hm_Status := Status\<rparr>))))"

definition LibvirtMachine_DeepCopy :: "('m, 'l, 't, 'c, 'f) foreign \<Rightarrow> ptr option \<Rightarrow> (('m, 'l, 't, 'c, 'f) cell, ptr option) mem" where
  "LibvirtMachine_DeepCopy X = copy_opt (copy_new Machines_kind (zero_LibvirtMachine X) (LibvirtMachine_DeepCopyInto X))"

definition LibvirtMachine_DeepCopyObject :: "('m, 'l, 't, 'c, 'f) foreign \<Rightarrow> ptr option \<Rightarrow> (('m, 'l, 't, 'c, 'f) cell, RuntimeObject option) mem" where
  "LibvirtMachine_DeepCopyObject X = as_object LibvirtMachinePtr (LibvirtMachine_DeepCopy X)"

definition LibvirtMachineList_DeepCopyInto ::
  "('m, 'l, 't, 'c, 'f) foreign \<Rightarrow> 'l hList \<Rightarrow> (('m, 'l, 't, 'c, 'f) cell, 'l hList) mem" where
  "LibvirtMachineList_DeepCopyInto X inp =
     mbind (ListMeta_DeepCopyInto X (hl_Meta inp)) (\<lambda>ListMeta.
     mbind (copy_opt (copy_slice Machines_kind (zero_LibvirtMachine X) (LibvirtMachine_DeepCopyInto X)) (hl_Items inp)) (\<lambda>Items.
     mret (inp\<lparr>hl_Meta := ListMeta, hl_Items := Items\<rparr>)))"

definition LibvirtMachineList_DeepCopy :: "('m, 'l, 't, 'c, 'f) foreign \<Rightarrow> ptr option \<Rightarrow> (('m, 'l, 't, 'c, 'f) cell, ptr option) mem" where
  "LibvirtMachineList_DeepCopy X = copy_opt (copy_new MachineLists_kind (zero_List X) (LibvirtMachineList_DeepCopyInto X))"

definition LibvirtMachineList_DeepCopyObject :: "('m, 'l, 't, 'c, 'f) foreign \<Rightarrow> ptr option \<Rightarrow> (('m, 'l, 't, 'c, 'f) cell, RuntimeObject option) mem" where
  "LibvirtMachineList_DeepCopyObject X = as_object LibvirtMachineListPtr (LibvirtMachineList_DeepCopy X)"

definition LibvirtMachineTemplateResource_DeepCopyInto ::
  "('m, 'l, 't, 'c, 'f) foreign \<Rightarrow> 't hLibvirtMachineTemplateResource \<Rightarrow> (('m, 'l, 't, 'c, 'f) cell, 't hLibvirtMachineTemplateResource) mem" where
  "LibvirtMachineTemplateResource_DeepCopyInto X inp =
     mbind (TemplateMeta_DeepCopyInto X (htr_Meta inp)) (\<lambda>ObjectMeta.
     mbind (LibvirtMachineSpec_DeepCopyInto (htr_Spec inp)) (\<lambda>Spec.
     mret (inp\<lparr>htr_Meta := ObjectMeta, htr_Spec := Spec\<rparr>)))"

definition LibvirtMachineTemplateResource_DeepCopy :: "('m, 'l, 't, 'c, 'f) foreign \<Rightarrow> ptr option \<Rightarrow> (('m, 'l, 't, 'c, 'f) cell, ptr option) mem" where
  "LibvirtMachineTemplateResource_DeepCopy X = copy_opt (copy_new MachineTemplateResources_kind (zero_TemplateResource X zero_LibvirtMachineSpec) (LibvirtMachineTemplateResource_DeepCopyInto X))"

definition LibvirtMachineTemplateSpec_DeepCopyInto ::
  "('m, 'l, 't, 'c, 'f) foreign \<Rightarrow> 't hLibvirtMachineTemplateSpec \<Rightarrow> (('m, 'l, 't, 'c, 'f) cell, 't hLibvirtMachineTemplateSpec) mem" where
  "LibvirtMachineTemplateSpec_DeepCopyInto X inp =
     mbind (LibvirtMachineTemplateResource_DeepCopyInto X (hts_Template inp)) (\<lambda>Template.
     mret (inp\<lparr>hts_Template := Template\<rparr>))"

definition LibvirtMachineTemplateSpec_DeepCopy :: "('m, 'l, 't, 'c, 'f) foreign \<Rightarrow> ptr option \<Rightarrow> (('m, 'l, 't, 'c, 'f) cell, ptr option) mem" where
  "LibvirtMachineTemplateSpec_DeepCopy X = copy_opt (copy_new MachineTemplateSpecs_kind (zero_TemplateSpec X zero_LibvirtMachineSpec) (LibvirtMachineTemplateSpec_DeepCopyInto X))"

definition LibvirtMachineTemplate_DeepCopyInto ::
  "('m, 'l, 't, 'c, 'f) foreign \<Rightarrow> ('m, 't) hLibvirtMachineTemplate \<Rightarrow> (('m, 'l, 't, 'c, 'f) cell, ('m, 't) hLibvirtMachineTemplate) mem" where
  "LibvirtMachineTemplate_DeepCopyInto X inp =
     mbind (ObjectMeta_DeepCopyInto X (htp_Meta inp)) (\<lambda>ObjectMeta.
     mbind (LibvirtMachineTemplateSpec_DeepCopyInto X (htp_Spec inp)) (\<lambda>Spec.
     mret (inp\<lparr>htp_Meta := ObjectMeta, htp_Spec := Spec\<rparr>)))"

definition LibvirtMachineTemplate_DeepCopy :: "('m, 'l, 't, 'c, 'f) foreign \<Rightarrow> ptr option \<Rightarrow> (('m, 'l, 't, 'c, 'f) cell, ptr option) mem" where
  "LibvirtMachineTemplate_DeepCopy X = copy_opt (copy_new MachineTemplates_kind (zero_Template X zero_LibvirtMachineSpec) (LibvirtMachineTemplate_DeepCopyInto X))"

definition LibvirtMachineTemplate_DeepCopyObject :: "('m, 'l, 't, 'c, 'f) foreign \<Rightarrow> ptr option \<Rightarrow> (('m, 'l, 't, 'c, 'f) cell, RuntimeObject option) mem" where
  "LibvirtMachineTemplate_DeepCopyObject X = as_object LibvirtMachineTemplatePtr (LibvirtMachineTemplate_DeepCopy X)"

definition LibvirtMachineTemplateList_DeepCopyInto ::
  "('m, 'l, 't, 'c, 'f) foreign \<Rightarrow> 'l hList \<Rightarrow> (('m, 'l, 't, 'c, 'f) cell, 'l hList) mem" where
  "LibvirtMachineTemplateList_DeepCopyInto X inp =
     mbind (ListMeta_DeepCopyInto X (hl_Meta inp)) (\<lambda>ListMeta.
     mbind (copy_opt (copy_slice MachineTemplates_kind (zero_Template X zero_LibvirtMachineSpec) (LibvirtMachineTemplate_DeepCopyInto X)) (hl_Items inp)) (\<lambda>Items.
     mret (inp\<lparr>hl_Meta := ListMeta, hl_Items := Items\<rparr>)))"

definition LibvirtMachineTemplateList_DeepCopy :: "('m, 'l, 't, 'c, 'f) foreign \<Rightarrow> ptr option \<Rightarrow> (('m, 'l, 't, 'c, 'f) cell, ptr option) mem" where
  "LibvirtMachineTemplateList_DeepCopy X = copy_opt (copy_new MachineTemplateLists_kind (zero_List X) (LibvirtMachineTemplateList_DeepCopyInto X))"

definition LibvirtMachineTemplateList_DeepCopyObject :: "('m, 'l, 't, 'c, 'f) foreign \<Rightarrow> ptr option \<Rightarrow> (('m, 'l, 't, 'c, 'f) cell, RuntimeObject option) mem" where
  "LibvirtMachineTemplateList_DeepCopyObject X = as_object LibvirtMachineTemplateListPtr (LibvirtMachineTemplateList_DeepCopy X)"

section \<open>What the types stand for\<close>

definition items_of :: "'x list option \<Rightarrow> 'x list" where
  "items_of xs = (case xs of None \<Rightarrow> [] | Some ys \<Rightarrow> ys)"

definition cluster_spec_view :: "(('m, 'l, 't, 'c, 'f) cell, hLibvirtClusterSpec, LibvirtClusterSpec) view" where
  "cluster_spec_view =
     via hcs_CredentialsRef
       (\<lambda>s r. \<lparr>lcs_URI = hcs_URI s, lcs_ControlPlaneEndpoint = hcs_ControlPlaneEndpoint s, lcs_BasePool = hcs_BasePool s,
               lcs_DomainPool = hcs_DomainPool s, lcs_Network = hcs_Network s, lcs_CredentialsRef = r\<rparr>)
       (opt (ptr_view CredentialsReferences_kind plain))"

definition cluster_status_view ::
  "('m, 'l, 't, 'c, 'f, 'v) foreign_views \<Rightarrow> (('m, 'l, 't, 'c, 'f) cell, hLibvirtClusterStatus, LibvirtClusterStatus) view" where
  "cluster_status_view Y =
     via hct_Conditions
       (\<lambda>s cs. \<lparr>lct_Ready = hct_Ready s, lct_Initialization = hct_Initialization s, lct_Conditions = items_of cs\<rparr>)
       (opt (slice_view Conditions_kind (Condition_view Y)))"

definition cluster_view ::
  "('m, 'l, 't, 'c, 'f, 'v) foreign_views \<Rightarrow> (('m, 'l, 't, 'c, 'f) cell, 'm hLibvirtCluster, TypeMeta \<times> LibvirtCluster) view" where
  "cluster_view Y =
     via (\<lambda>c. (hc_Meta c, hc_Spec c, hc_Status c))
       (\<lambda>c (m, s, t). (hc_TypeMeta c, \<lparr>lc_Meta = m, lc_Spec = s, lc_Status = t\<rparr>))
       (both (ObjectMeta_view Y) (both cluster_spec_view (cluster_status_view Y)))"

definition machine_spec_view :: "(('m, 'l, 't, 'c, 'f) cell, hLibvirtMachineSpec, LibvirtMachineSpec) view" where
  "machine_spec_view =
     via hms_ProviderID
       (\<lambda>s p. \<lparr>lms_ProviderID = p, lms_VCPU = hms_VCPU s, lms_MemoryMiB = hms_MemoryMiB s, lms_DiskGiB = hms_DiskGiB s,
               lms_Image = hms_Image s\<rparr>)
       (opt (ptr_view Strings_kind plain))"

definition machine_status_view ::
  "('m, 'l, 't, 'c, 'f, 'v) foreign_views \<Rightarrow> (('m, 'l, 't, 'c, 'f) cell, hLibvirtMachineStatus, LibvirtMachineStatus) view" where
  "machine_status_view Y =
     via (\<lambda>s. (hmt_Addresses s, hmt_Conditions s))
       (\<lambda>s (as, cs). \<lparr>lmt_Ready = hmt_Ready s, lmt_Addresses = items_of as, lmt_Conditions = items_of cs,
                      lmt_Initialization = hmt_Initialization s\<rparr>)
       (both (opt (slice_view MachineAddresses_kind plain)) (opt (slice_view Conditions_kind (Condition_view Y))))"

definition machine_view ::
  "('m, 'l, 't, 'c, 'f, 'v) foreign_views \<Rightarrow> (('m, 'l, 't, 'c, 'f) cell, 'm hLibvirtMachine, TypeMeta \<times> LibvirtMachine) view" where
  "machine_view Y =
     via (\<lambda>c. (hm_Meta c, hm_Spec c, hm_Status c))
       (\<lambda>c (m, s, t). (hm_TypeMeta c, \<lparr>lm_Meta = m, lm_Spec = s, lm_Status = t\<rparr>))
       (both (ObjectMeta_view Y) (both machine_spec_view (machine_status_view Y)))"

definition list_view ::
  "('m, 'l, 't, 'c, 'f, 'v) foreign_views \<Rightarrow> (('m, 'l, 't, 'c, 'f) cell, 'x) kind \<Rightarrow> (('m, 'l, 't, 'c, 'f) cell, 'x, 'y) view
     \<Rightarrow> (('m, 'l, 't, 'c, 'f) cell, 'l hList, ('v, 'y) object_list) view" where
  "list_view Y kd V =
     via (\<lambda>l. (hl_Meta l, hl_Items l))
       (\<lambda>l (m, xs). \<lparr>list_TypeMeta = hl_TypeMeta l, list_Meta = m, list_Items = items_of xs\<rparr>)
       (both (ListMeta_view Y) (opt (slice_view kd V)))"

text \<open>The types of the templates, over the view of a specification.\<close>

definition resource_view ::
  "(TemplateMeta \<Rightarrow> 'u \<Rightarrow> 'r) \<Rightarrow> ('m, 'l, 't, 'c, 'f, 'v) foreign_views \<Rightarrow> (('m, 'l, 't, 'c, 'f) cell, 's, 'u) view
     \<Rightarrow> (('m, 'l, 't, 'c, 'f) cell, ('t, 's) hTemplateResource, 'r) view" where
  "resource_view con Y V =
     via (\<lambda>r. (htr_Meta r, htr_Spec r)) (\<lambda>_ (m, s). con m s) (both (TemplateMeta_view Y) V)"

definition tspec_view ::
  "('r \<Rightarrow> 'p) \<Rightarrow> (('m, 'l, 't, 'c, 'f) cell, ('t, 's) hTemplateResource, 'r) view
     \<Rightarrow> (('m, 'l, 't, 'c, 'f) cell, ('t, 's) hTemplateSpec, 'p) view" where
  "tspec_view con V = via hts_Template (\<lambda>_ r. con r) V"

definition template_view ::
  "(TypeMeta \<Rightarrow> ObjectMeta \<Rightarrow> 'p \<Rightarrow> 'q) \<Rightarrow> ('m, 'l, 't, 'c, 'f, 'v) foreign_views
     \<Rightarrow> (('m, 'l, 't, 'c, 'f) cell, ('t, 's) hTemplateSpec, 'p) view
     \<Rightarrow> (('m, 'l, 't, 'c, 'f) cell, ('m, 't, 's) hTemplate, 'q) view" where
  "template_view con Y V =
     via (\<lambda>p. (htp_Meta p, htp_Spec p)) (\<lambda>p (m, s). con (htp_TypeMeta p) m s) (both (ObjectMeta_view Y) V)"

definition cluster_resource_view where
  "cluster_resource_view Y = resource_view LibvirtClusterTemplateResource.make Y cluster_spec_view"
definition cluster_tspec_view where
  "cluster_tspec_view Y = tspec_view LibvirtClusterTemplateSpec.make (cluster_resource_view Y)"
definition cluster_template_view where
  "cluster_template_view Y = template_view LibvirtClusterTemplate.make Y (cluster_tspec_view Y)"
definition machine_resource_view where
  "machine_resource_view Y = resource_view LibvirtMachineTemplateResource.make Y machine_spec_view"
definition machine_tspec_view where
  "machine_tspec_view Y = tspec_view LibvirtMachineTemplateSpec.make (machine_resource_view Y)"
definition machine_template_view where
  "machine_template_view Y = template_view LibvirtMachineTemplate.make Y (machine_tspec_view Y)"

section \<open>They are deep copies\<close>

lemma cluster_spec_copy: "deep_copy cluster_spec_view LibvirtClusterSpec_DeepCopyInto"
  unfolding cluster_spec_view_def
  by (rule via_copy [where put = "\<lambda>s r. s\<lparr>hcs_CredentialsRef := r\<rparr>"], (rule copy_rules kinds_ok)+)
     (simp_all add: LibvirtClusterSpec_DeepCopyInto_def)

lemma machine_spec_copy: "deep_copy machine_spec_view LibvirtMachineSpec_DeepCopyInto"
  unfolding machine_spec_view_def
  by (rule via_copy [where put = "\<lambda>s p. s\<lparr>hms_ProviderID := p\<rparr>"], (rule copy_rules kinds_ok)+)
     (simp_all add: LibvirtMachineSpec_DeepCopyInto_def)

interpretation cspec: deep_copy cluster_spec_view LibvirtClusterSpec_DeepCopyInto
  by (rule cluster_spec_copy)

interpretation mspec: deep_copy machine_spec_view LibvirtMachineSpec_DeepCopyInto
  by (rule machine_spec_copy)

locale foreign_copies =
  fixes X :: "('m, 'l, 't, 'c, 'f) foreign" and Y :: "('m, 'l, 't, 'c, 'f, 'v) foreign_views"
  assumes meta: "deep_copy (ObjectMeta_view Y) (ObjectMeta_DeepCopyInto X)"
    and list_meta: "deep_copy (ListMeta_view Y) (ListMeta_DeepCopyInto X)"
    and template_meta: "deep_copy (TemplateMeta_view Y) (TemplateMeta_DeepCopyInto X)"
    and condition: "deep_copy (Condition_view Y) (Condition_DeepCopyInto X)"
begin

lemma cluster_status_copy: "deep_copy (cluster_status_view Y) (LibvirtClusterStatus_DeepCopyInto X)"
  unfolding cluster_status_view_def
  by (rule via_copy [where put = "\<lambda>s cs. s\<lparr>hct_Conditions := cs\<rparr>"], (rule opt_copy slice_copy condition kinds_ok)+)
     (simp_all add: LibvirtClusterStatus_DeepCopyInto_def)

lemma machine_status_copy: "deep_copy (machine_status_view Y) (LibvirtMachineStatus_DeepCopyInto X)"
  unfolding machine_status_view_def
  by (rule via_copy [where put = "\<lambda>s p. s\<lparr>hmt_Addresses := fst p, hmt_Conditions := snd p\<rparr>"],
      rule both_copy [OF opt_copy [OF values_copy] opt_copy [OF slice_copy]], (rule condition kinds_ok)+)
     (simp_all add: LibvirtMachineStatus_DeepCopyInto_def copy_both_def)

lemma cluster_copy: "deep_copy (cluster_view Y) (LibvirtCluster_DeepCopyInto X)"
  unfolding cluster_view_def
  by (rule via_copy [where put = "\<lambda>c p. c\<lparr>hc_Meta := fst p, hc_Spec := fst (snd p), hc_Status := snd (snd p)\<rparr>"],
      rule both_copy [OF meta both_copy [OF cluster_spec_copy cluster_status_copy]])
     (simp_all add: LibvirtCluster_DeepCopyInto_def copy_both_def)

lemma machine_copy: "deep_copy (machine_view Y) (LibvirtMachine_DeepCopyInto X)"
  unfolding machine_view_def
  by (rule via_copy [where put = "\<lambda>c p. c\<lparr>hm_Meta := fst p, hm_Spec := fst (snd p), hm_Status := snd (snd p)\<rparr>"],
      rule both_copy [OF meta both_copy [OF machine_spec_copy machine_status_copy]])
     (simp_all add: LibvirtMachine_DeepCopyInto_def copy_both_def)

lemma list_copy:
  assumes "kind_ok kd" "deep_copy V into"
    "\<And>l. copy l = mbind (ListMeta_DeepCopyInto X (hl_Meta l)) (\<lambda>m.
       mbind (copy_opt (copy_slice kd zero into) (hl_Items l)) (\<lambda>xs. mret (l\<lparr>hl_Meta := m, hl_Items := xs\<rparr>)))"
  shows "deep_copy (list_view Y kd V) copy"
  unfolding list_view_def
  by (rule via_copy [where put = "\<lambda>l p. l\<lparr>hl_Meta := fst p, hl_Items := snd p\<rparr>"],
      rule both_copy [OF list_meta opt_copy [OF slice_copy [OF assms(1,2)]]])
     (simp_all add: assms(3) copy_both_def)

lemma resource_copy:
  assumes "deep_copy V into"
    "\<And>r. copy r = mbind (TemplateMeta_DeepCopyInto X (htr_Meta r)) (\<lambda>m. mbind (into (htr_Spec r)) (\<lambda>s. mret (r\<lparr>htr_Meta := m, htr_Spec := s\<rparr>)))"
  shows "deep_copy (resource_view con Y V) copy"
  unfolding resource_view_def
  by (rule via_copy [where put = "\<lambda>r p. r\<lparr>htr_Meta := fst p, htr_Spec := snd p\<rparr>"], rule both_copy [OF template_meta assms(1)])
     (simp_all add: assms(2) copy_both_def)

lemma tspec_copy:
  assumes "deep_copy V into" "\<And>s. copy s = mbind (into (hts_Template s)) (\<lambda>r. mret (s\<lparr>hts_Template := r\<rparr>))"
  shows "deep_copy (tspec_view con V) copy"
  unfolding tspec_view_def
  by (rule via_copy [where put = "\<lambda>s r. s\<lparr>hts_Template := r\<rparr>"], rule assms(1)) (simp_all add: assms(2))

lemma template_copy:
  assumes "deep_copy V into"
    "\<And>p. copy p = mbind (ObjectMeta_DeepCopyInto X (htp_Meta p)) (\<lambda>m. mbind (into (htp_Spec p)) (\<lambda>s. mret (p\<lparr>htp_Meta := m, htp_Spec := s\<rparr>)))"
  shows "deep_copy (template_view con Y V) copy"
  unfolding template_view_def
  by (rule via_copy [where put = "\<lambda>p q. p\<lparr>htp_Meta := fst q, htp_Spec := snd q\<rparr>"], rule both_copy [OF meta assms(1)])
     (simp_all add: assms(2) copy_both_def)

lemma cluster_template_copies:
  "deep_copy (cluster_resource_view Y) (LibvirtClusterTemplateResource_DeepCopyInto X)"
  "deep_copy (cluster_tspec_view Y) (LibvirtClusterTemplateSpec_DeepCopyInto X)"
  "deep_copy (cluster_template_view Y) (LibvirtClusterTemplate_DeepCopyInto X)"
proof -
  show resource: "deep_copy (cluster_resource_view Y) (LibvirtClusterTemplateResource_DeepCopyInto X)"
    unfolding cluster_resource_view_def
    by (rule resource_copy [OF cluster_spec_copy]) (simp add: LibvirtClusterTemplateResource_DeepCopyInto_def)
  show spec: "deep_copy (cluster_tspec_view Y) (LibvirtClusterTemplateSpec_DeepCopyInto X)"
    unfolding cluster_tspec_view_def by (rule tspec_copy [OF resource]) (simp add: LibvirtClusterTemplateSpec_DeepCopyInto_def)
  show "deep_copy (cluster_template_view Y) (LibvirtClusterTemplate_DeepCopyInto X)"
    unfolding cluster_template_view_def by (rule template_copy [OF spec]) (simp add: LibvirtClusterTemplate_DeepCopyInto_def)
qed

lemma machine_template_copies:
  "deep_copy (machine_resource_view Y) (LibvirtMachineTemplateResource_DeepCopyInto X)"
  "deep_copy (machine_tspec_view Y) (LibvirtMachineTemplateSpec_DeepCopyInto X)"
  "deep_copy (machine_template_view Y) (LibvirtMachineTemplate_DeepCopyInto X)"
proof -
  show resource: "deep_copy (machine_resource_view Y) (LibvirtMachineTemplateResource_DeepCopyInto X)"
    unfolding machine_resource_view_def
    by (rule resource_copy [OF machine_spec_copy]) (simp add: LibvirtMachineTemplateResource_DeepCopyInto_def)
  show spec: "deep_copy (machine_tspec_view Y) (LibvirtMachineTemplateSpec_DeepCopyInto X)"
    unfolding machine_tspec_view_def by (rule tspec_copy [OF resource]) (simp add: LibvirtMachineTemplateSpec_DeepCopyInto_def)
  show "deep_copy (machine_template_view Y) (LibvirtMachineTemplate_DeepCopyInto X)"
    unfolding machine_template_view_def by (rule template_copy [OF spec]) (simp add: LibvirtMachineTemplate_DeepCopyInto_def)
qed

lemma list_copies:
  "deep_copy (list_view Y Clusters_kind (cluster_view Y)) (LibvirtClusterList_DeepCopyInto X)"
  "deep_copy (list_view Y Machines_kind (machine_view Y)) (LibvirtMachineList_DeepCopyInto X)"
  "deep_copy (list_view Y ClusterTemplates_kind (cluster_template_view Y)) (LibvirtClusterTemplateList_DeepCopyInto X)"
  "deep_copy (list_view Y MachineTemplates_kind (machine_template_view Y)) (LibvirtMachineTemplateList_DeepCopyInto X)"
  by (rule list_copy; (rule kinds_ok cluster_copy machine_copy cluster_template_copies machine_template_copies)?;
      simp add: LibvirtClusterList_DeepCopyInto_def LibvirtMachineList_DeepCopyInto_def
        LibvirtClusterTemplateList_DeepCopyInto_def LibvirtMachineTemplateList_DeepCopyInto_def)+

end

end
