(* ===== verification/DeepCopyProps.thy ===== *)
theory DeepCopyProps
  imports DeepCopy
begin

text \<open>
  Copies of API objects share nothing with their originals. The deep copies of the foreign types are instantiated
  with ones that copy the finalizers of an object into new memory.
\<close>

section \<open>Foreign types in memory\<close>

text \<open>Metadata of an object: its finalizers are a slice, the rest are values.\<close>

record mem_meta =
  mm_rest :: ObjectMeta
  mm_Finalizers :: "slice option"

type_synonym mem_cell = "(mem_meta, unit, TemplateMeta, Condition, unit) cell"

definition mem_meta_view :: "(mem_cell, mem_meta, ObjectMeta) view" where
  "mem_meta_view =
     via mm_Finalizers (\<lambda>m fs. (mm_rest m)\<lparr>meta_Finalizers := items_of fs\<rparr>) (opt (slice_view Strings_kind plain))"

definition mem_meta_copy :: "mem_meta \<Rightarrow> (mem_cell, mem_meta) mem" where
  "mem_meta_copy m =
     mbind (copy_opt (copy_values Strings_kind []) (mm_Finalizers m)) (\<lambda>fs. mret (m\<lparr>mm_Finalizers := fs\<rparr>))"

definition no_meta :: ObjectMeta where
  "no_meta =
     \<lparr>meta_Name = [], meta_Namespace = [], meta_UID = [], meta_DeletionTimestamp = None, meta_Finalizers = [],
      meta_Labels = Map.empty, meta_Annotations = Map.empty, meta_OwnerReferences = []\<rparr>"

definition mem_foreign :: "(mem_meta, unit, TemplateMeta, Condition, unit) foreign" where
  "mem_foreign =
     \<lparr>ObjectMeta_DeepCopyInto = mem_meta_copy, ListMeta_DeepCopyInto = mret, TemplateMeta_DeepCopyInto = mret,
      Condition_DeepCopyInto = mret, zero_ObjectMeta = \<lparr>mm_rest = no_meta, mm_Finalizers = None\<rparr>, zero_ListMeta = (),
      zero_TemplateMeta = \<lparr>tmeta_Labels = Map.empty, tmeta_Annotations = Map.empty\<rparr>,
      zero_Condition = \<lparr>cond_Type = [], cond_Status = ConditionUnknown, cond_Reason = [], cond_Message = Text []\<rparr>\<rparr>"

definition mem_views :: "(mem_meta, unit, TemplateMeta, Condition, unit, unit) foreign_views" where
  "mem_views =
     \<lparr>ObjectMeta_view = mem_meta_view, ListMeta_view = plain, TemplateMeta_view = plain, Condition_view = plain\<rparr>"

lemma mem_meta_deep: "deep_copy mem_meta_view mem_meta_copy"
  unfolding mem_meta_view_def
  by (rule via_copy [where put = "\<lambda>m fs. m\<lparr>mm_Finalizers := fs\<rparr>"], (rule opt_copy values_copy kinds_ok)+)
     (simp_all add: mem_meta_copy_def)

interpretation memf: foreign_copies mem_foreign mem_views
  by (rule foreign_copies.intro) (simp_all add: mem_foreign_def mem_views_def mem_meta_deep plain_copy)

section \<open>Isolation\<close>

lemma DeepCopy_deep:
  assumes "kind_ok kd" "deep_copy V into"
  shows "isolates (opt (ptr_view kd V)) (copy_opt (copy_new kd zero into)) h p"
  by (rule deep_copy.isolated [OF opt_copy [OF ptr_copy [OF assms]]])

text \<open>
  C19: A copy of an API object is isolated from the original: for every kind of the API group, \<^verbatim>\<open>DeepCopy\<close> of a pointer to
  a well-formed object returns, nil for nil; the copy reads as the original; no existing memory is changed;
  and no later write through the copy, to its specification, conditions, addresses, references, metadata or
  items, is seen through the original, nor the other way round. The deep copies of the metadata and of the
  conditions, which are not part of the repository, are assumed to be deep.
\<close>

theorem DeepCopy_isolates:
  assumes "foreign_copies X Y"
  shows "isolates (opt (ptr_view Clusters_kind (cluster_view Y))) (LibvirtCluster_DeepCopy X) h p
     \<and> isolates (opt (ptr_view Machines_kind (machine_view Y))) (LibvirtMachine_DeepCopy X) h p
     \<and> isolates (opt (ptr_view ClusterTemplates_kind (cluster_template_view Y))) (LibvirtClusterTemplate_DeepCopy X) h p
     \<and> isolates (opt (ptr_view MachineTemplates_kind (machine_template_view Y))) (LibvirtMachineTemplate_DeepCopy X) h p
     \<and> isolates (opt (ptr_view ClusterLists_kind (list_view Y Clusters_kind (cluster_view Y)))) (LibvirtClusterList_DeepCopy X) h p
     \<and> isolates (opt (ptr_view MachineLists_kind (list_view Y Machines_kind (machine_view Y)))) (LibvirtMachineList_DeepCopy X) h p
     \<and> isolates (opt (ptr_view ClusterTemplateLists_kind (list_view Y ClusterTemplates_kind (cluster_template_view Y))))
         (LibvirtClusterTemplateList_DeepCopy X) h p
     \<and> isolates (opt (ptr_view MachineTemplateLists_kind (list_view Y MachineTemplates_kind (machine_template_view Y))))
         (LibvirtMachineTemplateList_DeepCopy X) h p"
proof -
  note deep = foreign_copies.cluster_copy [OF assms] foreign_copies.machine_copy [OF assms]
    foreign_copies.cluster_template_copies [OF assms] foreign_copies.machine_template_copies [OF assms]
    foreign_copies.list_copies [OF assms]
  show ?thesis
    unfolding LibvirtCluster_DeepCopy_def LibvirtMachine_DeepCopy_def LibvirtClusterTemplate_DeepCopy_def
      LibvirtMachineTemplate_DeepCopy_def LibvirtClusterList_DeepCopy_def LibvirtMachineList_DeepCopy_def
      LibvirtClusterTemplateList_DeepCopy_def LibvirtMachineTemplateList_DeepCopy_def
    by (intro conjI DeepCopy_deep kinds_ok deep)
qed

text \<open>A machine with a provider ID, one address and a finalizer, in four cells.\<close>

definition mem_machine :: "mem_meta hLibvirtMachine" where
  "mem_machine =
     \<lparr>hm_TypeMeta = zero_TypeMeta,
      hm_Meta = \<lparr>mm_rest = no_meta, mm_Finalizers = Some \<lparr>sl_array = 3, sl_offset = 0, sl_len = 1\<rparr>\<rparr>,
      hm_Spec = zero_LibvirtMachineSpec\<lparr>hms_ProviderID := Some (1, 0)\<rparr>,
      hm_Status = zero_LibvirtMachineStatus\<lparr>hmt_Addresses := Some \<lparr>sl_array = 2, sl_offset = 1, sl_len = 1\<rparr>\<rparr>\<rparr>"

definition mem_heap :: "mem_cell heap" where
  "mem_heap =
     \<lparr>cells = [0 \<mapsto> Machines [mem_machine], 1 \<mapsto> Strings [''libvirt://3f1c0a52''],
        2 \<mapsto> MachineAddresses [zero_MachineAddress, \<lparr>addr_Type = MachineInternalIP, addr_Address = ''10.0.0.7''\<rparr>],
        3 \<mapsto> Strings [LibvirtMachineFinalizer]], lim = 4\<rparr>"

lemmas mem_defs =
  mem_heap_def mem_machine_def mem_views_def mem_meta_view_def machine_view_def machine_spec_view_def machine_status_view_def
  via_def both_def opt_def ptr_view_def slice_view_def plain_def deref_def array_at_def elems_def items_of_def
  Machines_kind_def Strings_kind_def MachineAddresses_kind_def Conditions_kind_def
  zero_LibvirtMachineSpec_def zero_LibvirtMachineStatus_def

lemma mem_machine_wf: "wf (opt (ptr_view Machines_kind (machine_view mem_views))) mem_heap (Some (0, 0))"
  by (simp add: mem_defs)

text \<open>Writing another provider ID into the copy does not change that of the original.\<close>

theorem DeepCopy_isolates_witness:
  "\<exists>q h'. LibvirtMachine_DeepCopy mem_foreign (Some (0, 0)) mem_heap = Some (q, h')
     \<and> val (opt (ptr_view Machines_kind (machine_view mem_views))) h' q
         = val (opt (ptr_view Machines_kind (machine_view mem_views))) mem_heap (Some (0, 0))
     \<and> map_option (\<lambda>(_, l). lms_ProviderID (lm_Spec l)) (val (opt (ptr_view Machines_kind (machine_view mem_views))) h' q)
         = Some (Some ''libvirt://3f1c0a52'')
     \<and> (\<forall>g. agree (- foot (opt (ptr_view Machines_kind (machine_view mem_views))) h' q) h' g \<longrightarrow>
          val (opt (ptr_view Machines_kind (machine_view mem_views))) g (Some (0, 0))
            = val (opt (ptr_view Machines_kind (machine_view mem_views))) mem_heap (Some (0, 0)))"
proof -
  let ?V = "opt (ptr_view Machines_kind (machine_view mem_views))"
  have "isolates ?V (LibvirtMachine_DeepCopy mem_foreign) mem_heap (Some (0, 0))"
    using DeepCopy_isolates [OF memf.foreign_copies_axioms, of mem_heap "Some (0, 0)"] by blast
  moreover have "map_option (\<lambda>(_, l). lms_ProviderID (lm_Spec l)) (val ?V mem_heap (Some (0, 0))) = Some (Some ''libvirt://3f1c0a52'')"
    by (simp add: mem_defs)
  ultimately show ?thesis using mem_machine_wf unfolding isolates_def by metis
qed

end
