(* ===== verification/Manager.thy ===== *)
theory Manager
  imports MachineController Templates
begin

text \<open>
  \<^verbatim>\<open>cmd/main.go\<close> and the two functions \<^verbatim>\<open>SetupWithManager\<close>: the options of the manager, the controllers with the events
  they watch, and the order in which the process sets them up. What is outside (the controller manager, the
  mappings and predicates of Cluster API, the registration of foreign types) is a record of functions;
  \<open>manager_runtime\<close> is its contract. A process that ends with \<^verbatim>\<open>os.Exit(n)\<close>, or by returning from \<^verbatim>\<open>main\<close>, gives its
  exit status. Logging and the signal handler are left out.
\<close>

section \<open>Flags\<close>

record main_flags =
  metricsAddr :: string
  metricsCertPath :: string
  metricsCertName :: string
  metricsCertKey :: string
  webhookCertPath :: string
  webhookCertName :: string
  webhookCertKey :: string
  enableLeaderElection :: bool
  probeAddr :: string
  secureMetrics :: bool
  enableHTTP2 :: bool
  credentialsSecretName :: string
  credentialsSecretNamespace :: string

definition defaultCredentialsSecretName :: string where
  "defaultCredentialsSecretName = ''cluster-api-provider-libvirt-credentials''"

definition envPodNamespace :: string where
  "envPodNamespace = ''POD_NAMESPACE''"

text \<open>The values without arguments; \<open>getenv\<close> is the environment, where a variable that is not set is empty.\<close>

definition default_flags :: "(string \<Rightarrow> string) \<Rightarrow> main_flags" where
  "default_flags getenv =
     \<lparr>metricsAddr = ''0'', metricsCertPath = [], metricsCertName = ''tls.crt'', metricsCertKey = ''tls.key'',
      webhookCertPath = [], webhookCertName = ''tls.crt'', webhookCertKey = ''tls.key'', enableLeaderElection = False,
      probeAddr = '':8081'', secureMetrics = True, enableHTTP2 = False,
      credentialsSecretName = defaultCredentialsSecretName, credentialsSecretNamespace = getenv envPodNamespace\<rparr>"

section \<open>The command line\<close>

text \<open>\<^verbatim>\<open>strconv.ParseBool\<close>.\<close>

definition ParseBool :: "string \<Rightarrow> bool option" where
  "ParseBool s =
     (if s \<in> {''1'', ''t'', ''T'', ''TRUE'', ''true'', ''True''} then Some True
      else if s \<in> {''0'', ''f'', ''F'', ''FALSE'', ''false'', ''False''} then Some False
      else None)"

text \<open>A flag: whether it is boolean, and its \<^verbatim>\<open>Set\<close>, which may refuse a value.\<close>

record flag =
  flag_bool :: bool
  flag_Set :: "string \<Rightarrow> main_flags \<Rightarrow> main_flags option"

definition StringVar :: "(string \<Rightarrow> main_flags \<Rightarrow> main_flags) \<Rightarrow> flag" where
  "StringVar upd = \<lparr>flag_bool = False, flag_Set = \<lambda>v fl. Some (upd v fl)\<rparr>"

definition BoolVar :: "(bool \<Rightarrow> main_flags \<Rightarrow> main_flags) \<Rightarrow> flag" where
  "BoolVar upd = \<lparr>flag_bool = True, flag_Set = \<lambda>v fl. map_option (\<lambda>b. upd b fl) (ParseBool v)\<rparr>"

definition main_flag_set :: "(string \<times> flag) list" where
  "main_flag_set =
     [(''metrics-bind-address'', StringVar (\<lambda>v fl. fl\<lparr>metricsAddr := v\<rparr>)),
      (''health-probe-bind-address'', StringVar (\<lambda>v fl. fl\<lparr>probeAddr := v\<rparr>)),
      (''leader-elect'', BoolVar (\<lambda>b fl. fl\<lparr>enableLeaderElection := b\<rparr>)),
      (''metrics-secure'', BoolVar (\<lambda>b fl. fl\<lparr>secureMetrics := b\<rparr>)),
      (''webhook-cert-path'', StringVar (\<lambda>v fl. fl\<lparr>webhookCertPath := v\<rparr>)),
      (''webhook-cert-name'', StringVar (\<lambda>v fl. fl\<lparr>webhookCertName := v\<rparr>)),
      (''webhook-cert-key'', StringVar (\<lambda>v fl. fl\<lparr>webhookCertKey := v\<rparr>)),
      (''metrics-cert-path'', StringVar (\<lambda>v fl. fl\<lparr>metricsCertPath := v\<rparr>)),
      (''metrics-cert-name'', StringVar (\<lambda>v fl. fl\<lparr>metricsCertName := v\<rparr>)),
      (''metrics-cert-key'', StringVar (\<lambda>v fl. fl\<lparr>metricsCertKey := v\<rparr>)),
      (''enable-http2'', BoolVar (\<lambda>b fl. fl\<lparr>enableHTTP2 := b\<rparr>)),
      (''credentials-secret-name'', StringVar (\<lambda>v fl. fl\<lparr>credentialsSecretName := v\<rparr>)),
      (''credentials-secret-namespace'', StringVar (\<lambda>v fl. fl\<lparr>credentialsSecretNamespace := v\<rparr>))]"

text \<open>
  \<^verbatim>\<open>flag.Parse\<close>: the flags up to the first argument that is none, or \<^verbatim>\<open>--\<close>. A mistake ends the process with status 2,
  an undefined \<^verbatim>\<open>-help\<close> or \<^verbatim>\<open>-h\<close> with 0. The flags that libraries add are the parameter \<open>ext\<close>.
\<close>

definition flag_name :: "string \<Rightarrow> string" where
  "flag_name arg = (if length arg \<ge> 2 \<and> arg ! 1 = CHR ''-'' then drop 2 arg else drop 1 arg)"

definition flag_split :: "string \<Rightarrow> string \<times> string option" where
  "flag_split name =
     (let rest = dropWhile (\<lambda>c. c \<noteq> CHR ''='') (tl name)
      in (hd name # takeWhile (\<lambda>c. c \<noteq> CHR ''='') (tl name), if rest = [] then None else Some (tl rest)))"

definition lookup_flag :: "(string \<times> flag) list \<Rightarrow> string \<Rightarrow> flag option" where
  "lookup_flag ext name = map_of (main_flag_set @ ext) name"

definition set_or_exit :: "main_flags option \<Rightarrow> (main_flags \<Rightarrow> nat + main_flags) \<Rightarrow> nat + main_flags" where
  "set_or_exit r k = (case r of None \<Rightarrow> Inl 2 | Some fl \<Rightarrow> k fl)"

fun flag_Parse :: "(string \<times> flag) list \<Rightarrow> string list \<Rightarrow> main_flags \<Rightarrow> nat + main_flags" where
  "flag_Parse ext [] fl = Inr fl"
| "flag_Parse ext (arg # args) fl =
     (if length arg < 2 \<or> hd arg \<noteq> CHR ''-'' \<or> arg = ''--'' then Inr fl
      else let name = flag_name arg in
      if hd name = CHR ''-'' \<or> hd name = CHR ''='' then Inl 2
      else case flag_split name of (name, val) \<Rightarrow>
      (case lookup_flag ext name of
         None \<Rightarrow> if name = ''help'' \<or> name = ''h'' then Inl 0 else Inl 2
       | Some f \<Rightarrow>
           if flag_bool f then
             set_or_exit (flag_Set f (case val of None \<Rightarrow> ''true'' | Some v \<Rightarrow> v) fl) (flag_Parse ext args)
           else (case val of
               Some v \<Rightarrow> set_or_exit (flag_Set f v fl) (flag_Parse ext args)
             | None \<Rightarrow> (case args of
                 [] \<Rightarrow> Inl 2
               | v # args' \<Rightarrow> set_or_exit (flag_Set f v fl) (flag_Parse ext args')))))"

section \<open>Servers\<close>

record tls_Config =
  NextProtos :: "string list"

definition disableHTTP2 :: "tls_Config \<Rightarrow> tls_Config" where
  "disableHTTP2 c = c\<lparr>NextProtos := [''http/1.1'']\<rparr>"

definition tlsOpts :: "main_flags \<Rightarrow> (tls_Config \<Rightarrow> tls_Config) list" where
  "tlsOpts fl = (if \<not> enableHTTP2 fl then [disableHTTP2] else [])"

record server_options =
  so_TLSOpts :: "(tls_Config \<Rightarrow> tls_Config) list"
  so_CertDir :: string
  so_CertName :: string
  so_KeyName :: string

definition webhookServerOptions :: "main_flags \<Rightarrow> server_options" where
  "webhookServerOptions fl =
     (let opts = \<lparr>so_TLSOpts = tlsOpts fl, so_CertDir = [], so_CertName = [], so_KeyName = []\<rparr>
      in if webhookCertPath fl \<noteq> []
         then opts\<lparr>so_CertDir := webhookCertPath fl, so_CertName := webhookCertName fl, so_KeyName := webhookCertKey fl\<rparr>
         else opts)"

datatype FilterProvider = WithAuthenticationAndAuthorization

record metrics_options = server_options +
  mo_BindAddress :: string
  mo_SecureServing :: bool
  mo_FilterProvider :: "FilterProvider option"

definition metricsServerOptions :: "main_flags \<Rightarrow> metrics_options" where
  "metricsServerOptions fl =
     (let opts = \<lparr>so_TLSOpts = tlsOpts fl, so_CertDir = [], so_CertName = [], so_KeyName = [],
                  mo_BindAddress = metricsAddr fl, mo_SecureServing = secureMetrics fl, mo_FilterProvider = None\<rparr>;
          opts = (if secureMetrics fl then opts\<lparr>mo_FilterProvider := Some WithAuthenticationAndAuthorization\<rparr> else opts)
      in if metricsCertPath fl \<noteq> []
         then opts\<lparr>so_CertDir := metricsCertPath fl, so_CertName := metricsCertName fl, so_KeyName := metricsCertKey fl\<rparr>
         else opts)"

record ManagerOptions =
  opt_Scheme :: scheme
  opt_Metrics :: metrics_options
  opt_WebhookServer :: server_options
  opt_HealthProbeBindAddress :: string
  opt_LeaderElection :: bool
  opt_LeaderElectionID :: string

section \<open>Controllers\<close>

text \<open>The objects that events are about.\<close>

datatype event =
    SecretEvent ObjectMeta
  | ClusterEvent Cluster
  | MachineEvent Machine
  | LibvirtClusterEvent LibvirtCluster
  | LibvirtMachineEvent LibvirtMachine

fun event_meta :: "event \<Rightarrow> ObjectMeta" where
  "event_meta (SecretEvent m) = m"
| "event_meta (ClusterEvent c) = cluster_Meta c"
| "event_meta (MachineEvent m) = machine_Meta m"
| "event_meta (LibvirtClusterEvent c) = lc_Meta c"
| "event_meta (LibvirtMachineEvent m) = lm_Meta m"

definition corev1 :: GroupVersion where "corev1 = \<lparr>gv_Group = [], gv_Version = ''v1''\<rparr>"
definition clusterv1 :: GroupVersion where
  "clusterv1 = \<lparr>gv_Group = ''cluster.x-k8s.io'', gv_Version = ''v1beta2''\<rparr>"

fun event_kind :: "event \<Rightarrow> GroupVersion \<times> string" where
  "event_kind (SecretEvent _) = (corev1, ''Secret'')"
| "event_kind (ClusterEvent _) = (clusterv1, ''Cluster'')"
| "event_kind (MachineEvent _) = (clusterv1, ''Machine'')"
| "event_kind (LibvirtClusterEvent _) = (SchemeGroupVersion, ''LibvirtCluster'')"
| "event_kind (LibvirtMachineEvent _) = (SchemeGroupVersion, ''LibvirtMachine'')"

text \<open>A mapping from events to requests, and a controller, in a world \<open>'s\<close>.\<close>

type_synonym 's map_func = "event \<Rightarrow> 's \<Rightarrow> (NamespacedName list \<times> 's) option"

record 's Watch =
  watch_Kind :: "GroupVersion \<times> string"
  watch_Map :: "'s map_func"
  watch_Predicate :: "event \<Rightarrow> bool"

record 's Controller =
  ctl_Name :: string
  ctl_For :: "GroupVersion \<times> string"
  ctl_Watches :: "'s Watch list"
  ctl_Reconcile :: "NamespacedName \<Rightarrow> ('s, Result) act"

definition pure_map :: "(event \<Rightarrow> NamespacedName list) \<Rightarrow> 's map_func" where
  "pure_map f e s = Some (f e, s)"

section \<open>The outside\<close>

record ('w, 's) runtime =
  clientgo_AddToScheme :: "scheme \<Rightarrow> scheme"
  clusterv1_AddToScheme :: "scheme \<Rightarrow> scheme"
  GetConfigOrDie :: "('w, unit) act"
  NewManager :: "ManagerOptions \<Rightarrow> ('w, unit) act"
  GetClient :: "'s kube"
  IndexField :: "string \<Rightarrow> string \<Rightarrow> (Object \<Rightarrow> string list) \<Rightarrow> ('w, unit) act"
  Complete :: "'s Controller \<Rightarrow> ('w, unit) act"
  ClusterToInfrastructureMapFunc :: "GroupVersion \<times> string \<Rightarrow> event \<Rightarrow> NamespacedName list"
  MachineToInfrastructureMapFunc :: "GroupVersion \<times> string \<Rightarrow> event \<Rightarrow> NamespacedName list"
  ClusterToTypedObjectsMapper :: "string \<Rightarrow> ('w, event \<Rightarrow> NamespacedName list) act"
  ClusterUnpaused :: "event \<Rightarrow> bool"
  ResourceNotPaused :: "event \<Rightarrow> bool"
  AddHealthzCheck :: "string \<Rightarrow> ('w, unit) act"
  AddReadyzCheck :: "string \<Rightarrow> ('w, unit) act"
  StartManager :: "('w, unit) act"

section \<open>Set-up\<close>

definition cluster_controller :: "('w, 's) runtime \<Rightarrow> 's provider \<Rightarrow> CredentialsLoader \<Rightarrow> 's Controller" where
  "cluster_controller R P loader =
     \<lparr>ctl_Name = ''libvirtcluster'', ctl_For = (SchemeGroupVersion, ''LibvirtCluster''),
      ctl_Watches =
        [\<lparr>watch_Kind = (corev1, ''Secret''),
          watch_Map = (\<lambda>e. secretToLibvirtClusters (GetClient R) loader (event_meta e)), watch_Predicate = (\<lambda>_. True)\<rparr>,
         \<lparr>watch_Kind = (clusterv1, ''Cluster''),
          watch_Map = pure_map (ClusterToInfrastructureMapFunc R (SchemeGroupVersion, ''LibvirtCluster'')),
          watch_Predicate = ClusterUnpaused R\<rparr>],
      ctl_Reconcile = cluster_Reconcile (GetClient R) P loader\<rparr>"

definition cluster_SetupWithManager :: "('w, 's) runtime \<Rightarrow> 's provider \<Rightarrow> CredentialsLoader \<Rightarrow> ('w, unit) act" where
  "cluster_SetupWithManager R P loader =
     tryE (IndexField R ''LibvirtCluster'' credentialsRefNameField credentialsRefName)
       (Wrapf ''index LibvirtCluster by %s: %w'' [credentialsRefNameField]) (\<lambda>_.
     Complete R (cluster_controller R P loader))"

definition machine_controller ::
  "('w, 's) runtime \<Rightarrow> (event \<Rightarrow> NamespacedName list) \<Rightarrow> 's provider \<Rightarrow> CredentialsLoader \<Rightarrow> 's Controller" where
  "machine_controller R clusterToLibvirtMachine P loader =
     \<lparr>ctl_Name = ''libvirtmachine'', ctl_For = (SchemeGroupVersion, ''LibvirtMachine''),
      ctl_Watches =
        [\<lparr>watch_Kind = (clusterv1, ''Machine''),
          watch_Map = pure_map (MachineToInfrastructureMapFunc R (SchemeGroupVersion, ''LibvirtMachine'')),
          watch_Predicate = ResourceNotPaused R\<rparr>,
         \<lparr>watch_Kind = (clusterv1, ''Cluster''),
          watch_Map = pure_map clusterToLibvirtMachine, watch_Predicate = ClusterUnpaused R\<rparr>],
      ctl_Reconcile = machine_Reconcile (GetClient R) P loader\<rparr>"

definition machine_SetupWithManager :: "('w, 's) runtime \<Rightarrow> 's provider \<Rightarrow> CredentialsLoader \<Rightarrow> ('w, unit) act" where
  "machine_SetupWithManager R P loader =
     tryE (ClusterToTypedObjectsMapper R ''LibvirtMachineList'') id (\<lambda>clusterToLibvirtMachine.
     Complete R (machine_controller R clusterToLibvirtMachine P loader))"

definition init_scheme :: "('w, 's) runtime \<Rightarrow> scheme" where
  "init_scheme R = clusterv1_AddToScheme R (AddToScheme v1alpha1_SchemeBuilder (clientgo_AddToScheme R {}))"

definition manager_options :: "('w, 's) runtime \<Rightarrow> main_flags \<Rightarrow> ManagerOptions" where
  "manager_options R fl =
     \<lparr>opt_Scheme = init_scheme R, opt_Metrics = metricsServerOptions fl, opt_WebhookServer = webhookServerOptions fl,
      opt_HealthProbeBindAddress = probeAddr fl, opt_LeaderElection = enableLeaderElection fl,
      opt_LeaderElectionID = ''12f9358c.cluster.x-k8s.io''\<rparr>"

text \<open>A step of \<^verbatim>\<open>main\<close>: an error ends the process with status 1.\<close>

definition or_exit :: "('w, 'a) act \<Rightarrow> ('a \<Rightarrow> ('w, nat) act) \<Rightarrow> ('w, nat) act" where
  "or_exit m k = catchE m (\<lambda>_. ret 1) k"

definition main_run :: "('w, 's) runtime \<Rightarrow> 's env \<Rightarrow> main_flags \<Rightarrow> ('w, nat) act" where
  "main_run R E fl =
     or_exit (GetConfigOrDie R) (\<lambda>_.
     or_exit (NewManager R (manager_options R fl)) (\<lambda>_.
     let provider = libvirtclient_Provider E;
         credentials = newCredentialsLoader (credentialsSecretName fl) (credentialsSecretNamespace fl)
     in
     or_exit (cluster_SetupWithManager R provider credentials) (\<lambda>_.
     or_exit (machine_SetupWithManager R provider credentials) (\<lambda>_.
     or_exit (AddHealthzCheck R ''healthz'') (\<lambda>_.
     or_exit (AddReadyzCheck R ''readyz'') (\<lambda>_.
     or_exit (StartManager R) (\<lambda>_.
     ret 0)))))))"

definition main ::
  "('w, 's) runtime \<Rightarrow> 's env \<Rightarrow> (string \<times> flag) list \<Rightarrow> (string \<Rightarrow> string) \<Rightarrow> string list \<Rightarrow> ('w, nat) act" where
  "main R E ext getenv args =
     (case flag_Parse ext args (default_flags getenv) of
        Inl status \<Rightarrow> ret status
      | Inr fl \<Rightarrow> main_run R E fl)"

end
