(* ===== verification/ManagerProps.thy ===== *)
theory ManagerProps
  imports Manager ClusterProps RefHost
begin

text \<open>
  What the process sets up: the contract of the controller manager, what holds when the manager is started, and
  which requests an event makes.
\<close>

section \<open>The contract of the controller manager\<close>

record 's manager =
  m_options :: "ManagerOptions option"
  m_indexes :: "(string \<times> string \<times> (Object \<Rightarrow> string list)) list"
  m_controllers :: "'s Controller list"
  m_checks :: "string list"
  m_started :: bool

definition no_manager :: "'s manager" where
  "no_manager = \<lparr>m_options = None, m_indexes = [], m_controllers = [], m_checks = [], m_started = False\<rparr>"

text \<open>A call returns; it fails without effect, or succeeds with the effect \<open>f\<close>.\<close>

definition has_effect :: "('w \<Rightarrow> 'm) \<Rightarrow> ('m \<Rightarrow> 'm) \<Rightarrow> ('w, 'a) act \<Rightarrow> bool" where
  "has_effect view f act \<longleftrightarrow>
     (\<forall>m. valid (\<lambda>w. view w = m) act (\<lambda>_ w. view w = f m) (\<lambda>_ w. view w = m))"

text \<open>A started manager runs until it is told to stop, or fails; both end the call.\<close>

locale manager_runtime =
  fixes R :: "('w, 's) runtime" and view :: "'w \<Rightarrow> 's manager"
  assumes config: "has_effect view id (GetConfigOrDie R)"
    and new_manager: "has_effect view (\<lambda>m. m\<lparr>m_options := Some opts\<rparr>) (NewManager R opts)"
    and index: "has_effect view (\<lambda>m. m\<lparr>m_indexes := m_indexes m @ [(kind, field, f)]\<rparr>) (IndexField R kind field f)"
    and complete: "has_effect view (\<lambda>m. m\<lparr>m_controllers := m_controllers m @ [c]\<rparr>) (Complete R c)"
    and mapper: "has_effect view id (ClusterToTypedObjectsMapper R kind)"
    and healthz: "has_effect view (\<lambda>m. m\<lparr>m_checks := m_checks m @ [name]\<rparr>) (AddHealthzCheck R name)"
    and readyz: "has_effect view (\<lambda>m. m\<lparr>m_checks := m_checks m @ [name]\<rparr>) (AddReadyzCheck R name)"
    and start: "valid (\<lambda>w. view w = m) (StartManager R) (\<lambda>_ w. view w = m\<lparr>m_started := True\<rparr>) (\<lambda>_ w. view w = m\<lparr>m_started := True\<rparr>)"
    and core_types: "s \<union> {(corev1, ''Secret'')} \<subseteq> clientgo_AddToScheme R s"
    and cluster_types: "s \<union> {(clusterv1, ''Cluster''), (clusterv1, ''Machine'')} \<subseteq> clusterv1_AddToScheme R s"
begin

lemma or_exit_rule:
  assumes "has_effect view f act" "\<And>w. view w = m \<Longrightarrow> Q 1 w" "\<And>x. valid (\<lambda>w. view w = f m) (k x) Q E"
  shows "valid (\<lambda>w. view w = m) (or_exit act k) Q E"
  unfolding or_exit_def
  by (rule valid_catchE [OF assms(1) [unfolded has_effect_def, rule_format] valid_ret assms(3)]) (rule assms(2))

text \<open>The same for a call of which an error leaves a manager that satisfies \<open>J\<close>.\<close>

lemma or_exit_valid:
  assumes "valid P act S (\<lambda>_ w. J (view w))" "\<And>w. J (view w) \<Longrightarrow> Q 1 w" "\<And>x. valid (S x) (k x) Q E"
  shows "valid P (or_exit act k) Q E"
  unfolding or_exit_def by (rule valid_catchE [OF assms(1) valid_ret assms(3)]) (rule assms(2))

lemma cluster_setup:
  assumes "\<not> m_started m"
  shows "valid (\<lambda>w. view w = m) (cluster_SetupWithManager R P loader)
     (\<lambda>_ w. view w = m\<lparr>m_indexes := m_indexes m @ [(''LibvirtCluster'', credentialsRefNameField, credentialsRefName)],
        m_controllers := m_controllers m @ [cluster_controller R P loader]\<rparr>)
     (\<lambda>_ w. \<not> m_started (view w))"
  unfolding cluster_SetupWithManager_def
  by (rule valid_tryE, rule valid_post, rule index [unfolded has_effect_def, rule_format], assumption, simp add: assms,
      rule valid_post, rule complete [unfolded has_effect_def, rule_format]) (simp_all add: assms)

lemma machine_setup:
  assumes "\<not> m_started m"
  shows "valid (\<lambda>w. view w = m) (machine_SetupWithManager R P loader)
     (\<lambda>_ w. \<exists>f. view w = m\<lparr>m_controllers := m_controllers m @ [machine_controller R f P loader]\<rparr>)
     (\<lambda>_ w. \<not> m_started (view w))"
  unfolding machine_SetupWithManager_def
  by (rule valid_tryE, rule valid_post, rule mapper [unfolded has_effect_def, rule_format], assumption, simp add: assms,
      rule valid_post, rule complete [unfolded has_effect_def, rule_format]) (auto simp: assms)

end

section \<open>The started manager\<close>

definition flags_loader :: "main_flags \<Rightarrow> CredentialsLoader" where
  "flags_loader fl = newCredentialsLoader (credentialsSecretName fl) (credentialsSecretNamespace fl)"

definition wired :: "('w, 's) runtime \<Rightarrow> 's env \<Rightarrow> main_flags \<Rightarrow> 's manager \<Rightarrow> bool" where
  "wired R E fl m \<longleftrightarrow>
     m_options m = Some (manager_options R fl)
     \<and> (''LibvirtCluster'', credentialsRefNameField, credentialsRefName) \<in> set (m_indexes m)
     \<and> (\<exists>f. m_controllers m = [cluster_controller R (libvirtclient_Provider E) (flags_loader fl),
                               machine_controller R f (libvirtclient_Provider E) (flags_loader fl)])
     \<and> m_checks m = [''healthz'', ''readyz'']"

text \<open>The exit status \<open>code\<close> of a process that leaves the manager \<open>m\<close>.\<close>

definition ends :: "('w, 's) runtime \<Rightarrow> 's env \<Rightarrow> main_flags \<Rightarrow> nat \<Rightarrow> 's manager \<Rightarrow> bool" where
  "ends R E fl code m \<longleftrightarrow> code \<le> 1 \<and> (m_started m \<longrightarrow> wired R E fl m) \<and> (code = 0 \<longrightarrow> m_started m)"

lemma ends_early: "\<not> m_started m \<Longrightarrow> ends R E fl (Suc 0) m"
  by (simp add: ends_def)

context manager_runtime
begin

lemma started_ends:
  assumes "wired R E fl m"
  shows "valid (\<lambda>w. view w = m) (or_exit (StartManager R) (\<lambda>_. ret 0)) (\<lambda>code w. ends R E fl code (view w)) (\<lambda>_ _. False)"
  unfolding or_exit_def
  by (rule valid_catchE [OF start valid_ret valid_ret]) (use assms in \<open>simp_all add: ends_def wired_def\<close>)

lemma main_ends:
  "valid (\<lambda>w. view w = no_manager) (main_run R E fl) (\<lambda>code w. ends R E fl code (view w)) (\<lambda>_ _. False)"
  unfolding main_run_def Let_def flags_loader_def [symmetric]
  apply (rule or_exit_rule [OF config], simp add: ends_early no_manager_def)
  apply (rule or_exit_rule [OF new_manager], simp add: ends_early no_manager_def)
  apply (rule or_exit_valid [OF cluster_setup [where P = "libvirtclient_Provider E"]], simp add: no_manager_def, simp add: ends_early)
  apply (rule or_exit_valid [OF machine_setup [where P = "libvirtclient_Provider E"]], simp add: no_manager_def, simp add: ends_early)
  apply (simp only: valid_ex_pre, rule allI)
  apply (rule or_exit_rule [OF healthz], simp add: ends_early no_manager_def)
  apply (rule or_exit_rule [OF readyz], simp add: ends_early no_manager_def)
  apply (rule started_ends, auto simp: wired_def no_manager_def)
  done

text \<open>Every kind a controller works on or watches is known to the scheme of the manager.\<close>

lemma kinds_registered:
  assumes "c = cluster_controller R P loader \<or> c = machine_controller R f P loader"
  shows "insert (ctl_For c) (watch_Kind ` set (ctl_Watches c)) \<subseteq> init_scheme R"
proof -
  let ?s = "AddToScheme v1alpha1_SchemeBuilder (clientgo_AddToScheme R {})"
  have "(SchemeGroupVersion, ''LibvirtCluster'') \<in> ?s" "(SchemeGroupVersion, ''LibvirtMachine'') \<in> ?s"
    by (simp_all add: AddToScheme_def v1alpha1_SchemeBuilder_def Register_def init_LibvirtCluster_def init_LibvirtMachine_def
        init_LibvirtClusterTemplate_def init_LibvirtMachineTemplate_def)
  moreover have "(corev1, ''Secret'') \<in> ?s" using core_types [of "{}"] by (simp add: AddToScheme_def)
  moreover have "?s \<subseteq> init_scheme R" "(clusterv1, ''Cluster'') \<in> init_scheme R" "(clusterv1, ''Machine'') \<in> init_scheme R"
    using cluster_types [of ?s] by (simp_all add: init_scheme_def)
  ultimately show ?thesis using assms by (elim disjE) (simp_all add: cluster_controller_def machine_controller_def subsetD)
qed

end

section \<open>A manager\<close>

text \<open>A runtime whose world is the manager itself; the call \<open>failing\<close>, if there is one, fails.\<close>

definition ref_call :: "string \<Rightarrow> string \<Rightarrow> ('s manager \<Rightarrow> 's manager) \<Rightarrow> 'a \<Rightarrow> ('s manager, 'a) act" where
  "ref_call failing name f x m = (if failing = name then Some (Inl (External name), m) else Some (Inr x, f m))"

definition ref_runtime :: "string \<Rightarrow> 's kube \<Rightarrow> ('s manager, 's) runtime" where
  "ref_runtime failing K =
     \<lparr>clientgo_AddToScheme = insert (corev1, ''Secret''),
      clusterv1_AddToScheme = (\<lambda>s. s \<union> {(clusterv1, ''Cluster''), (clusterv1, ''Machine'')}),
      GetConfigOrDie = ref_call failing ''config'' id (),
      NewManager = (\<lambda>opts. ref_call failing ''manager'' (\<lambda>m. m\<lparr>m_options := Some opts\<rparr>) ()),
      GetClient = K,
      IndexField = (\<lambda>kind field f. ref_call failing ''index'' (\<lambda>m. m\<lparr>m_indexes := m_indexes m @ [(kind, field, f)]\<rparr>) ()),
      Complete = (\<lambda>c. ref_call failing (ctl_Name c) (\<lambda>m. m\<lparr>m_controllers := m_controllers m @ [c]\<rparr>) ()),
      ClusterToInfrastructureMapFunc = (\<lambda>_ _. []), MachineToInfrastructureMapFunc = (\<lambda>_ _. []),
      ClusterToTypedObjectsMapper = (\<lambda>_. ref_call failing ''mapper'' id (\<lambda>_. [])),
      ClusterUnpaused = (\<lambda>_. True), ResourceNotPaused = (\<lambda>_. True),
      AddHealthzCheck = (\<lambda>n. ref_call failing n (\<lambda>m. m\<lparr>m_checks := m_checks m @ [n]\<rparr>) ()),
      AddReadyzCheck = (\<lambda>n. ref_call failing n (\<lambda>m. m\<lparr>m_checks := m_checks m @ [n]\<rparr>) ()),
      StartManager = (\<lambda>m. Some (if failing = ''start'' then Inl (External ''start'') else Inr (), m\<lparr>m_started := True\<rparr>))\<rparr>"

interpretation refr: manager_runtime "ref_runtime failing K" id
  by unfold_locales (auto simp: ref_runtime_def has_effect_def valid_def ref_call_def)

section \<open>Properties\<close>

text \<open>The command line ends the process with status 0 or 2, or gives flags.\<close>

lemma flag_Parse_step:
  assumes "flag_Parse ext (arg # args) fl = Inl n"
  shows "n = 0 \<or> n = 2 \<or> (\<exists>args' fl'. length args' \<le> length args \<and> flag_Parse ext args' fl' = Inl n)"
  using assms unfolding flag_Parse.simps(2) [of ext arg args fl] set_or_exit_def Let_def
  by (auto simp del: flag_Parse.simps split: if_splits prod.splits option.splits list.splits)

lemma flag_Parse_status: "flag_Parse ext args fl = Inl n \<Longrightarrow> n = 0 \<or> n = 2"
proof (induction args arbitrary: fl rule: length_induct)
  case (1 args)
  show ?case
  proof (cases args)
    case (Cons arg rest)
    with flag_Parse_step [of ext arg rest fl n] 1(2) consider "n = 0 \<or> n = 2"
      | args' fl' where "length args' \<le> length rest" "flag_Parse ext args' fl' = Inl n"
      by blast
    then show ?thesis
    proof cases
      case 2
      then have "length args' < length args" using Cons by simp
      with 1(1) 2(2) show ?thesis by blast
    qed
  qed (use 1(2) in simp)
qed

text \<open>
  C22: The manager is only started completely set up. A command line with a mistake, or a request for help, ends \<^verbatim>\<open>main\<close>
  at once. Otherwise it ends with status 0 or 1, with 0 only after the manager has run; and a manager that has
  been started has the options of the flags, the index that the search for clusters of a Secret needs, both
  health checks and both controllers, which share the libvirt provider and the controller-wide credentials
  Secret of the flags. Every kind that they work on or watch is registered. Unless HTTP/2 is enabled, both
  servers only offer HTTP/1.1.
\<close>

theorem main_starts_wired:
  assumes "manager_runtime R view" "view w = no_manager"
  shows "case flag_Parse ext args (default_flags getenv) of
       Inl status \<Rightarrow> main R E ext getenv args w = Some (Inr status, w) \<and> (status = 0 \<or> status = 2)
     | Inr fl \<Rightarrow>
         (\<exists>code w'. main R E ext getenv args w = Some (Inr code, w') \<and> ends R E fl code (view w')
            \<and> (m_started (view w') \<longrightarrow> (\<forall>c \<in> set (m_controllers (view w')).
                 insert (ctl_For c) (watch_Kind ` set (ctl_Watches c)) \<subseteq> opt_Scheme (manager_options R fl))))
         \<and> (\<not> enableHTTP2 fl \<longrightarrow> (\<forall>c. NextProtos (fold (\<lambda>f. f) (so_TLSOpts (opt_WebhookServer (manager_options R fl))) c) = [''http/1.1'']
              \<and> NextProtos (fold (\<lambda>f. f) (so_TLSOpts (opt_Metrics (manager_options R fl))) c) = [''http/1.1'']))"
proof (cases "flag_Parse ext args (default_flags getenv)")
  case (Inl status)
  then show ?thesis using flag_Parse_status [OF Inl] by (simp add: main_def)
next
  case (Inr fl)
  obtain code w' where run: "main_run R E fl w = Some (Inr code, w')" "ends R E fl code (view w')"
    using manager_runtime.main_ends [OF assms(1), of E fl] assms(2) by (auto elim!: validE)
  have "insert (ctl_For c) (watch_Kind ` set (ctl_Watches c)) \<subseteq> opt_Scheme (manager_options R fl)"
    if "m_started (view w')" "c \<in> set (m_controllers (view w'))" for c
  proof -
    from run(2) that(1) have "wired R E fl (view w')" by (simp add: ends_def)
    with that(2) obtain f where "c = cluster_controller R (libvirtclient_Provider E) (flags_loader fl)
        \<or> c = machine_controller R f (libvirtclient_Provider E) (flags_loader fl)"
      by (auto simp: wired_def)
    then show ?thesis unfolding manager_options_def ManagerOptions.simps by (rule manager_runtime.kinds_registered [OF assms(1)])
  qed
  moreover have "NextProtos (fold (\<lambda>f. f) (so_TLSOpts (opt_WebhookServer (manager_options R fl))) c) = [''http/1.1'']"
    "NextProtos (fold (\<lambda>f. f) (so_TLSOpts (opt_Metrics (manager_options R fl))) c) = [''http/1.1'']" if "\<not> enableHTTP2 fl" for c
    using that
    by (simp_all add: manager_options_def webhookServerOptions_def metricsServerOptions_def Let_def tlsOpts_def disableHTTP2_def)
  ultimately show ?thesis using run Inr by (simp add: main_def)
qed

text \<open>A command line, and the flags it gives.\<close>

definition sample_args :: "string list" where
  "sample_args = [''--leader-elect'', ''-metrics-secure=false'', ''--credentials-secret-name'', [], ''--'', ''-x'']"

definition sample_flags :: main_flags where
  "sample_flags =
     (default_flags (\<lambda>_. []))\<lparr>enableLeaderElection := True, secureMetrics := False, credentialsSecretName := []\<rparr>"

lemma sample_parse: "flag_Parse [] sample_args (default_flags (\<lambda>_. [])) = Inr sample_flags"
  by (simp add: sample_args_def sample_flags_def default_flags_def flag_name_def flag_split_def lookup_flag_def main_flag_set_def
      StringVar_def BoolVar_def ParseBool_def set_or_exit_def)

lemmas main_run_defs = main_run_def or_exit_def catchE_def tryE_def ref_runtime_def ref_call_def cluster_SetupWithManager_def
  machine_SetupWithManager_def cluster_controller_def machine_controller_def no_manager_def Let_def

theorem main_starts_wired_witness:
  "\<exists>m. main (ref_runtime ''libvirtmachine'' empty_kube) ref_env [] (\<lambda>_. []) sample_args no_manager = Some (Inr 1, m)
     \<and> ends (ref_runtime ''libvirtmachine'' empty_kube) ref_env sample_flags 1 m \<and> \<not> m_started m"
proof -
  let ?R = "ref_runtime ''libvirtmachine'' (empty_kube :: rworld kube)"
  obtain m where m: "main ?R ref_env [] (\<lambda>_. []) sample_args no_manager = Some (Inr 1, m)" "\<not> m_started m"
    by (simp add: main_def sample_parse main_run_defs)
  with main_starts_wired [where R = ?R and view = id and args = sample_args and ext = "[]" and getenv = "\<lambda>_. []"
      and E = ref_env and w = no_manager, OF refr.manager_runtime_axioms]
  show ?thesis by (auto simp: sample_parse)
qed

text \<open>The requests that an event makes of a controller: its own object, and what the mappings of the matching watches give.\<close>

fun run_watches :: "'s Watch list \<Rightarrow> 's map_func" where
  "run_watches [] e s = Some ([], s)"
| "run_watches (x # xs) e s =
     (if watch_Kind x = event_kind e \<and> watch_Predicate x e then
        (case watch_Map x e s of
           None \<Rightarrow> None
         | Some (reqs, s') \<Rightarrow> map_option (\<lambda>(rest, s''). (reqs @ rest, s'')) (run_watches xs e s'))
      else run_watches xs e s)"

definition dispatch :: "'s Controller \<Rightarrow> 's map_func" where
  "dispatch c e s =
     map_option (\<lambda>(reqs, s'). ((if event_kind e = ctl_For c then [ObjectKeyFromObject (event_meta e)] else []) @ reqs, s'))
       (run_watches (ctl_Watches c) e s)"

lemma dispatch_secret:
  "dispatch (cluster_controller R P loader) (SecretEvent secret) s = secretToLibvirtClusters (GetClient R) loader secret s"
  by (simp add: dispatch_def cluster_controller_def corev1_def clusterv1_def SchemeGroupVersion_def option.map_comp comp_def
      split: option.split)

text \<open>
  C27: A change of a Secret reaches every cluster it matters to: when \<^verbatim>\<open>main\<close> has started the manager, on a client that
  answers searches through the registered index, and two states of the API server differ only in one
  Secret, and the credentials of a stored cluster come out differently, then the event makes a request for
  the cluster, of a controller that runs the cluster reconciliation with the same credentials loader.
\<close>

theorem secret_change_reconciled:
  assumes "manager_runtime R view" "view w = no_manager" "main R E ext getenv args w = Some (Inr code, w')" "m_started (view w')"
    and "flag_Parse ext args (default_flags getenv) = Inr fl"
    and "\<And>opts. (''LibvirtCluster'', credentialsRefNameField, credentialsRefName) \<in> set (m_indexes (view w')) \<Longrightarrow>
       list_LibvirtClusters (GetClient R) opts s = Some (Inr (filter (\<lambda>c. \<forall>opt \<in> set opts. list_matches c opt) stored), s)"
    and "\<And>n. n \<noteq> ObjectKeyFromObject secret \<Longrightarrow> get_Secret K' n = get_Secret (GetClient R) n"
    and "c \<in> set stored" "Load K' (flags_loader fl) c \<noteq> Load (GetClient R) (flags_loader fl) c"
  shows "\<exists>ctl \<in> set (m_controllers (view w')). \<exists>reqs.
     dispatch ctl (SecretEvent secret) s = Some (reqs, s) \<and> ObjectKeyFromObject (lc_Meta c) \<in> set reqs
     \<and> ctl_Reconcile ctl = cluster_Reconcile (GetClient R) (libvirtclient_Provider E) (flags_loader fl)"
proof -
  have "ends R E fl code (view w')"
    using manager_runtime.main_ends [OF assms(1), of E fl] assms(2,3,5) by (auto simp: main_def elim!: validE)
  with assms(4) have wired: "wired R E fl (view w')" by (simp add: ends_def)
  let ?ctl = "cluster_controller R (libvirtclient_Provider E) (flags_loader fl)"
  have list: "list_LibvirtClusters (GetClient R) opts s = Some (Inr (filter (\<lambda>c. \<forall>opt \<in> set opts. list_matches c opt) stored), s)" for opts
    using wired by (intro assms(6)) (simp add: wired_def)
  obtain reqs where "secretToLibvirtClusters (GetClient R) (flags_loader fl) secret s = Some (reqs, s)"
    "ObjectKeyFromObject (lc_Meta c) \<in> set reqs"
    using secret_change_enqueues [OF list assms(7-9)] by blast
  then have "dispatch ?ctl (SecretEvent secret) s = Some (reqs, s) \<and> ObjectKeyFromObject (lc_Meta c) \<in> set reqs
      \<and> ctl_Reconcile ?ctl = cluster_Reconcile (GetClient R) (libvirtclient_Provider E) (flags_loader fl)"
    by (simp add: dispatch_secret) (simp add: cluster_controller_def)
  moreover have "?ctl \<in> set (m_controllers (view w'))" using wired by (auto simp: wired_def)
  ultimately show ?thesis by blast
qed

text \<open>A Secret that gets SSH keys.\<close>

lemma sample_keys_matter:
  "Load (with_secret [''ssh-privatekey'' \<mapsto> [1], ''known_hosts'' \<mapsto> [2]] K) loader cluster_with_ref s
     \<noteq> Load (with_secret Map.empty K) loader cluster_with_ref s"
  by (simp add: Load_def loadRef_def cluster_with_ref_def sample_LibvirtCluster_def sample_meta_def with_secret_def
      credentialsFromSecret_cases complete_def absent_def has_key_def data_at_def tlsSecretKeys_def sshSecretKeys_def
      CredentialsCACertKey_def TLSCertKey_def TLSPrivateKeyKey_def SSHAuthPrivateKey_def CredentialsKnownHostsKey_def
      Let_def tryE_def catchE_def)

theorem secret_change_reconciled_witness:
  "\<exists>m. main (ref_runtime [] (with_secret Map.empty one_cluster_kube)) ref_env [] (\<lambda>_. []) sample_args no_manager = Some (Inr 0, m)
     \<and> (\<forall>s. \<exists>ctl \<in> set (m_controllers m). \<exists>reqs. dispatch ctl (SecretEvent (sample_meta ''creds'' [])) s = Some (reqs, s)
          \<and> \<lparr>nn_Namespace = ''default'', nn_Name = ''c1''\<rparr> \<in> set reqs)"
proof -
  let ?K = "with_secret Map.empty one_cluster_kube :: rworld kube"
  let ?K' = "with_secret [''ssh-privatekey'' \<mapsto> [1], ''known_hosts'' \<mapsto> [2]] one_cluster_kube :: rworld kube"
  let ?R = "ref_runtime [] ?K"
  obtain m where m: "main ?R ref_env [] (\<lambda>_. []) sample_args no_manager = Some (Inr 0, m)" "m_started m"
    by (simp add: main_def sample_parse main_run_defs)
  have client: "GetClient ?R = ?K" by (simp add: ref_runtime_def)
  have list: "list_LibvirtClusters (GetClient ?R) opts s =
      Some (Inr (filter (\<lambda>c. \<forall>opt \<in> set opts. list_matches c opt) [cluster_with_ref]), s)" for opts s
    unfolding client by (simp add: with_secret_def one_cluster_kube_def del: filter.simps)
  have load: "Load ?K' loader cluster_with_ref \<noteq> Load (GetClient ?R) loader cluster_with_ref" for loader
    using sample_keys_matter unfolding client by metis
  have other: "get_Secret ?K' n = get_Secret (GetClient ?R) n" if "n \<noteq> ObjectKeyFromObject (sample_meta ''creds'' [])" for n
    using that unfolding client by (simp add: with_secret_def ObjectKeyFromObject_def sample_meta_def)
  have key: "ObjectKeyFromObject (lc_Meta cluster_with_ref) = \<lparr>nn_Namespace = ''default'', nn_Name = ''c1''\<rparr>"
    by (simp add: cluster_with_ref_def sample_LibvirtCluster_def sample_meta_def ObjectKeyFromObject_def)
  have "\<exists>ctl \<in> set (m_controllers (id m)). \<exists>reqs. dispatch ctl (SecretEvent (sample_meta ''creds'' [])) s = Some (reqs, s)
      \<and> ObjectKeyFromObject (lc_Meta cluster_with_ref) \<in> set reqs
      \<and> ctl_Reconcile ctl = cluster_Reconcile (GetClient ?R) (libvirtclient_Provider ref_env) (flags_loader sample_flags)" for s
    by (rule secret_change_reconciled [OF refr.manager_runtime_axioms _ m(1) _ sample_parse list other _ load]) (simp_all add: m(2))
  then show ?thesis using m(1) unfolding key id_apply by blast
qed

end
