(* ===== verification/Spec2Isabelle.thy ===== *)
theory Spec2Isabelle
  imports HostProps NetworkProps MachineProps ClusterProps IPUtils System Runs ClusterSystem Admission DeepCopyProps ManagerProps
begin

text \<open>
  A verification development for the Cluster API provider for libvirt.

  \<^bold>\<open>The program.\<close> Two Kubernetes controllers (\<^verbatim>\<open>src/internal/controller\<close>) reconcile LibvirtCluster and LibvirtMachine
  objects (\<^verbatim>\<open>src/api/v1alpha1\<close>) with a libvirt host. They read the objects, their owners and Secrets from the API
  server, load client credentials, call a provider, and write conditions, finalizers, addresses and the
  provider ID back. The provider (\<^verbatim>\<open>src/internal/libvirtclient\<close>) opens one connection per operation and checks
  the infrastructure, creates a machine (root disk, cloud-init image, DHCP reservation, domain), starts,
  inspects and deletes it. \<^verbatim>\<open>src/cmd/main.go\<close> sets both controllers up with a controller manager.
  \<^verbatim>\<open>src/pkg/utils\<close> holds functions on addresses.

  \<^bold>\<open>How code becomes definitions.\<close> A Go function that talks to the outside has the type \<open>('w, 'a) act\<close>, that is
  \<open>'w \<Rightarrow> ((goerror + 'a) \<times> 'w) option\<close>: from a world it gives an error or a value and the next world; \<^term>\<open>None\<close> is a
  call that never returns. \<open>tryE\<close>, \<open>catchE\<close> and \<open>deferE\<close> are the three ways in which the code treats an error
  and a deferred call. Every early return, wrapped error and deferred release of the source is in the
  definition. A reconciler mutates an object through a pointer, so its object is a part of the state:
  \<open>('o \<times> 'w, 'a) act\<close> with \<open>readE\<close>, \<open>modifyE\<close>, \<open>liftE\<close> and \<open>deferPatch\<close>. Machine integers are words; the only
  loop that need not end (\<open>count_up\<close>, a \<^verbatim>\<open>uint32\<close> counter) is a partial function, all other recursions
  terminate, and no fuel is used. Values are immutable, so that sharing of memory cannot be seen, except in
  \<open>GoHeap\<close> and \<open>DeepCopy\<close>, which are about it. Logging is left out.

  \<^bold>\<open>The theories of the model\<close>, in the order of the code:
  \<^item> \<open>Prelude\<close>: errors with \<^verbatim>\<open>errors.As\<close>, computations, total-correctness triples \<open>valid\<close>.
  \<^item> \<open>GoStd\<close>, \<open>NetURL\<close>: the parts of the Go library that are used: strings, hex, FNV-1a, SHA-256, byte order,
    IP addresses, URLs, paths.
  \<^item> \<open>Builders\<close>: \<^verbatim>\<open>builders/domain.go\<close>, \<^verbatim>\<open>builders/volume.go\<close>. \<open>LibvirtAPI\<close>: the outside of \<^verbatim>\<open>libvirtclient\<close>
    (the libvirt binding, XML, YAML, the file system, the disk image library) as records of functions, the
    parameter \<open>E\<close> of everything below.
  \<^item> \<open>Config\<close>: \<^verbatim>\<open>config.go\<close>, \<^verbatim>\<open>credentials.go\<close>. \<open>Infra\<close>: \<^verbatim>\<open>infra.go\<close>. \<open>CloudInit\<close>: \<^verbatim>\<open>cloudinit.go\<close>. \<open>Volume\<close>:
    \<^verbatim>\<open>volume.go\<close>. \<open>MachineNetwork\<close>: \<^verbatim>\<open>machine_network.go\<close>. \<open>DomainOps\<close>: \<^verbatim>\<open>domain.go\<close>, \<^verbatim>\<open>provider.go\<close>.
  \<^item> \<open>Api\<close>: the types and constants of \<^verbatim>\<open>api/v1alpha1\<close>. \<open>Kube\<close>: the outside of the controllers (client, patch
    helper, owners, conditions, finalizers) as a record of functions, the parameter \<open>K\<close>.
  \<^item> \<open>Loader\<close>: \<^verbatim>\<open>controller/credentials.go\<close> and \<^verbatim>\<open>newCredentialsLoader\<close> of \<^verbatim>\<open>cmd/main.go\<close>. \<open>ClusterController\<close>:
    \<^verbatim>\<open>libvirt_provider.go\<close>, \<^verbatim>\<open>libvirtcluster_controller.go\<close>. \<open>MachineController\<close>:
    \<^verbatim>\<open>libvirtmachine_controller.go\<close>. \<open>Mock\<close>: \<^verbatim>\<open>mock_provider.go\<close>.
  \<^item> \<open>IPUtils\<close>: \<^verbatim>\<open>pkg/utils/ip.go\<close> with its properties.
  \<^item> \<open>Templates\<close>: the template and list types and \<^verbatim>\<open>groupversion_info.go\<close>. \<open>Admission\<close>: the validation rules that the
    markers of \<^verbatim>\<open>libvirtmachine_types.go\<close> and \<^verbatim>\<open>libvirtcluster_types.go\<close> define, as the API server applies them.
  \<^item> \<open>GoHeap\<close>: memory with pointers and slices. \<open>DeepCopy\<close>: \<^verbatim>\<open>zz_generated.deepcopy.go\<close>.
  \<^item> \<open>Manager\<close>: \<^verbatim>\<open>cmd/main.go\<close> and the functions \<^verbatim>\<open>SetupWithManager\<close>; the controller manager is the parameter \<open>R\<close>.

  \<^bold>\<open>The contracts\<close>, each a locale:
  \<^item> \<open>dhcp_network\<close> (\<open>Reservation\<close>), \<open>local_files\<close> (\<open>LocalFiles\<close>) and \<open>libvirt_host\<close> (\<open>Host\<close>) state the documented
    effect of every call to libvirt and to the file system on an abstract state: networks, pools, volumes,
    domains, uploads, open handles, files. With \<open>flaky\<close> a call may fail at any time, without effect. Bytes sent on a
    stream are in the volume once the stream is finished, and not known to be there before. An update of a DHCP host
    entry acts on the first \<^verbatim>\<open><ip>\<close> element of the network, for which the client always asks. \<open>RefHost\<close>
    interprets them on executable functions, with the encodings of \<open>Codec\<close> for the documents.
  \<^item> \<open>machine_provider\<close> (\<open>ProviderContract\<close>) is what the controllers rely on; \<^verbatim>\<open>libvirtclient.Provider\<close> keeps it on
    every \<open>libvirt_host\<close>.
  \<^item> \<open>kube_laws\<close> (\<open>Kube\<close>) and \<open>api_server\<close> (\<open>ApiServer\<close>) are the utilities and the object store; they are
    interpreted on \<open>with_ref_utils\<close> and \<open>store_kube\<close>. \<open>object_relation\<close> lifts a reflexive and transitive
    relation on objects to reconcilers.
  \<^item> \<open>local_view\<close> and \<open>deep_copy\<close> (\<open>GoHeap\<close>) say what it is to be a deep copy; they are interpreted on the copies of the
    specifications. \<open>foreign_copies\<close> (\<open>DeepCopy\<close>) assumes it of the types of Kubernetes and Cluster API;
    \<open>DeepCopyProps\<close> interprets it on metadata with a slice of finalizers.
  \<^item> \<open>manager_runtime\<close> (\<open>ManagerProps\<close>) is the controller manager, where any call may fail; it is interpreted on
    \<open>ref_runtime\<close>.

  \<^bold>\<open>What is shown.\<close>
  \<^item> \<open>HostOps\<close>, \<open>MachineOps\<close>, \<open>CreateOps\<close> prove for every operation of \<^verbatim>\<open>libvirtclient\<close> what it makes of a host,
    what it leaves alone, and why it can fail; \<open>HostProps\<close> and \<open>NetworkProps\<close> collect this as properties:
    creation, deletion and their composition, reservations and their stability, the choice of an address
    as the first free one in an order, candidate ranges, queries, uploads, credentials, cloud-init images.
  \<^item> \<open>MachineProps\<close> and \<open>ClusterProps\<close> hold for every provider: the identity of a machine, its finalizer, lost
    domains, status invariants, names and sizes; the verdict on a cluster, Secrets and credentials.
  \<^item> \<open>System\<close>, \<open>Runs\<close> and \<open>ClusterSystem\<close> put the parts together: whole requests between an API server and a
    host. A machine comes up in three requests and goes away in one, without a trace; over any run, with
    failures of the host, any edits by others and lost updates, a machine is created at most once more than updates
    are lost and edits take away the provider ID or create the object anew; the stored verdict on a cluster tells what is on the host.
  \<^item> \<open>Admission\<close>: the API server accepts every update of the controllers unchanged; sizes and image cannot be
    changed by others, the provider ID can, by removing it first.
  \<^item> \<open>DeepCopyProps\<close>: a copy of an API object shares no memory with the original.
  \<^item> \<open>ManagerProps\<close>: \<^verbatim>\<open>main\<close> starts the manager only completely set up, and a change of a Secret then makes a request
    for every cluster whose credentials it changes.

  \<^bold>\<open>Assumptions.\<close> The laws of the contracts; in particular, the errors of libvirt lookups are libvirt errors, nothing
  else acts on the same resources while one operation runs (between requests, \<open>Runs\<close> allows every change on the host
  and every edit of the objects that leaves each of them stored under its own name),
  and a patch stores the object that the reconciler leaves. \<^verbatim>\<open>net/url\<close> is modelled without the limit on the
  number of query parameters.

  The validation rules cover specifications, not the lengths and patterns of conditions and addresses in a
  status. A transition rule is taken to be evaluated when the field is there before and after.

  \<^bold>\<open>Not modelled.\<close> Log messages; the signal handler and the metrics and webhook servers, of which only the options
  are computed here; the flags that libraries add, which are a parameter; the libraries for XML, YAML, disk images,
  libvirt and Kubernetes themselves, which are parameters with the contracts above. Of the types of Kubernetes and
  Cluster API there are the fields that the source reads or writes.
\<close>

end
